(* ===== verification/E2_Prelude.thy ===== *)
theory E2_Prelude
  imports Main "HOL-Library.Word" "HOL-Library.Char_ord" "HOL-Library.List_Lexorder"
begin

text \<open>
  Shared vocabulary of the development: C strings and fixed-size character buffers, the
  number formatting that \<^verbatim>\<open>snprintf\<close> does in the E2 terminator, the fault/state
  operations in which the handlers of \<^verbatim>\<open>sctpThread.cpp\<close> are written, and the
  weakest-precondition and invariant-preservation rules that carry their proofs.
\<close>

type_synonym byte = "8 word"

abbreviation NUL :: char where
  "NUL \<equiv> CHR 0x00"

text \<open>Octets and characters.\<close>

definition byte_char :: "byte \<Rightarrow> char" where
  "byte_char b = char_of (unat b)"

definition char_byte :: "char \<Rightarrow> byte" where
  "char_byte c = of_char c"

section \<open>C strings and buffers\<close>

text \<open>
  A C array of \<^verbatim>\<open>char\<close> is a list of its fixed length. Its content as a string ends
  at the first NUL; reading an array without one runs past its end, which is \<open>None\<close>.
\<close>

definition cstr :: "char list \<Rightarrow> string option" where
  "cstr b = (if NUL \<in> set b then Some (takeWhile (\<lambda>c. c \<noteq> NUL) b) else None)"

definition zero_buf :: "nat \<Rightarrow> char list" where
  "zero_buf n = replicate n NUL"

text \<open>Copying \<open>s\<close> to the start of an array (memcpy); \<open>None\<close> when it does not fit.\<close>

definition poke :: "char list \<Rightarrow> char list \<Rightarrow> char list option" where
  "poke b s = (if length s \<le> length b then Some (s @ drop (length s) b) else None)"

text \<open>
  \<^verbatim>\<open>snprintf(dst, n, ...)\<close> with output \<open>s\<close> writes at most \<open>n - 1\<close> characters and a
  NUL, and returns the length of the whole output.
\<close>

definition snprintf_text :: "nat \<Rightarrow> string \<Rightarrow> string" where
  "snprintf_text n s = take (n - 1) s"

definition nul_free :: "string \<Rightarrow> bool" where
  "nul_free s \<longleftrightarrow> NUL \<notin> set s"

named_theorems buf_simps \<open>facts about C strings in buffers\<close>

lemma nul_free_simps [simp]:
  "nul_free []" "nul_free (c # s) \<longleftrightarrow> c \<noteq> NUL \<and> nul_free s"
  "nul_free (s @ t) \<longleftrightarrow> nul_free s \<and> nul_free t"
  by (auto simp: nul_free_def)

lemma nul_free_take [simp]: "nul_free s \<Longrightarrow> nul_free (take n s)"
  by (auto simp: nul_free_def dest: in_set_takeD)

lemma takeWhile_nul_free: "nul_free s \<Longrightarrow> takeWhile (\<lambda>c. c \<noteq> NUL) (s @ NUL # r) = s"
  by (induction s) auto

lemma length_zero_buf [simp, buf_simps]: "length (zero_buf n) = n"
  by (simp add: zero_buf_def)

lemma cstr_nul_free: "nul_free s \<Longrightarrow> cstr (s @ NUL # r) = Some s"
  by (simp add: cstr_def takeWhile_nul_free)

lemma cstr_pad [buf_simps]: "nul_free s \<Longrightarrow> length s < n \<Longrightarrow>
    cstr (s @ zero_buf (n - length s)) = Some s"
  by (cases "n - length s") (auto simp: zero_buf_def cstr_nul_free)

lemma cstr_zero_buf [simp]: "0 < n \<Longrightarrow> cstr (zero_buf n) = Some []"
  using cstr_pad [of "[]" n] by simp

lemma cstr_SomeD: "cstr b = Some s \<Longrightarrow> nul_free s \<and> length s < length b"
proof -
  assume a: "cstr b = Some s"
  then have nul: "NUL \<in> set b" and s: "s = takeWhile (\<lambda>c. c \<noteq> NUL) b"
    by (auto simp: cstr_def split: if_splits)
  have "nul_free s"
    unfolding s nul_free_def by (auto dest: set_takeWhileD)
  moreover have "length s < length b"
  proof (rule ccontr)
    assume "\<not> length s < length b"
    then have "length s = length b"
      using length_takeWhile_le [of "\<lambda>c. c \<noteq> NUL" b] unfolding s by linarith
    then have "s = b"
      unfolding s by (metis takeWhile_eq_take take_all_iff order_refl)
    with nul \<open>nul_free s\<close> show False
      by (simp add: nul_free_def)
  qed
  ultimately show ?thesis by simp
qed

lemma poke_length [buf_simps]: "poke b s = Some b' \<Longrightarrow> length b' = length b"
  by (auto simp: poke_def split: if_splits)

text \<open>Overwriting the padded string \<open>s\<close> by a longer one keeps the padding.\<close>

lemma poke_pad [buf_simps]:
  "length s \<le> length t \<Longrightarrow> length t \<le> n \<Longrightarrow>
    poke (s @ zero_buf (n - length s)) t = Some (t @ zero_buf (n - length t))"
  by (simp add: poke_def zero_buf_def)

lemma poke_zero [buf_simps]:
  "length t \<le> n \<Longrightarrow> poke (zero_buf n) t = Some (t @ zero_buf (n - length t))"
  using poke_pad [of "[]" t n] by simp

section \<open>Numbers as text\<close>

text \<open>The digits of a natural number in base \<open>b\<close>, lower case, as \<^verbatim>\<open>%d\<close> and \<^verbatim>\<open>%x\<close> print them.\<close>

definition digit_char :: "nat \<Rightarrow> char" where
  "digit_char d = char_of (if d < 10 then 48 + d else 87 + d)"

fun nat_base :: "nat \<Rightarrow> nat \<Rightarrow> string" where
  "nat_base b n = (if n < b \<or> b < 2 then [digit_char n] else nat_base b (n div b) @ [digit_char (n mod b)])"

declare nat_base.simps [simp del]

definition fmt_d :: "int \<Rightarrow> string" where
  "fmt_d i = (if i < 0 then CHR ''-'' # nat_base 10 (nat (- i)) else nat_base 10 (nat i))"

definition fmt_x :: "nat \<Rightarrow> string" where
  "fmt_x n = nat_base 16 n"

text \<open>\<^verbatim>\<open>%15ld\<close>: right aligned in a field of \<open>w\<close> characters; \<^verbatim>\<open>%09ld\<close> pads with zeros.\<close>

definition pad_left :: "char \<Rightarrow> nat \<Rightarrow> string \<Rightarrow> string" where
  "pad_left c w s = replicate (w - length s) c @ s"

lemma digit_char_inject: "a < 36 \<Longrightarrow> b < 36 \<Longrightarrow> digit_char a = digit_char b \<Longrightarrow> a = b"
  by (auto simp: digit_char_def dest!: arg_cong [where f = "of_char :: char \<Rightarrow> nat"]
        split: if_splits)

lemma digit_char_not_nul: "d < 36 \<Longrightarrow> digit_char d \<noteq> NUL"
  by (auto simp: digit_char_def dest!: arg_cong [where f = "of_char :: char \<Rightarrow> nat"])

lemma digit_char_not_underscore: "d < 36 \<Longrightarrow> digit_char d \<noteq> CHR ''_''"
  by (auto simp: digit_char_def dest!: arg_cong [where f = "of_char :: char \<Rightarrow> nat"])

lemma nat_base_small: "n < b \<Longrightarrow> nat_base b n = [digit_char n]"
  by (subst nat_base.simps) simp

lemma nat_base_ne [simp]: "nat_base b n \<noteq> []"
  by (subst nat_base.simps) simp

lemma set_nat_base: "2 \<le> b \<Longrightarrow> set (nat_base b n) \<subseteq> digit_char ` {..<b}"
proof (induction b n rule: nat_base.induct)
  case (1 b n)
  then show ?case by (subst nat_base.simps) auto
qed

lemma nul_free_nat_base [simp]: "2 \<le> b \<Longrightarrow> b \<le> 36 \<Longrightarrow> nul_free (nat_base b n)"
proof -
  assume "2 \<le> b" "b \<le> 36"
  then have "\<forall>c \<in> digit_char ` {..<b}. c \<noteq> NUL"
    using digit_char_not_nul by fastforce
  with set_nat_base [OF \<open>2 \<le> b\<close>, of n] show ?thesis
    unfolding nul_free_def by blast
qed

lemma length_nat_base: "2 \<le> b \<Longrightarrow> 0 < k \<Longrightarrow> n < b ^ k \<Longrightarrow> length (nat_base b n) \<le> k"
proof (induction b n arbitrary: k rule: nat_base.induct)
  case (1 b n)
  show ?case
  proof (cases "n < b \<or> b < 2")
    case True
    then show ?thesis using "1.prems" by (subst nat_base.simps) auto
  next
    case False
    then have k: "1 < k" using "1.prems" by (cases k; cases "k - 1") auto
    then have "n div b < b ^ (k - 1)"
      using "1.prems" by (cases k) (auto intro: less_mult_imp_div_less simp: mult.commute)
    then have "length (nat_base b (n div b)) \<le> k - 1"
      using "1.IH" [OF False, of "k - 1"] "1.prems"(1) k by simp
    then show ?thesis using False k by (subst nat_base.simps) auto
  qed
qed

section \<open>Operations on the state, with faults\<close>

text \<open>
  A handler of the program is an operation: it takes the state and ends in a result and a
  new state, or in a fault. A fault is behaviour the C++ standard leaves undefined; the
  process would crash or corrupt memory there, so a handler never continues after one.
  \<open>Fuel_Exhausted\<close> is the one fault that is not the program's: a retry loop of the model
  was given fewer rounds than the environment made it take.
\<close>

datatype fault =
    Null_Deref
  | Use_After_Free
  | Double_Free
  | Buffer_Overflow
  | Signed_Overflow
  | Wild_Pointer
  | Fuel_Exhausted

type_synonym ('s, 'a) op = "'s \<Rightarrow> fault + ('a \<times> 's)"

definition ret :: "'a \<Rightarrow> ('s, 'a) op" where
  "ret x = (\<lambda>s. Inr (x, s))"

definition raise :: "fault \<Rightarrow> ('s, 'a) op" where
  "raise e = (\<lambda>s. Inl e)"

definition bnd :: "('s, 'a) op \<Rightarrow> ('a \<Rightarrow> ('s, 'b) op) \<Rightarrow> ('s, 'b) op" where
  "bnd m f = (\<lambda>s. case m s of Inl e \<Rightarrow> Inl e | Inr (x, s') \<Rightarrow> f x s')"

definition sq :: "('s, unit) op \<Rightarrow> ('s, 'b) op \<Rightarrow> ('s, 'b) op" where
  "sq m n = bnd m (\<lambda>_. n)"

definition gets :: "('s \<Rightarrow> 'a) \<Rightarrow> ('s, 'a) op" where
  "gets f = (\<lambda>s. Inr (f s, s))"

definition modify :: "('s \<Rightarrow> 's) \<Rightarrow> ('s, unit) op" where
  "modify f = (\<lambda>s. Inr ((), f s))"

definition whenM :: "bool \<Rightarrow> ('s, unit) op \<Rightarrow> ('s, unit) op" where
  "whenM b m = (if b then m else ret ())"

definition require :: "fault \<Rightarrow> bool \<Rightarrow> ('s, unit) op" where
  "require e b = (if b then ret () else raise e)"

fun seqs :: "('s, unit) op list \<Rightarrow> ('s, unit) op" where
  "seqs [] = ret ()"
| "seqs (m # ms) = sq m (seqs ms)"

fun iter :: "('x \<Rightarrow> ('s, unit) op) \<Rightarrow> 'x list \<Rightarrow> ('s, unit) op" where
  "iter f [] = ret ()"
| "iter f (x # xs) = sq (f x) (iter f xs)"

text \<open>The value a pointer or an option must have for the program to go on.\<close>

definition need :: "fault \<Rightarrow> 'a option \<Rightarrow> ('s, 'a) op" where
  "need e x = (case x of None \<Rightarrow> raise e | Some v \<Rightarrow> ret v)"

text \<open>Sequencing is associative, with \<open>ret ()\<close> as its unit.\<close>

lemma sq_assoc: "sq (sq a b) c = sq a (sq b c)"
  by (rule ext) (simp add: sq_def bnd_def split: sum.splits)

lemma sq_ret: "sq (ret ()) m = m"
  by (rule ext) (simp add: sq_def bnd_def ret_def)

lemma sq_ret_right: "sq m (ret ()) = m"
  by (rule ext) (simp add: sq_def bnd_def ret_def split: sum.splits)

subsection \<open>Running an operation\<close>

definition exec_state :: "('s, 'a) op \<Rightarrow> 's \<Rightarrow> 's option" where
  "exec_state m s = (case m s of Inl _ \<Rightarrow> None | Inr (_, s') \<Rightarrow> Some s')"

definition faults :: "('s, 'a) op \<Rightarrow> 's \<Rightarrow> bool" where
  "faults m s \<longleftrightarrow> (\<exists>e. m s = Inl e)"

subsection \<open>Weakest preconditions\<close>

text \<open>\<open>wp m Q s\<close>: from \<open>s\<close>, \<open>m\<close> ends without a fault and its result and state satisfy \<open>Q\<close>.\<close>

definition wp :: "('s, 'a) op \<Rightarrow> ('a \<Rightarrow> 's \<Rightarrow> bool) \<Rightarrow> 's \<Rightarrow> bool" where
  "wp m Q s = (case m s of Inl _ \<Rightarrow> False | Inr (x, s') \<Rightarrow> Q x s')"

named_theorems wp_simps \<open>weakest preconditions of the combinators\<close>

lemma wp_ret [wp_simps]: "wp (ret x) Q s = Q x s"
  by (simp add: wp_def ret_def)

lemma wp_raise [wp_simps]: "wp (raise e) Q s = False"
  by (simp add: wp_def raise_def)

lemma wp_bnd [wp_simps]: "wp (bnd m f) Q s = wp m (\<lambda>x. wp (f x) Q) s"
  by (simp add: wp_def bnd_def split: sum.splits)

lemma wp_sq [wp_simps]: "wp (sq m n) Q s = wp m (\<lambda>_. wp n Q) s"
  by (simp add: sq_def wp_bnd)

lemma wp_gets [wp_simps]: "wp (gets f) Q s = Q (f s) s"
  by (simp add: wp_def gets_def)

lemma wp_modify [wp_simps]: "wp (modify f) Q s = Q () (f s)"
  by (simp add: wp_def modify_def)

lemma wp_whenM [wp_simps]: "wp (whenM b m) Q s = (if b then wp m Q s else Q () s)"
  by (simp add: whenM_def wp_ret)

lemma wp_require [wp_simps]: "wp (require e b) Q s = (b \<and> Q () s)"
  by (simp add: require_def wp_ret wp_raise)

lemma wp_need [wp_simps]: "wp (need e x) Q s = (\<exists>v. x = Some v \<and> Q v s)"
  by (simp add: need_def wp_ret wp_raise split: option.splits)

lemma wp_seqs [wp_simps]:
  "wp (seqs []) Q s = Q () s" "wp (seqs (m # ms)) Q s = wp m (\<lambda>_. wp (seqs ms) Q) s"
  by (simp_all add: wp_ret wp_sq)

lemma wp_iter [wp_simps]:
  "wp (iter f []) Q s = Q () s" "wp (iter f (x # xs)) Q s = wp (f x) (\<lambda>_. wp (iter f xs) Q) s"
  by (simp_all add: wp_ret wp_sq)

lemma wp_mono: "wp m Q s \<Longrightarrow> (\<And>x s'. Q x s' \<Longrightarrow> R x s') \<Longrightarrow> wp m R s"
  by (auto simp: wp_def split: sum.splits)

lemma wp_exec: "wp m Q s \<Longrightarrow> \<exists>x s'. m s = Inr (x, s') \<and> Q x s'"
  by (auto simp: wp_def split: sum.splits)

lemma wp_no_fault: "wp m Q s \<Longrightarrow> \<not> faults m s"
  by (auto simp: wp_def faults_def split: sum.splits)

subsection \<open>Invariant preservation\<close>

text \<open>
  \<open>pres I m\<close>: from every state in \<open>I\<close>, \<open>m\<close> ends without a fault in a state in \<open>I\<close>.
  The rules below decompose an operation along its syntax.
\<close>

definition pres :: "('s \<Rightarrow> bool) \<Rightarrow> ('s, 'a) op \<Rightarrow> bool" where
  "pres I m \<longleftrightarrow> (\<forall>s. I s \<longrightarrow> wp m (\<lambda>_. I) s)"

named_theorems pres_intros \<open>introduction rules for invariant preservation\<close>

lemma presI: "(\<And>s. I s \<Longrightarrow> wp m (\<lambda>_. I) s) \<Longrightarrow> pres I m"
  by (simp add: pres_def)

lemma presD: "pres I m \<Longrightarrow> I s \<Longrightarrow> wp m (\<lambda>_. I) s"
  by (simp add: pres_def)

lemma pres_ret [pres_intros]: "pres I (ret x)"
  by (simp add: pres_def wp_simps)

lemma pres_bnd [pres_intros]: "pres I m \<Longrightarrow> (\<And>x. pres I (f x)) \<Longrightarrow> pres I (bnd m f)"
  by (auto simp: pres_def wp_simps intro: wp_mono)

lemma pres_sq [pres_intros]: "pres I m \<Longrightarrow> pres I n \<Longrightarrow> pres I (sq m n)"
  by (simp add: sq_def pres_bnd)

lemma pres_gets [pres_intros]: "pres I (gets f)"
  by (simp add: pres_def wp_simps)

lemma pres_modify: "(\<And>s. I s \<Longrightarrow> I (f s)) \<Longrightarrow> pres I (modify f)"
  by (simp add: pres_def wp_simps)

lemma pres_whenM [pres_intros]: "(b \<Longrightarrow> pres I m) \<Longrightarrow> pres I (whenM b m)"
  by (simp add: pres_def wp_simps)

lemma pres_if [pres_intros]:
  "(b \<Longrightarrow> pres I m) \<Longrightarrow> (\<not> b \<Longrightarrow> pres I n) \<Longrightarrow> pres I (if b then m else n)"
  by simp

lemma pres_option [pres_intros]:
  "pres I m \<Longrightarrow> (\<And>v. x = Some v \<Longrightarrow> pres I (f v)) \<Longrightarrow>
    pres I (case x of None \<Rightarrow> m | Some v \<Rightarrow> f v)"
  by (simp split: option.splits)

lemma pres_seqs [pres_intros]:
  "pres I (seqs [])" "pres I m \<Longrightarrow> pres I (seqs ms) \<Longrightarrow> pres I (seqs (m # ms))"
  by (simp_all add: pres_ret pres_sq)

lemma pres_iter [pres_intros]: "(\<And>x. x \<in> set xs \<Longrightarrow> pres I (f x)) \<Longrightarrow> pres I (iter f xs)"
  by (induction xs) (simp_all add: pres_ret pres_sq)

text \<open>Reading a value under the invariant: what is known of the state is known of the value.\<close>

lemma pres_gets_bnd: "(\<And>s. I s \<Longrightarrow> P (f s)) \<Longrightarrow> (\<And>x. P x \<Longrightarrow> pres I (g x)) \<Longrightarrow>
    pres I (bnd (gets f) g)"
  by (simp add: pres_def wp_simps)

lemma pres_bndP: "(\<And>s. I s \<Longrightarrow> wp m (\<lambda>x s'. P x \<and> I s') s) \<Longrightarrow>
    (\<And>x. P x \<Longrightarrow> pres I (g x)) \<Longrightarrow> pres I (bnd m g)"
  unfolding pres_def wp_bnd by (blast intro: wp_mono)

subsection \<open>Frames\<close>

text \<open>
  \<open>keeps I m\<close>: where \<open>m\<close> ends without a fault it keeps \<open>I\<close>. A frame says nothing of
  faults, so that it decomposes along the syntax alone; \<open>wp_keeps\<close> adds it to a
  weakest precondition.
\<close>

definition keeps :: "('s \<Rightarrow> bool) \<Rightarrow> ('s, 'a) op \<Rightarrow> bool" where
  "keeps I m \<longleftrightarrow> (\<forall>s x s'. I s \<longrightarrow> m s = Inr (x, s') \<longrightarrow> I s')"

named_theorems keeps_intros \<open>introduction rules for frames\<close>

lemma keepsI: "(\<And>s x s'. I s \<Longrightarrow> m s = Inr (x, s') \<Longrightarrow> I s') \<Longrightarrow> keeps I m"
  by (simp add: keeps_def)

lemma keepsD: "keeps I m \<Longrightarrow> I s \<Longrightarrow> m s = Inr (x, s') \<Longrightarrow> I s'"
  by (simp add: keeps_def)

lemma wp_keeps: "wp m Q s \<Longrightarrow> keeps I m \<Longrightarrow> I s \<Longrightarrow> wp m (\<lambda>x s'. Q x s' \<and> I s') s"
  unfolding wp_def keeps_def by (auto split: sum.splits)

lemma keeps_ret [keeps_intros]: "keeps I (ret x)"
  by (simp add: keeps_def ret_def)

lemma keeps_raise [keeps_intros]: "keeps I (raise e)"
  by (simp add: keeps_def raise_def)

lemma keeps_bnd [keeps_intros]: "keeps I m \<Longrightarrow> (\<And>x. keeps I (f x)) \<Longrightarrow> keeps I (bnd m f)"
proof (rule keepsI)
  fix s x s'
  assume m: "keeps I m" "\<And>x. keeps I (f x)" and s: "I s" "bnd m f s = Inr (x, s')"
  obtain y t where "m s = Inr (y, t)" "f y t = Inr (x, s')"
    using s(2) by (auto simp: bnd_def split: sum.splits)
  then show "I s'"
    using keepsD [OF m(1) s(1)] keepsD [OF m(2)] by blast
qed

lemma keeps_sq [keeps_intros]: "keeps I m \<Longrightarrow> keeps I n \<Longrightarrow> keeps I (sq m n)"
  by (simp add: sq_def keeps_bnd)

lemma keeps_gets [keeps_intros]: "keeps I (gets f)"
  by (simp add: keeps_def gets_def)

lemma keeps_modify: "(\<And>s. I s \<Longrightarrow> I (f s)) \<Longrightarrow> keeps I (modify f)"
  by (simp add: keeps_def modify_def)

lemma keeps_whenM [keeps_intros]: "keeps I m \<Longrightarrow> keeps I (whenM b m)"
  by (simp add: whenM_def keeps_ret)

lemma keeps_require [keeps_intros]: "keeps I (require e b)"
  by (simp add: require_def keeps_ret keeps_raise)

lemma keeps_need [keeps_intros]: "keeps I (need e x)"
  by (simp add: need_def keeps_ret keeps_raise split: option.splits)

lemma keeps_if [keeps_intros]: "keeps I m \<Longrightarrow> keeps I n \<Longrightarrow> keeps I (if b then m else n)"
  by simp

lemma keeps_option [keeps_intros]:
  "keeps I m \<Longrightarrow> (\<And>v. keeps I (f v)) \<Longrightarrow> keeps I (case x of None \<Rightarrow> m | Some v \<Rightarrow> f v)"
  by (simp split: option.splits)

lemma keeps_prod [keeps_intros]: "(\<And>a b. keeps I (f a b)) \<Longrightarrow> keeps I (case x of (a, b) \<Rightarrow> f a b)"
  by (simp split: prod.splits)

lemma keeps_seqs [keeps_intros]:
  "keeps I (seqs [])" "keeps I m \<Longrightarrow> keeps I (seqs ms) \<Longrightarrow> keeps I (seqs (m # ms))"
  by (simp_all add: keeps_ret keeps_sq)

lemma keeps_iter [keeps_intros]: "(\<And>x. keeps I (f x)) \<Longrightarrow> keeps I (iter f xs)"
  by (induction xs) (simp_all add: keeps_ret keeps_sq)

end
