(* ===== verification/E2_Base64.thy ===== *)
theory E2_Base64
  imports E2_Prelude "HOL-Library.Signed_Division"
begin

unbundle bit_operations_syntax

text \<open>
  \<^verbatim>\<open>base64.cpp\<close> and \<^verbatim>\<open>base64.h\<close>: the encoder that the message trace uses, and the
  decoder. Source and destination are byte arrays of their real size (\<open>None\<close> is the null
  pointer); a read or write outside them is the fault \<open>Buffer_Overflow\<close>.
\<close>

definition base64_table :: "byte list" where
  "base64_table = map of_char
     ''ABCDEFGHIJKLMNOPQRSTUVWXYZabcdefghijklmnopqrstuvwxyz0123456789+/''"

definition b64 :: "byte \<Rightarrow> byte" where
  "b64 v = base64_table ! unat v"

abbreviation pad_char :: byte where
  "pad_char \<equiv> 61"

section \<open>Encoding\<close>

text \<open>The loop over whole triples, then the one or two bytes that are left.\<close>

fun encode_loop :: "byte list \<Rightarrow> byte list" where
  "encode_loop (a # b # c # rest) =
     b64 (drop_bit 2 a) #
     b64 (push_bit 4 (a AND 0x03) OR drop_bit 4 b) #
     b64 (push_bit 2 (b AND 0x0f) OR drop_bit 6 c) #
     b64 (c AND 0x3f) # encode_loop rest"
| "encode_loop [a, b] =
     [b64 (drop_bit 2 a), b64 (push_bit 4 (a AND 0x03) OR drop_bit 4 b),
      b64 (push_bit 2 (b AND 0x0f)), pad_char]"
| "encode_loop [a] = [b64 (drop_bit 2 a), b64 (push_bit 4 (a AND 0x03)), pad_char, pad_char]"
| "encode_loop [] = []"

text \<open>
  \<open>base64_encode src srcLen dst dstLen\<close> is the return value, the destination and the new
  \<open>dstLen\<close>. The guard computes \<^verbatim>\<open>srcLen * 4 / 3\<close> in \<^verbatim>\<open>int\<close>.
\<close>

definition base64_encode ::
    "byte list option \<Rightarrow> int \<Rightarrow> byte list option \<Rightarrow> int \<Rightarrow>
      fault + (int \<times> byte list option \<times> int)" where
  "base64_encode src srcLen dst dstLen =
     (if dstLen \<le> 0 \<or> srcLen \<le> 0 then Inr (-1, dst, dstLen)
      else if srcLen * 4 > 2 ^ 31 - 1 then Inl Signed_Overflow
      else if dstLen < srcLen * 4 div 3 then Inr (-1, dst, dstLen)
      else case dst of
        None \<Rightarrow> Inr (-1, dst, dstLen)
      | Some d \<Rightarrow>
          (case src of
            None \<Rightarrow> Inr (-1, dst, dstLen)
          | Some bytes \<Rightarrow>
              if length bytes < nat srcLen then Inl Buffer_Overflow
              else let out = encode_loop (take (nat srcLen) bytes) in
                if length d < length out + 1 then Inl Buffer_Overflow
                else Inr (0, Some (out @ 0 # drop (length out + 1) d), int (length out))))"

section \<open>Decoding\<close>

definition inv_table :: "byte list" where
  "inv_table =
     (fold (\<lambda>i t. t[unat (base64_table ! i) := of_nat i]) [0..<64] (replicate 256 0x80))
       [61 := 0]"

definition inv_b64 :: "byte \<Rightarrow> byte" where
  "inv_b64 c = inv_table ! unat c"

text \<open>The first loop counts the characters of the alphabet.\<close>

fun decode_count :: "byte list \<Rightarrow> nat" where
  "decode_count [] = 0"
| "decode_count (c # cs) = (if inv_b64 c \<noteq> 0x80 then Suc (decode_count cs) else decode_count cs)"

text \<open>
  The second loop: the source left, the block read so far, the number of pad characters
  seen, the bytes written. The result is the bytes written and the number of them that
  count (\<^verbatim>\<open>pos - dst\<close>; stepping \<^verbatim>\<open>pos\<close> back does not unwrite a byte), or \<open>None\<close>
  for the return value \<open>-1\<close>.
\<close>

fun decode_loop ::
    "byte list \<Rightarrow> byte list \<Rightarrow> nat \<Rightarrow> byte list \<Rightarrow> (byte list \<times> nat) option \<times> byte list" where
  "decode_loop [] block pad out = (Some (out, length out), out)"
| "decode_loop (c # cs) block pad out =
     (let tmp = inv_b64 c in
      if tmp = 0x80 then decode_loop cs block pad out
      else
        let block' = block @ [tmp]; pad' = (if c = pad_char then pad + 1 else pad) in
        if length block' = 4 then
          let out' = out @
            [push_bit 2 (block' ! 0) OR drop_bit 4 (block' ! 1),
             push_bit 4 (block' ! 1) OR drop_bit 2 (block' ! 2),
             push_bit 6 (block' ! 2) OR block' ! 3] in
          if pad' = 0 then decode_loop cs [] 0 out'
          else if pad' = 1 then (Some (out', length out' - 1), out')
          else if pad' = 2 then (Some (out', length out' - 2), out')
          else (None, out')
        else decode_loop cs block' pad' out)"

text \<open>
  \<open>base64_decode_run src srcLen dst dstLen\<close> is the return value, the destination and the value
  that the parameter \<^verbatim>\<open>dstLen\<close> has at the end. The parameter is passed by value, so the
  caller only gets what \<open>base64_decode\<close> keeps.
\<close>

definition base64_decode_run ::
    "byte list \<Rightarrow> int \<Rightarrow> byte list option \<Rightarrow> int \<Rightarrow> fault + (int \<times> byte list option \<times> int)" where
  "base64_decode_run src srcLen dst dstLen =
     (if dstLen = 0 \<or> dstLen < (srcLen sdiv 4) * 3 then Inr (-1, dst, dstLen)
      else case dst of
        None \<Rightarrow> Inr (-1, dst, dstLen)
      | Some d \<Rightarrow>
          if length src < nat srcLen then Inl Buffer_Overflow
          else let s = take (nat srcLen) src; count = decode_count s in
            if count = 0 \<or> count mod 4 \<noteq> 0 then Inr (-1, dst, dstLen)
            else case decode_loop s [] 0 [] of (res, out) \<Rightarrow>
              if length d < length out then Inl Buffer_Overflow
              else let d' = Some (out @ drop (length out) d) in
                (case res of
                  None \<Rightarrow> Inr (-1, d', dstLen)
                | Some (_, n) \<Rightarrow> Inr (0, d', int n)))"

definition base64_decode :: "byte list \<Rightarrow> int \<Rightarrow> byte list option \<Rightarrow> int \<Rightarrow> fault + (int \<times> byte list option)" where
  "base64_decode src srcLen dst dstLen =
     (case base64_decode_run src srcLen dst dstLen of
        Inl e \<Rightarrow> Inl e
      | Inr (rc, dst', _) \<Rightarrow> Inr (rc, dst'))"

section \<open>The alphabet\<close>

lemma length_base64_table: "length base64_table = 64"
  by (simp add: base64_table_def)

lemma length_inv_table: "length inv_table = 256"
proof -
  have "length (fold (\<lambda>i t. t[f i := g i]) xs t) = length t" for f :: "nat \<Rightarrow> nat" and g xs
    and t :: "byte list"
    by (induction xs arbitrary: t) simp_all
  then show ?thesis by (simp add: inv_table_def)
qed

text \<open>Filling a table at distinct positions: every entry is found again.\<close>

lemma length_fold_update [simp]: "length (fold (\<lambda>i t. t[f i := g i]) xs t) = length t"
  by (induction xs arbitrary: t) simp_all

lemma fold_update_other: "k \<notin> f ` set xs \<Longrightarrow> fold (\<lambda>i t. t[f i := g i]) xs t ! k = t ! k"
  by (induction xs arbitrary: t) simp_all

lemma fold_update_nth:
  "distinct (map f xs) \<Longrightarrow> j \<in> set xs \<Longrightarrow> f j < length t \<Longrightarrow>
    fold (\<lambda>i t. t[f i := g i]) xs t ! f j = g j"
proof (induction xs arbitrary: t)
  case (Cons x xs)
  show ?case
  proof (cases "j = x")
    case True
    then show ?thesis using Cons.prems by (simp add: fold_update_other)
  next
    case False
    then show ?thesis using Cons by simp
  qed
qed simp

lemma distinct_base64_table: "distinct base64_table"
  by (simp add: base64_table_def)

lemma pad_char_not_in_table: "pad_char \<notin> set base64_table"
  by (simp add: base64_table_def)

lemma alphabet_value:
  assumes "i < 64"
  shows "inv_b64 (base64_table ! i) = of_nat i" "base64_table ! i \<noteq> pad_char"
proof -
  let ?f = "\<lambda>i. unat (base64_table ! i)"
  show ne: "base64_table ! i \<noteq> pad_char"
    using pad_char_not_in_table assms length_base64_table by (metis nth_mem)
  then have ne': "?f i \<noteq> 61"
    by unat_arith
  have d: "distinct (map ?f [0..<64])"
    using distinct_base64_table length_base64_table
    by (auto simp: distinct_map inj_on_def nth_eq_iff_index_eq simp flip: word_unat_eq_iff)
  have "?f i < 256"
    by (rule order_less_le_trans [OF unsigned_less]) simp
  then show "inv_b64 (base64_table ! i) = of_nat i"
    using fold_update_nth [OF d, of i "replicate 256 0x80" of_nat] assms ne'
    by (simp add: inv_b64_def inv_table_def)
qed

lemma inv_pad: "inv_b64 pad_char = 0"
  by (simp add: inv_b64_def inv_table_def)

lemma b64_inverse: "v < 64 \<Longrightarrow> inv_b64 (b64 v) = v \<and> b64 v \<noteq> pad_char"
proof -
  assume "v < 64"
  then have "unat v < 64" by unat_arith
  with alphabet_value [of "unat v"] show ?thesis by (simp add: b64_def)
qed

text \<open>The six-bit groups of a triple, and the triple back from its groups.\<close>

lemma bits8: "(\<And>n. n \<in> {0, 1, 2, 3, 4, 5, 6, 7} \<Longrightarrow> bit (x::byte) n = bit y n) \<Longrightarrow> x = y"
  by (rule bit_word_eqI) (auto simp: less_Suc_eq numeral_eq_Suc)

lemma no_bit_beyond: "8 \<le> n \<Longrightarrow> \<not> bit (x::byte) n"
  using bit_imp_le_length [of x n] by auto

lemma small_indices:
  "bit (x::byte) (Suc (Suc 0)) = bit x 2" "bit x (Suc (Suc (Suc 0))) = bit x 3"
  by (simp_all add: numeral_2_eq_2 numeral_3_eq_3)

lemmas byte_bits = bit_simps no_bit_beyond small_indices

lemma group_inverse:
  fixes a b c :: byte
  shows "push_bit 2 (drop_bit 2 a) OR drop_bit 4 (push_bit 4 (a AND 0x03) OR drop_bit 4 b) = a"
    "push_bit 4 (push_bit 4 (a AND 0x03) OR drop_bit 4 b) OR
      drop_bit 2 (push_bit 2 (b AND 0x0f) OR drop_bit 6 c) = b"
    "push_bit 6 (push_bit 2 (b AND 0x0f) OR drop_bit 6 c) OR (c AND 0x3f) = c"
    "push_bit 2 (drop_bit 2 a) OR drop_bit 4 (push_bit 4 (a AND 0x03)) = a"
    "push_bit 4 (push_bit 4 (a AND 0x03) OR drop_bit 4 b) OR
      drop_bit 2 (push_bit 2 (b AND 0x0f)) = b"
  by (rule bits8; auto simp: byte_bits)+

lemma below_64: "x AND 0xC0 = 0 \<Longrightarrow> (x::byte) < 64"
proof -
  assume "x AND 0xC0 = 0"
  then have "bit (x AND 0xC0) n = False" for n by simp
  from this [of 6] this [of 7] have "\<not> bit x 6" "\<not> bit x 7"
    by (auto simp: bit_simps)
  then have "x = take_bit 6 x"
    by (intro bits8) (auto simp: bit_simps)
  then have "unat x < 2 ^ 6"
    by (metis take_bit_nat_less_exp unsigned_take_bit_eq)
  then show ?thesis by unat_arith
qed

lemma group_bounds:
  fixes a b c :: byte
  shows "drop_bit 2 a < 64" "push_bit 4 (a AND 0x03) OR drop_bit 4 b < 64"
    "push_bit 2 (b AND 0x0f) OR drop_bit 6 c < 64" "c AND 0x3f < 64"
    "push_bit 4 (a AND 0x03) < 64" "push_bit 2 (b AND 0x0f) < 64"
  by (rule below_64, rule bits8; auto simp: byte_bits)+

section \<open>Lengths\<close>

lemma length_encode_loop: "length (encode_loop xs) = 4 * ((length xs + 2) div 3)"
proof (induction xs rule: encode_loop.induct)
  case (1 a b c rest)
  have "length (a # b # c # rest) + 2 = 3 + (length rest + 2)" by simp
  with 1 show ?case by (simp only: encode_loop.simps list.size div_add_self1) simp
qed auto

lemma encode_loop_alphabet: "c \<in> set (encode_loop xs) \<Longrightarrow> inv_b64 c \<noteq> 0x80"
proof -
  have lt: "v < 64 \<Longrightarrow> inv_b64 (b64 v) \<noteq> 0x80" for v
    using b64_inverse [of v] by auto
  note groups = group_bounds [THEN lt]
  show "c \<in> set (encode_loop xs) \<Longrightarrow> inv_b64 c \<noteq> 0x80"
    by (induction xs rule: encode_loop.induct) (auto simp: groups groups [simplified] inv_pad)
qed

lemma decode_count_all: "(\<And>c. c \<in> set cs \<Longrightarrow> inv_b64 c \<noteq> 0x80) \<Longrightarrow> decode_count cs = length cs"
  by (induction cs) auto

lemma decode_count_le: "decode_count cs \<le> length cs"
  by (induction cs) auto

text \<open>A character outside the alphabet, one that does not fill the block, and one that fills it.\<close>

lemma decode_skip:
  "inv_b64 c = 0x80 \<Longrightarrow> decode_loop (c # cs) block pad out = decode_loop cs block pad out"
  by simp

lemma decode_step:
  "inv_b64 c \<noteq> 0x80 \<Longrightarrow> length block < 3 \<Longrightarrow>
    decode_loop (c # cs) block pad out =
      decode_loop cs (block @ [inv_b64 c]) (if c = pad_char then pad + 1 else pad) out"
  by (simp add: Let_def)

lemma decode_fill:
  "inv_b64 c \<noteq> 0x80 \<Longrightarrow>
    decode_loop (c # cs) [x, y, z] pad out =
      (let out' = out @ [push_bit 2 x OR drop_bit 4 y, push_bit 4 y OR drop_bit 2 z,
           push_bit 6 z OR inv_b64 c];
         pad' = (if c = pad_char then pad + 1 else pad) in
       if pad' = 0 then decode_loop cs [] 0 out'
       else if pad' = 1 then (Some (out', length out' - 1), out')
       else if pad' = 2 then (Some (out', length out' - 2), out')
       else (None, out'))"
  by (simp add: Let_def)

text \<open>
  The decoder writes at most three bytes for four characters: the bytes written never pass
  the ones before plus \<open>3 * ((length block + count) div 4)\<close>.
\<close>

lemma decode_loop_written:
  "length block < 4 \<Longrightarrow>
    length (snd (decode_loop cs block pad out)) \<le>
      length out + 3 * ((length block + decode_count cs) div 4)"
proof (induction cs arbitrary: block pad out)
  case (Cons c cs)
  show ?case
  proof (cases "inv_b64 c = 0x80")
    case True
    then show ?thesis using Cons by (simp add: decode_skip del: decode_loop.simps)
  next
    case False
    show ?thesis
    proof (cases "length block = 3")
      case True
      then obtain x y z where b: "block = [x, y, z]"
        by (auto simp: numeral_3_eq_3 length_Suc_conv)
      define B where "B = (length block + Suc (decode_count cs)) div 4"
      have B: "B = Suc (decode_count cs div 4)"
        unfolding B_def True by presburger
      have IH: "length (snd (decode_loop cs [] 0 (out @ [u, v, w]))) \<le>
          length out + (3 + 3 * (decode_count cs div 4))" for u v w
        using Cons.IH [of "[]" 0 "out @ [u, v, w]"] by simp
      have "length (snd (decode_loop (c # cs) block pad out)) \<le> length out + 3 * B"
        unfolding b decode_fill [OF False] using B
        by (auto simp: Let_def IH simp del: decode_loop.simps)
      then show ?thesis using False by (simp only: B_def decode_count.simps if_True not_False_eq_True)
    next
      case n3: False
      then have "length block < 3" using Cons.prems by simp
      then show ?thesis
        using Cons.IH [of "block @ [inv_b64 c]"] n3 False
        by (simp add: decode_step del: decode_loop.simps)
    qed
  qed
qed simp

lemma b64_step [simp]:
  "v < 64 \<Longrightarrow> inv_b64 (b64 v) = v" "v < 64 \<Longrightarrow> b64 v \<noteq> pad_char" "v < 64 \<Longrightarrow> v \<noteq> (0x80::byte)"
  using b64_inverse [of v] by auto

declare inv_pad [simp]

text \<open>One whole group of the encoder is one group of the decoder.\<close>

lemma decode_group:
  assumes "v1 < 64" "v2 < 64" "v3 < 64" "v4 < 64"
  shows "decode_loop (b64 v1 # b64 v2 # b64 v3 # b64 v4 # cs) [] 0 out =
    decode_loop cs [] 0 (out @ [push_bit 2 v1 OR drop_bit 4 v2,
      push_bit 4 v2 OR drop_bit 2 v3, push_bit 6 v3 OR v4])"
  using assms by (simp add: decode_step decode_fill del: decode_loop.simps)

lemma decode_tail:
  assumes "v1 < 64" "v2 < 64" "v3 < 64"
  shows "decode_loop [b64 v1, b64 v2, b64 v3, pad_char] [] 0 out =
      (let w = out @ [push_bit 2 v1 OR drop_bit 4 v2, push_bit 4 v2 OR drop_bit 2 v3, push_bit 6 v3]
       in (Some (w, length out + 2), w))"
    "decode_loop [b64 v1, b64 v2, pad_char, pad_char] [] 0 out =
      (let w = out @ [push_bit 2 v1 OR drop_bit 4 v2, push_bit 4 v2, 0]
       in (Some (w, length out + 1), w))"
  using assms by (simp_all add: decode_step decode_fill Let_def del: decode_loop.simps)

lemma decode_encode_loop:
  "\<exists>w. decode_loop (encode_loop xs) [] 0 out = (Some (w, length out + length xs), w) \<and>
    take (length out + length xs) w = out @ xs \<and>
    length w = length out + 3 * ((length xs + 2) div 3)"
proof (induction xs arbitrary: out rule: encode_loop.induct)
  case (1 a b c rest)
  obtain w where w: "decode_loop (encode_loop rest) [] 0 (out @ [a, b, c]) =
      (Some (w, length (out @ [a, b, c]) + length rest), w)"
    "take (length (out @ [a, b, c]) + length rest) w = (out @ [a, b, c]) @ rest"
    "length w = length (out @ [a, b, c]) + 3 * ((length rest + 2) div 3)"
    using "1.IH" [of "out @ [a, b, c]"] by auto
  moreover have "decode_loop (encode_loop (a # b # c # rest)) [] 0 out =
      decode_loop (encode_loop rest) [] 0 (out @ [a, b, c])"
    by (simp only: encode_loop.simps decode_group [OF group_bounds(1-4)] group_inverse)
  moreover have "(length (a # b # c # rest) + 2) div 3 = (length rest + 2) div 3 + 1"
    by (simp add: div_if)
  ultimately show ?case
    by (intro exI [of _ w]) (simp del: decode_loop.simps encode_loop.simps)
next
  case (2 a b)
  show ?case
    by (simp only: encode_loop.simps decode_tail(1) [OF group_bounds(1,2,6)] group_inverse Let_def)
      simp
next
  case (3 a)
  show ?case
    by (simp only: encode_loop.simps decode_tail(2) [OF group_bounds(1,5,5)] group_inverse Let_def)
      simp
qed simp

text \<open>C's division truncates towards zero; on sizes it is the natural one.\<close>

lemma sdiv_size: "int n sdiv 4 = int (n div 4)"
  by (cases "n = 0") (simp_all add: signed_divide_int_def zdiv_int)

section \<open>Properties\<close>

text \<open>
  The encoder's result when it succeeds, as its callers use it: a source of the announced
  size and a destination with room for the whole output and its NUL.
\<close>

lemma base64_encode_ok:
  assumes "0 < length src" "length src \<le> length (d::byte list)"
    and "4 * ((length src + 2) div 3) < length d" "length src * 4 < 2 ^ 31"
  shows "base64_encode (Some src) (int (length src)) (Some d) (int (length d)) =
    Inr (0, Some (encode_loop src @ 0 # drop (4 * ((length src + 2) div 3) + 1) d),
      int (4 * ((length src + 2) div 3)))"
  using assms by (auto simp: base64_encode_def Let_def length_encode_loop)

lemma decode_of_encoded:
  assumes "0 < length src" and "3 * ((length src + 2) div 3) \<le> length d"
  shows "\<exists>d'. base64_decode_run (encode_loop src @ rest) (int (length (encode_loop src))) (Some d)
      (int (length d)) = Inr (0, Some d', int (length src)) \<and>
    take (length src) d' = src"
proof -
  obtain w where w: "decode_loop (encode_loop src) [] 0 [] = (Some (w, length src), w)"
    "take (length src) w = src" "length w = 3 * ((length src + 2) div 3)"
    using decode_encode_loop [of src "[]"] by auto
  have cnt: "decode_count (encode_loop src) = 4 * ((length src + 2) div 3)"
    by (simp add: decode_count_all encode_loop_alphabet length_encode_loop)
  have "int (length (encode_loop src)) sdiv 4 = int ((length src + 2) div 3)"
    by (simp only: sdiv_size length_encode_loop nonzero_mult_div_cancel_left)
  moreover have "0 < (length src + 2) div 3"
    using assms(1) by (cases src) (auto simp: div_greater_zero_iff)
  moreover have "length src \<le> length w"
    using w(3) by linarith
  ultimately show ?thesis
    using assms w cnt by (auto simp: base64_decode_run_def Let_def)
qed

text \<open>
  C27. Encoding and decoding give the source back. Given a buffer with room for the text and its
  NUL, the encoder succeeds, writes the NUL behind the text and reports the length of the text;
  given that length and a destination with room for every group of the text, the decoder accepts
  what the encoder wrote, and the destination begins with the octets of the source. How many
  octets those are, the decoder does not tell its caller.
\<close>

theorem base64_roundtrip:
  assumes "0 < length src" "length src * 4 < 2 ^ 31"
    and "4 * ((length src + 2) div 3) < length buf" "3 * ((length src + 2) div 3) \<le> length d"
  shows "\<exists>buf' n d'. base64_encode (Some src) (int (length src)) (Some buf) (int (length buf)) = Inr (0, Some buf', n) \<and>
    length buf' = length buf \<and> n = int (4 * ((length src + 2) div 3)) \<and> buf' ! nat n = 0 \<and>
    base64_decode buf' n (Some d) (int (length d)) = Inr (0, Some d') \<and> take (length src) d' = src"
proof -
  let ?rest = "0 # drop (4 * ((length src + 2) div 3) + 1) buf"
  have len: "length (encode_loop src) = 4 * ((length src + 2) div 3)" by (rule length_encode_loop)
  have "length src \<le> length buf" using assms(3) by linarith
  note enc = base64_encode_ok [OF assms(1) this assms(3,2)]
  obtain d' where d': "base64_decode_run (encode_loop src @ ?rest) (int (length (encode_loop src))) (Some d) (int (length d)) =
      Inr (0, Some d', int (length src))" "take (length src) d' = src"
    using decode_of_encoded [OF assms(1,4)] by blast
  have "base64_decode (encode_loop src @ ?rest) (int (length (encode_loop src))) (Some d) (int (length d)) = Inr (0, Some d')"
    by (simp only: base64_decode_def d'(1) sum.case prod.case)
  moreover have "(encode_loop src @ ?rest) ! nat (int (length (encode_loop src))) = 0" by simp
  moreover have "length (encode_loop src @ ?rest) = length buf" using assms(3) len by simp
  ultimately show ?thesis using enc d'(2) len by fastforce
qed

theorem base64_roundtrip_witness:
  "\<exists>buf' d'. base64_encode (Some [77, 97]) 2 (Some (replicate 6 0)) 6 = Inr (0, Some buf', 4) \<and>
    base64_decode buf' 4 (Some [0, 0, 0]) 3 = Inr (0, Some d') \<and> take 2 d' = [77, 97]"
proof -
  obtain buf' n d' where "base64_encode (Some [77, 97]) (int (length [77::byte, 97])) (Some (replicate 6 0))
      (int (length (replicate 6 (0::byte)))) = Inr (0, Some buf', n)" "n = int (4 * ((length [77::byte, 97] + 2) div 3))"
    "base64_decode buf' n (Some [0, 0, 0]) (int (length [0::byte, 0, 0])) = Inr (0, Some d')"
    "take (length [77::byte, 97]) d' = [77, 97]"
    using base64_roundtrip [of "[77, 97]" "replicate 6 0" "[0, 0, 0]"] by auto
  then show ?thesis by (auto simp: numeral_2_eq_2)
qed

text \<open>
  C28. The decoder stays inside its buffers: given the real sizes of the source and of the
  destination it never reads or writes outside them, whatever the source holds.
\<close>

theorem base64_decode_in_bounds:
  assumes "srcLen \<le> int (length src)" and "dstLen \<le> int (length d)"
  shows "base64_decode src srcLen (Some d) dstLen \<noteq> Inl e"
proof (cases "0 \<le> srcLen \<and> \<not> (dstLen = 0 \<or> dstLen < (srcLen sdiv 4) * 3)")
  case True
  define s where "s = take (nat srcLen) src"
  have "length s = nat srcLen" using assms(1) True by (simp add: s_def)
  then have "3 * (decode_count s div 4) \<le> 3 * (nat srcLen div 4)"
    using decode_count_le [of s] by (simp add: div_le_mono)
  moreover have "srcLen sdiv 4 = int (nat srcLen div 4)"
    using True sdiv_size [of "nat srcLen"] by simp
  moreover have "length (snd (decode_loop s [] 0 [])) \<le> 3 * (decode_count s div 4)"
    using decode_loop_written [of "[]" s 0 "[]"] by simp
  ultimately have "length (snd (decode_loop s [] 0 [])) \<le> length d"
    using True assms(2) by linarith
  then show ?thesis
    using assms(1) by (auto simp: base64_decode_def base64_decode_run_def Let_def s_def split: prod.splits option.splits)
next
  case False
  then show ?thesis by (auto simp: base64_decode_def base64_decode_run_def Let_def)
qed

theorem base64_decode_in_bounds_witness:
  "base64_decode [84, 87, 69, 61] 4 (Some [0, 0, 0]) 3 \<noteq> Inl Buffer_Overflow"
  using base64_decode_in_bounds [of 4 "[84, 87, 69, 61]" 3 "[0, 0, 0]"] by simp

text \<open>
  C29. Exactly when the encoder writes past its destination although its guard let it run:
  the guard asks for \<open>n * 4 / 3\<close> bytes (rounded down) where the output takes
  \<open>4 * ((n + 2) / 3)\<close> and a NUL.
\<close>

theorem base64_encode_overflow_iff:
  "base64_encode (Some src) (int (length src)) (Some d) (int (length d)) = Inl Buffer_Overflow \<longleftrightarrow>
    0 < length src \<and> 0 < length d \<and> length src * 4 < 2 ^ 31 \<and>
    length src * 4 div 3 \<le> length d \<and> length d \<le> 4 * ((length src + 2) div 3)"
proof -
  have "int (length src) * 4 div 3 = int (length src * 4 div 3)"
    by (simp add: zdiv_int)
  then show ?thesis
    by (auto simp: base64_encode_def Let_def length_encode_loop)
qed

end
