(* ===== verification/E2_RanName.thy ===== *)
theory E2_RanName
  imports E2_Prelude
begin

unbundle bit_operations_syntax

text \<open>
  \<^verbatim>\<open>BuildRunName.h\<close>: the RAN name of an E2 node, built from the Global E2 node ID of
  its setup request. The name is the key under which the terminator keeps the connection
  and its procedure state, so two nodes with one name are one node to it. The target is a
  \<^verbatim>\<open>char\<close> array; \<open>None\<close> is a write or read outside it (or outside the IE's octets).
\<close>

section \<open>The identifiers of the E2 setup request\<close>

record BIT_STRING =
  buf :: "byte list"
  bits_unused :: nat

text \<open>
  \<^verbatim>\<open>INTEGER_t\<close> holds the octets of a signed big-endian number; \<^verbatim>\<open>asn_INTEGER2long\<close>
  skips insignificant leading octets and fails on more than eight.
\<close>

fun skip_insignificant :: "byte list \<Rightarrow> byte list" where
  "skip_insignificant (b # c # bs) =
     (if b = 0x00 \<and> c AND 0x80 = 0 \<or> b = 0xff \<and> c AND 0x80 \<noteq> 0
      then skip_insignificant (c # bs) else b # c # bs)"
| "skip_insignificant bs = bs"

definition asn_integer_convert :: "byte list \<Rightarrow> int" where
  "asn_integer_convert bs =
     foldl (\<lambda>v b. v * 256 + uint b) (if bit (hd bs) 7 then -1 else 0) bs"

definition asn_INTEGER2long :: "byte list \<Rightarrow> int option" where
  "asn_INTEGER2long bs =
     (let b = (if length bs > 8 then skip_insignificant bs else bs) in
      if length b > 8 then None
      else if b = [] then Some 0
      else Some (asn_integer_convert b))"

datatype GNB_ID_Choice = gnb_ID BIT_STRING | gnb_ID_other
datatype ENGNB_ID = en_gNB_ID BIT_STRING | en_gNB_ID_other
datatype ENB_ID_Choice =
    enb_ID_macro BIT_STRING | enb_ID_shortmacro BIT_STRING | enb_ID_longmacro BIT_STRING
  | enb_ID_NOTHING
datatype ENB_ID =
    macro_eNB_ID BIT_STRING | home_eNB_ID BIT_STRING
  | short_Macro_eNB_ID BIT_STRING | long_Macro_eNB_ID BIT_STRING
  | eNB_ID_NOTHING

record GlobalE2node_gNB_ID =
  plmn_id :: "byte list"
  gnb_id :: GNB_ID_Choice
  gNB_CU_UP_ID :: "byte list option"
  gNB_DU_ID :: "byte list option"

datatype GlobalE2node_ID =
    GlobalE2node_gNB GlobalE2node_gNB_ID
  | GlobalE2node_en_gNB "byte list" ENGNB_ID
  | GlobalE2node_ng_eNB "byte list" ENB_ID_Choice
  | GlobalE2node_eNB "byte list" ENB_ID
  | GlobalE2node_NOTHING

section \<open>The PLMN identity\<close>

text \<open>\<^verbatim>\<open>%1d\<close> of a half octet prints one digit, or two from ten on.\<close>

definition nibble_d :: "byte \<Rightarrow> string" where
  "nibble_d w = fmt_d (uint w)"

definition plmn_text :: "byte \<Rightarrow> byte \<Rightarrow> byte \<Rightarrow> string" where
  "plmn_text d0 d1 d2 =
     (let mcc1 = d0 AND 0x0F; mcc2 = drop_bit 4 (d0 AND 0xF0); mcc3 = d1 AND 0x0F;
          mnc1 = drop_bit 4 (d1 AND 0xF0); mnc2 = d2 AND 0x0F; mnc3 = drop_bit 4 (d2 AND 0xF0) in
      if mnc1 \<noteq> 15 then
        nibble_d mcc1 @ nibble_d mcc2 @ nibble_d mcc3 @ ''_'' @
        nibble_d mnc1 @ nibble_d mnc2 @ nibble_d mnc3
      else
        nibble_d mcc1 @ nibble_d mcc2 @ nibble_d mcc3 @ ''_0'' @ nibble_d mnc2 @ nibble_d mnc3)"

text \<open>The source prints through \<^verbatim>\<open>snprintf(plmnId, 20, ...)\<close>.\<close>

definition translatePlmnId :: "char list \<Rightarrow> byte list \<Rightarrow> string \<Rightarrow> char list option" where
  "translatePlmnId plmnId data type =
     (case data of
        d0 # d1 # d2 # _ \<Rightarrow> poke plmnId (snprintf_text 20 (type @ plmn_text d0 d1 d2) @ [NUL])
      | _ \<Rightarrow> None)"

section \<open>The node identifier\<close>

text \<open>
  One step of the \<^verbatim>\<open>for\<close> loop: octet \<open>i\<close> with the unused low bits shifted out and the
  bits of the octet before shifted in, as an \<^verbatim>\<open>unsigned\<close>, then its two hexadecimal digits.
\<close>

definition tmp_digit :: "BIT_STRING \<Rightarrow> nat \<Rightarrow> 32 word" where
  "tmp_digit d i =
     push_bit (8 - bits_unused d) (if i = 0 then 0 else ucast (buf d ! (i - 1))) OR
     drop_bit (bits_unused d) (ucast (buf d ! i))"

definition hex_digits :: "32 word \<Rightarrow> string" where
  "hex_digits t =
     fmt_x (unat (drop_bit 4 (t AND 0xF0))) @ fmt_x (unat (t AND 0x0F))"

text \<open>\<^verbatim>\<open>snprintf(buffer, 256, "%s...", ranName); memcpy(ranName, buffer, j)\<close>\<close>

definition append_text :: "char list \<Rightarrow> string \<Rightarrow> char list option" where
  "append_text ranName t =
     (case cstr ranName of
        None \<Rightarrow> None
      | Some s \<Rightarrow> if length (s @ t) < 256 then poke ranName (s @ t) else None)"

fun append_octets :: "BIT_STRING \<Rightarrow> nat list \<Rightarrow> char list \<Rightarrow> char list option" where
  "append_octets d [] ranName = Some ranName"
| "append_octets d (i # is) ranName =
     (case append_text ranName (hex_digits (tmp_digit d i)) of
        None \<Rightarrow> None
      | Some r \<Rightarrow> append_octets d is r)"

definition id_suffix :: "int \<Rightarrow> int \<Rightarrow> string" where
  "id_suffix cuid duid =
     (if cuid \<ge> 0 \<and> duid \<ge> 0 then []
      else if cuid \<ge> 0 then ''_'' @ fmt_x (nat cuid)
      else if duid \<ge> 0 then ''_'' @ fmt_x (nat duid)
      else [])"

definition translateBitStringToChar ::
    "char list \<Rightarrow> BIT_STRING \<Rightarrow> int \<Rightarrow> int \<Rightarrow> char list option" where
  "translateBitStringToChar ranName d cuid duid =
     (case append_text ranName ''_'' of
        None \<Rightarrow> None
      | Some r \<Rightarrow>
          (case append_octets d [0..<length (buf d)] r of
             None \<Rightarrow> None
           | Some r' \<Rightarrow> append_text r' (id_suffix cuid duid)))"

section \<open>The RAN name\<close>

definition translate_name ::
    "char list \<Rightarrow> byte list \<Rightarrow> string \<Rightarrow> BIT_STRING \<Rightarrow> int \<Rightarrow> int \<Rightarrow> char list option" where
  "translate_name ranName plmn type d cuid duid =
     (case translatePlmnId ranName plmn type of
        None \<Rightarrow> None
      | Some r \<Rightarrow> translateBitStringToChar r d cuid duid)"

text \<open>A conversion that fails leaves its target at \<open>-1\<close>.\<close>

definition optional_id :: "byte list option \<Rightarrow> int" where
  "optional_id x =
     (case x of None \<Rightarrow> -1 | Some bs \<Rightarrow> (case asn_INTEGER2long bs of None \<Rightarrow> -1 | Some v \<Rightarrow> v))"

definition gnb_type :: "GlobalE2node_gNB_ID \<Rightarrow> string" where
  "gnb_type g =
     (if gNB_CU_UP_ID g \<noteq> None \<and> gNB_DU_ID g \<noteq> None then ''gnb_''
      else if gNB_DU_ID g = None \<and> gNB_CU_UP_ID g = None then ''gnb_''
      else if gNB_CU_UP_ID g \<noteq> None then ''gnbc_''
      else ''gnbd_'')"

text \<open>
  \<^verbatim>\<open>buildRanName\<close> returns the result code with the array: \<open>-1\<close> when no node ID is
  present, and \<open>0\<close> otherwise. The choices without an identifier leave the array as it is.
\<close>

definition buildRanName :: "char list \<Rightarrow> GlobalE2node_ID \<Rightarrow> (int \<times> char list) option" where
  "buildRanName ranName ie =
     (case ie of
        GlobalE2node_gNB g \<Rightarrow>
          map_option (Pair 0)
            (case gnb_id g of
               gnb_ID d \<Rightarrow>
                 translate_name ranName (plmn_id g) (gnb_type g) d
                   (optional_id (gNB_CU_UP_ID g)) (optional_id (gNB_DU_ID g))
             | gnb_ID_other \<Rightarrow> translatePlmnId ranName (plmn_id g) ''gnb_'')
      | GlobalE2node_en_gNB plmn i \<Rightarrow>
          map_option (Pair 0)
            (case i of
               en_gNB_ID d \<Rightarrow> translate_name ranName plmn ''en_gnb_'' d (-1) (-1)
             | en_gNB_ID_other \<Rightarrow> translatePlmnId ranName plmn ''en_gnb_'')
      | GlobalE2node_ng_eNB plmn i \<Rightarrow>
          map_option (Pair 0)
            (case i of
               enb_ID_macro d \<Rightarrow> translate_name ranName plmn ''ng_enB_macro_'' d (-1) (-1)
             | enb_ID_shortmacro d \<Rightarrow> translate_name ranName plmn ''ng_enB_shortmacro_'' d (-1) (-1)
             | enb_ID_longmacro d \<Rightarrow> translate_name ranName plmn ''ng_enB_longmacro_'' d (-1) (-1)
             | enb_ID_NOTHING \<Rightarrow> Some ranName)
      | GlobalE2node_eNB plmn i \<Rightarrow>
          map_option (Pair 0)
            (case i of
               macro_eNB_ID d \<Rightarrow> translate_name ranName plmn ''enB_macro_'' d (-1) (-1)
             | home_eNB_ID d \<Rightarrow> translate_name ranName plmn ''enB_home_'' d (-1) (-1)
             | short_Macro_eNB_ID d \<Rightarrow> translate_name ranName plmn ''enB_shortmacro_'' d (-1) (-1)
             | long_Macro_eNB_ID d \<Rightarrow> translate_name ranName plmn ''enB_longmacro_'' d (-1) (-1)
             | eNB_ID_NOTHING \<Rightarrow> Some ranName)
      | GlobalE2node_NOTHING \<Rightarrow> Some (-1, ranName))"

section \<open>Octets as numbers\<close>

lemma nat_and_15: "(n::nat) AND 15 = n mod 16"
proof -
  have "(15::nat) = mask 4" by (simp add: mask_eq_exp_minus_1)
  then show ?thesis by (simp only: take_bit_eq_mask [symmetric] take_bit_eq_mod) simp
qed

lemma nat_and_240: "((n::nat) AND 240) div 16 = n div 16 mod 16"
proof -
  have "drop_bit 4 (n AND 240) = drop_bit 4 n AND 15" by simp
  then show ?thesis by (simp add: nat_and_15 drop_bit_eq_div)
qed

lemma nibble_low: "unat ((w::32 word) AND 0x0F) = unat w mod 16"
  "unat ((v::byte) AND 0x0F) = unat v mod 16"
  by (simp_all only: unsigned_and_eq unsigned_numeral) (simp_all add: nat_and_15)

lemma take_bit_unat: "take_bit LENGTH('a) (unat (w::'a::len word)) = unat w"
  by (rule take_bit_nat_eq_self) (rule unsigned_less)

lemmas take_bit_octet = take_bit_unat [where 'a = 8, simplified] take_bit_unat [where 'a = 32, simplified]

lemma nibble_high: "unat (drop_bit 4 ((w::32 word) AND 0xF0)) = unat w div 16 mod 16"
  "unat (drop_bit 4 ((v::byte) AND 0xF0)) = unat v div 16 mod 16"
  by (simp_all only: unsigned_and_eq unsigned_drop_bit_eq unsigned_numeral)
    (simp_all add: drop_bit_eq_div nat_and_240 take_bit_octet)

lemma hex_digits_eq:
  "hex_digits t = [digit_char (unat t div 16 mod 16), digit_char (unat t mod 16)]"
  unfolding hex_digits_def fmt_x_def nibble_low nibble_high
  by (simp add: nat_base_small)

lemma nibble_d_eq: "nibble_d w = nat_base 10 (unat w)"
  by (simp add: nibble_d_def fmt_d_def not_less)

lemma octet_less: "unat (w::byte) < 256"
  by (rule order_less_le_trans [OF unsigned_less]) simp

text \<open>
  The digits of octet \<open>i\<close> of the shifted string, as a number: the bits of the octet before
  that are shifted in lie above those of the octet itself.
\<close>

lemma nat_or_disjoint: "b < 2 ^ k \<Longrightarrow> (a * 2 ^ k) OR b = a * 2 ^ k + (b::nat)"
proof -
  assume b: "b < 2 ^ k"
  have "a * 2 ^ k + take_bit k b = a * 2 ^ k OR take_bit k b"
    by (rule disjunctive_add_eq_or)
      (auto simp: bit_eq_iff bit_simps simp flip: push_bit_eq_mult)
  then show ?thesis using b by (simp add: take_bit_nat_eq_self)
qed

lemma tmp_digit_unat:
  assumes u: "bits_unused d \<le> 7"
  shows "unat (tmp_digit d i) =
    (if i = 0 then 0 else unat (buf d ! (i - 1))) * 2 ^ (8 - bits_unused d) +
      unat (buf d ! i) div 2 ^ bits_unused d"
proof -
  let ?k = "8 - bits_unused d"
  define p where "p = (if i = 0 then 0 else unat (buf d ! (i - 1)))"
  define c where "c = unat (buf d ! i)"
  have pc: "p < 256" "c < 256" by (simp_all add: p_def c_def octet_less)
  have "(2::nat) ^ ?k \<le> 2 ^ 8" by (rule power_increasing) auto
  then have "p * 2 ^ ?k \<le> 255 * 2 ^ 8" using pc(1) by (intro mult_mono) auto
  then have small: "p * 2 ^ ?k < 2 ^ 32" "c < 2 ^ 32" using pc by auto
  have hi: "unat (push_bit ?k (if i = 0 then 0 else ucast (buf d ! (i - 1))) :: 32 word) = p * 2 ^ ?k"
  proof (cases "i = 0")
    case False
    have "unat (ucast (buf d ! (i - 1)) :: 32 word) = p"
      using pc(1) False by (simp add: unsigned_ucast_eq take_bit_nat_eq_self p_def)
    then show ?thesis
      using small(1) False
      unfolding if_not_P [OF False] unsigned_push_bit_eq
      by (simp add: push_bit_eq_mult take_bit_nat_eq_self)
  qed (simp add: p_def)
  have "unat (ucast (buf d ! i) :: 32 word) = c"
    using pc(2) by (simp add: unsigned_ucast_eq take_bit_nat_eq_self c_def)
  then have lo: "unat (drop_bit (bits_unused d) (ucast (buf d ! i)) :: 32 word) = c div 2 ^ bits_unused d"
    using small(2) unfolding unsigned_drop_bit_eq
    by (simp add: take_bit_nat_eq_self drop_bit_eq_div)
  have "(256::nat) = 2 ^ ?k * 2 ^ bits_unused d" using u by (simp flip: power_add)
  then have "c div 2 ^ bits_unused d < 2 ^ ?k"
    using pc(2) by (auto intro: less_mult_imp_div_less)
  then show ?thesis
    unfolding tmp_digit_def unsigned_or_eq hi lo by (simp add: nat_or_disjoint p_def c_def)
qed

section \<open>The identifier as a number\<close>

text \<open>
  The reference for the loop: the bit string is a number, its unused low bits shifted out,
  printed with two hexadecimal digits for each octet.
\<close>

definition be_val :: "byte list \<Rightarrow> nat" where
  "be_val bs = foldl (\<lambda>v b. v * 256 + unat b) 0 bs"

fun hex_fixed :: "nat \<Rightarrow> nat \<Rightarrow> string" where
  "hex_fixed 0 n = []"
| "hex_fixed (Suc k) n =
     hex_fixed k (n div 256) @ [digit_char (n div 16 mod 16), digit_char (n mod 16)]"

definition id_number :: "BIT_STRING \<Rightarrow> nat" where
  "id_number d = be_val (buf d) div 2 ^ bits_unused d"

definition id_text :: "BIT_STRING \<Rightarrow> string" where
  "id_text d = concat (map (\<lambda>i. hex_digits (tmp_digit d i)) [0..<length (buf d)])"

lemma be_val_snoc: "be_val (bs @ [b]) = be_val bs * 256 + unat b"
  by (simp add: be_val_def)

lemma be_val_bound: "be_val bs < 256 ^ length bs"
proof (induction bs rule: rev_induct)
  case (snoc b bs)
  have "be_val bs * 256 + unat b < (be_val bs + 1) * 256" using octet_less [of b] by simp
  also have "\<dots> \<le> 256 ^ length bs * 256" using snoc by (intro mult_right_mono) auto
  finally show ?case by (simp add: be_val_snoc)
qed (simp add: be_val_def)

lemma length_hex_fixed: "length (hex_fixed k n) = 2 * k"
  by (induction k arbitrary: n) auto

lemma div_digit_mod: "(n::nat) div 16 mod 16 = (n mod 256) div 16"
proof -
  have "n mod (16 * 16) = 16 * (n div 16 mod 16) + n mod 16" by (rule mod_mult2_eq)
  then show ?thesis by simp
qed

lemma octet_digits: "(n::nat) mod 256 = 16 * (n div 16 mod 16) + n mod 16"
  using mod_mult2_eq [of n 16 16] by simp

lemma hex_digits_mod: "hex_digits t = [digit_char ((unat t mod 256) div 16), digit_char (unat t mod 256 mod 16)]"
  unfolding hex_digits_eq div_digit_mod by (simp add: mod_mod_cancel)

lemma hex_fixed_inject:
  "m < 256 ^ k \<Longrightarrow> n < 256 ^ k \<Longrightarrow> hex_fixed k m = hex_fixed k n \<Longrightarrow> m = n"
proof (induction k arbitrary: m n)
  case (Suc k)
  have "m div 256 = n div 256"
    using Suc by (intro Suc.IH) (auto intro: less_mult_imp_div_less simp: mult.commute)
  moreover have "m div 16 mod 16 = n div 16 mod 16" "m mod 16 = n mod 16"
    using Suc.prems(3) by (auto intro!: digit_char_inject)
  ultimately show ?case by (metis div_mult_mod_eq octet_digits)
qed simp

text \<open>The last octet of the shifted number, and the number without it.\<close>

lemma shifted_snoc:
  fixes v c :: nat
  assumes "u \<le> 7"
  shows "(v * 256 + c) div 2 ^ u = v * 2 ^ (8 - u) + c div 2 ^ u"
proof -
  have p: "v * 256 + c = c + (v * 2 ^ (8 - u)) * 2 ^ u"
    using assms by (simp add: mult.assoc flip: power_add)
  show ?thesis unfolding p by simp
qed

lemma id_text_hex:
  assumes "bits_unused d \<le> 7"
  shows "id_text d = hex_fixed (length (buf d)) (id_number d)"
proof -
  define u where "u = bits_unused d"
  define mk where "mk bs = \<lparr>buf = bs, bits_unused = u\<rparr>" for bs
  have u: "u \<le> 7" using assms by (simp add: u_def)
  have sel [simp]: "buf (mk bs) = bs" "bits_unused (mk bs) = u" for bs by (simp_all add: mk_def)
  have "id_text (mk bs) = hex_fixed (length bs) (id_number (mk bs))" for bs
  proof (induction bs rule: rev_induct)
    case (snoc b bs)
    have front: "tmp_digit (mk (bs @ [b])) i = tmp_digit (mk bs) i" if "i < length bs" for i
    proof -
      have "i - 1 < length bs" using that by simp
      with that show ?thesis by (simp only: tmp_digit_def sel nth_append if_True)
    qed
    have num: "id_number (mk (bs @ [b])) = be_val bs * 2 ^ (8 - u) + unat b div 2 ^ u"
      using u by (simp add: id_number_def be_val_snoc shifted_snoc)
    have rest: "id_number (mk (bs @ [b])) div 256 = id_number (mk bs)"
    proof -
      have "(be_val bs * 256 + unat b) div 256 = be_val bs" using octet_less [of b] by simp
      then show ?thesis
        by (metis id_number_def be_val_snoc sel div_mult2_eq mult.commute)
    qed
    have prev: "(if length bs = 0 then 0 else unat ((bs @ [b]) ! (length bs - 1))) = be_val bs mod 256"
      by (cases bs rule: rev_cases) (auto simp: be_val_snoc octet_less nth_append be_val_def [of "[]"])
    have "unat (tmp_digit (mk (bs @ [b])) (length bs)) =
        be_val bs mod 256 * 2 ^ (8 - u) + unat b div 2 ^ u"
      by (simp only: sel tmp_digit_unat [of "mk (bs @ [b])", unfolded sel, OF u] prev nth_append_length)
    then have "unat (tmp_digit (mk (bs @ [b])) (length bs)) mod 256 =
        id_number (mk (bs @ [b])) mod 256"
      unfolding num by (metis mod_add_left_eq mod_mult_left_eq)
    then have "hex_digits (tmp_digit (mk (bs @ [b])) (length bs)) =
        [digit_char (id_number (mk (bs @ [b])) div 16 mod 16),
         digit_char (id_number (mk (bs @ [b])) mod 16)]"
      unfolding hex_digits_mod div_digit_mod by (simp add: mod_mod_cancel)
    moreover have "id_text (mk (bs @ [b])) =
        id_text (mk bs) @ hex_digits (tmp_digit (mk (bs @ [b])) (length bs))"
    proof -
      have "concat (map (\<lambda>i. hex_digits (tmp_digit (mk (bs @ [b])) i)) [0..<length bs]) =
          concat (map (\<lambda>i. hex_digits (tmp_digit (mk bs) i)) [0..<length bs])"
        by (rule arg_cong [where f = concat], rule map_cong) (auto simp: front)
      then show ?thesis by (simp add: id_text_def)
    qed
    ultimately show ?case using snoc rest by simp
  qed (simp add: id_text_def)
  moreover have "mk (buf d) = d" by (cases d) (simp add: mk_def u_def)
  ultimately show ?thesis by metis
qed

section \<open>The name as a string\<close>

text \<open>
  The contract of \<^verbatim>\<open>buildRanName\<close>, without buffers: the type and the PLMN, cut at the
  19 characters that \<^verbatim>\<open>snprintf(plmnId, 20, ...)\<close> leaves, then the identifier.
\<close>

definition plmn_part :: "string \<Rightarrow> byte list \<Rightarrow> string" where
  "plmn_part type p = take 19 (type @ plmn_text (p ! 0) (p ! 1) (p ! 2))"

definition name_text :: "string \<Rightarrow> byte list \<Rightarrow> BIT_STRING \<Rightarrow> int \<Rightarrow> int \<Rightarrow> string" where
  "name_text type p d cuid duid = plmn_part type p @ ''_'' @ id_text d @ id_suffix cuid duid"

fun ran_name_text :: "GlobalE2node_ID \<Rightarrow> string" where
  "ran_name_text (GlobalE2node_gNB g) =
     (case gnb_id g of
        gnb_ID d \<Rightarrow> name_text (gnb_type g) (plmn_id g) d
          (optional_id (gNB_CU_UP_ID g)) (optional_id (gNB_DU_ID g))
      | gnb_ID_other \<Rightarrow> plmn_part ''gnb_'' (plmn_id g))"
| "ran_name_text (GlobalE2node_en_gNB p (en_gNB_ID d)) = name_text ''en_gnb_'' p d (-1) (-1)"
| "ran_name_text (GlobalE2node_en_gNB p en_gNB_ID_other) = plmn_part ''en_gnb_'' p"
| "ran_name_text (GlobalE2node_ng_eNB p (enb_ID_macro d)) = name_text ''ng_enB_macro_'' p d (-1) (-1)"
| "ran_name_text (GlobalE2node_ng_eNB p (enb_ID_shortmacro d)) =
     name_text ''ng_enB_shortmacro_'' p d (-1) (-1)"
| "ran_name_text (GlobalE2node_ng_eNB p (enb_ID_longmacro d)) =
     name_text ''ng_enB_longmacro_'' p d (-1) (-1)"
| "ran_name_text (GlobalE2node_ng_eNB p enb_ID_NOTHING) = []"
| "ran_name_text (GlobalE2node_eNB p (macro_eNB_ID d)) = name_text ''enB_macro_'' p d (-1) (-1)"
| "ran_name_text (GlobalE2node_eNB p (home_eNB_ID d)) = name_text ''enB_home_'' p d (-1) (-1)"
| "ran_name_text (GlobalE2node_eNB p (short_Macro_eNB_ID d)) =
     name_text ''enB_shortmacro_'' p d (-1) (-1)"
| "ran_name_text (GlobalE2node_eNB p (long_Macro_eNB_ID d)) =
     name_text ''enB_longmacro_'' p d (-1) (-1)"
| "ran_name_text (GlobalE2node_eNB p eNB_ID_NOTHING) = []"
| "ran_name_text GlobalE2node_NOTHING = []"

text \<open>
  The bounds of the ASN.1 module (\<^verbatim>\<open>e2ap-v01.00.00.asn\<close>): a PLMN identity of three
  octets, bit strings of at most 32 bits, and CU-UP and DU identities below \<open>2\<^sup>3\<^sup>6\<close>.
\<close>

definition valid_bits :: "BIT_STRING \<Rightarrow> bool" where
  "valid_bits d \<longleftrightarrow> length (buf d) \<le> 4 \<and> bits_unused d \<le> 7"

definition valid_id :: "byte list option \<Rightarrow> bool" where
  "valid_id x \<longleftrightarrow> optional_id x < 2 ^ 36"

fun valid_node_id :: "GlobalE2node_ID \<Rightarrow> bool" where
  "valid_node_id (GlobalE2node_gNB g) \<longleftrightarrow>
     length (plmn_id g) = 3 \<and> valid_id (gNB_CU_UP_ID g) \<and> valid_id (gNB_DU_ID g) \<and>
     (case gnb_id g of gnb_ID d \<Rightarrow> valid_bits d | gnb_ID_other \<Rightarrow> True)"
| "valid_node_id (GlobalE2node_en_gNB p i) \<longleftrightarrow> length p = 3 \<and>
     (case i of en_gNB_ID d \<Rightarrow> valid_bits d | en_gNB_ID_other \<Rightarrow> True)"
| "valid_node_id (GlobalE2node_ng_eNB p i) \<longleftrightarrow> length p = 3 \<and>
     (case i of enb_ID_macro d \<Rightarrow> valid_bits d | enb_ID_shortmacro d \<Rightarrow> valid_bits d
      | enb_ID_longmacro d \<Rightarrow> valid_bits d | enb_ID_NOTHING \<Rightarrow> True)"
| "valid_node_id (GlobalE2node_eNB p i) \<longleftrightarrow> length p = 3 \<and>
     (case i of macro_eNB_ID d \<Rightarrow> valid_bits d | home_eNB_ID d \<Rightarrow> valid_bits d
      | short_Macro_eNB_ID d \<Rightarrow> valid_bits d | long_Macro_eNB_ID d \<Rightarrow> valid_bits d
      | eNB_ID_NOTHING \<Rightarrow> True)"
| "valid_node_id GlobalE2node_NOTHING \<longleftrightarrow> True"

subsection \<open>Appending to the array\<close>

definition padded :: "nat \<Rightarrow> string \<Rightarrow> char list" where
  "padded n s = s @ zero_buf (n - length s)"

lemma padded_Nil [simp]: "padded n [] = zero_buf n"
  by (simp add: padded_def)

lemma append_text_padded:
  "nul_free s \<Longrightarrow> nul_free t \<Longrightarrow> length (s @ t) < 64 \<Longrightarrow>
    append_text (padded 64 s) t = Some (padded 64 (s @ t))"
  by (simp add: append_text_def padded_def cstr_pad poke_pad)

lemma nul_free_hex_digits [simp]: "nul_free (hex_digits t)"
  by (simp add: hex_digits_eq digit_char_not_nul)

lemma length_hex_digits [simp]: "length (hex_digits t) = 2"
  by (simp add: hex_digits_eq)

lemma append_octets_padded:
  "nul_free s \<Longrightarrow> length s + 2 * length is < 64 \<Longrightarrow>
    append_octets d is (padded 64 s) =
      Some (padded 64 (s @ concat (map (\<lambda>i. hex_digits (tmp_digit d i)) is)))"
  by (induction "is" arbitrary: s) (simp_all add: append_text_padded)

lemma nul_free_plmn_text [simp]: "nul_free (plmn_text d0 d1 d2)"
  by (simp add: plmn_text_def nibble_d_eq Let_def)

lemma nul_free_id_text [simp]: "nul_free (id_text d)"
  by (auto simp: id_text_def nul_free_def) (metis nul_free_def nul_free_hex_digits)

lemma length_id_text: "length (id_text d) = 2 * length (buf d)"
  by (simp add: id_text_def length_concat o_def sum_list_triv)

lemma id_suffix_bounds:
  "nul_free (id_suffix c d)" "c < 2 ^ 36 \<Longrightarrow> d < 2 ^ 36 \<Longrightarrow> length (id_suffix c d) \<le> 10"
proof -
  show "nul_free (id_suffix c d)" by (simp add: id_suffix_def fmt_x_def)
  have "length (fmt_x (nat x)) \<le> 9" if "x < 2 ^ 36" for x
    unfolding fmt_x_def by (rule length_nat_base) (use that in auto)
  then show "c < 2 ^ 36 \<Longrightarrow> d < 2 ^ 36 \<Longrightarrow> length (id_suffix c d) \<le> 10"
    by (simp add: id_suffix_def)
qed

lemma translatePlmnId_padded:
  assumes "length p = 3" "nul_free type"
  shows "translatePlmnId (zero_buf 64) p type = Some (padded 64 (plmn_part type p))"
proof -
  from assms(1) obtain d0 d1 d2 where p: "p = [d0, d1, d2]"
    by (auto simp: numeral_3_eq_3 length_Suc_conv)
  let ?t = "plmn_part type p"
  have len: "length ?t \<le> 19" by (simp add: plmn_part_def)
  then obtain k where k: "64 - length ?t = Suc k" by (cases "64 - length ?t") auto
  have "poke (zero_buf 64) (?t @ [NUL]) = Some ((?t @ [NUL]) @ zero_buf (64 - length (?t @ [NUL])))"
    using len by (intro poke_zero) simp
  moreover have "zero_buf (64 - length ?t) = NUL # zero_buf (64 - length (?t @ [NUL]))"
    using k by (simp add: zero_buf_def)
  ultimately show ?thesis
    by (simp add: translatePlmnId_def p plmn_part_def snprintf_text_def padded_def)
qed

lemma nul_free_plmn_part [simp]: "nul_free type \<Longrightarrow> nul_free (plmn_part type p)"
  by (simp add: plmn_part_def)

lemma translate_name_padded:
  assumes "length p = 3" "nul_free type" "valid_bits d" "c < 2 ^ 36" "e < 2 ^ 36"
  shows "translate_name (zero_buf 64) p type d c e = Some (padded 64 (name_text type p d c e))"
    "nul_free (name_text type p d c e)" "length (name_text type p d c e) < 64"
proof -
  let ?t = "plmn_part type p"
  have len: "length ?t \<le> 19" by (simp add: plmn_part_def)
  have suf: "length (id_suffix c e) \<le> 10" "nul_free (id_suffix c e)"
    using id_suffix_bounds assms by auto
  have n: "length (buf d) \<le> 4" using assms by (simp add: valid_bits_def)
  have "append_octets d [0..<length (buf d)] (padded 64 (?t @ ''_'')) =
      Some (padded 64 ((?t @ ''_'') @ id_text d))"
    unfolding id_text_def using assms(2) len n by (intro append_octets_padded) auto
  moreover have "append_text (padded 64 ((?t @ ''_'') @ id_text d)) (id_suffix c e) =
      Some (padded 64 (((?t @ ''_'') @ id_text d) @ id_suffix c e))"
    using assms(2) len n suf by (intro append_text_padded) (auto simp: length_id_text)
  moreover have "append_text (padded 64 ?t) ''_'' = Some (padded 64 (?t @ ''_''))"
    using assms(2) len by (intro append_text_padded) auto
  ultimately show "translate_name (zero_buf 64) p type d c e = Some (padded 64 (name_text type p d c e))"
    using assms(1,2)
    by (simp add: translate_name_def translatePlmnId_padded translateBitStringToChar_def name_text_def)
  show "nul_free (name_text type p d c e)" "length (name_text type p d c e) < 64"
    using assms(2) len n suf by (auto simp: name_text_def length_id_text)
qed

lemma buildRanName_ok:
  assumes "valid_node_id ie" and "ie \<noteq> GlobalE2node_NOTHING"
  shows "buildRanName (zero_buf 64) ie = Some (0, padded 64 (ran_name_text ie)) \<and>
      nul_free (ran_name_text ie) \<and> length (ran_name_text ie) < 64"
proof -
  have short: "length (plmn_part t p) < 64" for t p by (simp add: plmn_part_def)
  show ?thesis
    using assms
    by (cases ie rule: ran_name_text.cases)
      (auto simp: buildRanName_def translate_name_padded translatePlmnId_padded valid_id_def
        gnb_type_def short split: GNB_ID_Choice.splits)
qed

text \<open>A name that is not empty begins with one of three letters.\<close>

lemma plmn_part_Cons: "plmn_part (c # t) p = c # take 18 (t @ plmn_text (p ! 0) (p ! 1) (p ! 2))"
  by (simp add: plmn_part_def)

lemma ran_name_initial:
  "ran_name_text ie \<noteq> [] \<Longrightarrow> hd (ran_name_text ie) \<in> {CHR ''g'', CHR ''e'', CHR ''n''}"
  by (cases ie rule: ran_name_text.cases)
    (auto simp: name_text_def plmn_part_Cons gnb_type_def split: GNB_ID_Choice.splits)

section \<open>Properties\<close>

text \<open>
  C23. Memory safety and functional correctness of the RAN name: on the zeroed 64-byte array
  of a connection, an identifier within the ASN.1 bounds is never written outside the array,
  and the array then holds the name of the string-level contract, NUL terminated.
\<close>

theorem buildRanName_refines:
  assumes "valid_node_id ie" and "ie \<noteq> GlobalE2node_NOTHING"
  shows "buildRanName (zero_buf 64) ie = Some (0, padded 64 (ran_name_text ie)) \<and>
    cstr (padded 64 (ran_name_text ie)) = Some (ran_name_text ie)"
  using buildRanName_ok [OF assms] by (simp add: padded_def cstr_pad)

theorem buildRanName_refines_witness:
  "buildRanName (zero_buf 64)
      (GlobalE2node_en_gNB [0x13, 0x00, 0x14] (en_gNB_ID \<lparr>buf = [0xb5, 0xc6, 0x77, 0x88], bits_unused = 3\<rparr>)) =
    Some (0, padded 64 (ran_name_text
      (GlobalE2node_en_gNB [0x13, 0x00, 0x14] (en_gNB_ID \<lparr>buf = [0xb5, 0xc6, 0x77, 0x88], bits_unused = 3\<rparr>))))"
  using buildRanName_refines [of "GlobalE2node_en_gNB [0x13, 0x00, 0x14]
      (en_gNB_ID \<lparr>buf = [0xb5, 0xc6, 0x77, 0x88], bits_unused = 3\<rparr>)"]
  by (simp add: valid_bits_def)

text \<open>
  C24. The identifier loop against its reference: the digits that the octet-by-octet shifting
  prints are those of the bit string read as one number without its unused low bits, two for
  each octet.
\<close>

theorem id_text_is_number:
  assumes "bits_unused d \<le> 7"
  shows "id_text d = hex_fixed (length (buf d)) (be_val (buf d) div 2 ^ bits_unused d)"
  using id_text_hex [OF assms] by (simp only: id_number_def)

theorem id_text_is_number_witness:
  "id_text \<lparr>buf = [0xb5, 0xc6], bits_unused = 4\<rparr> = 
    hex_fixed (Suc (Suc 0)) (be_val [0xb5, 0xc6] div 2 ^ 4)"
  using id_text_is_number [of "\<lparr>buf = [0xb5, 0xc6], bits_unused = 4\<rparr>"]
  by (simp del: hex_fixed.simps)

text \<open>Decimal PLMN digits, one character each.\<close>

definition decimal_plmn :: "byte list \<Rightarrow> bool" where
  "decimal_plmn p \<longleftrightarrow> length p = 3 \<and>
     (\<forall>b \<in> set p. unat b mod 16 < 10 \<and> unat b div 16 < 10)"

lemma nibble_text:
  "nibble_d (w AND 0x0F) = nat_base 10 (unat w mod 16)"
  "nibble_d (drop_bit 4 (w AND 0xF0)) = nat_base 10 (unat w div 16)"
proof -
  have "unat w div 16 < 16" using octet_less [of w] by (simp add: less_mult_imp_div_less)
  then show "nibble_d (w AND 0x0F) = nat_base 10 (unat w mod 16)"
    "nibble_d (drop_bit 4 (w AND 0xF0)) = nat_base 10 (unat w div 16)"
    unfolding nibble_d_eq nibble_low nibble_high by simp_all
qed

lemma plmn_text_decimal:
  assumes "decimal_plmn [d0, d1, d2]"
  shows "plmn_text d0 d1 d2 =
    [digit_char (unat d0 mod 16), digit_char (unat d0 div 16), digit_char (unat d1 mod 16), CHR ''_'',
     digit_char (unat d1 div 16), digit_char (unat d2 mod 16), digit_char (unat d2 div 16)]"
proof -
  have "drop_bit 4 (d1 AND 0xF0) \<noteq> 15"
  proof
    assume "drop_bit 4 (d1 AND 0xF0) = 15"
    then have "unat d1 div 16 mod 16 = 15" using nibble_high(2) [of d1] by simp
    then have "15 \<le> unat d1 div 16" by (metis mod_less_eq_dividend)
    with assms show False by (simp add: decimal_plmn_def)
  qed
  with assms show ?thesis
    unfolding plmn_text_def Let_def nibble_text
    by (simp add: nat_base_small decimal_plmn_def)
qed

lemma octet_eqI: "unat (a::byte) mod 16 = unat b mod 16 \<Longrightarrow> unat a div 16 = unat b div 16 \<Longrightarrow> a = b"
  by (metis div_mult_mod_eq word_unat_eq_iff)

text \<open>
  A PLMN identity whose filler, in the place of the first digit of a two-digit MNC, is replaced by
  the digit 0: that is how the name prints it.
\<close>

definition filled :: "byte list \<Rightarrow> byte list" where
  "filled p = p[1 := (if drop_bit 4 (p ! 1 AND 0xF0) = 15 then p ! 1 AND 0x0F else p ! 1)]"

lemma plmn_text_filled:
  "plmn_text (filled [d0, d1, d2] ! 0) (filled [d0, d1, d2] ! 1) (filled [d0, d1, d2] ! 2) = plmn_text d0 d1 d2"
proof -
  have low: "(d AND 0x0F) AND 0x0F = d AND 0x0F" "drop_bit 4 ((d AND 0x0F) AND 0xF0) = 0" for d :: byte
    by (rule word_unat_eq_iff [THEN iffD2], simp only: nibble_low nibble_high, simp)+
  have "digit_char 0 = CHR ''0''" by code_simp
  then have zero: "nibble_d 0 = ''0''" by (simp add: nibble_d_def fmt_d_def nat_base_small)
  show ?thesis by (simp add: filled_def plmn_text_def Let_def low zero)
qed

lemma plmn_part_filled:
  assumes "length p = 3"
  shows "plmn_part type (filled p) = plmn_part type p"
proof -
  obtain d0 d1 d2 where "p = [d0, d1, d2]" using assms by (auto simp: numeral_3_eq_3 length_Suc_conv)
  then show ?thesis using plmn_text_filled [of d0 d1 d2] by (simp add: plmn_part_def)
qed

lemma plmn_text_inject:
  assumes "decimal_plmn [a0, a1, a2]" "decimal_plmn [b0, b1, b2]" "plmn_text a0 a1 a2 = plmn_text b0 b1 b2"
  shows "a0 = b0" "a1 = b1" "a2 = b2"
proof -
  have same: "a = b" if "digit_char (unat a mod 16) = digit_char (unat b mod 16)"
    "digit_char (unat a div 16) = digit_char (unat b div 16)" for a b :: byte
  proof (rule octet_eqI)
    have "unat w div 16 < 36" for w :: byte using octet_less [of w] by simp
    from digit_char_inject [OF this this that(2)] show "unat a div 16 = unat b div 16" .
    have "n mod 16 < 36" for n :: nat by (rule order_less_trans [OF mod_less_divisor]) auto
    from digit_char_inject [OF this this that(1)] show "unat a mod 16 = unat b mod 16" .
  qed
  show "a0 = b0" "a1 = b1" "a2 = b2"
    using assms(3) unfolding plmn_text_decimal [OF assms(1)] plmn_text_decimal [OF assms(2)] list.inject
    by (auto intro: same)
qed

lemma id_text_inject:
  assumes "bits_unused d \<le> 7" "bits_unused e \<le> 7"
  shows "id_text d = id_text e \<longleftrightarrow> length (buf d) = length (buf e) \<and> id_number d = id_number e"
proof
  assume ids: "id_text d = id_text e"
  then have len: "length (buf d) = length (buf e)" using length_id_text [of d] length_id_text [of e] by simp
  have "id_number x < 256 ^ length (buf x)" for x
    unfolding id_number_def using be_val_bound [of "buf x"] by (meson div_le_dividend le_less_trans)
  then have "id_number d < 256 ^ length (buf d)" "id_number e < 256 ^ length (buf d)" using len by metis+
  moreover have "hex_fixed (length (buf d)) (id_number d) = hex_fixed (length (buf d)) (id_number e)"
    using ids id_text_hex [OF assms(1)] id_text_hex [OF assms(2)] len by simp
  ultimately show "length (buf d) = length (buf e) \<and> id_number d = id_number e" using len hex_fixed_inject by blast
qed (simp add: id_text_hex [OF assms(1)] id_text_hex [OF assms(2)])

text \<open>A gNB with neither a CU-UP nor a DU identity.\<close>

abbreviation plain_gnb :: "byte list \<Rightarrow> BIT_STRING \<Rightarrow> GlobalE2node_ID" where
  "plain_gnb p d \<equiv> GlobalE2node_gNB \<lparr>plmn_id = p, gnb_id = gnb_ID d, gNB_CU_UP_ID = None, gNB_DU_ID = None\<rparr>"

lemma padded_inject: "nul_free s \<Longrightarrow> nul_free t \<Longrightarrow> length s < 64 \<Longrightarrow> length t < 64 \<Longrightarrow> padded 64 s = padded 64 t \<longleftrightarrow> s = t"
  unfolding padded_def by (metis cstr_pad option.inject)

lemma name_text_inject:
  assumes "length p = 3" "length q = 3" "decimal_plmn (filled p)" "decimal_plmn (filled q)"
    and "bits_unused d \<le> 7" "bits_unused e \<le> 7"
  shows "name_text ''gnb_'' p d (-1) (-1) = name_text ''gnb_'' q e (-1) (-1) \<longleftrightarrow>
    filled p = filled q \<and> length (buf d) = length (buf e) \<and> id_number d = id_number e"
proof -
  obtain a0 a1 a2 where p: "filled p = [a0, a1, a2]"
    using assms(3) by (auto simp: decimal_plmn_def numeral_3_eq_3 length_Suc_conv)
  obtain b0 b1 b2 where q: "filled q = [b0, b1, b2]"
    using assms(4) by (auto simp: decimal_plmn_def numeral_3_eq_3 length_Suc_conv)
  note ta = plmn_text_decimal [OF assms(3) [unfolded p]] and tb = plmn_text_decimal [OF assms(4) [unfolded q]]
  have "name_text ''gnb_'' p d (-1) (-1) = name_text ''gnb_'' q e (-1) (-1) \<longleftrightarrow>
      plmn_part ''gnb_'' (filled p) @ ''_'' @ id_text d = plmn_part ''gnb_'' (filled q) @ ''_'' @ id_text e"
    by (simp add: name_text_def id_suffix_def plmn_part_filled assms(1,2))
  also have "\<dots> \<longleftrightarrow> plmn_text a0 a1 a2 = plmn_text b0 b1 b2 \<and> id_text d = id_text e"
    by (simp add: plmn_part_def p q ta tb)
  also have "\<dots> \<longleftrightarrow> filled p = filled q \<and> id_text d = id_text e"
    using plmn_text_inject [OF assms(3) [unfolded p] assms(4) [unfolded q]] by (auto simp: p q)
  finally show ?thesis by (simp add: id_text_inject [OF assms(5,6)])
qed

text \<open>
  C25. When two gNBs get one name: \<^verbatim>\<open>buildRanName\<close> gives two gNBs, without CU-UP and DU identities
  and with decimal PLMNs, the same array exactly if they have the same MCC and the same MNC, a
  two-digit MNC counting as the one with a 0 before it, and identifiers of the same number of
  octets and the same value. The number of bits in the last octet makes no difference.
\<close>

theorem gnb_name_injective:
  assumes "length p = 3" "length q = 3" "decimal_plmn (filled p)" "decimal_plmn (filled q)" "valid_bits d" "valid_bits e"
  shows "buildRanName (zero_buf 64) (plain_gnb p d) \<noteq> None \<and>
    (buildRanName (zero_buf 64) (plain_gnb p d) = buildRanName (zero_buf 64) (plain_gnb q e) \<longleftrightarrow>
      filled p = filled q \<and> length (buf d) = length (buf e) \<and> id_number d = id_number e)"
proof -
  have built: "buildRanName (zero_buf 64) (plain_gnb r b) = Some (0, padded 64 (name_text ''gnb_'' r b (-1) (-1)))"
    "nul_free (name_text ''gnb_'' r b (-1) (-1))" "length (name_text ''gnb_'' r b (-1) (-1)) < 64"
    if "length r = 3" "valid_bits b" for r b
    using buildRanName_ok [of "plain_gnb r b"] that by (simp_all add: valid_id_def optional_id_def gnb_type_def)
  have bits: "bits_unused d \<le> 7" "bits_unused e \<le> 7" using assms(5,6) by (simp_all add: valid_bits_def)
  show ?thesis
    using name_text_inject [OF assms(1-4) bits] built [OF assms(1,5)] built [OF assms(2,6)] by (simp add: padded_inject)
qed

theorem gnb_name_injective_witness:
  "buildRanName (zero_buf 64) (plain_gnb [0x13, 0x00, 0x14] \<lparr>buf = [0xb5, 0xc6], bits_unused = 0\<rparr>) \<noteq>
     buildRanName (zero_buf 64) (plain_gnb [0x13, 0x00, 0x15] \<lparr>buf = [0xb5, 0xc6], bits_unused = 0\<rparr>) \<and>
   buildRanName (zero_buf 64) (plain_gnb [0x13, 0xf0, 0x14] \<lparr>buf = [0xb5, 0xc6], bits_unused = 0\<rparr>) =
     buildRanName (zero_buf 64) (plain_gnb [0x13, 0x00, 0x14] \<lparr>buf = [0xb5, 0xc6], bits_unused = 0\<rparr>)"
proof -
  have "filled [0x13, 0x00, 0x14] = [0x13, 0x00, 0x14]" "filled [0x13, 0x00, 0x15] = [0x13, 0x00, 0x15]"
    "filled [0x13, 0xf0, 0x14] = [0x13, 0x00, 0x14]"
    by (simp_all add: filled_def)
  moreover have "decimal_plmn [0x13, 0x00, 0x14]" "decimal_plmn [0x13, 0x00, 0x15]" by (simp_all add: decimal_plmn_def)
  moreover have "valid_bits \<lparr>buf = [0xb5, 0xc6], bits_unused = 0\<rparr>" by (simp add: valid_bits_def)
  ultimately show ?thesis
    using gnb_name_injective [of "[0x13, 0x00, 0x14]" "[0x13, 0x00, 0x15]" "\<lparr>buf = [0xb5, 0xc6], bits_unused = 0\<rparr>" "\<lparr>buf = [0xb5, 0xc6], bits_unused = 0\<rparr>"]
      gnb_name_injective [of "[0x13, 0xf0, 0x14]" "[0x13, 0x00, 0x14]" "\<lparr>buf = [0xb5, 0xc6], bits_unused = 0\<rparr>" "\<lparr>buf = [0xb5, 0xc6], bits_unused = 0\<rparr>"]
    by simp
qed



end
