(* ===== verification/E2_ConnMap.thy ===== *)
theory E2_ConnMap
  imports E2_Prelude
begin

text \<open>
  The procedure state of every E2 node, \<^verbatim>\<open>connectionHandlingPerE2NodeMap\<close> of
  \<^verbatim>\<open>sctpThread.cpp\<close>: a \<^verbatim>\<open>std::map\<close> from the RAN name to the procedure that is going on
  and the transaction ID of the E2 setup. The map is the list of its entries in key order,
  which is the order in which the source's iterators visit them; the source searches it by
  such a loop, never by \<^verbatim>\<open>find\<close>.
\<close>

section \<open>Procedure states\<close>

datatype E2T_Procedure_States =
    E2_SETUP_PROCEDURE_NOT_INITIATED
  | E2_SETUP_PROCEDURE_ONGOING
  | E2_SETUP_PROCEDURE_COMPLETED
  | RIC_SERVICE_UPDATE_PROCEDURE_ONGOING
  | RIC_SERVICE_UPDATE_PROCEDURE_COMPLETED
  | RIC_SUBS_PROCEDURE_ONGOING
  | RIC_SUBS_PROCEDURE_COMPLETED
  | RIC_INDICATION_PROCEDURE_ONGOING
  | RIC_INDICATION_PROCEDURE_COMPLETED
  | RIC_SUBS_DEL_PROCEDURE_ONGOING
  | RIC_SUBS_DEL_PROCEDURE_COMPLETED
  | CONTROL_PROCEDURE_ONGOING
  | CONTROL_PROCEDURE_COMPLETED
  | E2_NODE_CONF_UPDATE_PROCEDURE_ONGOING
  | E2_NODE_CONF_UPDATE_PROCEDURE_COMPLETED
  | RESET_PROCEDURE_ONGOING
  | RESET_PROCEDURE_COMPLETED

text \<open>The enumeration's values, which order it.\<close>

primrec state_value :: "E2T_Procedure_States \<Rightarrow> nat" where
  "state_value E2_SETUP_PROCEDURE_NOT_INITIATED = 0"
| "state_value E2_SETUP_PROCEDURE_ONGOING = 1"
| "state_value E2_SETUP_PROCEDURE_COMPLETED = 2"
| "state_value RIC_SERVICE_UPDATE_PROCEDURE_ONGOING = 3"
| "state_value RIC_SERVICE_UPDATE_PROCEDURE_COMPLETED = 4"
| "state_value RIC_SUBS_PROCEDURE_ONGOING = 5"
| "state_value RIC_SUBS_PROCEDURE_COMPLETED = 6"
| "state_value RIC_INDICATION_PROCEDURE_ONGOING = 7"
| "state_value RIC_INDICATION_PROCEDURE_COMPLETED = 8"
| "state_value RIC_SUBS_DEL_PROCEDURE_ONGOING = 9"
| "state_value RIC_SUBS_DEL_PROCEDURE_COMPLETED = 10"
| "state_value CONTROL_PROCEDURE_ONGOING = 11"
| "state_value CONTROL_PROCEDURE_COMPLETED = 12"
| "state_value E2_NODE_CONF_UPDATE_PROCEDURE_ONGOING = 13"
| "state_value E2_NODE_CONF_UPDATE_PROCEDURE_COMPLETED = 14"
| "state_value RESET_PROCEDURE_ONGOING = 15"
| "state_value RESET_PROCEDURE_COMPLETED = 16"

lemma state_value_inject: "state_value a = state_value b \<Longrightarrow> a = b"
  by (cases a; cases b) simp_all

instantiation E2T_Procedure_States :: linorder
begin

definition less_eq_E2T_Procedure_States :: "E2T_Procedure_States \<Rightarrow> E2T_Procedure_States \<Rightarrow> bool" where
  "less_eq_E2T_Procedure_States a b \<longleftrightarrow> state_value a \<le> state_value b"

definition less_E2T_Procedure_States :: "E2T_Procedure_States \<Rightarrow> E2T_Procedure_States \<Rightarrow> bool" where
  "less_E2T_Procedure_States a b \<longleftrightarrow> state_value a < state_value b"

instance
  by standard (auto simp: less_eq_E2T_Procedure_States_def less_E2T_Procedure_States_def
      intro: state_value_inject)

end

record E2NodeConnectionHandling =
  e2tProcedureOngoingStatus :: E2T_Procedure_States
  e2SetupProcedureTransactionId :: int

type_synonym conn_map = "(string \<times> E2NodeConnectionHandling) list"

section \<open>The operations\<close>

text \<open>\<^verbatim>\<open>std::map::insert\<close>: at the place of the key in the order, nothing if it is there.\<close>

fun std_insert :: "'k::linorder \<Rightarrow> 'v \<Rightarrow> ('k \<times> 'v) list \<Rightarrow> ('k \<times> 'v) list" where
  "std_insert k v [] = [(k, v)]"
| "std_insert k v ((k', v') # m) =
     (if k < k' then (k, v) # (k', v') # m
      else if k = k' then (k', v') # m
      else (k', v') # std_insert k v m)"

text \<open>The loops over the iterators: find the entry of a name, write it, erase it.\<close>

fun find_entry :: "string \<Rightarrow> conn_map \<Rightarrow> E2NodeConnectionHandling option" where
  "find_entry n [] = None"
| "find_entry n ((k, h) # m) = (if k = n then Some h else find_entry n m)"

fun write_entry :: "string \<Rightarrow> E2T_Procedure_States \<Rightarrow> conn_map \<Rightarrow> conn_map" where
  "write_entry n st [] = []"
| "write_entry n st ((k, h) # m) =
     (if k = n then (k, h\<lparr>e2tProcedureOngoingStatus := st\<rparr>) # m
      else (k, h) # write_entry n st m)"

fun erase_entry :: "string \<Rightarrow> conn_map \<Rightarrow> conn_map" where
  "erase_entry n [] = []"
| "erase_entry n ((k, h) # m) = (if k = n then m else (k, h) # erase_entry n m)"

definition removeE2ConnectionEntryFromMap :: "conn_map \<Rightarrow> string \<Rightarrow> conn_map" where
  "removeE2ConnectionEntryFromMap m enbName = (if m = [] then m else erase_entry enbName m)"

text \<open>
  \<^verbatim>\<open>getE2tProcedureOngoingStatus\<close> returns \<^verbatim>\<open>true\<close> and fills its out parameter
  (\<open>Some\<close>), or \<^verbatim>\<open>false\<close> (\<open>None\<close>).
\<close>

definition getE2tProcedureOngoingStatus ::
    "conn_map \<Rightarrow> string \<Rightarrow> E2NodeConnectionHandling option" where
  "getE2tProcedureOngoingStatus m enbName =
     (if enbName = [] then None else if m = [] then None else find_entry enbName m)"

definition setE2ProcedureOngoingStatus :: "conn_map \<Rightarrow> string \<Rightarrow> E2T_Procedure_States \<Rightarrow> conn_map" where
  "setE2ProcedureOngoingStatus m enbName st = (if m = [] then m else write_entry enbName st m)"

definition insertE2SetupProcedureOngoing :: "conn_map \<Rightarrow> string \<Rightarrow> int \<Rightarrow> conn_map" where
  "insertE2SetupProcedureOngoing m enbName transactionID =
     (let h = \<lparr>e2tProcedureOngoingStatus = E2_SETUP_PROCEDURE_ONGOING,
               e2SetupProcedureTransactionId = transactionID\<rparr> in
      if m = [] then std_insert enbName h m
      else if find_entry enbName m = None then std_insert enbName h m
      else setE2ProcedureOngoingStatus m enbName E2_SETUP_PROCEDURE_ONGOING)"

definition currentE2tProcedureOngoingStatus :: "conn_map \<Rightarrow> string \<Rightarrow> E2T_Procedure_States" where
  "currentE2tProcedureOngoingStatus m enbName =
     (if m = [] then E2_SETUP_PROCEDURE_NOT_INITIATED
      else case find_entry enbName m of
        Some h \<Rightarrow> e2tProcedureOngoingStatus h
      | None \<Rightarrow> E2_SETUP_PROCEDURE_NOT_INITIATED)"

section \<open>Where an error indication goes\<close>

text \<open>
  \<^verbatim>\<open>getSendMsgBitSetValue\<close>: the IEs found (transaction ID of the setup, RIC request ID,
  cause) and the procedure code of the criticality diagnostics, 0 when there is none, decide
  the bits "send to the E2 manager" and "send to the subscription manager".
\<close>

record required_ies =
  transactionIdIe :: bool
  ricRequestIdIe :: bool
  causeIe :: bool

record send_to =
  sendMsgToE2M :: bool
  sendMsgToSubMgr :: bool

abbreviation "ProcedureCode_id_E2setup \<equiv> (1::int)"
abbreviation "ProcedureCode_id_ErrorIndication \<equiv> (2::int)"
abbreviation "ProcedureCode_id_Reset \<equiv> (3::int)"
abbreviation "ProcedureCode_id_RICcontrol \<equiv> (4::int)"
abbreviation "ProcedureCode_id_RICindication \<equiv> (5::int)"
abbreviation "ProcedureCode_id_RICserviceQuery \<equiv> (6::int)"
abbreviation "ProcedureCode_id_RICserviceUpdate \<equiv> (7::int)"
abbreviation "ProcedureCode_id_RICsubscription \<equiv> (8::int)"
abbreviation "ProcedureCode_id_RICsubscriptionDelete \<equiv> (9::int)"
abbreviation "ProcedureCode_id_E2nodeConfigurationUpdate \<equiv> (10::int)"
abbreviation "ProcedureCode_id_E2connectionUpdate \<equiv> (11::int)"
abbreviation "ProcedureCode_id_RICsubscriptionDeleteRequired \<equiv> (12::int)"

definition getSendMsgBitSetValue :: "conn_map \<Rightarrow> int \<Rightarrow> required_ies \<Rightarrow> string \<Rightarrow> send_to" where
  "getSendMsgBitSetValue m procedureCode ies enbName =
     (let none = \<lparr>sendMsgToE2M = False, sendMsgToSubMgr = False\<rparr> in
      if procedureCode = 0 then
        (let cur = currentE2tProcedureOngoingStatus m enbName in
         if (cur = E2_SETUP_PROCEDURE_COMPLETED \<or> cur = RIC_SERVICE_UPDATE_PROCEDURE_ONGOING) \<and>
            transactionIdIe ies then none\<lparr>sendMsgToE2M := True\<rparr>
         else if cur = RIC_SUBS_PROCEDURE_ONGOING \<and> ricRequestIdIe ies \<and> causeIe ies
         then none\<lparr>sendMsgToSubMgr := True\<rparr>
         else none)
      else if procedureCode = ProcedureCode_id_E2setup \<or>
              procedureCode = ProcedureCode_id_RICserviceUpdate then
        (if transactionIdIe ies then none\<lparr>sendMsgToE2M := True\<rparr> else none)
      else if procedureCode = ProcedureCode_id_RICsubscription then
        (if ricRequestIdIe ies \<and> causeIe ies then none\<lparr>sendMsgToSubMgr := True\<rparr> else none)
      else none)"

section \<open>The interface of a keyed store\<close>

text \<open>
  What the message handlers rely on in both of the program's maps: a \<open>put\<close> decides the
  entry of its key from the old one, a \<open>del\<close> removes it, and neither touches another key.
\<close>

datatype ('a, 'k) store_op = Put 'a 'k | Del 'k

fun op_key :: "('a, 'k) store_op \<Rightarrow> 'k" where
  "op_key (Put a k) = k"
| "op_key (Del k) = k"

locale keyed_store =
  fixes lookup :: "'m \<Rightarrow> 'k \<Rightarrow> 'v option"
    and put :: "'a \<Rightarrow> 'k \<Rightarrow> 'm \<Rightarrow> 'm"
    and put_val :: "'a \<Rightarrow> 'v option \<Rightarrow> 'v"
    and del :: "'k \<Rightarrow> 'm \<Rightarrow> 'm"
    and invar :: "'m \<Rightarrow> bool"
  assumes invar_put: "invar m \<Longrightarrow> invar (put a k m)"
    and invar_del: "invar m \<Longrightarrow> invar (del k m)"
    and lookup_put: "invar m \<Longrightarrow>
      lookup (put a k m) k' = (if k' = k then Some (put_val a (lookup m k)) else lookup m k')"
    and lookup_del: "invar m \<Longrightarrow> lookup (del k m) k' = (if k' = k then None else lookup m k')"
begin

fun run_op :: "('a, 'k) store_op \<Rightarrow> 'm \<Rightarrow> 'm" where
  "run_op (Put a k) m = put a k m"
| "run_op (Del k) m = del k m"

lemma run_op_invar: "invar m \<Longrightarrow> invar (run_op c m)"
  by (cases c) (simp_all add: invar_put invar_del)

lemma run_invar: "invar m \<Longrightarrow> invar (fold run_op cs m)"
  by (induction cs arbitrary: m) (simp_all add: run_op_invar)

lemma run_op_other: "invar m \<Longrightarrow> op_key c \<noteq> k \<Longrightarrow> lookup (run_op c m) k = lookup m k"
  by (cases c) (auto simp: lookup_put lookup_del)

lemma run_other: "invar m \<Longrightarrow> (\<And>c. c \<in> set cs \<Longrightarrow> op_key c \<noteq> k) \<Longrightarrow>
    lookup (fold run_op cs m) k = lookup m k"
proof (induction cs arbitrary: m)
  case (Cons c cs)
  have "lookup (fold run_op cs (run_op c m)) k = lookup (run_op c m) k"
    using Cons.prems by (intro Cons.IH) (auto simp: run_op_invar)
  then show ?case using Cons.prems run_op_other [of m c k] by simp
qed simp

lemma lookup_del_put: "invar m \<Longrightarrow> lookup (del k (put a k m)) k' = (if k' = k then None else lookup m k')"
  by (simp add: lookup_del lookup_put invar_put)

lemma put_after_del: "invar m \<Longrightarrow> lookup (put a k (del k m)) k = Some (put_val a None)"
  by (simp add: lookup_put lookup_del invar_del)

end

section \<open>The map as a keyed store\<close>

definition conn_invar :: "conn_map \<Rightarrow> bool" where
  "conn_invar m \<longleftrightarrow> sorted_wrt (<) (map fst m)"

lemma find_entry_map_of: "find_entry n m = map_of m n"
  by (induction n m rule: find_entry.induct) auto

lemma std_insert_keys: "set (map fst (std_insert k v m)) = insert k (set (map fst m))"
  by (induction k v m rule: std_insert.induct) auto

lemma std_insert_sorted: "sorted_wrt (<) (map fst m) \<Longrightarrow> sorted_wrt (<) (map fst (std_insert k v m))"
proof (induction k v m rule: std_insert.induct)
  case (2 k v k' v' m)
  then show ?case using std_insert_keys [of k v m] by auto
qed simp

lemma map_of_std_insert:
  "map_of m k = None \<Longrightarrow> map_of (std_insert k v m) = (map_of m)(k \<mapsto> v)"
  by (induction k v m rule: std_insert.induct) (auto simp: fun_eq_iff)

lemma write_entry_keys [simp]: "map fst (write_entry n st m) = map fst m"
  by (induction n st m rule: write_entry.induct) auto

lemma map_of_write_entry:
  "map_of (write_entry n st m) k =
    (if k = n then map_option (\<lambda>h. h\<lparr>e2tProcedureOngoingStatus := st\<rparr>) (map_of m n) else map_of m k)"
  by (induction n st m rule: write_entry.induct) auto

lemma erase_entry_subset: "set (erase_entry n m) \<subseteq> set m"
  by (induction n m rule: erase_entry.induct) auto

lemma erase_entry_sorted: "sorted_wrt (<) (map fst m) \<Longrightarrow> sorted_wrt (<) (map fst (erase_entry n m))"
proof (induction n m rule: erase_entry.induct)
  case (2 n k h m)
  then show ?case using erase_entry_subset [of n m] by auto
qed simp

lemma map_of_erase_entry:
  "sorted_wrt (<) (map fst m) \<Longrightarrow> map_of (erase_entry n m) k = (if k = n then None else map_of m k)"
proof (induction n m rule: erase_entry.induct)
  case (2 n k' h m)
  have "map_of m n = None" if "k' = n"
    using 2(2) that by (force simp: map_of_eq_None_iff)
  with 2 show ?case by auto
qed simp

text \<open>What a setup request leaves under its name, from what was there.\<close>

definition setup_value :: "int \<Rightarrow> E2NodeConnectionHandling option \<Rightarrow> E2NodeConnectionHandling" where
  "setup_value t old =
     (case old of
        None \<Rightarrow> \<lparr>e2tProcedureOngoingStatus = E2_SETUP_PROCEDURE_ONGOING, e2SetupProcedureTransactionId = t\<rparr>
      | Some h \<Rightarrow> h\<lparr>e2tProcedureOngoingStatus := E2_SETUP_PROCEDURE_ONGOING\<rparr>)"

lemma map_of_insertE2Setup:
  "map_of (insertE2SetupProcedureOngoing m n t) k =
    (if k = n then Some (setup_value t (map_of m n)) else map_of m k)"
  by (auto simp: insertE2SetupProcedureOngoing_def Let_def map_of_std_insert find_entry_map_of
      setE2ProcedureOngoingStatus_def map_of_write_entry setup_value_def split: option.splits)

lemma insertE2Setup_invar: "conn_invar m \<Longrightarrow> conn_invar (insertE2SetupProcedureOngoing m n t)"
  by (simp add: conn_invar_def insertE2SetupProcedureOngoing_def Let_def std_insert_sorted
      setE2ProcedureOngoingStatus_def)

lemma set_status_invar: "conn_invar m \<Longrightarrow> conn_invar (setE2ProcedureOngoingStatus m n st)"
  by (simp add: conn_invar_def setE2ProcedureOngoingStatus_def)

lemma map_of_remove_other: "k \<noteq> n \<Longrightarrow> map_of (removeE2ConnectionEntryFromMap m n) k = map_of m k"
proof -
  have "k \<noteq> n \<Longrightarrow> map_of (erase_entry n m) k = map_of m k"
    by (induction n m rule: erase_entry.induct) auto
  then show "k \<noteq> n \<Longrightarrow> ?thesis" by (simp add: removeE2ConnectionEntryFromMap_def)
qed

lemma remove_invar: "conn_invar m \<Longrightarrow> conn_invar (removeE2ConnectionEntryFromMap m n)"
  by (simp add: conn_invar_def removeE2ConnectionEntryFromMap_def erase_entry_sorted)

lemma map_of_remove: "conn_invar m \<Longrightarrow>
    map_of (removeE2ConnectionEntryFromMap m n) k = (if k = n then None else map_of m k)"
  by (auto simp: removeE2ConnectionEntryFromMap_def conn_invar_def map_of_erase_entry)

interpretation conn: keyed_store
  "\<lambda>m k. map_of m k"
  "\<lambda>t n m. insertE2SetupProcedureOngoing m n t"
  setup_value
  "\<lambda>n m. removeE2ConnectionEntryFromMap m n"
  conn_invar
  by unfold_locales
    (simp_all add: insertE2Setup_invar remove_invar map_of_insertE2Setup map_of_remove)

section \<open>Properties\<close>

text \<open>
  C20. The procedure map refines a finite map: on every map with its keys in order, the five
  operations of the source compute lookup, conditional update, insertion and removal on the
  partial function that the list represents, and keep the keys in order.
\<close>

theorem conn_map_refines:
  assumes "conn_invar m"
  shows "getE2tProcedureOngoingStatus m n = (if n = [] then None else map_of m n) \<and>
    currentE2tProcedureOngoingStatus m n =
      (case map_of m n of None \<Rightarrow> E2_SETUP_PROCEDURE_NOT_INITIATED | Some h \<Rightarrow> e2tProcedureOngoingStatus h) \<and>
    map_of (setE2ProcedureOngoingStatus m n st) =
      (map_of m)(n := map_option (\<lambda>h. h\<lparr>e2tProcedureOngoingStatus := st\<rparr>) (map_of m n)) \<and>
    map_of (insertE2SetupProcedureOngoing m n t) = (map_of m)(n \<mapsto> setup_value t (map_of m n)) \<and>
    map_of (removeE2ConnectionEntryFromMap m n) = (map_of m)(n := None) \<and>
    conn_invar (setE2ProcedureOngoingStatus m n st) \<and>
    conn_invar (insertE2SetupProcedureOngoing m n t) \<and>
    conn_invar (removeE2ConnectionEntryFromMap m n)"
  using assms
  by (auto simp: getE2tProcedureOngoingStatus_def currentE2tProcedureOngoingStatus_def find_entry_map_of
      setE2ProcedureOngoingStatus_def map_of_write_entry fun_eq_iff map_of_insertE2Setup map_of_remove
      set_status_invar [unfolded setE2ProcedureOngoingStatus_def] insertE2Setup_invar remove_invar)

theorem conn_map_refines_witness:
  "map_of (removeE2ConnectionEntryFromMap (insertE2SetupProcedureOngoing [] ''gnb_1'' 5) ''gnb_1'') = Map.empty"
proof -
  have "conn_invar (insertE2SetupProcedureOngoing [] ''gnb_1'' 5)"
    using insertE2Setup_invar [of "[]"] by (simp add: conn_invar_def)
  from conn_map_refines [OF this, of "''gnb_1''"] show ?thesis
    by (simp add: map_of_insertE2Setup fun_eq_iff)
qed

text \<open>
  A repeated setup keeps the first transaction ID: when a node that is known sends a new
  E2 setup request, its state becomes "setup ongoing" but the transaction ID of the new
  request is not stored, so an error indication that names it is not recognised.
\<close>

theorem repeated_setup_keeps_transaction_id:
  assumes "map_of m n = Some h"
  shows "map_of (insertE2SetupProcedureOngoing m n t) n =
    Some (h\<lparr>e2tProcedureOngoingStatus := E2_SETUP_PROCEDURE_ONGOING\<rparr>)"
  using assms by (simp add: map_of_insertE2Setup setup_value_def)

theorem repeated_setup_keeps_transaction_id_witness:
  "map_of (insertE2SetupProcedureOngoing (insertE2SetupProcedureOngoing [] ''gnb_1'' 5) ''gnb_1'' 6) ''gnb_1'' =
    Some \<lparr>e2tProcedureOngoingStatus = E2_SETUP_PROCEDURE_ONGOING, e2SetupProcedureTransactionId = 5\<rparr>"
proof -
  have "map_of (insertE2SetupProcedureOngoing [] ''gnb_1'' 5) ''gnb_1'' =
      Some \<lparr>e2tProcedureOngoingStatus = E2_SETUP_PROCEDURE_ONGOING, e2SetupProcedureTransactionId = 5\<rparr>"
    by (simp add: map_of_insertE2Setup setup_value_def)
  from repeated_setup_keeps_transaction_id [OF this, of 6] show ?thesis by simp
qed

text \<open>
  C21. Routing of error indications: the decision never names both managers; it names the E2
  manager only if the transaction ID of the setup was present, and the subscription manager
  only if the RIC request ID and the cause were. A procedure code outside the four known ones
  goes nowhere.
\<close>

theorem error_indication_routing:
  "\<not> (sendMsgToE2M (getSendMsgBitSetValue m pc ies n) \<and>
      sendMsgToSubMgr (getSendMsgBitSetValue m pc ies n)) \<and>
    (sendMsgToE2M (getSendMsgBitSetValue m pc ies n) \<longleftrightarrow>
      transactionIdIe ies \<and>
      (pc = ProcedureCode_id_E2setup \<or> pc = ProcedureCode_id_RICserviceUpdate \<or>
       pc = 0 \<and> currentE2tProcedureOngoingStatus m n \<in>
         {E2_SETUP_PROCEDURE_COMPLETED, RIC_SERVICE_UPDATE_PROCEDURE_ONGOING})) \<and>
    (sendMsgToSubMgr (getSendMsgBitSetValue m pc ies n) \<longleftrightarrow>
      ricRequestIdIe ies \<and> causeIe ies \<and>
      (pc = ProcedureCode_id_RICsubscription \<or>
       pc = 0 \<and> currentE2tProcedureOngoingStatus m n = RIC_SUBS_PROCEDURE_ONGOING))"
  by (auto simp: getSendMsgBitSetValue_def Let_def)

end
