(* ===== verification/E2_MapWrapper.thy ===== *)
theory E2_MapWrapper
  imports E2_ConnMap
begin

text \<open>
  \<^verbatim>\<open>mapWrapper.h\<close>, the \<^verbatim>\<open>Sctp_Map_t\<close>: an \<^verbatim>\<open>unordered_map\<close> from keys (RAN names) to
  untyped pointers behind a lock. Pointers are heap addresses; the null pointer that
  \<^verbatim>\<open>find\<close> returns for an absent key is \<open>None\<close>. The list is the table's iteration order,
  which the standard leaves open: the theorems hold for every order of the entries, and a
  new key is put at the front. One listener thread runs (see \<open>E2_Listener\<close>), so the lock
  has no part in the model.
\<close>

type_synonym map_wrapper = "(string \<times> nat) list"

fun map_find :: "map_wrapper \<Rightarrow> string \<Rightarrow> nat option" where
  "map_find [] key = None"
| "map_find ((k, v) # m) key = (if k = key then Some v else map_find m key)"

fun map_replace :: "map_wrapper \<Rightarrow> string \<Rightarrow> nat \<Rightarrow> map_wrapper" where
  "map_replace [] key val = []"
| "map_replace ((k, v) # m) key val = (if k = key then (k, val) # m else (k, v) # map_replace m key val)"

definition map_setkey :: "map_wrapper \<Rightarrow> string \<Rightarrow> nat \<Rightarrow> map_wrapper" where
  "map_setkey m key val =
     (if map_find m key = None then (key, val) # m else map_replace m key val)"

fun map_erase :: "map_wrapper \<Rightarrow> string \<Rightarrow> map_wrapper" where
  "map_erase [] key = []"
| "map_erase ((k, v) # m) key = (if k = key then m else (k, v) # map_erase m key)"

definition map_clear :: "map_wrapper \<Rightarrow> map_wrapper" where
  "map_clear m = []"

definition map_getKeys :: "map_wrapper \<Rightarrow> string list" where
  "map_getKeys m = map fst m"

definition map_invar :: "map_wrapper \<Rightarrow> bool" where
  "map_invar m \<longleftrightarrow> distinct (map fst m)"

lemma map_find_map_of: "map_find m key = map_of m key"
  by (induction m key rule: map_find.induct) auto

lemma map_replace_keys [simp]: "map fst (map_replace m key val) = map fst m"
  by (induction m key val rule: map_replace.induct) auto

lemma map_of_replace:
  "map_of m key \<noteq> None \<Longrightarrow> map_of (map_replace m key val) k = (if k = key then Some val else map_of m k)"
  by (induction m key val rule: map_replace.induct) auto

lemma map_of_setkey: "map_of (map_setkey m key val) k = (if k = key then Some val else map_of m k)"
  by (auto simp: map_setkey_def map_find_map_of map_of_replace)

lemma map_setkey_invar: "map_invar m \<Longrightarrow> map_invar (map_setkey m key val)"
  by (auto simp: map_invar_def map_setkey_def map_find_map_of map_of_eq_None_iff)

lemma map_erase_subset: "set (map_erase m key) \<subseteq> set m"
  by (induction m key rule: map_erase.induct) auto

lemma map_erase_invar: "map_invar m \<Longrightarrow> map_invar (map_erase m key)"
  unfolding map_invar_def
proof (induction m key rule: map_erase.induct)
  case (2 k v m key)
  then show ?case using map_erase_subset [of m key] by auto
qed simp

lemma map_of_erase_other: "k \<noteq> key \<Longrightarrow> map_of (map_erase m key) k = map_of m k"
  by (induction m key rule: map_erase.induct) auto

lemma map_of_erase_None: "map_of m k = None \<Longrightarrow> map_of (map_erase m key) k = None"
  by (induction m key rule: map_erase.induct) (auto split: if_splits)

lemma map_of_erase:
  "map_invar m \<Longrightarrow> map_of (map_erase m key) k = (if k = key then None else map_of m k)"
  unfolding map_invar_def
proof (induction m key rule: map_erase.induct)
  case (2 k' v m key)
  have "map_of m key = None" if "k' = key"
    using 2(2) that by (force simp: map_of_eq_None_iff)
  with 2 show ?case by auto
qed simp

interpretation sctp_map: keyed_store
  map_find
  "\<lambda>val key m. map_setkey m key val"
  "\<lambda>val old. val"
  "\<lambda>key m. map_erase m key"
  map_invar
  by unfold_locales
    (simp_all add: map_setkey_invar map_erase_invar map_find_map_of map_of_setkey map_of_erase)

text \<open>
  C30. The connection table is a map: \<^verbatim>\<open>find\<close> after \<^verbatim>\<open>setkey\<close> returns the pointer just
  stored and the old one for every other key, after \<^verbatim>\<open>erase\<close> null for that key only, after
  \<^verbatim>\<open>clear\<close> null, and \<^verbatim>\<open>getKeys\<close> lists exactly the keys that \<^verbatim>\<open>find\<close> finds, each once.
\<close>

theorem map_wrapper_laws:
  assumes "map_invar m"
  shows "map_find (map_setkey m key val) k = (if k = key then Some val else map_find m k) \<and>
    map_find (map_erase m key) k = (if k = key then None else map_find m k) \<and>
    map_find (map_clear m) k = None \<and>
    distinct (map_getKeys m) \<and> set (map_getKeys m) = {k. map_find m k \<noteq> None} \<and>
    map_invar (map_setkey m key val) \<and> map_invar (map_erase m key) \<and> map_invar (map_clear m)"
proof -
  have "set (map_getKeys m) = {k. map_find m k \<noteq> None}"
    by (auto simp: map_getKeys_def map_find_map_of map_of_eq_None_iff)
  moreover have "distinct (map_getKeys m)" "map_invar (map_clear m)" "map_find (map_clear m) k = None"
    using assms by (simp_all add: map_getKeys_def map_invar_def map_clear_def)
  ultimately show ?thesis
    using assms by (simp add: sctp_map.lookup_put sctp_map.lookup_del sctp_map.invar_put sctp_map.invar_del)
qed

theorem map_wrapper_laws_witness:
  "map_find (map_erase (map_setkey [] ''gnb_1'' 4) ''gnb_1'') ''gnb_1'' = None"
proof -
  have "map_invar (map_setkey [] ''gnb_1'' 4)"
    by (rule sctp_map.invar_put) (simp add: map_invar_def)
  from map_wrapper_laws [OF this] show ?thesis by simp
qed

end
