(* ===== verification/E2_Counters.thy ===== *)
theory E2_Counters
  imports E2_ConnMap
begin

text \<open>
  The Prometheus counters. A counter is named by its labels: \<^verbatim>\<open>Family::Add\<close> returns the
  one counter of a label set, so equal labels are one counter. The arrays \<^verbatim>\<open>counters\<close> of a
  connection and \<^verbatim>\<open>e2tCounters\<close> of the instance hold pointers, null where the source never
  stores one; incrementing through a null pointer is a fault of the callers.
\<close>

datatype direction_t = IN_INITI | IN_SUCC | IN_UN_SUCC | OUT_INITI | OUT_SUCC | OUT_UN_SUCC
datatype counter_kind = MSG_COUNTER | BYTES_COUNTER
datatype E2T_Internal_Counters = SCTP_ABORT_INITIATED_BY_E2NODE | INVALID_MESSAGE_RECEIVED

type_synonym counter_key = "direction_t \<times> counter_kind \<times> int"
type_synonym labels = "(string \<times> string) list"
type_synonym counter_array = "(counter_key \<times> labels) list"

text \<open>The pointer in a cell of an array, \<open>None\<close> for null.\<close>

definition counter_at :: "counter_array \<Rightarrow> direction_t \<Rightarrow> counter_kind \<Rightarrow> int \<Rightarrow> labels option" where
  "counter_at cs d k p = map_of cs (d, k, p)"

text \<open>
  \<^verbatim>\<open>buildE2TPrometheusCounters\<close>: the assignments to \<^verbatim>\<open>sctpParams.e2tCounters\<close>, in order.
\<close>

definition buildE2TPrometheusCounters :: counter_array where
  "buildE2TPrometheusCounters =
   [
    ((IN_INITI, MSG_COUNTER, ProcedureCode_id_E2setup), [(''counter'', ''SetupRequestMsgs'')]),
    ((IN_INITI, BYTES_COUNTER, ProcedureCode_id_E2setup), [(''counter'', ''SetupRequestBytes'')]),
    ((OUT_SUCC, MSG_COUNTER, ProcedureCode_id_E2setup), [(''counter'', ''SetupResponseMsgs'')]),
    ((OUT_SUCC, BYTES_COUNTER, ProcedureCode_id_E2setup), [(''counter'', ''SetupResponseBytes'')]),
    ((OUT_UN_SUCC, MSG_COUNTER, ProcedureCode_id_E2setup), [(''counter'', ''SetupRequestFailureMsgs'')]),
    ((OUT_UN_SUCC, BYTES_COUNTER, ProcedureCode_id_E2setup), [(''counter'', ''SetupRequestFailureBytes'')]),
    ((IN_INITI, MSG_COUNTER, ProcedureCode_id_E2nodeConfigurationUpdate), [(''counter'', ''E2NodeConfigUpdateMsgs'')]),
    ((IN_INITI, BYTES_COUNTER, ProcedureCode_id_E2nodeConfigurationUpdate), [(''counter'', ''E2NodeConfigUpdateBytes'')]),
    ((OUT_SUCC, MSG_COUNTER, ProcedureCode_id_E2nodeConfigurationUpdate), [(''counter'', ''E2NodeConfigUpdateResponseMsgs'')]),
    ((OUT_SUCC, BYTES_COUNTER, ProcedureCode_id_E2nodeConfigurationUpdate), [(''counter'', ''E2NodeConfigUpdateResponseBytes'')]),
    ((OUT_UN_SUCC, MSG_COUNTER, ProcedureCode_id_E2nodeConfigurationUpdate), [(''counter'', ''E2NodeConfigUpdateFailureMsgs'')]),
    ((OUT_UN_SUCC, BYTES_COUNTER, ProcedureCode_id_E2nodeConfigurationUpdate), [(''counter'', ''E2NodeConfigUpdateFailureBytes'')]),
    ((IN_INITI, MSG_COUNTER, ProcedureCode_id_ErrorIndication), [(''counter'', ''ErrorIndicationMsgs'')]),
    ((IN_INITI, BYTES_COUNTER, ProcedureCode_id_ErrorIndication), [(''counter'', ''ErrorIndicationBytes'')]),
    ((IN_INITI, MSG_COUNTER, ProcedureCode_id_Reset), [(''counter'', ''ResetRequestMsgs'')]),
    ((IN_INITI, BYTES_COUNTER, ProcedureCode_id_Reset), [(''counter'', ''ResetRequestBytes'')]),
    ((OUT_SUCC, MSG_COUNTER, ProcedureCode_id_Reset), [(''counter'', ''ResetAckMsgs'')]),
    ((OUT_SUCC, BYTES_COUNTER, ProcedureCode_id_Reset), [(''counter'', ''ResetAckBytes'')]),
    ((IN_INITI, MSG_COUNTER, ProcedureCode_id_RICserviceUpdate), [(''counter'', ''RICServiceUpdateMsgs'')]),
    ((IN_INITI, BYTES_COUNTER, ProcedureCode_id_RICserviceUpdate), [(''counter'', ''RICServiceUpdateBytes'')]),
    ((OUT_SUCC, MSG_COUNTER, ProcedureCode_id_RICserviceUpdate), [(''counter'', ''RICServiceUpdateRespMsgs'')]),
    ((OUT_SUCC, BYTES_COUNTER, ProcedureCode_id_RICserviceUpdate), [(''counter'', ''RICServiceUpdateRespBytes'')]),
    ((OUT_UN_SUCC, MSG_COUNTER, ProcedureCode_id_RICserviceUpdate), [(''counter'', ''RICServiceUpdateFailureMsgs'')]),
    ((OUT_UN_SUCC, BYTES_COUNTER, ProcedureCode_id_RICserviceUpdate), [(''counter'', ''RICServiceUpdateFailureBytes'')]),
    ((OUT_INITI, MSG_COUNTER, ProcedureCode_id_RICcontrol), [(''counter'', ''RICControlMsgs'')]),
    ((OUT_INITI, BYTES_COUNTER, ProcedureCode_id_RICcontrol), [(''counter'', ''RICControlBytes'')]),
    ((IN_SUCC, MSG_COUNTER, ProcedureCode_id_RICcontrol), [(''counter'', ''RICControlAckMsgs'')]),
    ((IN_SUCC, BYTES_COUNTER, ProcedureCode_id_RICcontrol), [(''counter'', ''RICControlAckBytes'')]),
    ((IN_UN_SUCC, MSG_COUNTER, ProcedureCode_id_RICcontrol), [(''counter'', ''RICControlFailureMsgs'')]),
    ((IN_UN_SUCC, BYTES_COUNTER, ProcedureCode_id_RICcontrol), [(''counter'', ''RICControlFailureBytes'')]),
    ((OUT_INITI, MSG_COUNTER, ProcedureCode_id_RICsubscription), [(''counter'', ''RICSubscriptionMsgs'')]),
    ((OUT_INITI, BYTES_COUNTER, ProcedureCode_id_RICsubscription), [(''counter'', ''RICSubscriptionBytes'')]),
    ((IN_SUCC, MSG_COUNTER, ProcedureCode_id_RICsubscription), [(''counter'', ''RICSubscriptionAckMsgs'')]),
    ((IN_SUCC, BYTES_COUNTER, ProcedureCode_id_RICsubscription), [(''counter'', ''RICSubscriptionAckBytes'')]),
    ((IN_UN_SUCC, MSG_COUNTER, ProcedureCode_id_RICsubscription), [(''counter'', ''RICSubscriptionFailureMsgs'')]),
    ((IN_UN_SUCC, BYTES_COUNTER, ProcedureCode_id_RICsubscription), [(''counter'', ''RICSubscriptionFailureBytes'')]),
    ((OUT_INITI, MSG_COUNTER, ProcedureCode_id_RICsubscriptionDelete), [(''counter'', ''RICSubscriptionDeleteMsgs'')]),
    ((OUT_INITI, BYTES_COUNTER, ProcedureCode_id_RICsubscriptionDelete), [(''counter'', ''RICSubscriptionDeleteBytes'')]),
    ((IN_SUCC, MSG_COUNTER, ProcedureCode_id_RICsubscriptionDelete), [(''counter'', ''RICSubscriptionDeleteAckMsgs'')]),
    ((IN_SUCC, BYTES_COUNTER, ProcedureCode_id_RICsubscriptionDelete), [(''counter'', ''RICSubscriptionDeleteAckBytes'')]),
    ((IN_UN_SUCC, MSG_COUNTER, ProcedureCode_id_RICsubscriptionDelete), [(''counter'', ''RICSubscriptionDeleteFailMsgs'')]),
    ((IN_UN_SUCC, BYTES_COUNTER, ProcedureCode_id_RICsubscriptionDelete), [(''counter'', ''RICSubscriptionDeleteFailBytes'')]),
    ((IN_INITI, MSG_COUNTER, ProcedureCode_id_RICindication), [(''counter'', ''RICIndicationMsgs'')]),
    ((IN_INITI, BYTES_COUNTER, ProcedureCode_id_RICindication), [(''counter'', ''RICIndicationBytes'')]),
    ((OUT_INITI, MSG_COUNTER, ProcedureCode_id_RICserviceQuery), [(''counter'', ''RICServiceQueryMsgs'')]),
    ((OUT_INITI, BYTES_COUNTER, ProcedureCode_id_RICserviceQuery), [(''counter'', ''RICServiceQueryBytes'')]),
    ((IN_INITI, MSG_COUNTER, ProcedureCode_id_RICsubscriptionDeleteRequired), [(''counter'', ''RICSubscriptionDeleteRequiredMsgs'')]),
    ((IN_INITI, BYTES_COUNTER, ProcedureCode_id_RICsubscriptionDeleteRequired), [(''counter'', ''RICSubscriptionDeleteRequiredBytes'')])
   ]"

text \<open>
  \<^verbatim>\<open>buildPrometheusList\<close>: the assignments to \<^verbatim>\<open>peerInfo->counters\<close> of a connection with
  RAN name \<open>n\<close>, in order.
\<close>

definition buildPrometheusList :: "string \<Rightarrow> counter_array" where
  "buildPrometheusList n =
   [
    ((IN_INITI, MSG_COUNTER, ProcedureCode_id_E2setup), [(n, ''IN''), (''SetupRequest'', ''Messages'')]),
    ((IN_INITI, BYTES_COUNTER, ProcedureCode_id_E2setup), [(n, ''IN''), (''SetupRequest'', ''Bytes'')]),
    ((IN_INITI, MSG_COUNTER, ProcedureCode_id_E2nodeConfigurationUpdate), [(n, ''IN''), (''E2NodeConfigUpdate'', ''Messages'')]),
    ((IN_INITI, BYTES_COUNTER, ProcedureCode_id_E2nodeConfigurationUpdate), [(n, ''IN''), (''E2NodeConfigUpdate'', ''Bytes'')]),
    ((IN_INITI, MSG_COUNTER, ProcedureCode_id_ErrorIndication), [(n, ''IN''), (''ErrorIndication'', ''Messages'')]),
    ((IN_INITI, BYTES_COUNTER, ProcedureCode_id_ErrorIndication), [(n, ''IN''), (''ErrorIndication'', ''Bytes'')]),
    ((IN_INITI, MSG_COUNTER, ProcedureCode_id_RICindication), [(n, ''IN''), (''RICindication'', ''Messages'')]),
    ((IN_INITI, BYTES_COUNTER, ProcedureCode_id_RICindication), [(n, ''IN''), (''RICindication'', ''Bytes'')]),
    ((IN_INITI, MSG_COUNTER, ProcedureCode_id_Reset), [(n, ''IN''), (''ResetRequest'', ''Messages'')]),
    ((IN_INITI, BYTES_COUNTER, ProcedureCode_id_Reset), [(n, ''IN''), (''ResetRequest'', ''Bytes'')]),
    ((IN_INITI, MSG_COUNTER, ProcedureCode_id_RICserviceUpdate), [(n, ''IN''), (''RICserviceUpdate'', ''Messages'')]),
    ((IN_INITI, BYTES_COUNTER, ProcedureCode_id_RICserviceUpdate), [(n, ''IN''), (''RICserviceUpdate'', ''Bytes'')]),
    ((IN_SUCC, MSG_COUNTER, ProcedureCode_id_Reset), [(n, ''IN''), (''ResetACK'', ''Messages'')]),
    ((IN_SUCC, BYTES_COUNTER, ProcedureCode_id_Reset), [(n, ''IN''), (''ResetACK'', ''Bytes'')]),
    ((IN_SUCC, MSG_COUNTER, ProcedureCode_id_RICcontrol), [(n, ''IN''), (''RICcontrolACK'', ''Messages'')]),
    ((IN_SUCC, BYTES_COUNTER, ProcedureCode_id_RICcontrol), [(n, ''IN''), (''RICcontrolACK'', ''Bytes'')]),
    ((IN_SUCC, MSG_COUNTER, ProcedureCode_id_RICsubscription), [(n, ''IN''), (''RICsubscriptionACK'', ''Messages'')]),
    ((IN_SUCC, BYTES_COUNTER, ProcedureCode_id_RICsubscription), [(n, ''IN''), (''RICsubscriptionACK'', ''Bytes'')]),
    ((IN_SUCC, MSG_COUNTER, ProcedureCode_id_RICsubscriptionDelete), [(n, ''IN''), (''RICsubscriptionDeleteACK'', ''Messages'')]),
    ((IN_SUCC, BYTES_COUNTER, ProcedureCode_id_RICsubscriptionDelete), [(n, ''IN''), (''RICsubscriptionDeleteACK'', ''Bytes'')]),
    ((IN_UN_SUCC, MSG_COUNTER, ProcedureCode_id_RICcontrol), [(n, ''IN''), (''RICcontrolFailure'', ''Messages'')]),
    ((IN_UN_SUCC, BYTES_COUNTER, ProcedureCode_id_RICcontrol), [(n, ''IN''), (''RICcontrolFailure'', ''Bytes'')]),
    ((IN_UN_SUCC, MSG_COUNTER, ProcedureCode_id_RICsubscription), [(n, ''IN''), (''RICsubscriptionFailure'', ''Messages'')]),
    ((IN_UN_SUCC, BYTES_COUNTER, ProcedureCode_id_RICsubscription), [(n, ''IN''), (''RICsubscriptionFailure'', ''Bytes'')]),
    ((IN_UN_SUCC, MSG_COUNTER, ProcedureCode_id_RICsubscriptionDelete), [(n, ''IN''), (''RICsubscriptionDeleteFailure'', ''Messages'')]),
    ((IN_UN_SUCC, BYTES_COUNTER, ProcedureCode_id_RICsubscriptionDelete), [(n, ''IN''), (''RICsubscriptionDeleteFailure'', ''Bytes'')]),
    ((OUT_INITI, MSG_COUNTER, ProcedureCode_id_ErrorIndication), [(n, ''OUT''), (''ErrorIndication'', ''Messages'')]),
    ((OUT_INITI, BYTES_COUNTER, ProcedureCode_id_ErrorIndication), [(n, ''OUT''), (''ErrorIndication'', ''Bytes'')]),
    ((OUT_INITI, MSG_COUNTER, ProcedureCode_id_Reset), [(n, ''OUT''), (''ResetRequest'', ''Messages'')]),
    ((OUT_INITI, BYTES_COUNTER, ProcedureCode_id_Reset), [(n, ''OUT''), (''ResetRequest'', ''Bytes'')]),
    ((OUT_INITI, MSG_COUNTER, ProcedureCode_id_RICcontrol), [(n, ''OUT''), (''RICcontrol'', ''Messages'')]),
    ((OUT_INITI, BYTES_COUNTER, ProcedureCode_id_RICcontrol), [(n, ''OUT''), (''RICcontrol'', ''Bytes'')]),
    ((OUT_INITI, MSG_COUNTER, ProcedureCode_id_RICserviceQuery), [(n, ''OUT''), (''RICserviceQuery'', ''Messages'')]),
    ((OUT_INITI, BYTES_COUNTER, ProcedureCode_id_RICserviceQuery), [(n, ''OUT''), (''RICserviceQuery'', ''Bytes'')]),
    ((OUT_INITI, MSG_COUNTER, ProcedureCode_id_RICsubscription), [(n, ''OUT''), (''RICsubscription'', ''Messages'')]),
    ((OUT_INITI, BYTES_COUNTER, ProcedureCode_id_RICsubscription), [(n, ''OUT''), (''RICsubscription'', ''Bytes'')]),
    ((OUT_INITI, MSG_COUNTER, ProcedureCode_id_RICsubscriptionDelete), [(n, ''OUT''), (''RICsubscriptionDelete'', ''Messages'')]),
    ((OUT_INITI, BYTES_COUNTER, ProcedureCode_id_RICsubscriptionDelete), [(n, ''OUT''), (''RICsubscriptionDelete'', ''Bytes'')]),
    ((OUT_SUCC, MSG_COUNTER, ProcedureCode_id_E2setup), [(n, ''OUT''), (''SetupResponse'', ''Messages'')]),
    ((OUT_SUCC, BYTES_COUNTER, ProcedureCode_id_E2setup), [(n, ''OUT''), (''SetupResponse'', ''Bytes'')]),
    ((OUT_SUCC, MSG_COUNTER, ProcedureCode_id_E2nodeConfigurationUpdate), [(n, ''OUT''), (''E2NodeConfigUpdateSuccess'', ''Messages'')]),
    ((OUT_SUCC, BYTES_COUNTER, ProcedureCode_id_E2nodeConfigurationUpdate), [(n, ''OUT''), (''E2NodeConfigUpdateSuccess'', ''Bytes'')]),
    ((OUT_SUCC, MSG_COUNTER, ProcedureCode_id_Reset), [(n, ''OUT''), (''ResetACK'', ''Messages'')]),
    ((OUT_SUCC, BYTES_COUNTER, ProcedureCode_id_Reset), [(n, ''OUT''), (''ResetACK'', ''Bytes'')]),
    ((OUT_SUCC, MSG_COUNTER, ProcedureCode_id_RICserviceUpdate), [(n, ''OUT''), (''RICserviceUpdateResponse'', ''Messages'')]),
    ((OUT_SUCC, BYTES_COUNTER, ProcedureCode_id_RICserviceUpdate), [(n, ''OUT''), (''RICserviceUpdateResponse'', ''Bytes'')]),
    ((OUT_UN_SUCC, MSG_COUNTER, ProcedureCode_id_E2setup), [(n, ''OUT''), (''SetupRequestFailure'', ''Messages'')]),
    ((OUT_UN_SUCC, BYTES_COUNTER, ProcedureCode_id_E2setup), [(n, ''OUT''), (''SetupRequestFailure'', ''Bytes'')]),
    ((OUT_UN_SUCC, MSG_COUNTER, ProcedureCode_id_E2nodeConfigurationUpdate), [(n, ''OUT''), (''E2NodeConfigUpdateFailure'', ''Messages'')]),
    ((OUT_UN_SUCC, BYTES_COUNTER, ProcedureCode_id_E2nodeConfigurationUpdate), [(n, ''OUT''), (''E2NodeConfigUpdateFailure'', ''Bytes'')]),
    ((OUT_UN_SUCC, MSG_COUNTER, ProcedureCode_id_RICserviceUpdate), [(n, ''OUT''), (''RICserviceUpdateFailure'', ''Messages'')]),
    ((OUT_UN_SUCC, BYTES_COUNTER, ProcedureCode_id_RICserviceUpdate), [(n, ''OUT''), (''RICserviceUpdateFailure'', ''Bytes'')]),
    ((IN_INITI, MSG_COUNTER, ProcedureCode_id_RICsubscriptionDeleteRequired), [(n, ''IN''), (''RICsubscriptionDeleteRequired'', ''Messages'')]),
    ((IN_INITI, BYTES_COUNTER, ProcedureCode_id_RICsubscriptionDeleteRequired), [(n, ''IN''), (''RICsubscriptionDeleteRequired'', ''Bytes'')]),
    ((IN_SUCC, MSG_COUNTER, ProcedureCode_id_E2connectionUpdate), [(n, ''OUT''), (''UnsupportedE2ConnectionUpdateAck'', ''Messages'')]),
    ((IN_UN_SUCC, MSG_COUNTER, ProcedureCode_id_E2connectionUpdate), [(n, ''OUT''), (''UnsupportedE2ConnectionUpdateFail'', ''Messages'')])
   ]"

definition buildInternalCounterPrometheusList :: "string \<Rightarrow> (E2T_Internal_Counters \<times> labels) list" where
  "buildInternalCounterPrometheusList n =
   [(SCTP_ABORT_INITIATED_BY_E2NODE, [(''NODEB'', n), (''counter'', ''SctpAbortInitiatedByE2Node'')]),
    (INVALID_MESSAGE_RECEIVED, [(''NODEB'', n), (''counter'', ''InvalidMessageReceived'')])]"

section \<open>Which cells are filled\<close>

text \<open>The (direction, procedure) pairs for which both cells of an array are filled.\<close>

definition both_built :: "counter_array \<Rightarrow> direction_t \<Rightarrow> int \<Rightarrow> bool" where
  "both_built cs d p \<longleftrightarrow> counter_at cs d MSG_COUNTER p \<noteq> None \<and> counter_at cs d BYTES_COUNTER p \<noteq> None"

text \<open>
  The cells that the proofs of the message handlers look up: those of a connection that are
  counted together with the octets, and those of the instance. The single counters of an E2
  connection update follow them.
\<close>

definition peer_cells :: "(direction_t \<times> int) list" where
  "peer_cells =
   [(IN_INITI, ProcedureCode_id_RICserviceUpdate), (IN_INITI, ProcedureCode_id_E2nodeConfigurationUpdate),
    (IN_INITI, ProcedureCode_id_ErrorIndication), (IN_INITI, ProcedureCode_id_Reset),
    (IN_INITI, ProcedureCode_id_RICindication), (IN_INITI, ProcedureCode_id_RICsubscriptionDeleteRequired),
    (IN_SUCC, ProcedureCode_id_Reset), (IN_SUCC, ProcedureCode_id_RICcontrol),
    (IN_SUCC, ProcedureCode_id_RICsubscription), (IN_SUCC, ProcedureCode_id_RICsubscriptionDelete),
    (IN_UN_SUCC, ProcedureCode_id_RICcontrol), (IN_UN_SUCC, ProcedureCode_id_RICsubscription),
    (IN_UN_SUCC, ProcedureCode_id_RICsubscriptionDelete),
    (OUT_SUCC, ProcedureCode_id_E2nodeConfigurationUpdate), (OUT_UN_SUCC, ProcedureCode_id_E2nodeConfigurationUpdate),
    (OUT_INITI, ProcedureCode_id_ErrorIndication), (OUT_INITI, ProcedureCode_id_RICsubscription),
    (OUT_INITI, ProcedureCode_id_RICsubscriptionDelete), (OUT_INITI, ProcedureCode_id_RICcontrol),
    (OUT_INITI, ProcedureCode_id_RICserviceQuery), (OUT_SUCC, ProcedureCode_id_RICserviceUpdate),
    (OUT_UN_SUCC, ProcedureCode_id_RICserviceUpdate), (OUT_INITI, ProcedureCode_id_Reset),
    (OUT_SUCC, ProcedureCode_id_Reset)]"

definition e2t_cells :: "(direction_t \<times> int) list" where
  "e2t_cells =
   [(IN_INITI, ProcedureCode_id_RICserviceUpdate), (IN_INITI, ProcedureCode_id_E2nodeConfigurationUpdate),
    (IN_INITI, ProcedureCode_id_ErrorIndication), (IN_INITI, ProcedureCode_id_Reset),
    (IN_INITI, ProcedureCode_id_RICindication), (IN_INITI, ProcedureCode_id_RICsubscriptionDeleteRequired),
    (IN_SUCC, ProcedureCode_id_RICcontrol), (IN_SUCC, ProcedureCode_id_RICsubscription),
    (IN_SUCC, ProcedureCode_id_RICsubscriptionDelete),
    (IN_UN_SUCC, ProcedureCode_id_RICcontrol), (IN_UN_SUCC, ProcedureCode_id_RICsubscription),
    (IN_UN_SUCC, ProcedureCode_id_RICsubscriptionDelete),
    (OUT_SUCC, ProcedureCode_id_E2nodeConfigurationUpdate), (OUT_UN_SUCC, ProcedureCode_id_E2nodeConfigurationUpdate),
    (OUT_INITI, ProcedureCode_id_RICsubscription),
    (OUT_INITI, ProcedureCode_id_RICsubscriptionDelete), (OUT_INITI, ProcedureCode_id_RICcontrol),
    (OUT_INITI, ProcedureCode_id_RICserviceQuery), (OUT_SUCC, ProcedureCode_id_RICserviceUpdate),
    (OUT_UN_SUCC, ProcedureCode_id_RICserviceUpdate), (OUT_SUCC, ProcedureCode_id_Reset)]"

lemma both_built_keys:
  "both_built cs d p \<longleftrightarrow> (d, MSG_COUNTER, p) \<in> set (map fst cs) \<and> (d, BYTES_COUNTER, p) \<in> set (map fst cs)"
  by (simp add: both_built_def counter_at_def map_of_eq_None_iff)

lemma all_peer_cells_built: "list_all (\<lambda>(d, p). both_built (buildPrometheusList n) d p) peer_cells"
  unfolding both_built_keys buildPrometheusList_def peer_cells_def by simp

lemma all_e2t_cells_built: "list_all (\<lambda>(d, p). both_built buildE2TPrometheusCounters d p) e2t_cells"
  unfolding both_built_keys buildE2TPrometheusCounters_def e2t_cells_def by simp

lemma peer_cells_built: "(d, p) \<in> set peer_cells \<Longrightarrow> both_built (buildPrometheusList n) d p"
  using all_peer_cells_built [of n] by (auto simp: list_all_iff)

lemma e2t_cells_built: "(d, p) \<in> set e2t_cells \<Longrightarrow> both_built buildE2TPrometheusCounters d p"
  using all_e2t_cells_built by (auto simp: list_all_iff)

lemma connection_update_built:
  "counter_at (buildPrometheusList n) IN_SUCC MSG_COUNTER ProcedureCode_id_E2connectionUpdate \<noteq> None"
  "counter_at (buildPrometheusList n) IN_UN_SUCC MSG_COUNTER ProcedureCode_id_E2connectionUpdate \<noteq> None"
  by (simp_all add: counter_at_def buildPrometheusList_def)

text \<open>The cell that guards the counting of the answer to a reset is not one of the instance's.\<close>

lemma reset_ack_not_built:
  "counter_at buildE2TPrometheusCounters IN_SUCC MSG_COUNTER ProcedureCode_id_Reset = None"
  by (simp add: counter_at_def buildE2TPrometheusCounters_def)

end
