(* ===== verification/E2_Config.thy ===== *)
theory E2_Config
  imports E2_Prelude
begin

text \<open>
  The configuration files: the reader class of \<^verbatim>\<open>ReadConfigFile.h\<close>, and the log level file
  that \<^verbatim>\<open>sctpThread.cpp\<close> parses with \<^verbatim>\<open>strtok\<close>. The content of a file is its text.
\<close>

section \<open>Numbers in text\<close>

text \<open>\<^verbatim>\<open>strtol(s, &end, 10)\<close>: blanks, a sign, digits, clamped to \<^verbatim>\<open>long\<close>.\<close>

definition is_digit :: "char \<Rightarrow> bool" where
  "is_digit c \<longleftrightarrow> of_char c \<ge> (48::nat) \<and> of_char c \<le> (57::nat)"

definition is_space :: "char \<Rightarrow> bool" where
  "is_space c \<longleftrightarrow> c = CHR '' '' \<or> (of_char c \<ge> (9::nat) \<and> of_char c \<le> (13::nat))"

definition decimal :: "string \<Rightarrow> int" where
  "decimal s = foldl (\<lambda>v c. v * 10 + int (of_char c - 48)) 0 (takeWhile is_digit s)"

definition clamp_long :: "int \<Rightarrow> int" where
  "clamp_long v = max (- (2 ^ 63)) (min (2 ^ 63 - 1) v)"

definition strtol :: "string \<Rightarrow> int" where
  "strtol s = clamp_long
     (case dropWhile is_space s of
        [] \<Rightarrow> 0
      | c # r \<Rightarrow> if c = CHR ''-'' then - decimal r else if c = CHR ''+'' then decimal r else decimal (c # r))"

definition int_of_long :: "int \<Rightarrow> int" where
  "int_of_long v = signed_take_bit 31 v"

section \<open>The configuration file\<close>

text \<open>\<^verbatim>\<open>std::getline\<close>: the lines without their newlines; the last may lack one.\<close>

fun lines_from :: "string \<Rightarrow> string \<Rightarrow> string list" where
  "lines_from acc [] = (if acc = [] then [] else [rev acc])"
| "lines_from acc (c # cs) = (if c = CHR 0x0A then rev acc # lines_from [] cs else lines_from (c # acc) cs)"

definition file_lines :: "string \<Rightarrow> string list" where
  "file_lines text = lines_from [] text"

definition ltrim :: "string \<Rightarrow> string" where
  "ltrim s = dropWhile is_space s"

definition rtrim :: "string \<Rightarrow> string" where
  "rtrim s = rev (dropWhile is_space (rev s))"

text \<open>
  \<^verbatim>\<open>trim\<close> returns a reference to the string it was given by value. Its callers read the
  reference in the same expression, in which the string is still there where parameters live to
  its end; the model is of that case.
\<close>

definition cfg_trim :: "string \<Rightarrow> string" where
  "cfg_trim s = ltrim (rtrim s)"

type_synonym entries = "string \<Rightarrow> string option"

text \<open>
  One line: the section and the entries after it, or \<open>None\<close> for the \<^verbatim>\<open>return -1\<close> on a
  section that is not closed.
\<close>

definition config_line :: "string \<Rightarrow> string \<times> entries \<Rightarrow> (string \<times> entries) option" where
  "config_line line st =
     (let (section, entries) = st in
      if line = [] \<or> hd line = CHR ''#'' \<or> hd line = CHR '';'' \<or> hd line = CHR ''{'' then Some st
      else if hd line = CHR ''['' then
        (if CHR '']'' \<notin> set line then None
         else Some (cfg_trim (takeWhile (\<lambda>c. c \<noteq> CHR '']'') (tl line) @ ''.''), entries))
      else if CHR ''='' \<notin> set line then Some st
      else
        let name = section @ cfg_trim (takeWhile (\<lambda>c. c \<noteq> CHR ''='') line);
            val = tl (dropWhile (\<lambda>c. c \<noteq> CHR ''='') line) in
        if val = [] then Some st
        else Some (section, entries(name \<mapsto> cfg_trim val)))"

fun config_lines :: "string list \<Rightarrow> string \<times> entries \<Rightarrow> (string \<times> entries) option" where
  "config_lines [] st = Some st"
| "config_lines (l # ls) st =
     (case config_line l st of None \<Rightarrow> None | Some st' \<Rightarrow> config_lines ls st')"

text \<open>\<^verbatim>\<open>openConfigFile\<close> of a file's content (\<open>None\<close> when it does not open).\<close>

definition openConfigFile :: "string option \<Rightarrow> entries option" where
  "openConfigFile content =
     (case content of
        None \<Rightarrow> None
      | Some text \<Rightarrow> map_option snd (config_lines (file_lines text) ([], Map.empty)))"

definition getStringValue :: "entries \<Rightarrow> string \<Rightarrow> string" where
  "getStringValue es key = (case es key of None \<Rightarrow> [] | Some v \<Rightarrow> v)"

definition c_str :: "string \<Rightarrow> string" where
  "c_str s = takeWhile (\<lambda>c. c \<noteq> NUL) s"

definition getIntValue :: "entries \<Rightarrow> string \<Rightarrow> int" where
  "getIntValue es key = (case es key of None \<Rightarrow> -1 | Some v \<Rightarrow> int_of_long (strtol (c_str v)))"

section \<open>The log level file\<close>

datatype mdclog_severity = MDCLOG_ERR | MDCLOG_WARN | MDCLOG_INFO | MDCLOG_DEBUG

definition update_mdc_log_level_severity :: "string option \<Rightarrow> mdclog_severity" where
  "update_mdc_log_level_severity log_level =
     (case log_level of
        None \<Rightarrow> MDCLOG_ERR
      | Some l \<Rightarrow>
          if l = ''1'' then MDCLOG_ERR
          else if l = ''2'' then MDCLOG_WARN
          else if l = ''3'' then MDCLOG_INFO
          else if l = ''4'' then MDCLOG_DEBUG
          else MDCLOG_ERR)"

text \<open>The function \<^verbatim>\<open>trim\<close> of \<^verbatim>\<open>sctpThread.cpp\<close>; a null pointer is dereferenced.\<close>

definition trim :: "string option \<Rightarrow> fault + string" where
  "trim s = (case s of None \<Rightarrow> Inl Null_Deref | Some t \<Rightarrow> Inr (rtrim (ltrim t)))"

text \<open>\<^verbatim>\<open>strtok\<close> with one delimiter: the token, if there is one, and the rest of the string.\<close>

definition strtok :: "char \<Rightarrow> string \<Rightarrow> string option \<times> string" where
  "strtok d s =
     (let r = dropWhile (\<lambda>c. c = d) s in
      if r = [] then (None, [])
      else (Some (takeWhile (\<lambda>c. c \<noteq> d) r), drop 1 (dropWhile (\<lambda>c. c \<noteq> d) r)))"

text \<open>\<^verbatim>\<open>fgets(line, 128, file)\<close>: pieces of at most \<open>k\<close> characters that end after a newline.\<close>

fun pieces :: "nat \<Rightarrow> string \<Rightarrow> string \<Rightarrow> string list" where
  "pieces k acc [] = (if acc = [] then [] else [rev acc])"
| "pieces k acc (c # cs) =
     (if c = CHR 0x0A \<or> length acc + 1 \<ge> k then rev (c # acc) # pieces k [] cs
      else pieces k (c # acc) cs)"

text \<open>The level found, \<open>Inr None\<close> when the file has none.\<close>

fun scan_levels :: "string list \<Rightarrow> fault + string option" where
  "scan_levels [] = Inr None"
| "scan_levels (line # ls) =
     (let (token, rest) = strtok CHR '':'' (c_str line) in
      case trim token of
        Inl e \<Rightarrow> Inl e
      | Inr t \<Rightarrow>
          if t = ''log-level'' then
            (case trim (fst (strtok CHR 0x0A rest)) of Inl e \<Rightarrow> Inl e | Inr v \<Rightarrow> Inr (Some v))
          else scan_levels ls)"

definition parse_file :: "string option \<Rightarrow> fault + string option" where
  "parse_file content =
     (case content of None \<Rightarrow> Inr None | Some text \<Rightarrow> scan_levels (pieces 127 [] text))"

text \<open>
  \<^verbatim>\<open>dynamic_log_level_change\<close> with the file's content (\<open>None\<close> outside when the environment
  names no file): the level that is set, if one is. The line that it writes to the log is left
  out, also where the file gives no level and the format is handed a null pointer.
\<close>

definition dynamic_log_level_change :: "string option option \<Rightarrow> fault + mdclog_severity option" where
  "dynamic_log_level_change file =
     (case file of
        None \<Rightarrow> Inr None
      | Some content \<Rightarrow>
          (case parse_file content of
             Inl e \<Rightarrow> Inl e
           | Inr l \<Rightarrow> Inr (Some (update_mdc_log_level_severity l))))"

section \<open>Numbers\<close>

lemma is_digit_char: "d < 10 \<Longrightarrow> is_digit (digit_char d)"
  by (simp add: is_digit_def digit_char_def)

lemma digits_nat_base: "list_all is_digit (nat_base 10 n)"
  using set_nat_base [of 10 n] is_digit_char by (auto simp: list_all_iff)

lemma decimal_nat_base: "decimal (nat_base 10 n) = int n"
proof -
  have "foldl (\<lambda>v c. v * 10 + int (of_char c - 48)) 0 (nat_base 10 n) = int n"
  proof (induction "10::nat" n rule: nat_base.induct)
    case (1 n)
    have d: "int (of_char (digit_char (n mod 10)) - 48) = int (n mod 10)" by (simp add: digit_char_def)
    show ?case
    proof (cases "n < 10")
      case True
      then show ?thesis using d by (simp add: nat_base_small)
    next
      case False
      have "int (n div 10) * 10 + int (n mod 10) = int n" by (simp add: zdiv_int zmod_int)
      then show ?thesis using 1 False d by (subst nat_base.simps) simp
    qed
  qed
  moreover have "takeWhile is_digit (nat_base 10 n) = nat_base 10 n"
    using digits_nat_base by (simp add: takeWhile_eq_all_conv list_all_iff)
  ultimately show ?thesis by (simp only: decimal_def)
qed

lemma digit_not_blank: "is_digit c \<Longrightarrow> \<not> is_space c \<and> c \<noteq> CHR ''-'' \<and> c \<noteq> CHR ''+'' \<and> c \<noteq> NUL"
  by (auto simp: is_digit_def is_space_def)

lemma minus_not_blank: "\<not> is_space (CHR ''-'')"
  by (simp add: is_space_def)

lemma strtol_fmt_d: "strtol (fmt_d n) = clamp_long n"
proof -
  obtain c r where c: "nat_base 10 (nat \<bar>n\<bar>) = c # r" by (cases "nat_base 10 (nat \<bar>n\<bar>)") simp_all
  then have "is_digit c" using digits_nat_base [of "nat \<bar>n\<bar>"] by simp
  then show ?thesis
    using digit_not_blank [of c] decimal_nat_base [of "nat \<bar>n\<bar>"] c
    by (cases "n < 0") (simp_all add: strtol_def fmt_d_def minus_not_blank)
qed

text \<open>
  A number in the range of \<^verbatim>\<open>int\<close> that the file gives in decimal is the number that
  \<^verbatim>\<open>getIntValue\<close> returns for its key.
\<close>
theorem getIntValue_reads_number:
  assumes "es key = Some (fmt_d n)" "- (2 ^ 31) \<le> n" "n < 2 ^ 31"
  shows "getIntValue es key = n"
proof -
  have "nul_free (fmt_d n)" by (simp add: fmt_d_def)
  then have "c_str (fmt_d n) = fmt_d n"
    by (simp add: c_str_def takeWhile_eq_all_conv nul_free_def) metis
  then show ?thesis
    using assms by (simp add: getIntValue_def strtol_fmt_d clamp_long_def int_of_long_def signed_take_bit_int_eq_self)
qed

theorem getIntValue_reads_number_witness:
  "getIntValue [''nano'' \<mapsto> fmt_d 38000] ''nano'' = 38000"
  by (rule getIntValue_reads_number) simp_all

section \<open>Reading what was written\<close>

text \<open>The lines of a file: entries without a section, then sections with theirs.\<close>

definition entry_line :: "string \<times> string \<Rightarrow> string" where
  "entry_line kv = fst kv @ CHR ''='' # snd kv"

definition section_lines :: "string \<times> (string \<times> string) list \<Rightarrow> string list" where
  "section_lines sec = (CHR ''['' # fst sec @ '']'') # map entry_line (snd sec)"

definition write_config :: "(string \<times> string) list \<Rightarrow> (string \<times> (string \<times> string) list) list \<Rightarrow> string" where
  "write_config kvs secs =
     concat (map (\<lambda>l. l @ [CHR 0x0A]) (map entry_line kvs @ concat (map section_lines secs)))"

text \<open>The entries that the file stands for.\<close>

definition prefixed :: "string \<Rightarrow> (string \<times> string) list \<Rightarrow> (string \<times> string) list" where
  "prefixed sec kvs = map (\<lambda>kv. (sec @ fst kv, snd kv)) kvs"

definition written_entries :: "(string \<times> string) list \<Rightarrow> (string \<times> (string \<times> string) list) list \<Rightarrow> (string \<times> string) list" where
  "written_entries kvs secs = kvs @ concat (map (\<lambda>s. prefixed (fst s @ ''.'') (snd s)) secs)"

text \<open>A text that \<^verbatim>\<open>trim\<close> leaves alone and that stays on its line.\<close>

definition trimmed :: "string \<Rightarrow> bool" where
  "trimmed t \<longleftrightarrow> t \<noteq> [] \<and> \<not> is_space (hd t) \<and> \<not> is_space (last t) \<and> CHR 0x0A \<notin> set t"

definition plain_entry :: "string \<times> string \<Rightarrow> bool" where
  "plain_entry kv \<longleftrightarrow> trimmed (fst kv) \<and> trimmed (snd kv) \<and> CHR ''='' \<notin> set (fst kv) \<and>
     hd (fst kv) \<notin> {CHR ''#'', CHR '';'', CHR ''{'', CHR ''[''}"

definition plain_section :: "string \<times> (string \<times> string) list \<Rightarrow> bool" where
  "plain_section s \<longleftrightarrow> trimmed (fst s) \<and> CHR '']'' \<notin> set (fst s) \<and> list_all plain_entry (snd s)"

lemma cfg_trim_trimmed: "t \<noteq> [] \<Longrightarrow> \<not> is_space (hd t) \<Longrightarrow> \<not> is_space (last t) \<Longrightarrow> cfg_trim t = t"
proof -
  assume t: "t \<noteq> []" "\<not> is_space (hd t)" "\<not> is_space (last t)"
  have "rtrim t = t"
    using t(1,3) by (cases t rule: rev_cases) (simp_all add: rtrim_def)
  then show "cfg_trim t = t"
    using t(1,2) by (cases t) (simp_all add: cfg_trim_def ltrim_def)
qed

lemma span_until: "c \<notin> set l \<Longrightarrow> takeWhile (\<lambda>x. x \<noteq> c) (l @ c # t) = l \<and> dropWhile (\<lambda>x. x \<noteq> c) (l @ c # t) = c # t"
  by (induction l) auto

lemma config_line_entry:
  assumes "plain_entry kv"
  shows "config_line (entry_line kv) (sec, es) = Some (sec, es(sec @ fst kv \<mapsto> snd kv))"
proof -
  obtain a r where k: "fst kv = a # r" using assms by (cases "fst kv") (auto simp: plain_entry_def trimmed_def)
  show ?thesis
    using assms span_until [of "CHR ''=''" "fst kv" "snd kv"] k
    by (simp add: config_line_def entry_line_def plain_entry_def cfg_trim_trimmed Let_def trimmed_def)
qed

lemma config_lines_entries:
  "list_all plain_entry kvs \<Longrightarrow>
    config_lines (map entry_line kvs @ ls) (sec, es) = config_lines ls (sec, es ++ map_of (rev (prefixed sec kvs)))"
  by (induction kvs arbitrary: es) (simp_all add: config_line_entry prefixed_def)

lemma config_line_section:
  assumes "plain_section s"
  shows "config_line (CHR ''['' # fst s @ '']'') (sec, es) = Some (fst s @ ''.'', es)"
proof -
  have "cfg_trim (fst s @ ''.'') = fst s @ ''.''"
    using assms by (intro cfg_trim_trimmed) (auto simp: plain_section_def trimmed_def is_space_def)
  then show ?thesis
    using assms span_until [of "CHR '']''" "fst s" "[]"] by (simp add: config_line_def plain_section_def Let_def)
qed

lemma config_lines_sections:
  "list_all plain_section secs \<Longrightarrow> \<exists>sec'.
    config_lines (concat (map section_lines secs)) (sec, es) =
      Some (sec', es ++ map_of (rev (concat (map (\<lambda>s. prefixed (fst s @ ''.'') (snd s)) secs))))"
proof (induction secs arbitrary: sec es)
  case (Cons s secs)
  then have "list_all plain_entry (snd s)" by (simp add: plain_section_def)
  then show ?case
    using Cons.IH [of "fst s @ ''.''" "es ++ map_of (rev (prefixed (fst s @ ''.'') (snd s)))"] Cons.prems
    by (simp add: section_lines_def config_line_section config_lines_entries map_add_assoc)
qed simp

lemma lines_from_append:
  "CHR 0x0A \<notin> set l \<Longrightarrow> lines_from acc (l @ CHR 0x0A # t) = (rev acc @ l) # lines_from [] t"
  by (induction l arbitrary: acc) auto

lemma lines_from_all:
  "list_all (\<lambda>l. CHR 0x0A \<notin> set l) ls \<Longrightarrow> lines_from [] (concat (map (\<lambda>l. l @ [CHR 0x0A]) ls)) = ls"
  by (induction ls) (simp_all add: lines_from_append)

lemma entry_one_line: "plain_entry kv \<Longrightarrow> CHR 0x0A \<notin> set (entry_line kv)"
  by (simp add: plain_entry_def trimmed_def entry_line_def)

lemma section_one_line: "plain_section s \<Longrightarrow> l \<in> set (section_lines s) \<Longrightarrow> CHR 0x0A \<notin> set l"
  by (auto simp: plain_section_def section_lines_def trimmed_def list_all_iff entry_one_line)

lemma openConfigFile_write:
  assumes "list_all plain_entry kvs" "list_all plain_section secs"
  shows "openConfigFile (Some (write_config kvs secs)) = Some (map_of (rev (written_entries kvs secs)))"
proof -
  have "list_all (\<lambda>l. CHR 0x0A \<notin> set l) (map entry_line kvs @ concat (map section_lines secs))"
    using assms by (auto simp: list_all_iff entry_one_line section_one_line)
  then have "file_lines (write_config kvs secs) = map entry_line kvs @ concat (map section_lines secs)"
    unfolding file_lines_def write_config_def by (rule lines_from_all)
  moreover obtain sec where "config_lines (map entry_line kvs @ concat (map section_lines secs)) ([], Map.empty) =
      Some (sec, map_of (rev (written_entries kvs secs)))"
    using config_lines_sections [OF assms(2), of "[]" "map_of (rev kvs)"] config_lines_entries [OF assms(1), of _ "[]" Map.empty]
    by (auto simp: written_entries_def prefixed_def)
  ultimately show ?thesis by (simp add: openConfigFile_def)
qed

text \<open>
  C40. Reading a configuration file back: entries without a section and sections with theirs,
  one to a line, give the map from the keys, with the section's name and a dot before them,
  to the values; of two entries with one key the later counts.
\<close>
theorem config_file_roundtrip:
  assumes "list_all plain_entry kvs" "list_all plain_section secs"
  shows "openConfigFile (Some (write_config kvs secs)) = Some (map_of (rev (written_entries kvs secs)))"
  using assms by (rule openConfigFile_write)

theorem config_file_roundtrip_witness:
  "openConfigFile (Some (write_config [(''nano'', ''38000'')] [(''sctp'', [(''port'', ''36422'')])])) =
     Some [''nano'' \<mapsto> ''38000'', ''sctp.port'' \<mapsto> ''36422'']"
  using config_file_roundtrip [of "[(''nano'', ''38000'')]" "[(''sctp'', [(''port'', ''36422'')])]"]
  by (simp add: plain_entry_def plain_section_def trimmed_def is_space_def written_entries_def prefixed_def)

section \<open>The log level file\<close>

text \<open>
  A log level file whose line \<^verbatim>\<open>log-level:\<close> has no value makes the program dereference
  a null pointer: \<^verbatim>\<open>strtok\<close> finds no token, and \<^verbatim>\<open>trim\<close> reads through its result.
\<close>
theorem log_level_without_value_faults:
  "dynamic_log_level_change (Some (Some (''log-level:'' @ CHR 0x0A # t))) = Inl Null_Deref"
  by (simp add: dynamic_log_level_change_def parse_file_def strtok_def c_str_def trim_def ltrim_def rtrim_def is_space_def Let_def)

end
