(* ===== verification/E2_State.thy ===== *)
theory E2_State
  imports E2_Base64 E2_RanName E2_MapWrapper E2_Counters E2_Config
begin

text \<open>
  The state of the terminator's listener thread and the environment it runs in. Memory the
  program allocates for a connection is a heap cell that is live or not; the addresses are
  fresh, so that every use of a freed connection is a fault. The state is a record; the
  routing library (RMR), the sockets and the ASN.1 codec are the functions of an environment
  record over a world of any type: they are arguments of every operation that calls them.
  The operations are those of a production build (neither \<^verbatim>\<open>UNIT_TEST\<close> nor
  \<^verbatim>\<open>MODULE_TEST\<close>); writing to the log is left out.
\<close>

section \<open>Messages of the routing library\<close>

datatype rmr_mtype =
    RIC_E2_SETUP_REQ | RIC_E2_SETUP_RESP | RIC_E2_SETUP_FAILURE
  | RIC_E2NODE_CONFIG_UPDATE | RIC_E2NODE_CONFIG_UPDATE_ACK | RIC_E2NODE_CONFIG_UPDATE_FAILURE
  | RIC_ERROR_INDICATION | RIC_E2_RIC_ERROR_INDICATION | RIC_E2_RAN_ERROR_INDICATION
  | RIC_SUB_REQ | RIC_SUB_RESP | RIC_SUB_FAILURE
  | RIC_SUB_DEL_REQ | RIC_SUB_DEL_RESP | RIC_SUB_DEL_REQUIRED
  | RIC_CONTROL_REQ | RIC_CONTROL_ACK | RIC_CONTROL_FAILURE
  | RIC_SERVICE_QUERY | RIC_SERVICE_UPDATE | RIC_SERVICE_UPDATE_ACK | RIC_SERVICE_UPDATE_FAILURE
  | RIC_E2_RESET_REQ | RIC_E2_RESET_RESP | RIC_INDICATION
  | RIC_SCTP_CONNECTION_FAILURE | RIC_SCTP_CLEAR_ALL
  | E2_TERM_INIT | E2_TERM_KEEP_ALIVE_REQ | E2_TERM_KEEP_ALIVE_RESP
  | RIC_HEALTH_CHECK_REQ | RIC_HEALTH_CHECK_RESP
  | Mtype int

datatype rmr_state =
    RMR_OK | RMR_ERR_BADARG | RMR_ERR_NOENDPT | RMR_ERR_EMPTY | RMR_ERR_NOHDR
  | RMR_ERR_SENDFAILED | RMR_ERR_CALLFAILED | RMR_ERR_NOWHOPEN | RMR_ERR_WHID
  | RMR_ERR_OVERFLOW | RMR_ERR_RETRY | RMR_ERR_RCVFAILED | RMR_ERR_TIMEOUT | RMR_ERR_UNSET
  | RMR_ERR_TRUNC | RMR_ERR_INITFAILED | RMR_ERR_NOTSUPP
  | RMR_undocumented int

text \<open>
  A message buffer. \<open>mb_id\<close> is the identity of its payload, so that a pointer kept to the
  payload of a buffer that was handed over to the library is seen to dangle.
\<close>

record rmr_mbuf =
  mb_id :: nat
  mb_payload :: "byte list"
  mb_len :: int
  mb_mtype :: rmr_mtype
  mb_state :: rmr_state
  mb_sub_id :: int
  mb_xaction :: string
  mb_meid :: string

section \<open>Messages of the E2 interface\<close>

datatype ie_value =
    IE_GlobalE2node_ID GlobalE2node_ID
  | IE_TransactionID int
  | IE_RICrequestID int int
  | IE_Cause
  | IE_CriticalityDiagnostics "int option"
  | IE_other

record ProtocolIE =
  ie_id :: int
  ie_value :: ie_value

datatype pdu_choice = initiatingMessage | successfulOutcome | unsuccessfulOutcome | pdu_NOTHING

text \<open>\<open>pdu_rest\<close> stands for the content that the terminator passes on without looking at it.\<close>

record E2AP_PDU =
  pdu_present :: pdu_choice
  procedureCode :: int
  protocolIEs :: "ProtocolIE list"
  pdu_rest :: "byte list"

abbreviation "ProtocolIE_ID_id_Cause \<equiv> (1::int)"
abbreviation "ProtocolIE_ID_id_CriticalityDiagnostics \<equiv> (2::int)"
abbreviation "ProtocolIE_ID_id_GlobalE2node_ID \<equiv> (3::int)"
abbreviation "ProtocolIE_ID_id_RICrequestID \<equiv> (29::int)"
abbreviation "ProtocolIE_ID_id_TransactionID \<equiv> (49::int)"

section \<open>Connections and the message being handled\<close>

definition RECEIVE_SCTP_BUFFER_SIZE :: nat where
  "RECEIVE_SCTP_BUFFER_SIZE = 128 * 1024"

abbreviation MAX_ENODB_NAME_SIZE :: nat where
  "MAX_ENODB_NAME_SIZE \<equiv> 64"

definition zero_bytes :: "nat \<Rightarrow> byte list" where
  "zero_bytes n = replicate n 0"

record ConnectedCU =
  fileDescriptor :: int
  hostName :: string
  portNumber :: string
  cu_enodbName :: "char list"
  cu_asnData :: "byte list"
  cu_asnLength :: nat
  cu_mtype :: rmr_mtype
  isConnected :: bool
  gotSetup :: bool
  counters :: counter_array
  isSingleStream :: bool
  singleStreamId :: int
  e2tInternalCounters :: "(E2T_Internal_Counters \<times> labels) list"

text \<open>What \<^verbatim>\<open>calloc(1, sizeof(ConnectedCU_t))\<close> returns.\<close>

definition zero_CU :: ConnectedCU where
  "zero_CU = \<lparr>fileDescriptor = 0, hostName = [], portNumber = [],
     cu_enodbName = zero_buf MAX_ENODB_NAME_SIZE, cu_asnData = zero_bytes RECEIVE_SCTP_BUFFER_SIZE,
     cu_asnLength = 0, cu_mtype = Mtype 0, isConnected = False, gotSetup = False, counters = [],
     isSingleStream = False, singleStreamId = 0, e2tInternalCounters = []\<rparr>"

text \<open>
  \<^verbatim>\<open>message.message.asndata\<close> points nowhere, to the payload of the send or of the receive
  buffer that it was taken from, or to the \<^verbatim>\<open>asnData\<close> of a connection.
\<close>

datatype asn_ptr = Asn_null | Asn_send nat | Asn_rcv nat | Asn_peer nat

record ReportingMessages =
  msg_enodbName :: "char list"
  tv_sec :: int
  tv_nsec :: int
  messageType :: rmr_mtype
  direction :: char
  msg_asnLength :: int
  asndata :: asn_ptr
  peerInfo :: "nat option"
  outLen :: int
  base64Data :: "byte list"

definition zero_message :: ReportingMessages where
  "zero_message = \<lparr>msg_enodbName = zero_buf MAX_ENODB_NAME_SIZE, tv_sec = 0, tv_nsec = 0,
     messageType = Mtype 0, direction = NUL, msg_asnLength = 0, asndata = Asn_null,
     peerInfo = None, outLen = 0, base64Data = zero_bytes (RECEIVE_SCTP_BUFFER_SIZE * 2)\<rparr>"

record sctp_params =
  rmrPort :: int
  sctpPort :: int
  epoll_fd :: int
  listenFD :: int
  rmrListenFd :: int
  inotifyFD :: int
  ka_message :: string
  ka_message_length :: int
  rmrAddress :: string
  volume :: string
  myIP :: string
  fqdn :: string
  podName :: string
  configFilePath :: string
  configFileName :: string
  tracing :: bool
  prometheusPort :: string
  e2tCounters :: counter_array

section \<open>The environment\<close>

datatype errno = EINTR | EAGAIN | Errno int

datatype send_result = Sent | Send_error errno
datatype recv_result = Received "byte list" int | Recv_error errno

text \<open>
  The functions the handlers call: RMR (with its numbering of message types and states), the
  sockets, the codec. A decoder returns the message or fails; an encoder returns all the
  octets of the encoding, of which \<^verbatim>\<open>asn_encode_to_buffer\<close> writes what fits, or fails.
  \<open>so_error\<close> is the return code and the pending error of a socket, \<open>sctp_status\<close> the
  numbers of inbound and outbound streams that the status structure holds after the call.
  Of an encoding that does not fit its buffer, \<open>xer_written\<close> and \<open>per_written\<close> octets are
  written. \<open>rounds\<close> bounds how often a retry loop of the program goes round.
\<close>

text \<open>An event of the watch on the configuration directory; a name is present when \<^verbatim>\<open>len > 0\<close>.\<close>

record inotify_event =
  in_isdir :: bool
  in_close_write :: bool
  in_name :: "string option"

record 'w env =
  rmr_send_msg :: "rmr_mbuf \<Rightarrow> 'w \<Rightarrow> rmr_mbuf option \<times> 'w"
  rmr_rts_msg :: "rmr_mbuf \<Rightarrow> 'w \<Rightarrow> rmr_mbuf option \<times> 'w"
  rmr_rcv_msg :: "rmr_mbuf \<Rightarrow> 'w \<Rightarrow> rmr_mbuf option \<times> 'w"
  rmr_alloc_msg :: "int \<Rightarrow> 'w \<Rightarrow> rmr_mbuf option \<times> 'w"
  rmr_bytes2meid :: "string \<Rightarrow> rmr_mbuf \<Rightarrow> rmr_mbuf"
  rmr_bytes2xact :: "string \<Rightarrow> rmr_mbuf \<Rightarrow> rmr_mbuf"
  rmr_bytes2payload :: "byte list \<Rightarrow> rmr_mbuf \<Rightarrow> rmr_mbuf"
  rmr_get_meid :: "rmr_mbuf \<Rightarrow> string"
  mtype_number :: "rmr_mtype \<Rightarrow> int"
  sctp_sendmsg :: "int \<Rightarrow> byte list \<Rightarrow> int \<Rightarrow> 'w \<Rightarrow> send_result \<times> 'w"
  sctp_recvmsg :: "int \<Rightarrow> 'w \<Rightarrow> recv_result \<times> 'w"
  epoll_add :: "int \<Rightarrow> nat \<Rightarrow> 'w \<Rightarrow> bool \<times> 'w"
  epoll_mod :: "int \<Rightarrow> nat \<Rightarrow> 'w \<Rightarrow> bool \<times> 'w"
  so_error :: "int \<Rightarrow> 'w \<Rightarrow> (bool \<times> int) \<times> 'w"
  so_error_text :: "'w \<Rightarrow> string"
  sctp_status :: "int \<Rightarrow> 'w \<Rightarrow> (int \<times> int) \<times> 'w"
  fd_close :: "int \<Rightarrow> 'w \<Rightarrow> 'w"
  fd_open :: "int \<Rightarrow> 'w \<Rightarrow> bool \<times> 'w"
  fcntl_getfl :: "int \<Rightarrow> 'w \<Rightarrow> int \<times> 'w"
  fcntl_setfl :: "int \<Rightarrow> int \<Rightarrow> 'w \<Rightarrow> bool \<times> 'w"
  calloc_ok :: "'w \<Rightarrow> bool \<times> 'w"
  accept :: "int \<Rightarrow> 'w \<Rightarrow> int option \<times> 'w"
  set_sctp_options :: "int \<Rightarrow> 'w \<Rightarrow> 'w"
  getnameinfo :: "int \<Rightarrow> 'w \<Rightarrow> (string \<times> string) option \<times> 'w"
  per_decode :: "byte list \<Rightarrow> E2AP_PDU option"
  per_encode :: "E2AP_PDU \<Rightarrow> byte list option"
  xer_decode :: "byte list \<Rightarrow> E2AP_PDU option"
  xer_encode :: "E2AP_PDU \<Rightarrow> byte list option"
  xer_written :: "E2AP_PDU \<Rightarrow> nat \<Rightarrow> nat"
  per_written :: "E2AP_PDU \<Rightarrow> nat \<Rightarrow> nat"
  inotify_read :: "int \<Rightarrow> 'w \<Rightarrow> inotify_event list option \<times> 'w"
  file_size :: "string \<Rightarrow> 'w \<Rightarrow> nat option \<times> 'w"
  file_text :: "string \<Rightarrow> 'w \<Rightarrow> string option \<times> 'w"
  rounds :: nat

section \<open>The state\<close>

text \<open>
  \<open>msg\<close> is the \<^verbatim>\<open>ReportingMessages_t\<close> of the handler that runs, \<open>lmsg\<close> the one the
  listener keeps for its own handlers. A counter's value is found under its labels.
\<close>

record 'w e2t =
  world :: 'w
  heap :: "nat \<Rightarrow> ConnectedCU option"
  next_addr :: nat
  sctpMap :: map_wrapper
  e2map :: conn_map
  sendMessage :: "rmr_mbuf option"
  rcvMessage :: "rmr_mbuf option"
  msg :: ReportingMessages
  lmsg :: ReportingMessages
  metrics :: "labels \<Rightarrow> int"
  params :: sctp_params
  jsonTrace :: bool
  transactionCounter :: int
  num_of_messages :: int
  num_of_XAPP_messages :: int
  trace_log :: "string list"

type_synonym ('w, 'a) act = "('w e2t, 'a) op"

section \<open>Access to the state\<close>

definition ext :: "('w \<Rightarrow> 'a \<times> 'w) \<Rightarrow> ('w, 'a) act" where
  "ext f = (\<lambda>s. case f (world s) of (r, w) \<Rightarrow> Inr (r, s\<lparr>world := w\<rparr>))"

definition ext_do :: "('w \<Rightarrow> 'w) \<Rightarrow> ('w, unit) act" where
  "ext_do f = modify (\<lambda>s. s\<lparr>world := f (world s)\<rparr>)"

definition upd_msg :: "(ReportingMessages \<Rightarrow> ReportingMessages) \<Rightarrow> ('w, unit) act" where
  "upd_msg f = modify (\<lambda>s. s\<lparr>msg := f (msg s)\<rparr>)"

definition get_send :: "('w, rmr_mbuf) act" where
  "get_send = bnd (gets sendMessage) (need Null_Deref)"

definition get_rcv :: "('w, rmr_mbuf) act" where
  "get_rcv = bnd (gets rcvMessage) (need Null_Deref)"

definition upd_send :: "(rmr_mbuf \<Rightarrow> rmr_mbuf) \<Rightarrow> ('w, unit) act" where
  "upd_send f = bnd get_send (\<lambda>b. modify (\<lambda>s. s\<lparr>sendMessage := Some (f b)\<rparr>))"

definition upd_rcv :: "(rmr_mbuf \<Rightarrow> rmr_mbuf) \<Rightarrow> ('w, unit) act" where
  "upd_rcv f = bnd get_rcv (\<lambda>b. modify (\<lambda>s. s\<lparr>rcvMessage := Some (f b)\<rparr>))"

text \<open>Reading and writing a connection through its address.\<close>

definition deref :: "nat \<Rightarrow> ('w, ConnectedCU) act" where
  "deref a = bnd (gets heap) (\<lambda>h. need Use_After_Free (h a))"

definition deref_ptr :: "nat option \<Rightarrow> ('w, ConnectedCU) act" where
  "deref_ptr p = bnd (need Null_Deref p) deref"

definition upd_CU :: "nat \<Rightarrow> (ConnectedCU \<Rightarrow> ConnectedCU) \<Rightarrow> ('w, unit) act" where
  "upd_CU a f = bnd (deref a) (\<lambda>c. modify (\<lambda>s. s\<lparr>heap := (heap s)(a := Some (f c))\<rparr>))"

definition free_CU :: "nat \<Rightarrow> ('w, unit) act" where
  "free_CU a = bnd (gets heap) (\<lambda>h. sq (require Double_Free (h a \<noteq> None))
     (modify (\<lambda>s. s\<lparr>heap := (heap s)(a := None)\<rparr>)))"

definition alloc_CU :: "('w, nat) act" where
  "alloc_CU = bnd (gets next_addr) (\<lambda>a. sq
     (modify (\<lambda>s. s\<lparr>heap := (heap s)(a := Some zero_CU), next_addr := a + 1\<rparr>)) (ret a))"

text \<open>The address \<^verbatim>\<open>message.peerInfo\<close>, and the names as C strings.\<close>

definition peer_addr :: "('w, nat) act" where
  "peer_addr = bnd (gets (peerInfo \<circ> msg)) (need Null_Deref)"

definition peer :: "('w, ConnectedCU) act" where
  "peer = bnd peer_addr deref"

definition message_name :: "('w, string) act" where
  "message_name = bnd (gets (msg_enodbName \<circ> msg)) (\<lambda>b. need Buffer_Overflow (cstr b))"

definition CU_name :: "nat \<Rightarrow> ('w, string) act" where
  "CU_name a = bnd (deref a) (\<lambda>c. need Buffer_Overflow (cstr (cu_enodbName c)))"

text \<open>\<^verbatim>\<open>memcpy(message.message.enodbName, peerInfo->enodbName, sizeof(peerInfo->enodbName))\<close>\<close>

definition copy_peer_name :: "nat \<Rightarrow> ('w, unit) act" where
  "copy_peer_name a = bnd (deref a) (\<lambda>c. upd_msg (\<lambda>m. m\<lparr>msg_enodbName := cu_enodbName c\<rparr>))"

text \<open>
  \<^verbatim>\<open>snprintf(payload, 256, ...)\<close>: the payload holds at most 255 characters of the text and
  a NUL, and the message length is that of the whole text.
\<close>

definition write_text :: "byte list \<Rightarrow> nat \<Rightarrow> string \<Rightarrow> byte list option" where
  "write_text p n t =
     (let out = map char_byte (snprintf_text n t @ [NUL]) in
      if length out \<le> length p then Some (out @ drop (length out) p) else None)"

definition send_text :: "string \<Rightarrow> ('w, unit) act" where
  "send_text t = bnd get_send (\<lambda>b. bnd (need Buffer_Overflow (write_text (mb_payload b) 256 t))
     (\<lambda>p. upd_send (\<lambda>b. b\<lparr>mb_payload := p, mb_len := int (length t)\<rparr>)))"

text \<open>\<^verbatim>\<open>message.message.asndata = sendMessage->payload\<close> with the buffer's length.\<close>

definition point_to_send :: "('w, unit) act" where
  "point_to_send = bnd get_send (\<lambda>b.
     upd_msg (\<lambda>m. m\<lparr>asndata := Asn_send (mb_id b), msg_asnLength := mb_len b\<rparr>))"

text \<open>The octets a pointer leads to.\<close>

definition read_asn :: "asn_ptr \<Rightarrow> ('w, byte list option) act" where
  "read_asn p =
     (case p of
        Asn_null \<Rightarrow> ret None
      | Asn_send i \<Rightarrow> bnd (gets sendMessage) (\<lambda>b.
          if map_option mb_id b = Some i then ret (map_option mb_payload b) else raise Use_After_Free)
      | Asn_rcv i \<Rightarrow> bnd (gets rcvMessage) (\<lambda>b.
          if map_option mb_id b = Some i then ret (map_option mb_payload b) else raise Use_After_Free)
      | Asn_peer a \<Rightarrow> bnd (deref a) (\<lambda>c. ret (Some (cu_asnData c))))"

section \<open>Counters\<close>

definition add_metric :: "labels \<Rightarrow> int \<Rightarrow> ('w, unit) act" where
  "add_metric l n = modify (\<lambda>s. s\<lparr>metrics := (metrics s)(l := metrics s l + n)\<rparr>)"

text \<open>An increment through a pointer that may be null, and one that is checked before.\<close>

definition increment :: "labels option \<Rightarrow> int \<Rightarrow> ('w, unit) act" where
  "increment l n = bnd (need Null_Deref l) (\<lambda>x. add_metric x n)"

definition increment_if :: "labels option \<Rightarrow> int \<Rightarrow> ('w, unit) act" where
  "increment_if l n = (case l of None \<Rightarrow> ret () | Some x \<Rightarrow> add_metric x n)"

definition peer_counter :: "direction_t \<Rightarrow> counter_kind \<Rightarrow> int \<Rightarrow> ('w, labels option) act" where
  "peer_counter d k p = bnd peer (\<lambda>c. ret (counter_at (counters c) d k p))"

definition e2t_counter :: "direction_t \<Rightarrow> counter_kind \<Rightarrow> int \<Rightarrow> ('w, labels option) act" where
  "e2t_counter d k p = bnd peer (\<lambda>_. gets (\<lambda>s. counter_at (e2tCounters (params s)) d k p))"

text \<open>
  The four increments of a message: those of the connection, and those of the instance,
  which in two places are not for the same direction (\<open>d'\<close>).
\<close>

definition count_message :: "direction_t \<Rightarrow> direction_t \<Rightarrow> int \<Rightarrow> int \<Rightarrow> ('w, unit) act" where
  "count_message d d' p n =
     seqs [
       bnd (peer_counter d MSG_COUNTER p) (\<lambda>l. increment l 1),
       bnd (peer_counter d BYTES_COUNTER p) (\<lambda>l. increment l n),
       bnd (e2t_counter d' MSG_COUNTER p) (\<lambda>l. increment l 1),
       bnd (e2t_counter d' BYTES_COUNTER p) (\<lambda>l. increment l n)]"

definition count_internal :: "nat \<Rightarrow> E2T_Internal_Counters \<Rightarrow> ('w, unit) act" where
  "count_internal a i = bnd (deref a) (\<lambda>c. increment_if (map_of (e2tInternalCounters c) i) 1)"

definition next_transaction :: "('w, int) act" where
  "next_transaction = bnd (gets transactionCounter) (\<lambda>t.
     sq (modify (\<lambda>s. s\<lparr>transactionCounter := t + 1\<rparr>)) (ret t))"

text \<open>\<^verbatim>\<open>"%15ld"\<close> into \<^verbatim>\<open>tx[32]\<close>\<close>

definition tx_text :: "int \<Rightarrow> string" where
  "tx_text t = snprintf_text 32 (pad_left CHR '' '' 15 (fmt_d t))"

definition set_state_of :: "string \<Rightarrow> E2T_Procedure_States \<Rightarrow> ('w, unit) act" where
  "set_state_of n st = modify (\<lambda>s. s\<lparr>e2map := setE2ProcedureOngoingStatus (e2map s) n st\<rparr>)"

text \<open>\<^verbatim>\<open>setE2ProcedureOngoingStatus(message.message.enodbName, ...)\<close>\<close>

definition set_procedure :: "E2T_Procedure_States \<Rightarrow> ('w, unit) act" where
  "set_procedure st = bnd message_name (\<lambda>n. set_state_of n st)"

definition to_int32 :: "int \<Rightarrow> int" where
  "to_int32 v = signed_take_bit 31 v"

section \<open>Weakest preconditions of the accesses\<close>

lemma wp_ext [wp_simps]: "wp (ext f) Q s = (case f (world s) of (r, w) \<Rightarrow> Q r (s\<lparr>world := w\<rparr>))"
  by (simp add: wp_def ext_def split: prod.splits)

lemma wp_ext_do [wp_simps]: "wp (ext_do f) Q s = Q () (s\<lparr>world := f (world s)\<rparr>)"
  by (simp add: ext_do_def wp_simps)

lemma wp_upd_msg [wp_simps]: "wp (upd_msg f) Q s = Q () (s\<lparr>msg := f (msg s)\<rparr>)"
  by (simp add: upd_msg_def wp_simps)

lemma wp_get_send [wp_simps]: "wp get_send Q s = (\<exists>b. sendMessage s = Some b \<and> Q b s)"
  by (simp add: get_send_def wp_simps)

lemma wp_get_rcv [wp_simps]: "wp get_rcv Q s = (\<exists>b. rcvMessage s = Some b \<and> Q b s)"
  by (simp add: get_rcv_def wp_simps)

lemma wp_upd_send [wp_simps]:
  "wp (upd_send f) Q s = (\<exists>b. sendMessage s = Some b \<and> Q () (s\<lparr>sendMessage := Some (f b)\<rparr>))"
  by (simp add: upd_send_def wp_simps)

lemma wp_upd_rcv [wp_simps]:
  "wp (upd_rcv f) Q s = (\<exists>b. rcvMessage s = Some b \<and> Q () (s\<lparr>rcvMessage := Some (f b)\<rparr>))"
  by (simp add: upd_rcv_def wp_simps)

lemma wp_deref [wp_simps]: "wp (deref a) Q s = (\<exists>c. heap s a = Some c \<and> Q c s)"
  by (simp add: deref_def wp_simps)

lemma wp_deref_ptr [wp_simps]:
  "wp (deref_ptr p) Q s = (\<exists>a c. p = Some a \<and> heap s a = Some c \<and> Q c s)"
  by (simp add: deref_ptr_def wp_simps)

lemma wp_upd_CU [wp_simps]:
  "wp (upd_CU a f) Q s = (\<exists>c. heap s a = Some c \<and> Q () (s\<lparr>heap := (heap s)(a \<mapsto> f c)\<rparr>))"
  by (simp add: upd_CU_def wp_simps)

lemma wp_free_CU [wp_simps]:
  "wp (free_CU a) Q s = (heap s a \<noteq> None \<and> Q () (s\<lparr>heap := (heap s)(a := None)\<rparr>))"
  by (simp add: free_CU_def wp_simps)

lemma wp_alloc_CU [wp_simps]:
  "wp alloc_CU Q s =
    Q (next_addr s) (s\<lparr>heap := (heap s)(next_addr s \<mapsto> zero_CU), next_addr := next_addr s + 1\<rparr>)"
  by (simp add: alloc_CU_def wp_simps)

lemma wp_peer_addr [wp_simps]: "wp peer_addr Q s = (\<exists>a. peerInfo (msg s) = Some a \<and> Q a s)"
  by (simp add: peer_addr_def wp_simps)

lemma wp_peer [wp_simps]:
  "wp peer Q s = (\<exists>a c. peerInfo (msg s) = Some a \<and> heap s a = Some c \<and> Q c s)"
  by (simp add: peer_def wp_simps)

lemma wp_message_name [wp_simps]:
  "wp message_name Q s = (\<exists>n. cstr (msg_enodbName (msg s)) = Some n \<and> Q n s)"
  by (simp add: message_name_def wp_simps)

lemma wp_CU_name [wp_simps]:
  "wp (CU_name a) Q s = (\<exists>c n. heap s a = Some c \<and> cstr (cu_enodbName c) = Some n \<and> Q n s)"
  by (auto simp add: CU_name_def wp_simps)

lemma wp_copy_peer_name [wp_simps]:
  "wp (copy_peer_name a) Q s =
    (\<exists>c. heap s a = Some c \<and> Q () (s\<lparr>msg := (msg s)\<lparr>msg_enodbName := cu_enodbName c\<rparr>\<rparr>))"
  by (simp add: copy_peer_name_def wp_simps)

lemma wp_send_text [wp_simps]:
  "wp (send_text t) Q s = (\<exists>b p. sendMessage s = Some b \<and> write_text (mb_payload b) 256 t = Some p \<and>
    Q () (s\<lparr>sendMessage := Some (b\<lparr>mb_payload := p, mb_len := int (length t)\<rparr>)\<rparr>))"
  by (auto simp add: send_text_def wp_simps)

lemma wp_point_to_send [wp_simps]:
  "wp point_to_send Q s = (\<exists>b. sendMessage s = Some b \<and>
    Q () (s\<lparr>msg := (msg s)\<lparr>asndata := Asn_send (mb_id b), msg_asnLength := mb_len b\<rparr>\<rparr>))"
  by (simp add: point_to_send_def wp_simps)

lemma wp_add_metric [wp_simps]:
  "wp (add_metric l n) Q s = Q () (s\<lparr>metrics := (metrics s)(l := metrics s l + n)\<rparr>)"
  by (simp add: add_metric_def wp_simps)

lemma wp_increment [wp_simps]:
  "wp (increment l n) Q s = (\<exists>x. l = Some x \<and> Q () (s\<lparr>metrics := (metrics s)(x := metrics s x + n)\<rparr>))"
  by (simp add: increment_def wp_simps)

lemma wp_increment_if [wp_simps]:
  "wp (increment_if l n) Q s = (case l of None \<Rightarrow> Q () s
    | Some x \<Rightarrow> Q () (s\<lparr>metrics := (metrics s)(x := metrics s x + n)\<rparr>))"
  by (simp add: increment_if_def wp_simps split: option.splits)

lemma wp_peer_counter [wp_simps]:
  "wp (peer_counter d k p) Q s =
    (\<exists>a c. peerInfo (msg s) = Some a \<and> heap s a = Some c \<and> Q (counter_at (counters c) d k p) s)"
  by (simp add: peer_counter_def wp_simps)

lemma wp_e2t_counter [wp_simps]:
  "wp (e2t_counter d k p) Q s =
    (\<exists>a c. peerInfo (msg s) = Some a \<and> heap s a = Some c \<and>
      Q (counter_at (e2tCounters (params s)) d k p) s)"
  by (simp add: e2t_counter_def wp_simps)

lemma wp_next_transaction [wp_simps]:
  "wp next_transaction Q s =
    Q (transactionCounter s) (s\<lparr>transactionCounter := transactionCounter s + 1\<rparr>)"
  by (simp add: next_transaction_def wp_simps)

lemma wp_set_procedure [wp_simps]:
  "wp (set_procedure st) Q s = (\<exists>n. cstr (msg_enodbName (msg s)) = Some n \<and>
    Q () (s\<lparr>e2map := setE2ProcedureOngoingStatus (e2map s) n st\<rparr>))"
  by (simp add: set_procedure_def set_state_of_def wp_simps)

end
