(* ===== verification/E2_Rmr.thy ===== *)
theory E2_Rmr
  imports E2_State
begin

text \<open>
  What \<^verbatim>\<open>sctpThread.cpp\<close> does with the routing library: sending with one retry, the
  request towards the xApps, the setup request towards the E2 manager, the two conversions
  between the encodings of a message in place, and the message trace.
\<close>

section \<open>RMR error texts\<close>

fun translateRmrErrorMessages :: "rmr_state \<Rightarrow> string" where
  "translateRmrErrorMessages RMR_OK = ''RMR_OK - state is good''"
| "translateRmrErrorMessages RMR_ERR_BADARG =
     ''RMR_ERR_BADARG - argument passed to function was unusable''"
| "translateRmrErrorMessages RMR_ERR_NOENDPT =
     ''RMR_ERR_NOENDPT - send//call could not find an endpoint based on msg type''"
| "translateRmrErrorMessages RMR_ERR_EMPTY =
     ''RMR_ERR_EMPTY - msg received had no payload; attempt to send an empty message''"
| "translateRmrErrorMessages RMR_ERR_NOHDR =
     ''RMR_ERR_NOHDR - message didn'' @ [CHR 0x27] @ ''t contain a valid header''"
| "translateRmrErrorMessages RMR_ERR_SENDFAILED =
     ''RMR_ERR_SENDFAILED - send failed; errno has nano reason''"
| "translateRmrErrorMessages RMR_ERR_CALLFAILED =
     ''RMR_ERR_CALLFAILED - unable to send call() message''"
| "translateRmrErrorMessages RMR_ERR_NOWHOPEN = ''RMR_ERR_NOWHOPEN - no wormholes are open''"
| "translateRmrErrorMessages RMR_ERR_WHID = ''RMR_ERR_WHID - wormhole id was invalid''"
| "translateRmrErrorMessages RMR_ERR_OVERFLOW =
     ''RMR_ERR_OVERFLOW - operation would have busted through a buffer/field size''"
| "translateRmrErrorMessages RMR_ERR_RETRY =
     ''RMR_ERR_RETRY - request (send/call/rts) failed, but caller should retry (EAGAIN for wrappers)''"
| "translateRmrErrorMessages RMR_ERR_RCVFAILED =
     ''RMR_ERR_RCVFAILED - receive failed (hard error)''"
| "translateRmrErrorMessages RMR_ERR_TIMEOUT =
     ''RMR_ERR_TIMEOUT - message processing call timed out''"
| "translateRmrErrorMessages RMR_ERR_UNSET =
     ''RMR_ERR_UNSET - the message hasn'' @ [CHR 0x27] @ ''t been populated with a transport buffer''"
| "translateRmrErrorMessages RMR_ERR_TRUNC = ''RMR_ERR_TRUNC - received message likely truncated''"
| "translateRmrErrorMessages RMR_ERR_INITFAILED =
     ''RMR_ERR_INITFAILED - initialisation of something (probably message) failed''"
| "translateRmrErrorMessages RMR_ERR_NOTSUPP =
     ''RMR_ERR_NOTSUPP - the request is not supported, or RMr was not initialised for the request''"
| "translateRmrErrorMessages (RMR_undocumented n) =
     snprintf_text 128 (''UNDOCUMENTED RMR_ERR : '' @ fmt_d n)"

section \<open>The message trace\<close>

definition bytes_text :: "byte list \<Rightarrow> string option" where
  "bytes_text bs = cstr (map byte_char bs)"

text \<open>The line that \<^verbatim>\<open>buildJsonMessage\<close> prints into \<^verbatim>\<open>message.buffer\<close>.\<close>

definition json_line :: "'w env \<Rightarrow> ReportingMessages \<Rightarrow> string \<Rightarrow> string \<Rightarrow> string" where
  \<open>json_line E m name data =
     snprintf_text (RECEIVE_SCTP_BUFFER_SIZE * 8)
       (''{"header": {"ts": "'' @ fmt_d (tv_sec m) @ ''.'' @
        pad_left CHR ''0'' 9 (fmt_d (tv_nsec m)) @ ''",'' @
        ''"ranName": "'' @ name @ ''",'' @
        ''"messageType": '' @ fmt_d (mtype_number E (messageType m)) @ '','' @
        ''"direction": "'' @ [direction m] @ ''"},'' @
        ''"base64Length": '' @ fmt_d (to_int32 (outLen m)) @ '','' @
        ''"asnBase64": "'' @ data @ ''"}'')\<close>

definition lift_fault :: "fault + 'a \<Rightarrow> ('w, 'a) act" where
  "lift_fault x = (case x of Inl e \<Rightarrow> raise e | Inr v \<Rightarrow> ret v)"

definition asn_source :: "ReportingMessages \<Rightarrow> ('w, byte list option) act" where
  "asn_source m = (if 0 < to_int32 (msg_asnLength m) then read_asn (asndata m) else ret None)"

definition buildJsonMessage :: "'w env \<Rightarrow> ('w, unit) act" where
  "buildJsonMessage E = bnd (gets jsonTrace) (\<lambda>t. whenM t (
     bnd (gets msg) (\<lambda>m0. bnd (asn_source m0) (\<lambda>src.
     bnd (lift_fault (base64_encode src (to_int32 (msg_asnLength m0)) (Some (base64Data m0))
            (int RECEIVE_SCTP_BUFFER_SIZE * 2)))
       (\<lambda>(rc, dst, ol). sq (upd_msg (\<lambda>m. m\<lparr>base64Data := the dst, outLen := ol\<rparr>))
     (bnd (gets msg) (\<lambda>m. bnd message_name (\<lambda>name.
      bnd (need Buffer_Overflow (bytes_text (base64Data m))) (\<lambda>data.
      modify (\<lambda>s. s\<lparr>trace_log := trace_log s @
        [takeWhile (\<lambda>c. c \<noteq> NUL) (json_line E m name data)]\<rparr>))))))))))"

section \<open>Sending\<close>

definition set_send :: "rmr_mbuf option \<Rightarrow> ('w, unit) act" where
  "set_send r = modify (\<lambda>s. s\<lparr>sendMessage := r\<rparr>)"

definition set_rcv :: "rmr_mbuf option \<Rightarrow> ('w, unit) act" where
  "set_rcv r = modify (\<lambda>s. s\<lparr>rcvMessage := r\<rparr>)"

definition alloc_send :: "'w env \<Rightarrow> ('w, unit) act" where
  "alloc_send E = bnd (ext (rmr_alloc_msg E (int RECEIVE_SCTP_BUFFER_SIZE))) set_send"

definition alloc_rcv :: "'w env \<Rightarrow> ('w, unit) act" where
  "alloc_rcv E = bnd (ext (rmr_alloc_msg E (int RECEIVE_SCTP_BUFFER_SIZE))) set_rcv"

text \<open>
  The result is the state that the source returns, with \<open>Some RMR_OK\<close> its \<^verbatim>\<open>0\<close> and \<open>None\<close>
  its \<^verbatim>\<open>-1\<close> for a null pointer from the library.
\<close>

definition sendRmrMessage :: "'w env \<Rightarrow> ('w, rmr_state option) act" where
  "sendRmrMessage E =
     sq (buildJsonMessage E) (bnd get_send (\<lambda>b. bnd (ext (rmr_send_msg E b)) (\<lambda>r. sq (set_send r)
     (case r of
        None \<Rightarrow> sq (alloc_send E) (ret None)
      | Some b1 \<Rightarrow>
          if mb_state b1 \<noteq> RMR_OK then
            if mb_state b1 = RMR_ERR_RETRY then
              bnd (ext (rmr_send_msg E (b1\<lparr>mb_state := RMR_OK\<rparr>))) (\<lambda>r'. sq (set_send r')
                (case r' of
                   None \<Rightarrow> sq (alloc_send E) (ret None)
                 | Some b2 \<Rightarrow> ret (Some (mb_state b2))))
            else ret (Some (mb_state b1))
          else ret (Some RMR_OK)))))"

text \<open>\<^verbatim>\<open>sendRequestToXapp(message, requestId, rmrMessageBuffer)\<close>\<close>

definition sendRequestToXapp :: "'w env \<Rightarrow> rmr_mtype \<Rightarrow> ('w, rmr_state option) act" where
  "sendRequestToXapp E requestId =
     bnd message_name (\<lambda>name. sq (upd_send (rmr_bytes2meid E name))
     (sq (upd_msg (\<lambda>m. m\<lparr>messageType := requestId\<rparr>))
     (sq (upd_send (\<lambda>b. b\<lparr>mb_mtype := requestId, mb_state := RMR_OK\<rparr>))
     (bnd next_transaction (\<lambda>t. sq (upd_send (rmr_bytes2xact E (tx_text t)))
     (sendRmrMessage E))))))"

text \<open>Where the source only logs a failure of the request, its result is dropped.\<close>

definition request_to_xapp :: "'w env \<Rightarrow> rmr_mtype \<Rightarrow> ('w, unit) act" where
  "request_to_xapp E t = bnd (sendRequestToXapp E t) (\<lambda>_. ret ())"

section \<open>The setup request to the E2 manager\<close>

text \<open>
  The encoding loop: \<open>n\<close> octets are to fit into \<open>sz\<close>; the buffer grows to \<open>n + 128\<close>. The
  second round always fits, so that two are enough. \<open>None\<close> is a
  failed reallocation.
\<close>

fun encode_rounds :: "nat \<Rightarrow> 'w env \<Rightarrow> nat \<Rightarrow> nat \<Rightarrow> ('w, nat option) act" where
  "encode_rounds 0 E n sz = raise Fuel_Exhausted"
| "encode_rounds (Suc k) E n sz =
     (if n > sz then bnd (ext (calloc_ok E)) (\<lambda>ok. if ok then encode_rounds k E n (n + 128) else ret None)
      else ret (Some sz))"

definition strip_layout :: "string \<Rightarrow> string" where
  "strip_layout s = filter (\<lambda>c. c \<noteq> CHR '' '') (filter (\<lambda>c. c \<noteq> CHR 0x09) (filter (\<lambda>c. c \<noteq> CHR 0x0A) s))"

definition xml_string :: "byte list \<Rightarrow> string" where
  "xml_string x = strip_layout (takeWhile (\<lambda>c. c \<noteq> NUL) (map byte_char x))"

text \<open>A send with one retry of a message that is not the listener's buffer.\<close>

definition send_once_more :: "'w env \<Rightarrow> rmr_mbuf \<Rightarrow> ('w, rmr_mbuf option) act" where
  "send_once_more E b =
     bnd (ext (rmr_send_msg E b)) (\<lambda>r. case r of
        None \<Rightarrow> ret None
      | Some b1 \<Rightarrow>
          if mb_state b1 \<noteq> RMR_OK \<and> mb_state b1 = RMR_ERR_RETRY
          then ext (rmr_send_msg E (b1\<lparr>mb_state := RMR_OK\<rparr>))
          else ret (Some b1))"

text \<open>Building the message from the XML text \<open>res\<close>.\<close>

definition setup_message :: "'w env \<Rightarrow> string \<Rightarrow> rmr_mbuf \<Rightarrow> ('w, rmr_mbuf) act" where
  "setup_message E res b =
     bnd peer (\<lambda>_. bnd (gets params) (\<lambda>pr. bnd (gets msg) (\<lambda>m.
     let text = myIP pr @ '':'' @ fmt_d (rmrPort pr) @ ''|'' @ res in
     bnd (need Buffer_Overflow (write_text (mb_payload b) (length res + 256) text)) (\<lambda>p.
     bnd message_name (\<lambda>name. bnd next_transaction (\<lambda>t.
     ret (rmr_bytes2xact E (tx_text t) (rmr_bytes2meid E name
       (b\<lparr>mb_payload := p, mb_len := int (length text), mb_mtype := messageType m, mb_state := RMR_OK\<rparr>)))))))))"

definition buildAndSendSetupRequest :: "'w env \<Rightarrow> E2AP_PDU \<Rightarrow> ('w, unit) act" where
  "buildAndSendSetupRequest E pdu =
     bnd (ext (calloc_ok E)) (\<lambda>ok. whenM ok
     (case xer_encode E pdu of
        None \<Rightarrow> ret ()
      | Some x \<Rightarrow> bnd (encode_rounds 2 E (length x) (RECEIVE_SCTP_BUFFER_SIZE * 2)) (\<lambda>r.
         case r of
           None \<Rightarrow> ret ()
         | Some sz \<Rightarrow>
             sq (require Buffer_Overflow (length x < sz))
             (let res = xml_string x in
              bnd (ext (rmr_alloc_msg E (int (length res) + 256))) (\<lambda>r. bnd (need Null_Deref r) (\<lambda>b0.
              bnd (setup_message E res b0) (\<lambda>b.
              bnd (send_once_more E b) (\<lambda>_.
              bnd peer_addr (\<lambda>a. sq (upd_CU a (\<lambda>c. c\<lparr>gotSetup := True\<rparr>))
              (buildJsonMessage E)))))))))) "

section \<open>Conversion between the encodings\<close>

text \<open>
  Decoding the first \<open>mb_len\<close> octets of a payload and encoding the message over it. The
  result code is \<^verbatim>\<open>0\<close> or \<^verbatim>\<open>-1\<close>.
\<close>

definition recode ::
    "(byte list \<Rightarrow> E2AP_PDU option) \<Rightarrow> (E2AP_PDU \<Rightarrow> byte list option) \<Rightarrow> (E2AP_PDU \<Rightarrow> nat \<Rightarrow> nat) \<Rightarrow>
      rmr_mbuf \<Rightarrow> fault + (int \<times> rmr_mbuf)" where
  "recode dec enc written b =
     (if mb_len b < 0 \<or> int (length (mb_payload b)) < mb_len b then Inl Buffer_Overflow
      else case dec (take (nat (mb_len b)) (mb_payload b)) of
        None \<Rightarrow> Inr (-1, b)
      | Some pdu \<Rightarrow>
          (case enc pdu of
             None \<Rightarrow> Inr (-1, b)
           | Some x \<Rightarrow>
               let k = (if length x \<le> RECEIVE_SCTP_BUFFER_SIZE then length x
                        else min (written pdu RECEIVE_SCTP_BUFFER_SIZE) RECEIVE_SCTP_BUFFER_SIZE);
                   b' = b\<lparr>mb_payload := take k x @ drop k (mb_payload b)\<rparr> in
               if k > length (mb_payload b) then Inl Buffer_Overflow
               else if length x > RECEIVE_SCTP_BUFFER_SIZE then Inr (-1, b')
               else Inr (0, b'\<lparr>mb_len := int (length x)\<rparr>)))"

definition XML_From_PER :: "'w env \<Rightarrow> ('w, int) act" where
  "XML_From_PER E = bnd get_send (\<lambda>b.
     bnd (lift_fault (recode (per_decode E) (xer_encode E) (xer_written E) b)) (\<lambda>(rc, b').
     sq (set_send (Some b')) (ret rc)))"

definition PER_FromXML :: "'w env \<Rightarrow> ('w, int) act" where
  "PER_FromXML E = bnd get_rcv (\<lambda>b.
     bnd (lift_fault (recode (xer_decode E) (per_encode E) (per_written E) b)) (\<lambda>(rc, b').
     sq (set_rcv (Some b')) (ret rc)))"

end
