(* ===== verification/E2_Sctp.thy ===== *)
theory E2_Sctp
  imports E2_Rmr
begin

text \<open>
  The connections to the E2 nodes in \<^verbatim>\<open>sctpThread.cpp\<close>: which stream a message is sent on,
  sending to a node, registering a connection for events, and taking a connection out of the
  tables.
\<close>

section \<open>Taking a connection out\<close>

text \<open>The key \<^verbatim>\<open>"host:%s:%d"\<close> with the port as a \<^verbatim>\<open>uint16_t\<close>.\<close>

definition host_key :: "ConnectedCU \<Rightarrow> string" where
  "host_key c = snprintf_text 2048 (''host:'' @ hostName c @ '':'' @ fmt_d (strtol (portNumber c) mod 2 ^ 16))"

definition erase_key :: "string \<Rightarrow> ('w, unit) act" where
  "erase_key k = modify (\<lambda>s. s\<lparr>sctpMap := map_erase (sctpMap s) k\<rparr>)"

definition erase_if_found :: "string \<Rightarrow> ('w, unit) act" where
  "erase_if_found k = bnd (gets sctpMap) (\<lambda>m. whenM (map_find m k \<noteq> None) (erase_key k))"

definition cleanHashEntry :: "nat option \<Rightarrow> ('w, unit) act" where
  "cleanHashEntry val =
     (case val of
        None \<Rightarrow> ret ()
      | Some a \<Rightarrow>
          bnd (deref a) (\<lambda>c. sq (erase_if_found (host_key c))
          (bnd (CU_name a) (\<lambda>n. sq (erase_if_found n) (free_CU a)))))"

definition remove_procedure :: "string \<Rightarrow> ('w, unit) act" where
  "remove_procedure n = modify (\<lambda>s. s\<lparr>e2map := removeE2ConnectionEntryFromMap (e2map s) n\<rparr>)"

text \<open>The key \<^verbatim>\<open>"msg:%s|%d"\<close> in \<^verbatim>\<open>char key[MAX_ENODB_NAME_SIZE * 2]\<close>, found, freed and erased.\<close>

definition msg_key :: "'w env \<Rightarrow> string \<Rightarrow> rmr_mtype \<Rightarrow> string" where
  "msg_key E n t =
     snprintf_text (MAX_ENODB_NAME_SIZE * 2) (''msg:'' @ n @ ''|'' @ fmt_d (mtype_number E t))"

definition free_key :: "string \<Rightarrow> ('w, unit) act" where
  "free_key k = bnd (gets sctpMap) (\<lambda>m. case map_find m k of None \<Rightarrow> ret () | Some a \<Rightarrow> free_CU a)"

section \<open>Sending to a node\<close>

text \<open>
  \<^verbatim>\<open>fetchStreamId\<close>: the single stream of a connection that has one (the connection of the
  message, not the one sent to), else stream 1 for the requests of the xApps and stream 0.
\<close>

fun stream_of :: "rmr_mtype \<Rightarrow> int" where
  "stream_of RIC_SUB_REQ = 1"
| "stream_of RIC_SUB_DEL_REQ = 1"
| "stream_of RIC_CONTROL_REQ = 1"
| "stream_of _ = 0"

definition fetchStreamId :: "('w, int) act" where
  "fetchStreamId = bnd peer (\<lambda>c.
     if isSingleStream c then ret (singleStreamId c)
     else bnd (gets msg) (\<lambda>m. ret (stream_of (messageType m))))"

text \<open>The octets \<^verbatim>\<open>asndata[0 .. asnLength)\<close>.\<close>

definition asn_octets :: "('w, byte list) act" where
  "asn_octets = bnd (gets msg) (\<lambda>m.
     if msg_asnLength m = 0 then ret []
     else bnd (read_asn (asndata m)) (\<lambda>src. bnd (need Null_Deref src) (\<lambda>p.
       sq (require Buffer_Overflow (0 \<le> msg_asnLength m \<and> msg_asnLength m \<le> int (length p)))
       (ret (take (nat (msg_asnLength m)) p)))))"

text \<open>The \<^verbatim>\<open>while (true)\<close> round \<^verbatim>\<open>sctp_sendmsg\<close>: again on \<^verbatim>\<open>EINTR\<close>; the error, if any.\<close>

fun send_rounds :: "nat \<Rightarrow> 'w env \<Rightarrow> int \<Rightarrow> byte list \<Rightarrow> int \<Rightarrow> ('w, errno option) act" where
  "send_rounds 0 E fd bs stream = raise Fuel_Exhausted"
| "send_rounds (Suc k) E fd bs stream =
     bnd (ext (sctp_sendmsg E fd bs stream)) (\<lambda>r. case r of
        Sent \<Rightarrow> ret None
      | Send_error e \<Rightarrow> if e = EINTR then send_rounds k E fd bs stream else ret (Some e))"

definition sendSctpMsg :: "'w env \<Rightarrow> nat option \<Rightarrow> ('w, int) act" where
  "sendSctpMsg E p =
     bnd (deref_ptr p) (\<lambda>c. bnd fetchStreamId (\<lambda>stream. bnd asn_octets (\<lambda>bs.
     bnd (send_rounds (rounds E) E (fileDescriptor c) bs stream) (\<lambda>r. case r of
        Some e \<Rightarrow>
          bnd (deref_ptr p) (\<lambda>c'.
          if \<not> isConnected c' then ret (-1)
          else bnd (need Null_Deref p) (\<lambda>a. bnd (CU_name a) (\<lambda>n.
            sq (remove_procedure n) (sq (cleanHashEntry p) (sq (ext_do (fd_close E (fileDescriptor c)))
            (bnd message_name (\<lambda>mn. bnd (gets (messageType \<circ> msg)) (\<lambda>t.
            sq (free_key (msg_key E mn t)) (sq (erase_key (msg_key E mn t)) (ret (-1))))))))))
          )
      | None \<Rightarrow>
          sq (upd_msg (\<lambda>m. m\<lparr>direction := CHR ''D''\<rparr>)) (sq (buildJsonMessage E) (ret 0))))))"

definition getRequestMetaData :: "('w, unit) act" where
  "getRequestMetaData = bnd get_rcv (\<lambda>b.
     upd_msg (\<lambda>m. m\<lparr>asndata := Asn_rcv (mb_id b), msg_asnLength := mb_len b\<rparr>))"

definition sendMessagetoCu :: "'w env \<Rightarrow> ('w, int) act" where
  "sendMessagetoCu E = bnd get_rcv (\<lambda>b.
     sq (upd_msg (\<lambda>m. m\<lparr>messageType := mb_mtype b\<rparr>))
     (bnd (gets (peerInfo \<circ> msg)) (\<lambda>p. sendSctpMsg E p)))"

definition sendDirectionalSctpMsg :: "'w env \<Rightarrow> ('w, int) act" where
  "sendDirectionalSctpMsg E = sq getRequestMetaData (sendMessagetoCu E)"

section \<open>Registration for events\<close>

text \<open>
  \<open>n\<close> is the pointer \<^verbatim>\<open>enodbName\<close>: null, or the name array of the connection at an address.
\<close>

definition name_at :: "nat option \<Rightarrow> ('w, string) act" where
  "name_at n = bnd (need Null_Deref n) CU_name"

definition forget_connection :: "'w env \<Rightarrow> nat \<Rightarrow> nat option \<Rightarrow> rmr_mtype \<Rightarrow> ('w, unit) act" where
  "forget_connection E a n t =
     bnd (name_at n) (\<lambda>name. sq (remove_procedure name) (sq (cleanHashEntry (Some a))
     (bnd (name_at n) (\<lambda>name'. bnd (gets sctpMap) (\<lambda>m.
      whenM (map_find m (msg_key E name' t) \<noteq> None)
        (sq (free_key (msg_key E name' t)) (erase_key (msg_key E name' t))))))))"

definition addToEpoll :: "'w env \<Rightarrow> nat \<Rightarrow> nat option \<Rightarrow> rmr_mtype \<Rightarrow> ('w, int) act" where
  "addToEpoll E a n t =
     bnd (deref a) (\<lambda>c. bnd (ext (epoll_add E (fileDescriptor c) a)) (\<lambda>ok.
     if ok then ret 0
     else sq (ext_do (fd_close E (fileDescriptor c)))
       (sq (case n of
              Some _ \<Rightarrow> forget_connection E a n t
            | None \<Rightarrow> upd_CU a (\<lambda>c. c\<lparr>cu_enodbName := (cu_enodbName c)[0 := NUL]\<rparr>))
       (ret (-1)))))"

definition modifyToEpoll :: "'w env \<Rightarrow> nat \<Rightarrow> nat option \<Rightarrow> rmr_mtype \<Rightarrow> ('w, int) act" where
  "modifyToEpoll E a n t =
     bnd (deref a) (\<lambda>c. bnd (ext (epoll_mod E (fileDescriptor c) a)) (\<lambda>ok.
     if ok then ret 0
     else sq (ext_do (fd_close E (fileDescriptor c))) (sq (forget_connection E a n t) (ret (-1)))))"

end
