(* ===== verification/E2_FromRan.thy ===== *)
theory E2_FromRan
  imports E2_Sctp
begin

text \<open>
  The messages that E2 nodes send, in \<^verbatim>\<open>sctpThread.cpp\<close>: the setup request, which gives
  the connection its RAN name, and the handlers for initiating messages, successful and
  unsuccessful outcomes, one definition per case of the source's \<^verbatim>\<open>switch\<close> statements.
\<close>

section \<open>The setup request\<close>

definition set_key :: "string \<Rightarrow> nat \<Rightarrow> ('w, unit) act" where
  "set_key k a = modify (\<lambda>s. s\<lparr>sctpMap := map_setkey (sctpMap s) k a\<rparr>)"

text \<open>
  The IE with the node ID: the RAN name goes to the connection; its characters without the
  NUL are copied over the name in the message; that name becomes the key of the connection.
  \<open>False\<close> is the early \<^verbatim>\<open>return -1\<close>.
\<close>

definition collect_node_id :: "ProtocolIE \<Rightarrow> ('w, bool) act" where
  "collect_node_id ie =
     (if ie_id ie = ProtocolIE_ID_id_GlobalE2node_ID then
        (case ie_value ie of
           IE_GlobalE2node_ID g \<Rightarrow>
             bnd peer_addr (\<lambda>a. bnd (deref a) (\<lambda>c.
             bnd (need Buffer_Overflow (buildRanName (cu_enodbName c) g)) (\<lambda>(rc, nm).
             sq (upd_CU a (\<lambda>c. c\<lparr>cu_enodbName := nm\<rparr>))
             (if rc < 0 then ret False
              else bnd (CU_name a) (\<lambda>n. bnd (gets (msg_enodbName \<circ> msg)) (\<lambda>b.
                bnd (need Buffer_Overflow (poke b n)) (\<lambda>b'.
                sq (upd_msg (\<lambda>m. m\<lparr>msg_enodbName := b'\<rparr>))
                (bnd message_name (\<lambda>k. sq (set_key k a) (ret True)))))))))) 
         | _ \<Rightarrow> ret True)
      else ret True)"

definition collect_transaction :: "ProtocolIE \<Rightarrow> int \<Rightarrow> int" where
  "collect_transaction ie t =
     (if ie_id ie = ProtocolIE_ID_id_TransactionID then
        (case ie_value ie of IE_TransactionID v \<Rightarrow> v | _ \<Rightarrow> t) else t)"

fun collect_ies :: "ProtocolIE list \<Rightarrow> int \<Rightarrow> ('w, int) act" where
  "collect_ies [] t = ret t"
| "collect_ies (ie # ies) t =
     bnd (collect_node_id ie) (\<lambda>ok.
       if ok then collect_ies ies (collect_transaction ie t) else ret (-1))"

definition collectSetupRequestData :: "E2AP_PDU \<Rightarrow> ('w, int) act" where
  "collectSetupRequestData pdu =
     bnd peer_addr (\<lambda>a. sq (upd_CU a (\<lambda>c. c\<lparr>cu_enodbName := zero_buf MAX_ENODB_NAME_SIZE\<rparr>))
     (collect_ies (protocolIEs pdu) (-1)))"

text \<open>\<^verbatim>\<open>handleE2SetupReq\<close>, first its counters and the number of streams.\<close>

definition build_counters :: "nat option \<Rightarrow> ('w, unit) act" where
  "build_counters p =
     (case p of
        None \<Rightarrow> ret ()
      | Some a \<Rightarrow> bnd (CU_name a) (\<lambda>n. upd_CU a (\<lambda>c. c\<lparr>counters := buildPrometheusList n,
          e2tInternalCounters := buildInternalCounterPrometheusList n\<rparr>)))"

definition note_streams :: "'w env \<Rightarrow> int \<Rightarrow> ('w, unit) act" where
  "note_streams E streamId =
     bnd peer_addr (\<lambda>a. bnd (deref a) (\<lambda>c. bnd (ext (sctp_status E (fileDescriptor c))) (\<lambda>(instrms, outstrms).
     whenM (outstrms = 1 \<or> instrms = 1)
       (upd_CU a (\<lambda>c. c\<lparr>isSingleStream := True, singleStreamId := streamId\<rparr>)))))"

definition insert_setup :: "int \<Rightarrow> ('w, unit) act" where
  "insert_setup t = bnd message_name (\<lambda>n.
     modify (\<lambda>s. s\<lparr>e2map := insertE2SetupProcedureOngoing (e2map s) n t\<rparr>))"

definition handleE2SetupReq :: "'w env \<Rightarrow> E2AP_PDU \<Rightarrow> int \<Rightarrow> int \<Rightarrow> ('w, unit) act" where
  "handleE2SetupReq E pdu transactionID streamId =
     bnd (gets (peerInfo \<circ> msg)) (\<lambda>p. seqs [
       build_counters p,
       note_streams E streamId,
       upd_msg (\<lambda>m. m\<lparr>messageType := RIC_E2_SETUP_REQ\<rparr>),
       bnd (peer_counter IN_INITI MSG_COUNTER ProcedureCode_id_E2setup) (\<lambda>l. increment_if l 1),
       bnd (peer_counter IN_INITI BYTES_COUNTER ProcedureCode_id_E2setup) (\<lambda>l.
         bnd (gets (msg_asnLength \<circ> msg)) (increment_if l)),
       buildAndSendSetupRequest E pdu,
       insert_setup transactionID])"

definition got_E2setup :: "'w env \<Rightarrow> E2AP_PDU \<Rightarrow> int \<Rightarrow> ('w, unit) act" where
  "got_E2setup E pdu streamId =
     bnd (collectSetupRequestData pdu) (\<lambda>t. if t < 0 then ret () else handleE2SetupReq E pdu t streamId)"

section \<open>Parts that the cases share\<close>

text \<open>Messages of a node whose setup has not been seen are ignored.\<close>

definition if_known :: "(E2NodeConnectionHandling \<Rightarrow> ('w, unit) act) \<Rightarrow> ('w, unit) act" where
  "if_known f = bnd message_name (\<lambda>n.
     bnd (gets (\<lambda>s. getE2tProcedureOngoingStatus (e2map s) n)) (\<lambda>h.
       case h of None \<Rightarrow> ret () | Some x \<Rightarrow> f x))"

definition count_in :: "direction_t \<Rightarrow> int \<Rightarrow> ('w, unit) act" where
  "count_in d p = bnd (gets (msg_asnLength \<circ> msg)) (\<lambda>n. count_message d d p n)"

text \<open>The same behind the check that the connection and the instance's counter are there.\<close>

definition count_in_if :: "direction_t \<Rightarrow> int \<Rightarrow> ('w, unit) act" where
  "count_in_if d p = bnd (gets (peerInfo \<circ> msg)) (\<lambda>a. whenM (a \<noteq> None)
     (bnd (e2t_counter d MSG_COUNTER p) (\<lambda>l. whenM (l \<noteq> None) (count_in d p))))"

definition count_invalid :: "('w, unit) act" where
  "count_invalid = bnd peer_addr (\<lambda>a. count_internal a INVALID_MESSAGE_RECEIVED)"

definition set_type :: "rmr_mtype \<Rightarrow> ('w, unit) act" where
  "set_type t = upd_msg (\<lambda>m. m\<lparr>messageType := t\<rparr>)"

definition stamp :: "'w env \<Rightarrow> ('w, unit) act" where
  "stamp E = bnd next_transaction (\<lambda>t. sq (upd_send (rmr_bytes2xact E (tx_text t)))
     (bnd message_name (\<lambda>n. upd_send (rmr_bytes2meid E n))))"

definition send_message :: "'w env \<Rightarrow> ('w, unit) act" where
  "send_message E = bnd (sendRmrMessage E) (\<lambda>_. ret ())"

section \<open>Initiating messages\<close>

definition got_RICserviceUpdate :: "'w env \<Rightarrow> E2AP_PDU \<Rightarrow> ('w, unit) act" where
  "got_RICserviceUpdate E pdu = if_known (\<lambda>_. seqs [
     set_procedure E2_SETUP_PROCEDURE_COMPLETED,
     set_type RIC_SERVICE_UPDATE,
     count_in IN_INITI ProcedureCode_id_RICserviceUpdate,
     buildAndSendSetupRequest E pdu,
     set_procedure RIC_SERVICE_UPDATE_PROCEDURE_ONGOING])"

definition got_E2nodeConfigurationUpdate :: "'w env \<Rightarrow> E2AP_PDU \<Rightarrow> ('w, unit) act" where
  "got_E2nodeConfigurationUpdate E pdu = if_known (\<lambda>_. seqs [
     set_type RIC_E2NODE_CONFIG_UPDATE,
     count_in IN_INITI ProcedureCode_id_E2nodeConfigurationUpdate,
     buildAndSendSetupRequest E pdu])"

text \<open>The loop over the IEs of an error indication: the IEs present and the procedure code.\<close>

definition error_ie :: "int \<Rightarrow> ProtocolIE \<Rightarrow> required_ies \<times> int \<Rightarrow> required_ies \<times> int" where
  "error_ie setup ie acc =
     (let (r, pc) = acc in
      case ie_value ie of
        IE_TransactionID v \<Rightarrow>
          (if ie_id ie = ProtocolIE_ID_id_TransactionID \<and> setup = v then r\<lparr>transactionIdIe := True\<rparr> else r, pc)
      | IE_RICrequestID _ _ \<Rightarrow>
          (if ie_id ie = ProtocolIE_ID_id_RICrequestID then r\<lparr>ricRequestIdIe := True\<rparr> else r, pc)
      | IE_Cause \<Rightarrow> (if ie_id ie = ProtocolIE_ID_id_Cause then r\<lparr>causeIe := True\<rparr> else r, pc)
      | IE_CriticalityDiagnostics p \<Rightarrow>
          (r, if ie_id ie = ProtocolIE_ID_id_CriticalityDiagnostics
              then (case p of Some c \<Rightarrow> to_int32 c | None \<Rightarrow> pc) else pc)
      | _ \<Rightarrow> (r, pc))"

definition error_ies :: "int \<Rightarrow> ProtocolIE list \<Rightarrow> required_ies \<times> int" where
  "error_ies setup ies =
     fold (error_ie setup) ies (\<lparr>transactionIdIe = False, ricRequestIdIe = False, causeIe = False\<rparr>, 0)"

definition route_error :: "'w env \<Rightarrow> E2AP_PDU \<Rightarrow> int \<Rightarrow> ('w, unit) act" where
  "route_error E pdu setup =
     (let (r, pc) = error_ies setup (protocolIEs pdu) in
      bnd message_name (\<lambda>n. bnd (gets (\<lambda>s. getSendMsgBitSetValue (e2map s) pc r n)) (\<lambda>to.
      if sendMsgToE2M to then sq (set_type RIC_E2_RIC_ERROR_INDICATION) (buildAndSendSetupRequest E pdu)
      else if sendMsgToSubMgr to then request_to_xapp E RIC_E2_RAN_ERROR_INDICATION
      else ret ())))"

definition got_ErrorIndication :: "'w env \<Rightarrow> E2AP_PDU \<Rightarrow> ('w, unit) act" where
  "got_ErrorIndication E pdu = if_known (\<lambda>h. sq (bnd get_send (\<lambda>_. ret ())) (seqs [
     route_error E pdu (e2SetupProcedureTransactionId h),
     count_in IN_INITI ProcedureCode_id_ErrorIndication,
     request_to_xapp E RIC_ERROR_INDICATION]))"

definition got_Reset :: "'w env \<Rightarrow> ('w, unit) act" where
  "got_Reset E = if_known (\<lambda>_. sq (count_in IN_INITI ProcedureCode_id_Reset)
     (bnd (XML_From_PER E) (\<lambda>rc. if rc < 0 then ret () else request_to_xapp E RIC_E2_RESET_REQ)))"

definition send_indication :: "'w env \<Rightarrow> int \<Rightarrow> ('w, unit) act" where
  "send_indication E ricInstanceID = seqs [
     set_type RIC_INDICATION,
     upd_send (\<lambda>b. b\<lparr>mb_mtype := RIC_INDICATION\<rparr>),
     stamp E,
     upd_send (\<lambda>b. b\<lparr>mb_state := RMR_OK, mb_sub_id := to_int32 ricInstanceID\<rparr>),
     count_in IN_INITI ProcedureCode_id_RICindication,
     send_message E]"

fun indication_ies :: "'w env \<Rightarrow> ProtocolIE list \<Rightarrow> ('w, unit) act" where
  "indication_ies E [] = ret ()"
| "indication_ies E (ie # ies) =
     (if ie_id ie = ProtocolIE_ID_id_RICrequestID then
        (case ie_value ie of
           IE_RICrequestID _ i \<Rightarrow>
             sq (send_indication E i) (set_procedure RIC_INDICATION_PROCEDURE_COMPLETED)
         | _ \<Rightarrow> indication_ies E ies)
      else indication_ies E ies)"

definition got_RICindication :: "'w env \<Rightarrow> E2AP_PDU \<Rightarrow> ('w, unit) act" where
  "got_RICindication E pdu = if_known (\<lambda>_.
     sq (set_procedure RIC_INDICATION_PROCEDURE_ONGOING) (indication_ies E (protocolIEs pdu)))"

definition got_RICsubscriptionDeleteRequired :: "'w env \<Rightarrow> ('w, unit) act" where
  "got_RICsubscriptionDeleteRequired E = if_known (\<lambda>_.
     sq (count_in IN_INITI ProcedureCode_id_RICsubscriptionDeleteRequired)
     (request_to_xapp E RIC_SUB_DEL_REQUIRED))"

definition got_unknown :: "'w env \<Rightarrow> ('w, unit) act" where
  "got_unknown E = if_known (\<lambda>_. seqs [set_type (Mtype 0), count_invalid, buildJsonMessage E])"

definition asnInitiatingRequest :: "'w env \<Rightarrow> E2AP_PDU \<Rightarrow> int \<Rightarrow> ('w, unit) act" where
  "asnInitiatingRequest E pdu streamId =
     (let pc = procedureCode pdu in
      if pc = ProcedureCode_id_E2setup then got_E2setup E pdu streamId
      else if pc = ProcedureCode_id_RICserviceUpdate then got_RICserviceUpdate E pdu
      else if pc = ProcedureCode_id_E2nodeConfigurationUpdate then got_E2nodeConfigurationUpdate E pdu
      else if pc = ProcedureCode_id_ErrorIndication then got_ErrorIndication E pdu
      else if pc = ProcedureCode_id_Reset then got_Reset E
      else if pc = ProcedureCode_id_RICindication then got_RICindication E pdu
      else if pc = ProcedureCode_id_RICsubscriptionDeleteRequired then got_RICsubscriptionDeleteRequired E
      else got_unknown E)"

section \<open>Successful outcomes\<close>

definition got_Reset_ack :: "'w env \<Rightarrow> ('w, unit) act" where
  "got_Reset_ack E = if_known (\<lambda>_. sq (count_in_if IN_SUCC ProcedureCode_id_Reset)
     (bnd (XML_From_PER E) (\<lambda>rc. if rc < 0 then ret () else request_to_xapp E RIC_E2_RESET_RESP)))"

text \<open>The acknowledgement or failure of a control request, with the counting left open.\<close>

definition send_control :: "'w env \<Rightarrow> rmr_mtype \<Rightarrow> ('w, unit) act \<Rightarrow> int \<Rightarrow> ('w, unit) act" where
  "send_control E t count ricInstanceID = seqs [
     set_type t,
     upd_send (\<lambda>b. b\<lparr>mb_mtype := t\<rparr>),
     upd_send (\<lambda>b. b\<lparr>mb_state := RMR_OK, mb_sub_id := to_int32 ricInstanceID\<rparr>),
     stamp E,
     count,
     send_message E]"

fun control_ack_ies :: "'w env \<Rightarrow> ProtocolIE list \<Rightarrow> ('w, unit) act" where
  "control_ack_ies E [] = ret ()"
| "control_ack_ies E (ie # ies) =
     (if ie_id ie = ProtocolIE_ID_id_RICrequestID then
        (case ie_value ie of
           IE_RICrequestID _ i \<Rightarrow>
             sq (send_control E RIC_CONTROL_ACK (count_in_if IN_SUCC ProcedureCode_id_RICcontrol) i)
               (set_procedure CONTROL_PROCEDURE_COMPLETED)
         | _ \<Rightarrow> control_ack_ies E ies)
      else control_ack_ies E ies)"

definition got_control_ack :: "'w env \<Rightarrow> E2AP_PDU \<Rightarrow> ('w, unit) act" where
  "got_control_ack E pdu = if_known (\<lambda>_. control_ack_ies E (protocolIEs pdu))"

definition got_subscription_response :: "'w env \<Rightarrow> ('w, unit) act" where
  "got_subscription_response E = if_known (\<lambda>_. seqs [
     count_in_if IN_SUCC ProcedureCode_id_RICsubscription,
     request_to_xapp E RIC_SUB_RESP,
     set_procedure RIC_INDICATION_PROCEDURE_ONGOING])"

definition got_subscription_delete_response :: "'w env \<Rightarrow> ('w, unit) act" where
  "got_subscription_delete_response E = if_known (\<lambda>_. seqs [
     set_procedure RIC_SUBS_DEL_PROCEDURE_COMPLETED,
     count_in_if IN_SUCC ProcedureCode_id_RICsubscriptionDelete,
     request_to_xapp E RIC_SUB_DEL_RESP,
     set_procedure RIC_INDICATION_PROCEDURE_ONGOING])"

text \<open>The default case of the outcomes: the acknowledgement (\<open>d\<close>) of an E2 connection update.\<close>

definition got_unknown_outcome :: "'w env \<Rightarrow> direction_t \<Rightarrow> int \<Rightarrow> ('w, unit) act" where
  "got_unknown_outcome E d pc = if_known (\<lambda>_. seqs [
     set_type (Mtype 0),
     if pc = ProcedureCode_id_E2connectionUpdate
     then bnd (peer_counter d MSG_COUNTER ProcedureCode_id_E2connectionUpdate) (\<lambda>l. increment l 1)
     else count_invalid,
     buildJsonMessage E])"

definition asnSuccessfulMsg :: "'w env \<Rightarrow> E2AP_PDU \<Rightarrow> ('w, unit) act" where
  "asnSuccessfulMsg E pdu =
     (let pc = procedureCode pdu in
      if pc = ProcedureCode_id_Reset then got_Reset_ack E
      else if pc = ProcedureCode_id_RICcontrol then got_control_ack E pdu
      else if pc = ProcedureCode_id_RICsubscription then got_subscription_response E
      else if pc = ProcedureCode_id_RICsubscriptionDelete then got_subscription_delete_response E
      else got_unknown_outcome E IN_SUCC pc)"

section \<open>Unsuccessful outcomes\<close>

fun control_failure_ies :: "'w env \<Rightarrow> ProtocolIE list \<Rightarrow> ('w, unit) act" where
  "control_failure_ies E [] = ret ()"
| "control_failure_ies E (ie # ies) =
     (if ie_id ie = ProtocolIE_ID_id_RICrequestID then
        (case ie_value ie of
           IE_RICrequestID _ i \<Rightarrow>
             send_control E RIC_CONTROL_FAILURE (count_in IN_UN_SUCC ProcedureCode_id_RICcontrol) i
         | _ \<Rightarrow> control_failure_ies E ies)
      else control_failure_ies E ies)"

definition got_control_failure :: "'w env \<Rightarrow> E2AP_PDU \<Rightarrow> ('w, unit) act" where
  "got_control_failure E pdu = if_known (\<lambda>_. control_failure_ies E (protocolIEs pdu))"

text \<open>The failures of a subscription (and of its deletion) are sent as the same message.\<close>

definition got_subscription_failure :: "'w env \<Rightarrow> int \<Rightarrow> ('w, unit) act" where
  "got_subscription_failure E pc = if_known (\<lambda>_. sq (count_in IN_UN_SUCC pc) (request_to_xapp E RIC_SUB_FAILURE))"

definition asnUnSuccsesfulMsg :: "'w env \<Rightarrow> E2AP_PDU \<Rightarrow> ('w, unit) act" where
  "asnUnSuccsesfulMsg E pdu =
     (let pc = procedureCode pdu in
      if pc = ProcedureCode_id_RICcontrol then got_control_failure E pdu
      else if pc = ProcedureCode_id_RICsubscription then
        got_subscription_failure E ProcedureCode_id_RICsubscription
      else if pc = ProcedureCode_id_RICsubscriptionDelete then
        got_subscription_failure E ProcedureCode_id_RICsubscriptionDelete
      else got_unknown_outcome E IN_UN_SUCC pc)"

end
