(* ===== verification/E2_FromXapp.thy ===== *)
theory E2_FromXapp
  imports E2_FromRan
begin

text \<open>
  The messages that the xApps and the E2 manager send to E2 nodes through the routing library,
  \<^verbatim>\<open>receiveXappMessages\<close> in \<^verbatim>\<open>sctpThread.cpp\<close>, one definition per case of its
  \<^verbatim>\<open>switch\<close>. The result of a case is the return code.
\<close>

section \<open>Parts that the cases share\<close>

text \<open>
  Several cases convert the XML text to an encoded message first and are over, without an
  error, when that fails; all send the message to the node and return \<^verbatim>\<open>-6\<close> when that fails.
\<close>

definition converted :: "'w env \<Rightarrow> ('w, int) act \<Rightarrow> ('w, int) act" where
  "converted E k = bnd (PER_FromXML E) (\<lambda>rc. if rc \<noteq> 0 then ret 0 else k)"

definition forwarded :: "'w env \<Rightarrow> ('w, unit) act \<Rightarrow> ('w, int) act" where
  "forwarded E k = bnd (sendDirectionalSctpMsg E) (\<lambda>rc. if rc \<noteq> 0 then ret (-6) else sq k (ret 0))"

definition count_out :: "direction_t \<Rightarrow> direction_t \<Rightarrow> int \<Rightarrow> ('w, unit) act" where
  "count_out d d' p = bnd get_rcv (\<lambda>b. count_message d d' p (mb_len b))"

text \<open>The answers to a setup check each of the four counters.\<close>

definition count_setup :: "direction_t \<Rightarrow> ('w, unit) act" where
  "count_setup d = bnd get_rcv (\<lambda>b. seqs [
     bnd (peer_counter d MSG_COUNTER ProcedureCode_id_E2setup) (\<lambda>l. increment_if l 1),
     bnd (peer_counter d BYTES_COUNTER ProcedureCode_id_E2setup) (\<lambda>l. increment_if l (mb_len b)),
     bnd (e2t_counter d MSG_COUNTER ProcedureCode_id_E2setup) (\<lambda>l. increment_if l 1),
     bnd (e2t_counter d BYTES_COUNTER ProcedureCode_id_E2setup) (\<lambda>l. increment_if l (mb_len b))])"

section \<open>The cases\<close>

definition x_E2_SETUP_RESP :: "'w env \<Rightarrow> ('w, int) act" where
  "x_E2_SETUP_RESP E = converted E (sq (count_setup OUT_SUCC)
     (forwarded E (set_procedure E2_SETUP_PROCEDURE_COMPLETED)))"

definition x_E2_SETUP_FAILURE :: "'w env \<Rightarrow> ('w, int) act" where
  "x_E2_SETUP_FAILURE E = converted E (sq (count_setup OUT_UN_SUCC)
     (forwarded E (set_procedure E2_SETUP_PROCEDURE_COMPLETED)))"

definition x_E2NODE_CONFIG_UPDATE_ACK :: "'w env \<Rightarrow> ('w, int) act" where
  "x_E2NODE_CONFIG_UPDATE_ACK E = converted E
     (sq (count_out OUT_SUCC OUT_SUCC ProcedureCode_id_E2nodeConfigurationUpdate) (forwarded E (ret ())))"

definition x_E2NODE_CONFIG_UPDATE_FAILURE :: "'w env \<Rightarrow> ('w, int) act" where
  "x_E2NODE_CONFIG_UPDATE_FAILURE E = converted E
     (sq (count_out OUT_UN_SUCC OUT_UN_SUCC ProcedureCode_id_E2nodeConfigurationUpdate) (forwarded E (ret ())))"

definition x_ERROR_INDICATION :: "'w env \<Rightarrow> ('w, int) act" where
  "x_ERROR_INDICATION E =
     sq (count_out OUT_INITI IN_INITI ProcedureCode_id_ErrorIndication) (forwarded E (ret ()))"

definition x_SUB_REQ :: "'w env \<Rightarrow> ('w, int) act" where
  "x_SUB_REQ E = sq (set_procedure E2_SETUP_PROCEDURE_COMPLETED)
     (sq (count_out OUT_INITI OUT_INITI ProcedureCode_id_RICsubscription)
     (forwarded E (set_procedure RIC_SUBS_PROCEDURE_ONGOING)))"

definition x_SUB_DEL_REQ :: "'w env \<Rightarrow> ('w, int) act" where
  "x_SUB_DEL_REQ E = sq (set_procedure E2_SETUP_PROCEDURE_COMPLETED)
     (sq (count_out OUT_INITI OUT_INITI ProcedureCode_id_RICsubscriptionDelete)
     (forwarded E (set_procedure RIC_SUBS_DEL_PROCEDURE_ONGOING)))"

definition x_CONTROL_REQ :: "'w env \<Rightarrow> ('w, int) act" where
  "x_CONTROL_REQ E = sq (set_procedure E2_SETUP_PROCEDURE_COMPLETED)
     (sq (count_out OUT_INITI OUT_INITI ProcedureCode_id_RICcontrol)
     (forwarded E (set_procedure CONTROL_PROCEDURE_ONGOING)))"

definition x_SERVICE_QUERY :: "'w env \<Rightarrow> ('w, int) act" where
  "x_SERVICE_QUERY E = converted E
     (sq (count_out OUT_INITI OUT_INITI ProcedureCode_id_RICserviceQuery)
     (forwarded E (set_procedure RIC_SERVICE_UPDATE_PROCEDURE_ONGOING)))"

definition x_SERVICE_UPDATE_ACK :: "'w env \<Rightarrow> ('w, int) act" where
  "x_SERVICE_UPDATE_ACK E = converted E
     (sq (count_out OUT_SUCC OUT_SUCC ProcedureCode_id_RICserviceUpdate) (forwarded E (ret ())))"

definition x_SERVICE_UPDATE_FAILURE :: "'w env \<Rightarrow> ('w, int) act" where
  "x_SERVICE_UPDATE_FAILURE E = converted E
     (sq (count_out OUT_UN_SUCC OUT_UN_SUCC ProcedureCode_id_RICserviceUpdate) (forwarded E (ret ())))"

definition x_E2_RESET_REQ :: "'w env \<Rightarrow> ('w, int) act" where
  "x_E2_RESET_REQ E = converted E
     (sq (count_out OUT_INITI IN_INITI ProcedureCode_id_Reset) (forwarded E (ret ())))"

definition x_E2_RESET_RESP :: "'w env \<Rightarrow> ('w, int) act" where
  "x_E2_RESET_RESP E = converted E
     (sq (count_out OUT_SUCC OUT_SUCC ProcedureCode_id_Reset) (forwarded E (ret ())))"

subsection \<open>Clearing all connections\<close>

definition starts_with :: "string \<Rightarrow> string \<Rightarrow> bool" where
  "starts_with s p \<longleftrightarrow> take (length p) s = p"

definition clear_one :: "'w env \<Rightarrow> int \<times> int \<Rightarrow> nat \<Rightarrow> ('w, unit) act" where
  "clear_one E ts a = bnd (deref a) (\<lambda>c. seqs [
     ext_do (fd_close E (fileDescriptor c)),
     copy_peer_name a,
     upd_msg (\<lambda>m. m\<lparr>direction := CHR ''D'', tv_sec := fst ts, tv_nsec := snd ts\<rparr>),
     bnd (CU_name a) (\<lambda>n. send_text (n @ ''|RIC_SCTP_CLEAR_ALL'')),
     point_to_send,
     request_to_xapp E RIC_SCTP_CONNECTION_FAILURE,
     free_CU a])"

definition clear_key :: "'w env \<Rightarrow> int \<times> int \<Rightarrow> string \<Rightarrow> ('w, unit) act" where
  "clear_key E ts k =
     (if \<not> starts_with k ''host:'' \<and> \<not> starts_with k ''msg:'' then
        bnd (gets (\<lambda>s. map_find (sctpMap s) k)) (\<lambda>p.
          case p of None \<Rightarrow> ret () | Some a \<Rightarrow> clear_one E ts a)
      else ret ())"

definition x_SCTP_CLEAR_ALL :: "'w env \<Rightarrow> int \<times> int \<Rightarrow> ('w, int) act" where
  "x_SCTP_CLEAR_ALL E ts =
     bnd (gets (\<lambda>s. map_getKeys (sctpMap s))) (\<lambda>v. sq (iter (clear_key E ts) v)
     (sq (modify (\<lambda>s. s\<lparr>sctpMap := map_clear (sctpMap s)\<rparr>)) (ret 0)))"

subsection \<open>Keep-alive and health check\<close>

definition x_KEEP_ALIVE_REQ :: "'w env \<Rightarrow> ('w, int) act" where
  "x_KEEP_ALIVE_REQ E =
     bnd (gets (\<lambda>s. map char_byte (ka_message (params s)))) (\<lambda>ka.
     sq (upd_send (rmr_bytes2payload E ka))
     (sq (upd_send (\<lambda>b. b\<lparr>mb_mtype := E2_TERM_KEEP_ALIVE_RESP, mb_state := RMR_OK\<rparr>))
     (bnd next_transaction (\<lambda>t. sq (upd_send (rmr_bytes2xact E (tx_text t)))
     (bnd get_send (\<lambda>b. bnd (ext (rmr_send_msg E b)) (\<lambda>r. sq (set_send r)
     (sq (whenM (r = None) (alloc_send E)) (ret 0)))))))))"

definition x_HEALTH_CHECK_REQ :: "'w env \<Rightarrow> ('w, int) act" where
  "x_HEALTH_CHECK_REQ E =
     sq (upd_rcv (rmr_bytes2payload E (map char_byte ''OK'')))
     (sq (upd_rcv (\<lambda>b. b\<lparr>mb_mtype := RIC_HEALTH_CHECK_RESP, mb_state := RMR_OK\<rparr>))
     (bnd next_transaction (\<lambda>t. sq (upd_rcv (rmr_bytes2xact E (tx_text t)))
     (bnd get_rcv (\<lambda>b. bnd (ext (rmr_rts_msg E b)) (\<lambda>r. sq (set_rcv r)
     (sq (whenM (r = None) (alloc_rcv E)) (ret 0))))))))"

definition x_unsupported :: "'w env \<Rightarrow> int \<times> int \<Rightarrow> ('w, int) act" where
  "x_unsupported E ts = bnd get_rcv (\<lambda>b.
     sq (upd_msg (\<lambda>m. m\<lparr>asndata := Asn_rcv (mb_id b), msg_asnLength := mb_len b,
       tv_sec := fst ts, tv_nsec := snd ts, messageType := mb_mtype b\<rparr>))
     (sq (buildJsonMessage E) (ret (-7))))"

section \<open>The handler\<close>

fun xapp_case :: "'w env \<Rightarrow> int \<times> int \<Rightarrow> rmr_mtype \<Rightarrow> ('w, int) act" where
  "xapp_case E ts RIC_E2_SETUP_RESP = x_E2_SETUP_RESP E"
| "xapp_case E ts RIC_E2_SETUP_FAILURE = x_E2_SETUP_FAILURE E"
| "xapp_case E ts RIC_E2NODE_CONFIG_UPDATE_ACK = x_E2NODE_CONFIG_UPDATE_ACK E"
| "xapp_case E ts RIC_E2NODE_CONFIG_UPDATE_FAILURE = x_E2NODE_CONFIG_UPDATE_FAILURE E"
| "xapp_case E ts RIC_ERROR_INDICATION = x_ERROR_INDICATION E"
| "xapp_case E ts RIC_SUB_REQ = x_SUB_REQ E"
| "xapp_case E ts RIC_SUB_DEL_REQ = x_SUB_DEL_REQ E"
| "xapp_case E ts RIC_CONTROL_REQ = x_CONTROL_REQ E"
| "xapp_case E ts RIC_SERVICE_QUERY = x_SERVICE_QUERY E"
| "xapp_case E ts RIC_SERVICE_UPDATE_ACK = x_SERVICE_UPDATE_ACK E"
| "xapp_case E ts RIC_SERVICE_UPDATE_FAILURE = x_SERVICE_UPDATE_FAILURE E"
| "xapp_case E ts RIC_E2_RESET_REQ = x_E2_RESET_REQ E"
| "xapp_case E ts RIC_E2_RESET_RESP = x_E2_RESET_RESP E"
| "xapp_case E ts RIC_SCTP_CLEAR_ALL = x_SCTP_CLEAR_ALL E ts"
| "xapp_case E ts E2_TERM_KEEP_ALIVE_REQ = x_KEEP_ALIVE_REQ E"
| "xapp_case E ts RIC_HEALTH_CHECK_REQ = x_HEALTH_CHECK_REQ E"
| "xapp_case E ts _ = x_unsupported E ts"

text \<open>The messages that are handled without a connection.\<close>

definition needs_no_node :: "rmr_mtype \<Rightarrow> bool" where
  "needs_no_node t \<longleftrightarrow> t = RIC_SCTP_CLEAR_ALL \<or> t = E2_TERM_KEEP_ALIVE_REQ \<or> t = RIC_HEALTH_CHECK_REQ"

definition dispatch_xapp :: "'w env \<Rightarrow> int \<times> int \<Rightarrow> rmr_mbuf \<Rightarrow> ('w, int) act" where
  "dispatch_xapp E ts b =
     bnd (gets (msg_enodbName \<circ> msg)) (\<lambda>buf.
     bnd (need Buffer_Overflow (poke buf (rmr_get_meid E b @ [NUL]))) (\<lambda>buf'.
     sq (upd_msg (\<lambda>m. m\<lparr>msg_enodbName := buf'\<rparr>))
     (bnd message_name (\<lambda>n. bnd (gets (\<lambda>s. map_find (sctpMap s) n)) (\<lambda>p.
     sq (upd_msg (\<lambda>m. m\<lparr>peerInfo := p\<rparr>))
     (if p = None \<and> \<not> needs_no_node (mb_mtype b) then ret (-1)
      else sq (whenM (mb_mtype b \<noteq> RIC_HEALTH_CHECK_REQ)
                (modify (\<lambda>s. s\<lparr>num_of_XAPP_messages := num_of_XAPP_messages s + 1\<rparr>)))
             (xapp_case E ts (mb_mtype b))))))))"

definition receiveXappMessages :: "'w env \<Rightarrow> int \<times> int \<Rightarrow> ('w, int) act" where
  "receiveXappMessages E ts =
     bnd (gets rcvMessage) (\<lambda>r0. case r0 of
       None \<Rightarrow> ret (-1)
     | Some b0 \<Rightarrow> bnd (ext (rmr_rcv_msg E b0)) (\<lambda>r. sq (set_rcv r) (case r of
         None \<Rightarrow> sq (alloc_rcv E) (ret (-2))
       | Some b \<Rightarrow>
           sq (modify (\<lambda>s. s\<lparr>msg := zero_message\<lparr>direction := CHR ''D'', tv_sec := fst ts, tv_nsec := snd ts\<rparr>\<rparr>))
           (if mb_state b \<noteq> RMR_OK then ret (-1) else dispatch_xapp E ts b))))"

end
