(* ===== verification/E2_Listener.thy ===== *)
theory E2_Listener
  imports E2_FromXapp
begin

unbundle bit_operations_syntax

text \<open>
  The listener thread of \<^verbatim>\<open>sctpThread.cpp\<close>: reading a node's messages, errors and
  completed connects of a socket, new connections, changes of the configuration file, and the
  dispatch of the events that \<^verbatim>\<open>epoll_wait\<close> reports. One such thread runs (\<^verbatim>\<open>main\<close> sets
  \<^verbatim>\<open>num_cpus\<close> to one), so an event is handled from start to end before the next one. The
  count of SCTP messages, which nothing reads, and the timing statistics are left out.
\<close>

section \<open>Data from a node\<close>

text \<open>\<^verbatim>\<open>sctp_recvmsg\<close> reads into the payload of the send buffer.\<close>

definition store_received :: "byte list \<Rightarrow> ('w, unit) act" where
  "store_received bs = bnd get_send (\<lambda>b.
     sq (require Buffer_Overflow (length bs \<le> length (mb_payload b)))
     (upd_send (\<lambda>b. b\<lparr>mb_payload := bs @ drop (length bs) (mb_payload b), mb_len := int (length bs)\<rparr>)))"

definition fill_message :: "int \<times> int \<Rightarrow> ('w, unit) act" where
  "fill_message ts = bnd peer_addr (\<lambda>a. sq point_to_send (sq (copy_peer_name a)
     (upd_msg (\<lambda>m. m\<lparr>direction := CHR ''U'', tv_sec := fst ts, tv_nsec := snd ts\<rparr>))))"

definition handle_pdu :: "'w env \<Rightarrow> E2AP_PDU \<Rightarrow> int \<Rightarrow> ('w, unit) act" where
  "handle_pdu E pdu streamId =
     (case pdu_present pdu of
        initiatingMessage \<Rightarrow> asnInitiatingRequest E pdu streamId
      | successfulOutcome \<Rightarrow> asnSuccessfulMsg E pdu
      | unsuccessfulOutcome \<Rightarrow> asnUnSuccsesfulMsg E pdu
      | pdu_NOTHING \<Rightarrow> ret ())"

text \<open>The \<^verbatim>\<open>while (true)\<close> of \<^verbatim>\<open>receiveDataFromSctp\<close>; the result is the flag \<^verbatim>\<open>done\<close>.\<close>

fun receive_rounds :: "nat \<Rightarrow> 'w env \<Rightarrow> int \<times> int \<Rightarrow> ('w, bool) act" where
  "receive_rounds 0 E ts = raise Fuel_Exhausted"
| "receive_rounds (Suc k) E ts =
     bnd peer (\<lambda>c. bnd (ext (sctp_recvmsg E (fileDescriptor c))) (\<lambda>r. case r of
        Recv_error e \<Rightarrow>
          sq (upd_send (\<lambda>b. b\<lparr>mb_len := -1\<rparr>)) (sq (fill_message ts)
          (if e = EINTR then receive_rounds k E ts else ret (e \<noteq> EAGAIN)))
      | Received bs stream \<Rightarrow>
          sq (store_received bs) (sq (fill_message ts)
          (if bs = [] then ret True
           else bnd asn_octets (\<lambda>octets. case per_decode E octets of
              None \<Rightarrow> ret False
            | Some pdu \<Rightarrow> sq (handle_pdu E pdu stream) (receive_rounds k E ts))))))"

text \<open>What follows when the peer has closed the connection or it failed.\<close>

definition disconnected :: "'w env \<Rightarrow> nat option \<Rightarrow> ('w, unit) act" where
  "disconnected E p = bnd peer_addr (\<lambda>a. seqs [
     bnd (CU_name a) (\<lambda>n. send_text (n @ ''|CU disconnected unexpectedly'')),
     point_to_send,
     count_internal a SCTP_ABORT_INITIATED_BY_E2NODE,
     request_to_xapp E RIC_SCTP_CONNECTION_FAILURE,
     bnd (CU_name a) remove_procedure,
     bnd (deref a) (\<lambda>c. bnd (ext (fd_open E (fileDescriptor c))) (\<lambda>open. whenM open
       (sq (ext_do (fd_close E (fileDescriptor c))) (cleanHashEntry p))))])"

definition receiveDataFromSctp :: "'w env \<Rightarrow> int \<times> int \<Rightarrow> nat option \<Rightarrow> ('w, int) act" where
  "receiveDataFromSctp E ts p =
     sq (modify (\<lambda>s. s\<lparr>msg := zero_message\<lparr>peerInfo := p\<rparr>\<rparr>))
     (bnd (receive_rounds (rounds E) E ts) (\<lambda>done. sq (whenM done (disconnected E p)) (ret 0)))"

section \<open>Socket errors and completed connects\<close>

definition poll_error :: "'w env \<Rightarrow> nat \<Rightarrow> ('w, unit) act" where
  "poll_error E a = seqs [
     bnd (CU_name a) (\<lambda>n. send_text (n @ ''|Failed SCTP Connection'')),
     point_to_send,
     copy_peer_name a,
     upd_msg (\<lambda>m. m\<lparr>direction := CHR ''N''\<rparr>),
     count_internal a SCTP_ABORT_INITIATED_BY_E2NODE,
     request_to_xapp E RIC_SCTP_CONNECTION_FAILURE,
     bnd (deref a) (\<lambda>c. ext_do (fd_close E (fileDescriptor c))),
     bnd (CU_name a) remove_procedure,
     cleanHashEntry (Some a)]"

text \<open>
  The data of an event is a union: for the listening, RMR and watch descriptors the number,
  for a connection its address. A connection's address does not read as one of those numbers,
  and a number that is read as an address is a wild pointer (null for 0).
\<close>

datatype epoll_data = Epoll_fd int | Epoll_ptr "nat option"

definition handlepoll_error :: "'w env \<Rightarrow> epoll_data \<Rightarrow> ('w, unit) act" where
  "handlepoll_error E d =
     (case d of
        Epoll_fd fd \<Rightarrow> bnd (gets params) (\<lambda>pr.
          if fd \<noteq> rmrListenFd pr \<and> fd \<noteq> 0 then raise Wild_Pointer else ret ())
      | Epoll_ptr None \<Rightarrow> ret ()
      | Epoll_ptr (Some a) \<Rightarrow> poll_error E a)"

text \<open>
  \<^verbatim>\<open>getsockopt(fd, SOL_SOCKET, SO_ERROR, &retVal, &retValLen)\<close> stores at most
  \<^verbatim>\<open>retValLen\<close> octets; the source passes 0 for it, so \<^verbatim>\<open>retVal\<close> keeps its 0.
\<close>

definition option_value :: "nat \<Rightarrow> int \<Rightarrow> int" where
  "option_value retValLen v = (if retValLen = 0 then 0 else v)"

definition clear_pending :: "nat \<Rightarrow> ('w, unit) act" where
  "clear_pending a = bnd (deref a) (\<lambda>c.
     sq (require Buffer_Overflow (cu_asnLength c \<le> length (cu_asnData c)))
     (upd_CU a (\<lambda>c. c\<lparr>cu_asnData := zero_bytes (cu_asnLength c) @ drop (cu_asnLength c) (cu_asnData c),
        cu_asnLength := 0, cu_mtype := Mtype 0\<rparr>)))"

definition connect_failed :: "'w env \<Rightarrow> nat \<Rightarrow> bool \<Rightarrow> ('w, unit) act" where
  "connect_failed E a rc_ok = seqs [
     bnd (CU_name a) (\<lambda>n. bnd (gets (so_error_text E \<circ> world)) (\<lambda>err.
       send_text (if \<not> rc_ok then n @ ''|Failed SCTP Connection, after EINPROGRESS the getsockopt'' @ err
                  else n @ ''|Failed SCTP Connection after EINPROGRESS, SO_ERROR''))),
     point_to_send,
     upd_msg (\<lambda>m. m\<lparr>direction := CHR ''N''\<rparr>),
     count_internal a SCTP_ABORT_INITIATED_BY_E2NODE,
     request_to_xapp E RIC_SCTP_CONNECTION_FAILURE,
     clear_pending a]"

definition connect_succeeded :: "'w env \<Rightarrow> nat \<Rightarrow> ('w, unit) act" where
  "connect_succeeded E a =
     sq (upd_CU a (\<lambda>c. c\<lparr>isConnected := True\<rparr>))
     (bnd (deref a) (\<lambda>c. bnd (modifyToEpoll E a (Some a) (cu_mtype c)) (\<lambda>rc. if rc \<noteq> 0 then ret ()
      else sq (upd_msg (\<lambda>m. m\<lparr>asndata := Asn_peer a, msg_asnLength := int (cu_asnLength c), messageType := cu_mtype c\<rparr>))
        (sq (copy_peer_name a)
        (sq (modify (\<lambda>s. s\<lparr>num_of_messages := num_of_messages s + 1\<rparr>))
        (bnd (sendSctpMsg E (Some a)) (\<lambda>rc. if rc \<noteq> 0 then ret () else clear_pending a)))))))"

definition handleEinprogressMessages :: "'w env \<Rightarrow> epoll_data \<Rightarrow> ('w, unit) act" where
  "handleEinprogressMessages E d =
     (case d of
        Epoll_fd fd \<Rightarrow> raise (if fd = 0 then Null_Deref else Wild_Pointer)
      | Epoll_ptr None \<Rightarrow> raise Null_Deref
      | Epoll_ptr (Some a) \<Rightarrow>
          sq (copy_peer_name a) (bnd (deref a) (\<lambda>c.
          bnd (ext (so_error E (fileDescriptor c))) (\<lambda>(rc_ok, v).
          if \<not> rc_ok \<or> option_value 0 v \<noteq> 0 then connect_failed E a rc_ok
          else connect_succeeded E a))))"

section \<open>New connections\<close>

definition O_NONBLOCK :: int where
  "O_NONBLOCK = 0x800"

definition setSocketNoBlocking :: "'w env \<Rightarrow> int \<Rightarrow> ('w, int) act" where
  "setSocketNoBlocking E fd = bnd (ext (fcntl_getfl E fd)) (\<lambda>flags.
     if flags = -1 then ret (-1)
     else bnd (ext (fcntl_setfl E fd (flags OR O_NONBLOCK))) (\<lambda>ok. ret (if ok then 0 else -1)))"

definition drop_new :: "'w env \<Rightarrow> nat \<Rightarrow> int \<Rightarrow> ('w, unit) act" where
  "drop_new E a fd = sq (ext_do (fd_close E fd)) (free_CU a)"

definition set_up_new :: "'w env \<Rightarrow> nat \<Rightarrow> int \<Rightarrow> ('w, unit) act" where
  "set_up_new E a fd =
     sq (ext_do (set_sctp_options E fd)) (bnd (ext (getnameinfo E fd)) (\<lambda>ans. case ans of
       None \<Rightarrow> drop_new E a fd
     | Some (host, port) \<Rightarrow>
         sq (upd_CU a (\<lambda>c. c\<lparr>hostName := host, portNumber := port, isConnected := False, gotSetup := False\<rparr>))
         (bnd (addToEpoll E a None (Mtype 0)) (\<lambda>rc. if rc \<noteq> 0 then free_CU a else ret ()))))"

text \<open>The body of the accept loop, which ends in \<^verbatim>\<open>break\<close> on every path.\<close>

definition accept_connection :: "'w env \<Rightarrow> ('w, unit) act" where
  "accept_connection E =
     bnd (ext (calloc_ok E)) (\<lambda>ok. whenM ok
       (bnd alloc_CU (\<lambda>a. bnd (gets (listenFD \<circ> params)) (\<lambda>lfd. bnd (ext (accept E lfd)) (\<lambda>r. case r of
          None \<Rightarrow> free_CU a
        | Some fd \<Rightarrow>
            sq (upd_CU a (\<lambda>c. c\<lparr>fileDescriptor := fd\<rparr>))
            (bnd (setSocketNoBlocking E fd) (\<lambda>rc.
              if rc = -1 then drop_new E a fd else set_up_new E a fd)))))))"

section \<open>The configuration file changes\<close>

definition to_lower :: "char \<Rightarrow> char" where
  "to_lower c = (if of_char c \<ge> (65::nat) \<and> of_char c \<le> (90::nat) then char_of (of_char c + 32 :: nat) else c)"

text \<open>The value of \<^verbatim>\<open>trace\<close>: on for \<^verbatim>\<open>start\<close> in any case, off for anything else.\<close>

definition trace_on :: "string \<Rightarrow> bool" where
  "trace_on tmpStr = (map to_lower (if tmpStr = [] then ''stop'' else tmpStr) = ''start'')"

definition config_path :: "sctp_params \<Rightarrow> string" where
  "config_path pr = c_str (configFilePath pr @ ''/'' @ configFileName pr)"

definition set_trace :: "bool \<Rightarrow> ('w, unit) act" where
  "set_trace b = modify (\<lambda>s. s\<lparr>params := (params s)\<lparr>tracing := b\<rparr>, jsonTrace := b\<rparr>)"

text \<open>Reading the file again; \<open>False\<close> is an early return, which leaves the setting.\<close>

definition reload_trace :: "'w env \<Rightarrow> ('w, bool) act" where
  "reload_trace E = bnd (gets (config_path \<circ> params)) (\<lambda>p. bnd (ext (file_size E p)) (\<lambda>sz. case sz of
      None \<Rightarrow> ret False
    | Some n \<Rightarrow> if n > 2048 then ret False
        else bnd (ext (file_text E p)) (\<lambda>t. case openConfigFile t of
          None \<Rightarrow> ret False
        | Some es \<Rightarrow> sq (set_trace (trace_on (getStringValue es ''trace''))) (ret True))))"

fun config_events :: "'w env \<Rightarrow> inotify_event list \<Rightarrow> bool \<Rightarrow> ('w, bool option) act" where
  "config_events E [] endless = ret (Some endless)"
| "config_events E (ev # evs) endless =
     (if in_isdir ev then config_events E evs endless
      else bnd (gets (configFileName \<circ> params)) (\<lambda>f.
        if (case in_name ev of None \<Rightarrow> False | Some n \<Rightarrow> c_str f \<noteq> n) then config_events E evs endless
        else if in_close_write ev then
          bnd (reload_trace E) (\<lambda>ok. if ok then config_events E evs False else ret None)
        else config_events E evs endless))"

fun config_rounds :: "nat \<Rightarrow> 'w env \<Rightarrow> ('w, unit) act" where
  "config_rounds 0 E = raise Fuel_Exhausted"
| "config_rounds (Suc k) E = bnd (gets (inotifyFD \<circ> params)) (\<lambda>fd. bnd (ext (inotify_read E fd)) (\<lambda>r. case r of
      None \<Rightarrow> ret ()
    | Some evs \<Rightarrow> bnd (config_events E evs True) (\<lambda>c. case c of
        Some True \<Rightarrow> config_rounds k E
      | _ \<Rightarrow> ret ())))"

definition handleConfigChange :: "'w env \<Rightarrow> ('w, unit) act" where
  "handleConfigChange E = config_rounds (rounds E) E"

section \<open>The events\<close>

record epoll_event =
  ev_error :: bool
  ev_out :: bool
  ev_data :: epoll_data

text \<open>The listener's own handlers work on its own message.\<close>

definition with_listener_message :: "('w, unit) act \<Rightarrow> ('w, unit) act" where
  "with_listener_message m =
     sq (modify (\<lambda>s. s\<lparr>msg := lmsg s\<rparr>)) (sq m (modify (\<lambda>s. s\<lparr>lmsg := msg s\<rparr>)))"

definition count_event :: "('w, unit) act" where
  "count_event = modify (\<lambda>s. s\<lparr>num_of_messages := num_of_messages s + 1\<rparr>)"

definition handle_event :: "'w env \<Rightarrow> (int \<times> int) \<times> epoll_event \<Rightarrow> ('w, unit) act" where
  "handle_event E tev =
     (let (ts, ev) = tev in
      sq (modify (\<lambda>s. s\<lparr>lmsg := (lmsg s)\<lparr>tv_sec := fst ts, tv_nsec := snd ts\<rparr>\<rparr>))
      (bnd (gets params) (\<lambda>pr.
       if ev_error ev then with_listener_message (handlepoll_error E (ev_data ev))
       else if ev_out ev then with_listener_message (handleEinprogressMessages E (ev_data ev))
       else (case ev_data ev of
         Epoll_fd fd \<Rightarrow>
           if fd = listenFD pr then accept_connection E
           else if fd = rmrListenFd pr then
             sq count_event (bnd (receiveXappMessages E ts) (\<lambda>_. ret ()))
           else if fd = inotifyFD pr then handleConfigChange E
           else sq count_event (raise (if fd = 0 then Null_Deref else Wild_Pointer))
       | Epoll_ptr p \<Rightarrow>
           sq count_event (bnd (receiveDataFromSctp E ts p) (\<lambda>_. ret ()))))))"

text \<open>The events of one \<^verbatim>\<open>epoll_wait\<close>, in the order of the array.\<close>

definition handle_batch :: "'w env \<Rightarrow> ((int \<times> int) \<times> epoll_event) list \<Rightarrow> ('w, unit) act" where
  "handle_batch E evs = iter (handle_event E) evs"

section \<open>The loop\<close>

datatype poll_answer =
    Poll_timeout
  | Poll_error errno
  | Poll_events "((int \<times> int) \<times> epoll_event) list"

text \<open>
  The loop, for the answers that \<^verbatim>\<open>epoll_wait\<close> gives one after the other and the worlds it
  returns in: \<open>True\<close> when the thread returns, \<open>False\<close> when it waits again.
\<close>

fun listener_rounds :: "'w env \<Rightarrow> (poll_answer \<times> 'w) list \<Rightarrow> ('w, bool) act" where
  "listener_rounds E [] = ret False"
| "listener_rounds E ((ans, w) # answers) = sq (ext_do (\<lambda>_. w))
     (case ans of
        Poll_timeout \<Rightarrow> listener_rounds E answers
      | Poll_error e \<Rightarrow> if e = EINTR then listener_rounds E answers else ret True
      | Poll_events evs \<Rightarrow> sq (handle_batch E evs) (listener_rounds E answers))"

end
