(* ===== verification/E2_Startup.thy ===== *)
theory E2_Startup
  imports E2_Listener
begin

unbundle bit_operations_syntax

text \<open>
  From \<^verbatim>\<open>main\<close> to the first event: the configuration, the counters of the instance, the
  routing library, the watch on the configuration directory, the listening socket, the
  buffers of the listener thread, and the announcement to the E2 manager. The start-up works
  on the state of \<open>E2_State\<close>, in which the connections and the buffers are still missing. Its
  own calls to the platform are a second record of functions. The command line, the
  signals and the threads around it are in \<open>E2_Process\<close>.
\<close>

section \<open>The platform\<close>

text \<open>The options that the start-up sets on the listening socket.\<close>

datatype socket_option =
    Init_msg int int int
  | Heartbeat_interval int
  | Association_max_retries int

record 'w platform =
  getenv :: "string \<Rightarrow> string option"
  gethostname :: "'w \<Rightarrow> string option \<times> 'w"
  gethostbyname :: "string \<Rightarrow> 'w \<Rightarrow> string list option \<times> 'w"
  epoll_create1 :: "'w \<Rightarrow> int \<times> 'w"
  epoll_add_fd :: "int \<Rightarrow> int \<Rightarrow> 'w \<Rightarrow> bool \<times> 'w"
  rmr_init :: "string \<Rightarrow> 'w \<Rightarrow> bool \<times> 'w"
  rmr_ready :: "'w \<Rightarrow> bool \<times> 'w"
  rmr_get_rcvfd :: "'w \<Rightarrow> int \<times> 'w"
  rmr_close :: "'w \<Rightarrow> 'w"
  inotify_init1 :: "'w \<Rightarrow> int \<times> 'w"
  inotify_add_watch :: "int \<Rightarrow> string \<Rightarrow> 'w \<Rightarrow> int \<times> 'w"
  socket_sctp :: "'w \<Rightarrow> int \<times> 'w"
  set_option :: "int \<Rightarrow> socket_option \<Rightarrow> 'w \<Rightarrow> 'w"
  option_size_ok :: "int \<Rightarrow> socket_option \<Rightarrow> 'w \<Rightarrow> bool \<times> 'w"
  bind_port :: "int \<Rightarrow> int \<Rightarrow> 'w \<Rightarrow> bool \<times> 'w"
  listen :: "int \<Rightarrow> 'w \<Rightarrow> bool \<times> 'w"
  mutex_init :: "'w \<Rightarrow> bool \<times> 'w"

section \<open>The state that \<^verbatim>\<open>main\<close> starts from\<close>

definition SRC_PORT :: int where
  "SRC_PORT = 36422"

definition VOLUME_URL_SIZE :: nat where
  "VOLUME_URL_SIZE = 256"

definition KA_MESSAGE_SIZE :: nat where
  "KA_MESSAGE_SIZE = 2048"

text \<open>The member initialisers of \<^verbatim>\<open>sctp_params_t\<close>, with the two names from the command line.\<close>

definition initial_params :: "string \<Rightarrow> string \<Rightarrow> sctp_params" where
  "initial_params path name = \<lparr>rmrPort = 0, sctpPort = SRC_PORT, epoll_fd = 0, listenFD = 0,
     rmrListenFd = 0, inotifyFD = 0, ka_message = [], ka_message_length = 0, rmrAddress = [],
     volume = [], myIP = [], fqdn = [], podName = [], configFilePath = path, configFileName = name,
     tracing = True, prometheusPort = ''8088'', e2tCounters = []\<rparr>"

definition initial_state :: "'w \<Rightarrow> int \<Rightarrow> string \<Rightarrow> string \<Rightarrow> 'w e2t" where
  "initial_state w tc path name = \<lparr>world = w, heap = Map.empty, next_addr = 1, sctpMap = [], e2map = [],
     sendMessage = None, rcvMessage = None, msg = zero_message, lmsg = zero_message,
     metrics = (\<lambda>_. 0), params = initial_params path name, jsonTrace = False,
     transactionCounter = tc, num_of_messages = 0, num_of_XAPP_messages = 0, trace_log = []\<rparr>"

definition set_param :: "(sctp_params \<Rightarrow> sctp_params) \<Rightarrow> ('w, unit) act" where
  "set_param f = modify (\<lambda>s. s\<lparr>params := f (params s)\<rparr>)"

section \<open>The configuration\<close>

definition to_uint16 :: "int \<Rightarrow> int" where
  "to_uint16 v = take_bit 16 v"

definition log_file_pattern :: string where
  "log_file_pattern = ''/tmp/E2Term_%Y-%m-%d_%H-%M-%S.%N.tmpStr''"

text \<open>
  \<^verbatim>\<open>snprintf\<close> of the volume into the parameters and into the local \<^verbatim>\<open>tmpLogFilespec\<close>, both
  of 256 characters, and \<^verbatim>\<open>strcat\<close> of the file pattern to the latter.
\<close>

definition set_volume :: "string \<Rightarrow> ('w, string) act" where
  "set_volume vol =
     (let v = snprintf_text VOLUME_URL_SIZE (c_str vol) in
      sq (set_param (\<lambda>p. p\<lparr>volume := v\<rparr>))
      (sq (require Buffer_Overflow (length v + length log_file_pattern < VOLUME_URL_SIZE))
      (ret (v @ log_file_pattern))))"

definition ka_text :: "sctp_params \<Rightarrow> string" where
  \<open>ka_text p = ''{"address": "'' @ c_str (myIP p) @ '':'' @ fmt_d (rmrPort p) @ ''",'' @
     ''"fqdn": "'' @ c_str (fqdn p) @ ''",'' @ ''"pod_name": "'' @ c_str (podName p) @ ''"}''\<close>

definition set_ka_message :: "('w, unit) act" where
  "set_ka_message = set_param (\<lambda>p. p\<lparr>ka_message := snprintf_text KA_MESSAGE_SIZE (ka_text p),
     ka_message_length := int (length (ka_text p))\<rparr>)"

definition config_trace :: "entries \<Rightarrow> ('w, unit) act" where
  "config_trace es = set_trace (map to_lower (getStringValue es ''trace'') = ''start'')"

text \<open>The names: the pod's is that of an environment variable that the file names.\<close>

definition config_names :: "'w platform \<Rightarrow> entries \<Rightarrow> ('w, bool) act" where
  "config_names G es =
     sq (set_param (\<lambda>p. p\<lparr>fqdn := getStringValue es ''external-fqdn''\<rparr>))
     (if getStringValue es ''external-fqdn'' = [] then ret False
      else if getStringValue es ''pod_name'' = [] then ret False
      else (case getenv G (c_str (getStringValue es ''pod_name'')) of
         None \<Rightarrow> ret False
       | Some pod \<Rightarrow> sq (set_param (\<lambda>p. p\<lparr>podName := pod\<rparr>)) (ret (pod \<noteq> []))))"

definition config_rest :: "entries \<Rightarrow> ('w, unit) act" where
  "config_rest es = seqs [
     config_trace es,
     whenM (getStringValue es ''prometheusPort'' \<noteq> [])
       (set_param (\<lambda>p. p\<lparr>prometheusPort := getStringValue es ''prometheusPort''\<rparr>)),
     set_ka_message]"

definition config_values :: "'w platform \<Rightarrow> entries \<Rightarrow> ('w, int) act" where
  "config_values G es =
     (let rmr = getIntValue es ''nano''; vol = getStringValue es ''volume'';
          ip = getStringValue es ''local-ip''; port = getIntValue es ''sctp-port'' in
      if rmr = -1 then ret (-1)
      else sq (set_param (\<lambda>p. p\<lparr>rmrPort := to_uint16 rmr, rmrAddress := snprintf_text 256 (fmt_d (to_uint16 rmr))\<rparr>))
        (if vol = [] then ret (-1)
         else bnd (set_volume vol) (\<lambda>_.
           sq (set_param (\<lambda>p. p\<lparr>myIP := ip\<rparr>))
           (if ip = [] then ret (-1)
            else if port = -1 then ret (-1)
            else sq (set_param (\<lambda>p. p\<lparr>sctpPort := to_uint16 port\<rparr>))
              (bnd (config_names G es) (\<lambda>ok. if \<not> ok then ret (-1) else sq (config_rest es) (ret 0)))))))"

definition buildConfiguration :: "'w platform \<Rightarrow> 'w env \<Rightarrow> ('w, int) act" where
  "buildConfiguration G E = bnd (gets (config_path \<circ> params)) (\<lambda>p. bnd (ext (file_size E p)) (\<lambda>sz. case sz of
      None \<Rightarrow> ret (-1)
    | Some n \<Rightarrow> if n > 2048 then ret (-1)
        else bnd (ext (file_text E p)) (\<lambda>t. case openConfigFile t of
          None \<Rightarrow> ret (-1)
        | Some es \<Rightarrow> config_values G es)))"

section \<open>The counters of the instance\<close>

text \<open>An address list without an entry ends in a null pointer, which is dereferenced.\<close>

definition getinterfaceip :: "'w platform \<Rightarrow> ('w, string option) act" where
  "getinterfaceip G = bnd (ext (gethostname G)) (\<lambda>h. case h of
      None \<Rightarrow> ret None
    | Some n \<Rightarrow> bnd (ext (gethostbyname G n)) (\<lambda>a. case a of
        None \<Rightarrow> ret None
      | Some [] \<Rightarrow> raise Null_Deref
      | Some (ip # _) \<Rightarrow> ret (Some ip)))"

fun contains :: "string \<Rightarrow> string \<Rightarrow> bool" where
  "contains pat [] = (pat = [])"
| "contains pat (c # s) = (take (length pat) (c # s) = pat \<or> contains pat s)"

text \<open>The name of the metric family and the address of the exposer.\<close>

definition startPrometheus :: "'w platform \<Rightarrow> ('w, string \<times> string) act" where
  "startPrometheus G =
     bnd (need Null_Deref (getenv G ''POD_NAME'')) (\<lambda>pod.
     bnd (getinterfaceip G) (\<lambda>ip. bnd (need Null_Deref ip) (\<lambda>hostip.
     sq (set_param (\<lambda>p. p\<lparr>e2tCounters := buildE2TPrometheusCounters\<rparr>))
     (bnd (gets (prometheusPort \<circ> params)) (\<lambda>port.
      ret (if contains ''alpha'' pod then ''E2TAlpha'' else ''E2TBeta'',
           if hostip = [] then port @ '','' @ ''[::]:'' @ port else hostip @ '':'' @ port))))))"

section \<open>Descriptors\<close>

fun ready_rounds :: "nat \<Rightarrow> 'w platform \<Rightarrow> ('w, unit) act" where
  "ready_rounds 0 G = raise Fuel_Exhausted"
| "ready_rounds (Suc k) G = bnd (ext (rmr_ready G)) (\<lambda>r. if r then ret () else ready_rounds k G)"

text \<open>The result tells whether \<^verbatim>\<open>rmrCtx\<close> is not null in the end.\<close>

definition getRmrContext :: "'w platform \<Rightarrow> 'w env \<Rightarrow> ('w, bool) act" where
  "getRmrContext G E = bnd (gets (rmrAddress \<circ> params)) (\<lambda>addr. bnd (ext (rmr_init G addr)) (\<lambda>ctx.
     if \<not> ctx then ret False
     else sq (ready_rounds (rounds E) G)
       (bnd (ext (rmr_get_rcvfd G)) (\<lambda>fd. sq (set_param (\<lambda>p. p\<lparr>rmrListenFd := fd\<rparr>))
       (bnd (gets (epoll_fd \<circ> params)) (\<lambda>ep. bnd (ext (epoll_add_fd G ep fd)) (\<lambda>ok.
        if ok then ret True
        else sq (ext_do (fd_close E fd)) (sq (ext_do (rmr_close G)) (ret False)))))))))"

definition buildInotify :: "'w platform \<Rightarrow> 'w env \<Rightarrow> ('w, int) act" where
  "buildInotify G E = bnd (ext (inotify_init1 G)) (\<lambda>fd. sq (set_param (\<lambda>p. p\<lparr>inotifyFD := fd\<rparr>))
     (if fd = -1 then ret (-1)
      else bnd (gets (configFilePath \<circ> params)) (\<lambda>path. bnd (ext (inotify_add_watch G fd (c_str path))) (\<lambda>wd.
        if wd = -1 then sq (ext_do (fd_close E fd)) (ret (-1))
        else bnd (gets (epoll_fd \<circ> params)) (\<lambda>ep. bnd (ext (epoll_add_fd G ep fd)) (\<lambda>ok.
          if ok then ret 0 else sq (ext_do (fd_close E fd)) (ret (-1))))))))"

text \<open>An option from the environment, set only when the kernel's structure has the same size.\<close>

definition tune_socket :: "'w platform \<Rightarrow> int \<Rightarrow> string \<Rightarrow> (int \<Rightarrow> socket_option) \<Rightarrow> ('w, unit) act" where
  "tune_socket G fd var opt =
     (case getenv G var of
        None \<Rightarrow> ret ()
      | Some v \<Rightarrow> (let o' = opt (int_of_long (strtol v)) in
          bnd (ext (option_size_ok G fd o')) (\<lambda>same. whenM same (ext_do (set_option G fd o')))))"

definition buildListeningPort :: "'w platform \<Rightarrow> 'w env \<Rightarrow> ('w, int) act" where
  "buildListeningPort G E =
     bnd (ext (socket_sctp G)) (\<lambda>fd. sq (set_param (\<lambda>p. p\<lparr>listenFD := fd\<rparr>))
     (if fd \<le> 0 then ret (-1)
      else sq (ext_do (set_option G fd (Init_msg 2 2 4)))
        (bnd (gets (sctpPort \<circ> params)) (\<lambda>port. bnd (ext (bind_port G fd port)) (\<lambda>bound.
         if \<not> bound then ret (-1)
         else bnd (setSocketNoBlocking E fd) (\<lambda>rc. if rc = -1 then ret (-1)
         else sq (tune_socket G fd ''SCTP_HB_INTERVAL'' Heartbeat_interval)
           (sq (tune_socket G fd ''SCTP_MAX_RETRIES'' Association_max_retries)
           (bnd (ext (listen G fd)) (\<lambda>ok. if \<not> ok then ret (-1)
           else bnd (gets (epoll_fd \<circ> params)) (\<lambda>ep. bnd (ext (epoll_add_fd G ep fd)) (\<lambda>added.
             ret (if added then 0 else -1))))))))))))"

section \<open>The listener thread before its loop\<close>

text \<open>
  \<^verbatim>\<open>memcpy(ka_message, params->ka_message, params->ka_message_length)\<close> and the NUL after it:
  the length is what \<^verbatim>\<open>snprintf\<close> would have written, so a longer text overruns both arrays.
\<close>

definition listener_start :: "'w env \<Rightarrow> ('w, unit) act" where
  "listener_start E =
     sq (alloc_rcv E) (sq (alloc_send E)
     (bnd (gets (ka_message_length \<circ> params)) (\<lambda>l.
      sq (require Buffer_Overflow (l < int KA_MESSAGE_SIZE))
      (modify (\<lambda>s. s\<lparr>lmsg := zero_message\<rparr>)))))"

section \<open>The announcement to the E2 manager\<close>

text \<open>The first \<^verbatim>\<open>ka_message_length\<close> octets of the array.\<close>

definition ka_octets :: "sctp_params \<Rightarrow> byte list" where
  "ka_octets p = map char_byte
     (take (nat (ka_message_length p)) (ka_message p @ zero_buf (KA_MESSAGE_SIZE - length (ka_message p))))"

definition init_message :: "'w env \<Rightarrow> sctp_params \<Rightarrow> int \<Rightarrow> rmr_mbuf \<Rightarrow> rmr_mbuf" where
  "init_message E p t b = rmr_bytes2xact E (tx_text t)
     (rmr_bytes2payload E (ka_octets p) (b\<lparr>mb_mtype := E2_TERM_INIT, mb_state := RMR_OK\<rparr>))"

fun send_init_rounds :: "nat \<Rightarrow> 'w env \<Rightarrow> rmr_mbuf option \<Rightarrow> ('w, unit) act" where
  "send_init_rounds 0 E b = raise Fuel_Exhausted"
| "send_init_rounds (Suc k) E b =
     bnd (need Null_Deref b) (\<lambda>m. bnd (gets params) (\<lambda>p.
     sq (require Buffer_Overflow (ka_message_length p \<le> int KA_MESSAGE_SIZE))
     (bnd next_transaction (\<lambda>t. bnd (ext (rmr_send_msg E (init_message E p t m))) (\<lambda>r. case r of
        None \<Rightarrow> bnd (ext (rmr_alloc_msg E (ka_message_length p))) (send_init_rounds k E)
      | Some m' \<Rightarrow> if mb_state m' = RMR_OK then ret () else send_init_rounds k E (Some m'))))))"

definition sendTermInit :: "'w env \<Rightarrow> ('w, unit) act" where
  "sendTermInit E = bnd (gets (ka_message_length \<circ> params)) (\<lambda>l.
     bnd (ext (rmr_alloc_msg E l)) (send_init_rounds (rounds E) E))"

text \<open>
  The loop that waits for a message of an xApp, which the listener thread counts: the list
  holds the values that its rounds read. The result tells whether the loop has returned.
\<close>

fun term_init_rounds :: "'w env \<Rightarrow> int \<Rightarrow> int list \<Rightarrow> ('w, bool) act" where
  "term_init_rounds E count [] = ret False"
| "term_init_rounds E count (x # xs) =
     (if x > 0 then ret True
      else sq (require Signed_Overflow (count < 2 ^ 31 - 1))
        (sq (whenM ((count + 1) mod 1000 = 0) (sendTermInit E)) (term_init_rounds E (count + 1) xs)))"

definition handleTermInit :: "'w env \<Rightarrow> int list \<Rightarrow> ('w, bool) act" where
  "handleTermInit E xs = sq (sendTermInit E) (term_init_rounds E 0 xs)"

section \<open>From \<^verbatim>\<open>main\<close> to the listener\<close>

text \<open>The result tells whether the listener is started; otherwise \<^verbatim>\<open>main\<close> has called \<^verbatim>\<open>exit\<close>.\<close>

definition close_all :: "'w platform \<Rightarrow> 'w env \<Rightarrow> ('w, bool) act" where
  "close_all G E = bnd (gets params) (\<lambda>p.
     sq (ext_do (fd_close E (rmrListenFd p))) (sq (ext_do (rmr_close G))
     (sq (ext_do (fd_close E (epoll_fd p))) (ret False))))"

definition start_threads :: "'w platform \<Rightarrow> 'w env \<Rightarrow> ('w, bool) act" where
  "start_threads G E =
     sq (modify (\<lambda>s. s\<lparr>sctpMap := []\<rparr>))
     (bnd (ext (mutex_init G)) (\<lambda>ok. if ok then sq (listener_start E) (ret True) else ret False))"

definition main_start :: "'w platform \<Rightarrow> 'w env \<Rightarrow> ('w, bool) act" where
  "main_start G E =
     bnd (buildConfiguration G E) (\<lambda>rc. if rc \<noteq> 0 then ret False
     else bnd (startPrometheus G) (\<lambda>_. bnd (ext (epoll_create1 G)) (\<lambda>ep.
       sq (set_param (\<lambda>p. p\<lparr>epoll_fd := ep\<rparr>))
       (if ep = -1 then ret False
        else bnd (getRmrContext G E) (\<lambda>ctx.
          if \<not> ctx then sq (ext_do (fd_close E ep)) (ret False)
          else bnd (buildInotify G E) (\<lambda>rc. if rc = -1 then close_all G E
          else bnd (buildListeningPort G E) (\<lambda>rc. if rc \<noteq> 0 then close_all G E
          else start_threads G E)))))))"

end
