(* ===== verification/E2_Safety.thy ===== *)
theory E2_Safety
  imports E2_Listener
begin

text \<open>
  Memory safety of the message handlers. \<open>env_ok\<close> is the documented behaviour of the routing
  library, the sockets and the allocator that the code relies on; \<open>base\<close> is what holds of the
  terminator's state between events and, but for the points where a connection gets its name
  or is taken out, all through them; \<open>pres\<close> lemmas show it for each handler.
\<close>

section \<open>The environment's contract\<close>

definition big :: "rmr_mbuf \<Rightarrow> bool" where
  "big b \<longleftrightarrow> RECEIVE_SCTP_BUFFER_SIZE \<le> length (mb_payload b)"

definition buf_ok :: "rmr_mbuf \<Rightarrow> bool" where
  "buf_ok b \<longleftrightarrow> big b \<and> 0 \<le> mb_len b \<and> mb_len b \<le> int (length (mb_payload b))"

text \<open>
  The routing library hands back buffers of the size it was given, with a length inside them,
  and allocates what it is asked for (where it cannot, the source uses the null pointer that it
  gets without a check); it stores names and transaction numbers beside the
  payload; a name it returns is a C string shorter than \<^verbatim>\<open>enodbName\<close>.
\<close>

definition rmr_ok :: "'w env \<Rightarrow> bool" where
  "rmr_ok E \<longleftrightarrow>
     (\<forall>b w b' w'. buf_ok b \<and> rmr_send_msg E b w = (Some b', w') \<longrightarrow> buf_ok b') \<and>
     (\<forall>b w b' w'. buf_ok b \<and> rmr_rts_msg E b w = (Some b', w') \<longrightarrow> buf_ok b') \<and>
     (\<forall>b w b' w'. buf_ok b \<and> rmr_rcv_msg E b w = (Some b', w') \<longrightarrow> buf_ok b') \<and>
     (\<forall>n w. \<exists>b w'. rmr_alloc_msg E n w = (Some b, w') \<and> n \<le> int (length (mb_payload b)) \<and>
        0 \<le> mb_len b \<and> mb_len b \<le> int (length (mb_payload b))) \<and>
     (\<forall>t b. mb_payload (rmr_bytes2meid E t b) = mb_payload b \<and> mb_len (rmr_bytes2meid E t b) = mb_len b) \<and>
     (\<forall>t b. mb_payload (rmr_bytes2xact E t b) = mb_payload b \<and> mb_len (rmr_bytes2xact E t b) = mb_len b) \<and>
     (\<forall>t b. big b \<longrightarrow> buf_ok (rmr_bytes2payload E t b)) \<and>
     (\<forall>b. nul_free (rmr_get_meid E b) \<and> length (rmr_get_meid E b) < MAX_ENODB_NAME_SIZE)"

text \<open>
  \<open>T\<close> is the work that the world still has for the loops that wait for \<^verbatim>\<open>EAGAIN\<close>: no call
  adds to it, and a message received or an interrupted call takes from it.
\<close>

definition steady :: "('w \<Rightarrow> nat) \<Rightarrow> ('w \<Rightarrow> 'a \<times> 'w) \<Rightarrow> bool" where
  "steady T f \<longleftrightarrow> (\<forall>w r w'. f w = (r, w') \<longrightarrow> T w' \<le> T w)"

definition sockets_ok :: "('w \<Rightarrow> nat) \<Rightarrow> 'w env \<Rightarrow> bool" where
  "sockets_ok T E \<longleftrightarrow>
     (\<forall>b. steady T (rmr_send_msg E b)) \<and> (\<forall>b. steady T (rmr_rts_msg E b)) \<and>
     (\<forall>b. steady T (rmr_rcv_msg E b)) \<and> (\<forall>n. steady T (rmr_alloc_msg E n)) \<and>
     (\<forall>fd d st. steady T (sctp_sendmsg E fd d st)) \<and> (\<forall>fd. steady T (sctp_recvmsg E fd)) \<and>
     (\<forall>fd a. steady T (epoll_add E fd a)) \<and> (\<forall>fd. steady T (sctp_status E fd)) \<and>
     (\<forall>fd. steady T (fd_open E fd)) \<and> (\<forall>fd. steady T (fcntl_getfl E fd)) \<and>
     (\<forall>fd v. steady T (fcntl_setfl E fd v)) \<and> steady T (calloc_ok E) \<and>
     (\<forall>fd. steady T (accept E fd)) \<and> (\<forall>fd. steady T (getnameinfo E fd)) \<and>
     (\<forall>fd w. T (fd_close E fd w) \<le> T w) \<and> (\<forall>fd w. T (set_sctp_options E fd w) \<le> T w) \<and>
     (\<forall>fd d st w w'. sctp_sendmsg E fd d st w = (Send_error EINTR, w') \<longrightarrow> T w' < T w) \<and>
     (\<forall>fd w bs st w'. sctp_recvmsg E fd w = (Received bs st, w') \<and> bs \<noteq> [] \<longrightarrow> T w' < T w) \<and>
     (\<forall>fd w w'. sctp_recvmsg E fd w = (Recv_error EINTR, w') \<longrightarrow> T w' < T w) \<and>
     (\<forall>fd w bs st w'. sctp_recvmsg E fd w = (Received bs st, w') \<longrightarrow> length bs \<le> RECEIVE_SCTP_BUFFER_SIZE)"

text \<open>
  The buffer of a setup request has no room for the NUL after an encoding of just its size; what
  happens then is shown in \<open>E2_Faults\<close>.
\<close>

definition codec_ok :: "'w env \<Rightarrow> bool" where
  "codec_ok E \<longleftrightarrow> (\<forall>pdu x. xer_encode E pdu = Some x \<longrightarrow> length x \<noteq> RECEIVE_SCTP_BUFFER_SIZE * 2)"

definition env_ok :: "('w \<Rightarrow> nat) \<Rightarrow> 'w env \<Rightarrow> bool" where
  "env_ok T E \<longleftrightarrow> rmr_ok E \<and> sockets_ok T E \<and> codec_ok E"

section \<open>The state's invariant\<close>

definition ran_initial :: "string \<Rightarrow> bool" where
  "ran_initial k \<longleftrightarrow> k \<noteq> [] \<and> hd k \<in> {CHR ''g'', CHR ''e'', CHR ''n''}"

definition has_name :: "ConnectedCU \<Rightarrow> string \<Rightarrow> bool" where
  "has_name c k \<longleftrightarrow> cu_enodbName c = padded MAX_ENODB_NAME_SIZE k \<and> nul_free k \<and>
     length k < MAX_ENODB_NAME_SIZE"

text \<open>A connection with a name has its counters; none is ever marked as connected.\<close>

definition CU_ok :: "ConnectedCU \<Rightarrow> bool" where
  "CU_ok c \<longleftrightarrow> \<not> isConnected c \<and>
     (\<exists>k. has_name c k \<and> (k \<noteq> [] \<longrightarrow> counters c = buildPrometheusList k))"

definition heap_ok :: "(nat \<Rightarrow> ConnectedCU option) \<Rightarrow> nat \<Rightarrow> bool" where
  "heap_ok h n \<longleftrightarrow> (\<forall>a c. h a = Some c \<longrightarrow> a < n \<and> CU_ok c)"

text \<open>Every key of the table is a RAN name and leads to a live connection of that name.\<close>

definition entry_ok :: "(nat \<Rightarrow> ConnectedCU option) \<Rightarrow> string \<Rightarrow> nat \<Rightarrow> bool" where
  "entry_ok h k a \<longleftrightarrow> ran_initial k \<and> (\<exists>c. h a = Some c \<and> has_name c k)"

definition map_ok :: "map_wrapper \<Rightarrow> (nat \<Rightarrow> ConnectedCU option) \<Rightarrow> bool" where
  "map_ok m h \<longleftrightarrow> map_invar m \<and> (\<forall>k a. map_find m k = Some a \<longrightarrow> entry_ok h k a)"

definition name_ok :: "char list \<Rightarrow> bool" where
  "name_ok b \<longleftrightarrow> length b = MAX_ENODB_NAME_SIZE \<and> cstr b \<noteq> None"

text \<open>\<open>f\<close>: the length of the send buffer is that of a message, not a failed read's \<^verbatim>\<open>-1\<close>.\<close>

definition send_ok :: "bool \<Rightarrow> rmr_mbuf \<Rightarrow> bool" where
  "send_ok f b \<longleftrightarrow> (if f then buf_ok b else big b)"

definition core :: "('w \<Rightarrow> nat) \<Rightarrow> nat \<Rightarrow> bool \<Rightarrow> 'w e2t \<Rightarrow> bool" where
  "core T n f s \<longleftrightarrow>
     T (world s) \<le> n \<and> heap_ok (heap s) (next_addr s) \<and> conn_invar (e2map s) \<and>
     e2tCounters (params s) = buildE2TPrometheusCounters \<and> \<not> jsonTrace s \<and>
     (\<exists>b. sendMessage s = Some b \<and> send_ok f b) \<and> (\<exists>b. rcvMessage s = Some b \<and> buf_ok b) \<and>
     name_ok (msg_enodbName (msg s)) \<and> name_ok (msg_enodbName (lmsg s))"

definition base :: "('w \<Rightarrow> nat) \<Rightarrow> nat \<Rightarrow> bool \<Rightarrow> 'w e2t \<Rightarrow> bool" where
  "base T n f s \<longleftrightarrow> core T n f s \<and> map_ok (sctpMap s) (heap s)"

text \<open>The message's connection is live and has its counters.\<close>

definition built :: "'w e2t \<Rightarrow> bool" where
  "built s \<longleftrightarrow> (\<exists>a c k. peerInfo (msg s) = Some a \<and> heap s a = Some c \<and> counters c = buildPrometheusList k)"

definition active :: "('w \<Rightarrow> nat) \<Rightarrow> nat \<Rightarrow> bool \<Rightarrow> 'w e2t \<Rightarrow> bool" where
  "active T n f s \<longleftrightarrow> base T n f s \<and> built s"

section \<open>Facts about names\<close>

lemma name_ok_padded [simp]: "nul_free k \<Longrightarrow> length k < 64 \<Longrightarrow> name_ok (padded 64 k)"
  by (simp add: name_ok_def padded_def cstr_pad)

lemma cstr_padded [simp]: "nul_free k \<Longrightarrow> length k < 64 \<Longrightarrow> cstr (padded 64 k) = Some k"
  by (simp add: padded_def cstr_pad)

lemma has_name_cstr: "has_name c k \<Longrightarrow> cstr (cu_enodbName c) = Some k"
  by (simp add: has_name_def)

lemma has_name_unique: "has_name c k \<Longrightarrow> has_name c k' \<Longrightarrow> k = k'"
  by (metis has_name_cstr option.inject)

lemma has_name_ok: "has_name c k \<Longrightarrow> name_ok (cu_enodbName c)"
  by (simp add: has_name_def)

lemma CU_ok_name: "CU_ok c \<Longrightarrow> \<exists>k. has_name c k"
  by (auto simp: CU_ok_def)

lemma zero_CU_ok [simp]: "CU_ok zero_CU"
  by (auto simp: CU_ok_def zero_CU_def has_name_def intro!: exI [of _ "[]"])

lemma zero_message_name [simp]: "name_ok (msg_enodbName zero_message)"
  by (simp add: zero_message_def name_ok_def)

lemma write_text_some:
  "big b \<Longrightarrow> length t < 256 \<Longrightarrow> \<exists>p. write_text (mb_payload b) 256 t = Some p \<and> length p = length (mb_payload b)"
  by (simp add: write_text_def big_def RECEIVE_SCTP_BUFFER_SIZE_def snprintf_text_def Let_def)

section \<open>The parts of the handlers\<close>

lemmas state_defs = active_def base_def core_def built_def

text \<open>Updates that the predicates do not see.\<close>

lemma active_msg:
  "msg_enodbName (g (msg s)) = msg_enodbName (msg s) \<Longrightarrow> peerInfo (g (msg s)) = peerInfo (msg s) \<Longrightarrow>
    active T n f (s\<lparr>msg := g (msg s)\<rparr>) = active T n f s"
  by (simp add: state_defs)

lemma active_simps [simp]:
  "active T n f (s\<lparr>metrics := x\<rparr>) = active T n f s"
  "active T n f (s\<lparr>transactionCounter := t\<rparr>) = active T n f s"
  "active T n f (s\<lparr>num_of_messages := t\<rparr>) = active T n f s"
  "active T n f (s\<lparr>num_of_XAPP_messages := t\<rparr>) = active T n f s"
  "active T n f (s\<lparr>trace_log := l\<rparr>) = active T n f s"
  by (simp_all add: state_defs)

lemma base_simps [simp]:
  "base T n f (s\<lparr>metrics := x\<rparr>) = base T n f s"
  "base T n f (s\<lparr>transactionCounter := t\<rparr>) = base T n f s"
  "base T n f (s\<lparr>num_of_messages := t\<rparr>) = base T n f s"
  "base T n f (s\<lparr>num_of_XAPP_messages := t\<rparr>) = base T n f s"
  "base T n f (s\<lparr>trace_log := l\<rparr>) = base T n f s"
  by (simp_all add: state_defs)

lemma active_base: "active T n f s \<Longrightarrow> base T n f s"
  by (simp add: active_def)

lemma base_mono: "base T n f s \<Longrightarrow> n \<le> n' \<Longrightarrow> base T n' f s"
  by (simp add: base_def core_def)

lemma core_world: "core T n f s \<Longrightarrow> T w \<le> T (world s) \<Longrightarrow> core T n f (s\<lparr>world := w\<rparr>)"
  by (simp add: core_def)

lemma active_world: "active T n f s \<Longrightarrow> T w \<le> T (world s) \<Longrightarrow> active T n f (s\<lparr>world := w\<rparr>)"
  by (simp add: state_defs)

lemma base_world: "base T n f s \<Longrightarrow> T w \<le> T (world s) \<Longrightarrow> base T n f (s\<lparr>world := w\<rparr>)"
  by (simp add: state_defs)

lemma core_e2map: "core T n f s \<Longrightarrow> conn_invar m \<Longrightarrow> core T n f (s\<lparr>e2map := m\<rparr>)"
  by (simp add: core_def)

lemma active_e2map: "active T n f s \<Longrightarrow> conn_invar m \<Longrightarrow> active T n f (s\<lparr>e2map := m\<rparr>)"
  by (simp add: state_defs)

lemma base_e2map: "base T n f s \<Longrightarrow> conn_invar m \<Longrightarrow> base T n f (s\<lparr>e2map := m\<rparr>)"
  by (simp add: state_defs)

lemma active_send: "active T n f s \<Longrightarrow> send_ok f' b \<Longrightarrow> active T n f' (s\<lparr>sendMessage := Some b\<rparr>)"
  by (simp add: state_defs)

lemma base_send: "base T n f s \<Longrightarrow> send_ok f' b \<Longrightarrow> base T n f' (s\<lparr>sendMessage := Some b\<rparr>)"
  by (simp add: state_defs)

lemma active_rcv: "active T n f s \<Longrightarrow> buf_ok b \<Longrightarrow> active T n f (s\<lparr>rcvMessage := Some b\<rparr>)"
  by (simp add: state_defs)

lemma base_rcv: "base T n f s \<Longrightarrow> buf_ok b \<Longrightarrow> base T n f (s\<lparr>rcvMessage := Some b\<rparr>)"
  by (simp add: state_defs)

text \<open>What the predicates say of the state.\<close>

lemma core_name: "core T n f s \<Longrightarrow> \<exists>k. cstr (msg_enodbName (msg s)) = Some k"
  by (auto simp: core_def name_ok_def)

lemma base_name: "base T n f s \<Longrightarrow> \<exists>k. cstr (msg_enodbName (msg s)) = Some k"
  by (auto simp: base_def dest: core_name)

lemma core_sendD: "core T n f s \<Longrightarrow> \<exists>b. sendMessage s = Some b \<and> send_ok f b"
  by (simp add: core_def)

lemma base_sendD: "base T n f s \<Longrightarrow> \<exists>b. sendMessage s = Some b \<and> send_ok f b"
  by (simp add: state_defs)

lemma base_rcvD: "base T n f s \<Longrightarrow> \<exists>b. rcvMessage s = Some b \<and> buf_ok b"
  by (simp add: state_defs)

lemma base_conn: "base T n f s \<Longrightarrow> conn_invar (e2map s)"
  by (simp add: state_defs)

text \<open>Without tracing, \<^verbatim>\<open>buildJsonMessage\<close> does nothing.\<close>

lemma no_trace: "\<not> jsonTrace s \<Longrightarrow> wp (buildJsonMessage E) Q s = Q () s"
  by (simp add: buildJsonMessage_def wp_simps)

lemma core_no_trace: "core T n f s \<Longrightarrow> \<not> jsonTrace s"
  by (simp add: core_def)

lemma base_no_trace: "base T n f s \<Longrightarrow> \<not> jsonTrace s"
  by (simp add: state_defs)

lemma pres_json [pres_intros]: "pres (base T n f) (buildJsonMessage E)" "pres (active T n f) (buildJsonMessage E)"
  by (simp_all add: pres_def no_trace base_no_trace active_base [THEN base_no_trace])

lemma pres_set_procedureI:
  assumes "\<And>s. I s \<Longrightarrow> base T n f s" "\<And>s m. I s \<Longrightarrow> conn_invar m \<Longrightarrow> I (s\<lparr>e2map := m\<rparr>)"
  shows "pres I (set_procedure st)"
proof (rule presI)
  fix s assume I: "I s"
  obtain k where "cstr (msg_enodbName (msg s)) = Some k" using base_name assms(1) I by blast
  moreover have "conn_invar (setE2ProcedureOngoingStatus (e2map s) k st)"
    by (rule set_status_invar) (rule base_conn [OF assms(1) [OF I]])
  ultimately show "wp (set_procedure st) (\<lambda>_. I) s"
    using assms(2) [OF I] by (simp add: wp_simps)
qed

lemma pres_set_procedure [pres_intros]:
  "pres (base T n f) (set_procedure st)" "pres (active T n f) (set_procedure st)"
  by (rule pres_set_procedureI [where T = T and n = n and f = f];
      simp add: base_e2map active_e2map active_base)+

subsection \<open>Counting\<close>

lemma counter_some:
  assumes "both_built cs d p"
  shows "\<exists>l. counter_at cs d MSG_COUNTER p = Some l" "\<exists>l. counter_at cs d BYTES_COUNTER p = Some l"
  using assms by (auto simp: both_built_def)

lemma active_counters:
  assumes "active T n f s" "(d, p) \<in> set peer_cells" "(d', p) \<in> set e2t_cells"
  obtains a c l1 l2 l3 l4 where "peerInfo (msg s) = Some a" "heap s a = Some c"
    "counter_at (counters c) d MSG_COUNTER p = Some l1" "counter_at (counters c) d BYTES_COUNTER p = Some l2"
    "counter_at (e2tCounters (params s)) d' MSG_COUNTER p = Some l3"
    "counter_at (e2tCounters (params s)) d' BYTES_COUNTER p = Some l4"
proof -
  obtain a c k where p: "peerInfo (msg s) = Some a" "heap s a = Some c" "counters c = buildPrometheusList k"
    using assms(1) by (auto simp: active_def built_def)
  have "e2tCounters (params s) = buildE2TPrometheusCounters"
    using assms(1) by (simp add: state_defs)
  then show thesis
    using that p counter_some [OF peer_cells_built [OF assms(2)]] counter_some [OF e2t_cells_built [OF assms(3)]]
    by metis
qed

lemma pres_count_message:
  assumes "(d, p) \<in> set peer_cells" "(d', p) \<in> set e2t_cells"
  shows "pres (active T n f) (count_message d d' p x)"
proof (rule presI)
  fix s assume a: "active T n f s"
  obtain a c l1 l2 l3 l4 where p: "peerInfo (msg s) = Some a" "heap s a = Some c"
    "counter_at (counters c) d MSG_COUNTER p = Some l1" "counter_at (counters c) d BYTES_COUNTER p = Some l2"
    "counter_at (e2tCounters (params s)) d' MSG_COUNTER p = Some l3"
    "counter_at (e2tCounters (params s)) d' BYTES_COUNTER p = Some l4"
    by (rule active_counters [OF a assms])
  then show "wp (count_message d d' p x) (\<lambda>_. active T n f) s"
    using a by (simp add: count_message_def wp_simps)
qed

lemma pres_count_in:
  "(d, p) \<in> set peer_cells \<Longrightarrow> (d, p) \<in> set e2t_cells \<Longrightarrow> pres (active T n f) (count_in d p)"
  unfolding count_in_def by (intro pres_intros pres_count_message)

lemma pres_built_bnd:
  assumes "\<And>x. pres (active T n f) (g x)"
  shows "pres (active T n f) (bnd (peer_counter d k p) g)" "pres (active T n f) (bnd (e2t_counter d k p) g)"
proof -
  have "\<exists>a c. peerInfo (msg s) = Some a \<and> heap s a = Some c" if "active T n f s" for s
    using that by (auto simp: active_def built_def)
  then show "pres (active T n f) (bnd (peer_counter d k p) g)" "pres (active T n f) (bnd (e2t_counter d k p) g)"
    unfolding pres_def wp_simps using presD [OF assms] by fast+
qed

lemma pres_count_in_if:
  "(d, p) \<in> set peer_cells \<Longrightarrow> (d, p) \<in> set e2t_cells \<or> counter_at buildE2TPrometheusCounters d MSG_COUNTER p = None \<Longrightarrow>
    pres (active T n f) (count_in_if d p)"
proof (rule presI)
  fix s
  assume d: "(d, p) \<in> set peer_cells" "(d, p) \<in> set e2t_cells \<or> counter_at buildE2TPrometheusCounters d MSG_COUNTER p = None"
    and a: "active T n f s"
  obtain a c where p: "peerInfo (msg s) = Some a" "heap s a = Some c"
    using a by (auto simp: active_def built_def)
  have e: "e2tCounters (params s) = buildE2TPrometheusCounters"
    using a by (simp add: state_defs)
  have "wp (count_in d p) (\<lambda>_. active T n f) s" if "(d, p) \<in> set e2t_cells"
    using pres_count_in [OF d(1) that] a by (rule presD)
  then show "wp (count_in_if d p) (\<lambda>_. active T n f) s"
    using d p e a by (auto simp: count_in_if_def wp_simps)
qed

lemma wp_count_internal:
  "heap s a = Some c \<Longrightarrow> (\<And>x. Q () (s\<lparr>metrics := x\<rparr>)) \<Longrightarrow> Q () s \<Longrightarrow> wp (count_internal a i) Q s"
  by (simp add: count_internal_def wp_simps split: option.splits)

lemma pres_count_invalid [pres_intros]: "pres (active T n f) count_invalid"
proof (rule presI)
  fix s assume a: "active T n f s"
  then obtain a c where "peerInfo (msg s) = Some a" "heap s a = Some c"
    by (auto simp: active_def built_def)
  then show "wp count_invalid (\<lambda>_. active T n f) s"
    using a by (auto simp: count_invalid_def wp_bnd wp_peer_addr intro!: wp_count_internal)
qed

subsection \<open>Sending to the xApps\<close>

lemma sockets_okD:
  assumes "env_ok T E"
  shows "\<forall>b. steady T (rmr_send_msg E b)" "\<forall>b. steady T (rmr_rts_msg E b)"
    "\<forall>b. steady T (rmr_rcv_msg E b)" "\<forall>n. steady T (rmr_alloc_msg E n)"
    "\<forall>fd d st. steady T (sctp_sendmsg E fd d st)" "\<forall>fd. steady T (sctp_recvmsg E fd)"
    "\<forall>fd a. steady T (epoll_add E fd a)" "\<forall>fd. steady T (sctp_status E fd)"
    "\<forall>fd. steady T (fd_open E fd)" "\<forall>fd. steady T (fcntl_getfl E fd)"
    "\<forall>fd v. steady T (fcntl_setfl E fd v)" "steady T (calloc_ok E)"
    "\<forall>fd. steady T (accept E fd)" "\<forall>fd. steady T (getnameinfo E fd)"
    "\<forall>fd w. T (fd_close E fd w) \<le> T w" "\<forall>fd w. T (set_sctp_options E fd w) \<le> T w"
    "\<forall>fd d st w w'. sctp_sendmsg E fd d st w = (Send_error EINTR, w') \<longrightarrow> T w' < T w"
    "\<forall>fd w bs st w'. sctp_recvmsg E fd w = (Received bs st, w') \<and> bs \<noteq> [] \<longrightarrow> T w' < T w"
    "\<forall>fd w w'. sctp_recvmsg E fd w = (Recv_error EINTR, w') \<longrightarrow> T w' < T w"
    "\<forall>fd w bs st w'. sctp_recvmsg E fd w = (Received bs st, w') \<longrightarrow> length bs \<le> RECEIVE_SCTP_BUFFER_SIZE"
  using assms unfolding env_ok_def sockets_ok_def by - (elim conjE, assumption)+

lemma steadyD: "steady T f \<Longrightarrow> f w = (r, w') \<Longrightarrow> T w' \<le> T w"
  by (simp add: steady_def)

lemmas steady_rmr = sockets_okD(1-4) [THEN spec, THEN steadyD] sockets_okD(12) [THEN steadyD]

lemmas steady_sockets = sockets_okD(5) [THEN spec, THEN spec, THEN spec, THEN steadyD]
  sockets_okD(6) [THEN spec, THEN steadyD] sockets_okD(7) [THEN spec, THEN spec, THEN steadyD]
  sockets_okD(8-10) [THEN spec, THEN steadyD] sockets_okD(11) [THEN spec, THEN spec, THEN steadyD]
  sockets_okD(13,14) [THEN spec, THEN steadyD]

lemma rmr_okD:
  assumes "env_ok T E"
  shows "\<forall>b w b' w'. buf_ok b \<and> rmr_send_msg E b w = (Some b', w') \<longrightarrow> buf_ok b'"
    "\<forall>b w b' w'. buf_ok b \<and> rmr_rts_msg E b w = (Some b', w') \<longrightarrow> buf_ok b'"
    "\<forall>b w b' w'. buf_ok b \<and> rmr_rcv_msg E b w = (Some b', w') \<longrightarrow> buf_ok b'"
    "\<forall>n w. \<exists>b w'. rmr_alloc_msg E n w = (Some b, w') \<and> n \<le> int (length (mb_payload b)) \<and>
        0 \<le> mb_len b \<and> mb_len b \<le> int (length (mb_payload b))"
    "\<forall>t b. big b \<longrightarrow> buf_ok (rmr_bytes2payload E t b)"
    "\<forall>t b. mb_payload (rmr_bytes2meid E t b) = mb_payload b \<and> mb_len (rmr_bytes2meid E t b) = mb_len b"
    "\<forall>t b. mb_payload (rmr_bytes2xact E t b) = mb_payload b \<and> mb_len (rmr_bytes2xact E t b) = mb_len b"
    "\<forall>b. nul_free (rmr_get_meid E b) \<and> length (rmr_get_meid E b) < MAX_ENODB_NAME_SIZE"
  using assms unfolding env_ok_def rmr_ok_def by - (elim conjE, assumption)+

lemma rmr_returns:
  assumes "env_ok T E"
  shows "rmr_send_msg E b w = (Some b', w') \<Longrightarrow> buf_ok b \<Longrightarrow> buf_ok b'"
    and "rmr_rts_msg E b w = (Some b', w') \<Longrightarrow> buf_ok b \<Longrightarrow> buf_ok b'"
    and "rmr_rcv_msg E b w = (Some b', w') \<Longrightarrow> buf_ok b \<Longrightarrow> buf_ok b'"
    and "\<exists>b w'. rmr_alloc_msg E n w = (Some b, w') \<and> n \<le> int (length (mb_payload b)) \<and>
        0 \<le> mb_len b \<and> mb_len b \<le> int (length (mb_payload b))"
    and "big b \<Longrightarrow> buf_ok (rmr_bytes2payload E t b)"
  using rmr_okD(1-5) [OF assms] by blast+

lemma rmr_fields:
  assumes "env_ok T E"
  shows "mb_payload (rmr_bytes2meid E t b) = mb_payload b" "mb_len (rmr_bytes2meid E t b) = mb_len b"
    "mb_payload (rmr_bytes2xact E t b) = mb_payload b" "mb_len (rmr_bytes2xact E t b) = mb_len b"
  using rmr_okD(6,7) [OF assms] by blast+

lemma buf_ok_fields:
  "mb_payload b' = mb_payload b \<Longrightarrow> mb_len b' = mb_len b \<Longrightarrow> buf_ok b' = buf_ok b"
  by (simp add: buf_ok_def big_def)

lemma send_ok_fields:
  "mb_payload b' = mb_payload b \<Longrightarrow> mb_len b' = mb_len b \<Longrightarrow> send_ok f b' = send_ok f b"
  by (simp add: send_ok_def buf_ok_def big_def)

lemma alloc_returns:
  assumes "env_ok T E"
  obtains b w' where "rmr_alloc_msg E (int RECEIVE_SCTP_BUFFER_SIZE) w = (Some b, w')" "buf_ok b" "T w' \<le> T w"
  using rmr_returns(4) [OF assms, of "int RECEIVE_SCTP_BUFFER_SIZE" w] steady_rmr(4) [OF assms]
  by (auto simp: buf_ok_def big_def)

lemma wp_alloc_send:
  assumes "env_ok T E" "\<And>b w'. buf_ok b \<Longrightarrow> T w' \<le> T (world s) \<Longrightarrow> Q () (s\<lparr>world := w', sendMessage := Some b\<rparr>)"
  shows "wp (alloc_send E) Q s"
proof -
  obtain b w' where "rmr_alloc_msg E (int RECEIVE_SCTP_BUFFER_SIZE) (world s) = (Some b, w')" "buf_ok b" "T w' \<le> T (world s)"
    by (rule alloc_returns [OF assms(1)])
  then show ?thesis using assms(2) by (simp add: alloc_send_def set_send_def wp_simps)
qed

lemma wp_alloc_rcv:
  assumes "env_ok T E" "\<And>b w'. buf_ok b \<Longrightarrow> T w' \<le> T (world s) \<Longrightarrow> Q () (s\<lparr>world := w', rcvMessage := Some b\<rparr>)"
  shows "wp (alloc_rcv E) Q s"
proof -
  obtain b w' where "rmr_alloc_msg E (int RECEIVE_SCTP_BUFFER_SIZE) (world s) = (Some b, w')" "buf_ok b" "T w' \<le> T (world s)"
    by (rule alloc_returns [OF assms(1)])
  then show ?thesis using assms(2) by (simp add: alloc_rcv_def set_rcv_def wp_simps)
qed

text \<open>Sending replaces the buffer and the world, and nothing else.\<close>

lemma wp_sendRmrMessage:
  assumes E: "env_ok T E" and b: "sendMessage s = Some b" "buf_ok b" and t: "\<not> jsonTrace s"
    and Q: "\<And>r b w'. buf_ok b \<Longrightarrow> T w' \<le> T (world s) \<Longrightarrow> Q r (s\<lparr>world := w', sendMessage := Some b\<rparr>)"
  shows "wp (sendRmrMessage E) Q s"
proof -
  obtain r1 w1 where r1: "rmr_send_msg E b (world s) = (r1, w1)" by fastforce
  have w1: "T w1 \<le> T (world s)" by (rule steady_rmr(1) [OF E r1])
  show ?thesis
  proof (cases r1)
    case None
    have "wp (alloc_send E) (\<lambda>_. wp (ret None) Q) (s\<lparr>world := w1, sendMessage := None\<rparr>)"
      using Q w1 by (intro wp_alloc_send [OF E]) (auto simp: wp_ret)
    then show ?thesis using r1 None b t by (simp add: sendRmrMessage_def wp_simps no_trace set_send_def)
  next
    case (Some b1)
    have b1: "buf_ok b1" using rmr_returns(1) [OF E] r1 Some b(2) by blast
    let ?b = "b1\<lparr>mb_state := RMR_OK\<rparr>"
    have ok: "buf_ok ?b" using b1 by (simp add: buf_ok_def big_def)
    obtain r2 w2 where r2: "rmr_send_msg E ?b w1 = (r2, w2)" by fastforce
    have w2: "T w2 \<le> T (world s)" using steady_rmr(1) [OF E r2] w1 by linarith
    show ?thesis
    proof (cases r2)
      case None
      have "wp (alloc_send E) (\<lambda>_. wp (ret None) Q) (s\<lparr>world := w2, sendMessage := None\<rparr>)"
        using Q w2 by (intro wp_alloc_send [OF E]) (auto simp: wp_ret)
      then show ?thesis
        using r1 r2 Some None b t Q [OF b1 w1]
        by (auto simp: sendRmrMessage_def wp_simps no_trace set_send_def)
    next
      case Some2: (Some b2)
      have "buf_ok b2" using rmr_returns(1) [OF E] r2 Some2 ok by blast
      then show ?thesis
        using r1 r2 Some Some2 b t Q [OF b1 w1] Q [of b2 w2] w2
        by (auto simp: sendRmrMessage_def wp_simps no_trace set_send_def)
    qed
  qed
qed

lemma wp_sendRequestToXapp:
  assumes E: "env_ok T E" and b: "sendMessage s = Some b" "buf_ok b" and t: "\<not> jsonTrace s"
    and k: "cstr (msg_enodbName (msg s)) = Some k"
    and Q: "\<And>r b w'. buf_ok b \<Longrightarrow> T w' \<le> T (world s) \<Longrightarrow>
      Q r (s\<lparr>msg := (msg s)\<lparr>messageType := ty\<rparr>, transactionCounter := transactionCounter s + 1,
        world := w', sendMessage := Some b\<rparr>)"
  shows "wp (sendRequestToXapp E ty) Q s"
proof -
  let ?b = "rmr_bytes2xact E (tx_text (transactionCounter s))
    ((rmr_bytes2meid E k b)\<lparr>mb_mtype := ty, mb_state := RMR_OK\<rparr>)"
  have "buf_ok ?b" using b(2) by (simp add: buf_ok_def big_def rmr_fields [OF E])
  then have "wp (sendRmrMessage E) Q (s\<lparr>msg := (msg s)\<lparr>messageType := ty\<rparr>,
      transactionCounter := transactionCounter s + 1, sendMessage := Some ?b\<rparr>)"
    using Q t by (intro wp_sendRmrMessage [OF E]) auto
  then show ?thesis using b k by (simp add: sendRequestToXapp_def wp_simps)
qed

lemma wp_request_to_xapp:
  assumes E: "env_ok T E" and b: "sendMessage s = Some b" "buf_ok b" and t: "\<not> jsonTrace s"
    and k: "cstr (msg_enodbName (msg s)) = Some k"
    and Q: "\<And>b w'. buf_ok b \<Longrightarrow> T w' \<le> T (world s) \<Longrightarrow>
      Q () (s\<lparr>msg := (msg s)\<lparr>messageType := ty\<rparr>, transactionCounter := transactionCounter s + 1,
        world := w', sendMessage := Some b\<rparr>)"
  shows "wp (request_to_xapp E ty) Q s"
  unfolding request_to_xapp_def wp_simps by (rule wp_sendRequestToXapp [OF E b t k]) (rule Q)

text \<open>A predicate that the fields changed by sending do not matter to is kept by a request.\<close>

lemma pres_request:
  assumes E: "env_ok T E" and I: "\<And>s. I s \<Longrightarrow> core T n True s"
    and "\<And>s b w' m t. I s \<Longrightarrow> buf_ok b \<Longrightarrow> T w' \<le> T (world s) \<Longrightarrow> I (s\<lparr>msg := (msg s)\<lparr>messageType := m\<rparr>,
      transactionCounter := t, world := w', sendMessage := Some b\<rparr>)"
  shows "pres I (request_to_xapp E ty)"
proof (rule presI)
  fix s assume s: "I s"
  obtain b k where "sendMessage s = Some b" "buf_ok b" "cstr (msg_enodbName (msg s)) = Some k"
    using core_sendD [OF I [OF s]] core_name [OF I [OF s]] by (auto simp: send_ok_def)
  then show "wp (request_to_xapp E ty) (\<lambda>_. I) s"
    using assms(3) [OF s] core_no_trace [OF I [OF s]] by (intro wp_request_to_xapp [OF E]) auto
qed

lemma core_sent: "core T n f s \<Longrightarrow> buf_ok b \<Longrightarrow> T w' \<le> T (world s) \<Longrightarrow>
    core T n True (s\<lparr>msg := (msg s)\<lparr>messageType := m\<rparr>, transactionCounter := t, world := w', sendMessage := Some b\<rparr>)"
  by (simp add: core_def send_ok_def)

lemma base_sent: "base T n f s \<Longrightarrow> buf_ok b \<Longrightarrow> T w' \<le> T (world s) \<Longrightarrow>
    base T n True (s\<lparr>msg := (msg s)\<lparr>messageType := m\<rparr>, transactionCounter := t, world := w', sendMessage := Some b\<rparr>)"
  unfolding base_def by (auto intro: core_sent)

lemma active_sent: "active T n f s \<Longrightarrow> buf_ok b \<Longrightarrow> T w' \<le> T (world s) \<Longrightarrow>
    active T n True (s\<lparr>msg := (msg s)\<lparr>messageType := m\<rparr>, transactionCounter := t, world := w', sendMessage := Some b\<rparr>)"
  unfolding active_def by (auto intro: base_sent simp: built_def)

lemma active_core: "active T n f s \<Longrightarrow> core T n f s"
  by (simp add: active_def base_def)

lemma pres_requests:
  assumes E: "env_ok T E"
  shows "pres (core T n True) (request_to_xapp E ty)" "pres (base T n True) (request_to_xapp E ty)"
    "pres (active T n True) (request_to_xapp E ty)"
  by (rule pres_request [OF E, where n = n]; (assumption | erule active_core | erule core_sent | erule base_sent
      | erule active_sent | simp add: base_def); assumption)+

lemma pres_send_message:
  assumes E: "env_ok T E"
  shows "pres (active T n True) (send_message E)"
proof (rule presI)
  fix s assume s: "active T n True s"
  obtain b where "sendMessage s = Some b" "buf_ok b"
    using base_sendD [OF active_base [OF s]] by (auto simp: send_ok_def)
  then show "wp (send_message E) (\<lambda>_. active T n True) s"
    unfolding send_message_def wp_simps
    using s base_no_trace [OF active_base [OF s]]
    by (intro wp_sendRmrMessage [OF E]) (auto simp: state_defs send_ok_def)
qed

lemma pres_upd_send:
  assumes g: "\<And>b. mb_payload (g b) = mb_payload b" "\<And>b. mb_len (g b) = mb_len b"
  shows "pres (active T n f) (upd_send g)" "pres (base T n f) (upd_send g)"
proof -
  have s: "\<exists>b. sendMessage s = Some b \<and> send_ok f (g b)" if "base T n f s" for s
    using base_sendD [OF that] send_ok_fields [OF g] by auto
  show "pres (active T n f) (upd_send g)"
    using s active_send by (fastforce simp: pres_def wp_simps dest: active_base)
  show "pres (base T n f) (upd_send g)"
    using s base_send by (fastforce simp: pres_def wp_simps)
qed

lemma pres_upd_msg:
  assumes "\<And>m. msg_enodbName (g m) = msg_enodbName m" "\<And>m. peerInfo (g m) = peerInfo m"
  shows "pres (active T n f) (upd_msg g)" "pres (base T n f) (upd_msg g)"
  unfolding pres_def wp_simps by (simp_all add: state_defs assms)

lemma pres_set_type [pres_intros]: "pres (active T n f) (set_type t)"
  unfolding set_type_def by (rule pres_upd_msg) simp_all

lemma pres_next_transaction [pres_intros]:
  "pres (active T n f) next_transaction" "pres (base T n f) next_transaction"
  by (simp_all add: pres_def wp_simps)

lemma pres_message_name [pres_intros]:
  "pres (active T n f) message_name" "pres (base T n f) message_name"
  by (auto simp: pres_def wp_simps dest: base_name active_base)

lemma pres_stamp: "env_ok T E \<Longrightarrow> pres (active T n f) (stamp E)"
  unfolding stamp_def by (intro pres_intros pres_upd_send) (simp_all add: rmr_fields)

subsection \<open>The setup request\<close>

text \<open>Two rounds of the encoding loop are enough: the second buffer has room.\<close>

lemma wp_encode_rounds:
  fixes T :: "'w \<Rightarrow> nat" and s :: "'w e2t"
  assumes "\<And>ok w w'. calloc_ok E w = (ok, w') \<Longrightarrow> T w' \<le> T w"
    and "\<And>w'. T w' \<le> T (world s) \<Longrightarrow> Q None (s\<lparr>world := w'\<rparr>)"
    and "\<And>w' z. T w' \<le> T (world s) \<Longrightarrow> n < z \<or> n = z \<and> z = sz \<Longrightarrow> Q (Some z) (s\<lparr>world := w'\<rparr>)"
  shows "wp (encode_rounds 2 E n sz) Q s"
proof -
  obtain ok w' where w: "calloc_ok E (world s) = (ok, w')" by fastforce
  have "T w' \<le> T (world s)" by (rule assms(1) [OF w])
  moreover have "Q (Some sz) s" if "n \<le> sz"
    using assms(3) [of "world s" sz] that by (cases "n = sz") simp_all
  ultimately show ?thesis
    using w assms(2,3) by (simp add: numeral_2_eq_2 wp_simps)
qed

lemma wp_send_once_more:
  assumes E: "env_ok T E" and Q: "\<And>r w'. T w' \<le> T (world s) \<Longrightarrow> Q r (s\<lparr>world := w'\<rparr>)"
  shows "wp (send_once_more E b) Q s"
proof -
  obtain r1 w1 where r1: "rmr_send_msg E b (world s) = (r1, w1)" by fastforce
  have w1: "T w1 \<le> T (world s)" by (rule steady_rmr(1) [OF E r1])
  show ?thesis
  proof (cases r1)
    case None
    then show ?thesis using r1 Q [OF w1] by (simp add: send_once_more_def wp_simps)
  next
    case (Some b1)
    obtain r2 w2 where r2: "rmr_send_msg E (b1\<lparr>mb_state := RMR_OK\<rparr>) w1 = (r2, w2)" by fastforce
    have "T w2 \<le> T (world s)" using steady_rmr(1) [OF E r2] w1 by linarith
    then show ?thesis using r1 r2 Some Q w1 by (simp add: send_once_more_def wp_simps)
  qed
qed

lemma active_upd_CU:
  assumes s: "active T n f s" "heap s a = Some c"
    and c': "cu_enodbName c' = cu_enodbName c" "counters c' = counters c" "isConnected c' = isConnected c"
  shows "active T n f (s\<lparr>heap := (heap s)(a \<mapsto> c')\<rparr>)"
proof -
  have "CU_ok c' = CU_ok c" "has_name c' k = has_name c k" for k
    using c' by (simp_all add: CU_ok_def has_name_def)
  then have "heap_ok ((heap s)(a \<mapsto> c')) (next_addr s)" "map_ok (sctpMap s) ((heap s)(a \<mapsto> c'))"
    using s by (fastforce simp: state_defs heap_ok_def map_ok_def entry_ok_def)+
  moreover have "built (s\<lparr>heap := (heap s)(a \<mapsto> c')\<rparr>)"
    using s c' by (fastforce simp: state_defs)
  ultimately show ?thesis using s by (simp add: active_def base_def core_def)
qed

lemma wp_setup_message:
  assumes p: "peerInfo (msg s) = Some a" "heap s a = Some c" and k: "cstr (msg_enodbName (msg s)) = Some k"
    and l: "length res + 256 \<le> length (mb_payload b)"
    and Q: "\<And>b'. Q b' (s\<lparr>transactionCounter := transactionCounter s + 1\<rparr>)"
  shows "wp (setup_message E res b) Q s"
proof -
  have "write_text (mb_payload b) (length res + 256) t \<noteq> None" for t
    using l by (simp add: write_text_def snprintf_text_def Let_def)
  then show ?thesis using p k Q by (auto simp: setup_message_def wp_simps Let_def)
qed

lemma wp_mark_setup:
  assumes "active T n f s"
  shows "wp (bnd peer_addr (\<lambda>a. sq (upd_CU a (\<lambda>c. c\<lparr>gotSetup := True\<rparr>)) (buildJsonMessage E))) (\<lambda>_. active T n f) s"
proof -
  obtain a c where p: "peerInfo (msg s) = Some a" "heap s a = Some c"
    using assms by (auto simp: active_def built_def)
  then show ?thesis
    using presD [OF pres_json(2) active_upd_CU [OF assms p(2), of "c\<lparr>gotSetup := True\<rparr>"]] by (simp add: wp_simps)
qed

lemma pres_buildAndSend:
  assumes E: "env_ok T E"
  shows "pres (active T n f) (buildAndSendSetupRequest E pdu)"
proof (rule presI)
  fix s assume s: "active T n f s"
  have world: "active T n f (s\<lparr>world := w\<rparr>)" if "T w \<le> T (world s)" for w
    using active_world [OF s that] .
  obtain ok w0 where w0: "calloc_ok E (world s) = (ok, w0)" by fastforce
  have T0: "T w0 \<le> T (world s)" by (rule steady_rmr(5) [OF E w0])
  obtain a c k where p: "peerInfo (msg s) = Some a" "heap s a = Some c" "cstr (msg_enodbName (msg s)) = Some k"
    using s base_name [OF active_base [OF s]] by (auto simp: active_def built_def)
  have rest: "wp (bnd (ext (rmr_alloc_msg E (int (length (xml_string x)) + 256))) (\<lambda>r. bnd (need Null_Deref r) (\<lambda>b0.
      bnd (setup_message E (xml_string x) b0) (\<lambda>b. bnd (send_once_more E b) (\<lambda>_.
      bnd peer_addr (\<lambda>a. sq (upd_CU a (\<lambda>c. c\<lparr>gotSetup := True\<rparr>)) (buildJsonMessage E))))))) (\<lambda>_. active T n f)
      (s\<lparr>world := w\<rparr>)" if w: "T w \<le> T (world s)" for w x
  proof -
    obtain b0 w1 where b0: "rmr_alloc_msg E (int (length (xml_string x)) + 256) w = (Some b0, w1)"
      "int (length (xml_string x)) + 256 \<le> int (length (mb_payload b0))"
      using rmr_returns(4) [OF E] by blast
    have "T w1 \<le> T (world s)" using steady_rmr(4) [OF E b0(1)] w by linarith
    have "wp (bnd peer_addr (\<lambda>a. sq (upd_CU a (\<lambda>c. c\<lparr>gotSetup := True\<rparr>)) (buildJsonMessage E)))
        (\<lambda>_. active T n f) (s\<lparr>transactionCounter := t, world := w2\<rparr>)" if "T w2 \<le> T w1" for w2 t
      using s that \<open>T w1 \<le> T (world s)\<close> by (intro wp_mark_setup) (simp add: state_defs)
    then have "wp (bnd (setup_message E (xml_string x) b0) (\<lambda>b. bnd (send_once_more E b) (\<lambda>_.
        bnd peer_addr (\<lambda>a. sq (upd_CU a (\<lambda>c. c\<lparr>gotSetup := True\<rparr>)) (buildJsonMessage E)))))
        (\<lambda>_. active T n f) (s\<lparr>world := w1\<rparr>)"
      unfolding wp_bnd [of "setup_message _ _ _"] wp_bnd [of "send_once_more _ _"] using p b0(2)
      by (intro wp_setup_message wp_send_once_more [OF E]) (auto simp: ac_simps)
    then show ?thesis using b0(1) by (simp add: wp_bnd [of "ext _"] wp_bnd [of "need _ _"] wp_ext wp_need)
  qed
  show "wp (buildAndSendSetupRequest E pdu) (\<lambda>_. active T n f) s"
  proof (cases "ok \<and> xer_encode E pdu \<noteq> None")
    case False
    then show ?thesis using w0 world [OF T0] by (auto simp: buildAndSendSetupRequest_def wp_simps)
  next
    case True
    then obtain x where x: "xer_encode E pdu = Some x" "ok" by auto
    have ne: "length x \<noteq> RECEIVE_SCTP_BUFFER_SIZE * 2"
      using E x by (simp add: env_ok_def codec_ok_def)
    show ?thesis
      using w0 x T0 ne world rest [of _ x]
      by (auto simp: buildAndSendSetupRequest_def wp_bnd wp_ext wp_whenM wp_ret wp_sq wp_require Let_def
          intro!: wp_encode_rounds [where T = T] steady_rmr(5) [OF E])
  qed
qed

subsection \<open>Conversion of a message in place\<close>

lemma recode_ok:
  assumes "buf_ok b"
  shows "\<exists>rc b'. recode dec enc wr b = Inr (rc, b') \<and> buf_ok b'"
proof -
  have "length (take k x @ drop k (mb_payload b)) = length (mb_payload b)"
    if "k \<le> length x" "k \<le> RECEIVE_SCTP_BUFFER_SIZE" for k and x :: "byte list"
    using assms that by (simp add: buf_ok_def big_def)
  then show ?thesis
    using assms
    by (auto simp: recode_def buf_ok_def big_def Let_def min_def split: option.splits)
qed

lemma pres_XML_From_PER [pres_intros]: "pres (active T n True) (XML_From_PER E)"
proof (rule presI)
  fix s assume s: "active T n True s"
  obtain b where b: "sendMessage s = Some b" "buf_ok b"
    using base_sendD [OF active_base [OF s]] by (auto simp: send_ok_def)
  obtain rc b' where "recode (per_decode E) (xer_encode E) (xer_written E) b = Inr (rc, b')" "buf_ok b'"
    using recode_ok [OF b(2)] by blast
  then show "wp (XML_From_PER E) (\<lambda>_. active T n True) s"
    using b s by (simp add: XML_From_PER_def wp_simps lift_fault_def set_send_def active_send send_ok_def)
qed

lemma pres_PER_FromXML [pres_intros]: "pres (active T n f) (PER_FromXML E)"
proof (rule presI)
  fix s assume s: "active T n f s"
  obtain b where b: "rcvMessage s = Some b" "buf_ok b"
    using base_rcvD [OF active_base [OF s]] by blast
  obtain rc b' where "recode (xer_decode E) (per_encode E) (per_written E) b = Inr (rc, b')" "buf_ok b'"
    using recode_ok [OF b(2)] by blast
  then show "wp (PER_FromXML E) (\<lambda>_. active T n f) s"
    using b s by (simp add: PER_FromXML_def wp_simps lift_fault_def set_rcv_def active_rcv)
qed

section \<open>Messages from the nodes\<close>

text \<open>
  Behind the check that the node's setup has been seen, the connection has its counters: the
  name that was found in the procedure map is not empty, and it is the connection's.
\<close>

definition same_name :: "'w e2t \<Rightarrow> bool" where
  "same_name s \<longleftrightarrow> (\<exists>a c. peerInfo (msg s) = Some a \<and> heap s a = Some c \<and>
     msg_enodbName (msg s) = cu_enodbName c)"

lemma wp_if_known:
  assumes s: "base T n f s" "same_name s" and m: "\<And>h. pres (active T n f) (g h)"
  shows "wp (if_known g) (\<lambda>_. base T n f) s"
proof -
  obtain a c where p: "peerInfo (msg s) = Some a" "heap s a = Some c" "msg_enodbName (msg s) = cu_enodbName c"
    using s(2) by (auto simp: same_name_def)
  obtain k where k: "has_name c k" "k \<noteq> [] \<Longrightarrow> counters c = buildPrometheusList k"
    using s(1) p(2) by (auto simp: base_def core_def heap_ok_def CU_ok_def)
  have name: "cstr (msg_enodbName (msg s)) = Some k"
    using k(1) p(3) has_name_cstr by simp
  show ?thesis
  proof (cases "getE2tProcedureOngoingStatus (e2map s) k")
    case None
    then show ?thesis using name s(1) by (simp add: if_known_def wp_simps)
  next
    case (Some h)
    then have "k \<noteq> []" by (auto simp: getE2tProcedureOngoingStatus_def)
    then have "active T n f s" using s(1) p k(2) by (auto simp: active_def built_def)
    from presD [OF m this, of h] have "wp (g h) (\<lambda>_. base T n f) s"
      by (rule wp_mono) (rule active_base)
    then show ?thesis using name Some by (simp add: if_known_def wp_simps)
  qed
qed

lemma in_cells [simp]:
  "(IN_INITI, ProcedureCode_id_RICserviceUpdate) \<in> set peer_cells"
  "(IN_INITI, ProcedureCode_id_E2nodeConfigurationUpdate) \<in> set peer_cells"
  "(IN_INITI, ProcedureCode_id_ErrorIndication) \<in> set peer_cells"
  "(IN_INITI, ProcedureCode_id_Reset) \<in> set peer_cells"
  "(IN_INITI, ProcedureCode_id_RICindication) \<in> set peer_cells"
  "(IN_INITI, ProcedureCode_id_RICsubscriptionDeleteRequired) \<in> set peer_cells"
  "(IN_SUCC, ProcedureCode_id_Reset) \<in> set peer_cells" "(IN_SUCC, ProcedureCode_id_RICcontrol) \<in> set peer_cells"
  "(IN_SUCC, ProcedureCode_id_RICsubscription) \<in> set peer_cells"
  "(IN_SUCC, ProcedureCode_id_RICsubscriptionDelete) \<in> set peer_cells"
  "(IN_UN_SUCC, ProcedureCode_id_RICcontrol) \<in> set peer_cells"
  "(IN_UN_SUCC, ProcedureCode_id_RICsubscription) \<in> set peer_cells"
  "(IN_UN_SUCC, ProcedureCode_id_RICsubscriptionDelete) \<in> set peer_cells"
  "(OUT_SUCC, ProcedureCode_id_E2nodeConfigurationUpdate) \<in> set peer_cells"
  "(OUT_UN_SUCC, ProcedureCode_id_E2nodeConfigurationUpdate) \<in> set peer_cells"
  "(OUT_INITI, ProcedureCode_id_ErrorIndication) \<in> set peer_cells"
  "(OUT_INITI, ProcedureCode_id_RICsubscription) \<in> set peer_cells"
  "(OUT_INITI, ProcedureCode_id_RICsubscriptionDelete) \<in> set peer_cells"
  "(OUT_INITI, ProcedureCode_id_RICcontrol) \<in> set peer_cells"
  "(OUT_INITI, ProcedureCode_id_RICserviceQuery) \<in> set peer_cells"
  "(OUT_SUCC, ProcedureCode_id_RICserviceUpdate) \<in> set peer_cells"
  "(OUT_UN_SUCC, ProcedureCode_id_RICserviceUpdate) \<in> set peer_cells"
  "(OUT_INITI, ProcedureCode_id_Reset) \<in> set peer_cells" "(OUT_SUCC, ProcedureCode_id_Reset) \<in> set peer_cells"
  by (simp_all add: peer_cells_def)

lemma in_e2t_cells [simp]:
  "(IN_INITI, ProcedureCode_id_RICserviceUpdate) \<in> set e2t_cells"
  "(IN_INITI, ProcedureCode_id_E2nodeConfigurationUpdate) \<in> set e2t_cells"
  "(IN_INITI, ProcedureCode_id_ErrorIndication) \<in> set e2t_cells"
  "(IN_INITI, ProcedureCode_id_Reset) \<in> set e2t_cells"
  "(IN_INITI, ProcedureCode_id_RICindication) \<in> set e2t_cells"
  "(IN_INITI, ProcedureCode_id_RICsubscriptionDeleteRequired) \<in> set e2t_cells"
  "(IN_SUCC, ProcedureCode_id_RICcontrol) \<in> set e2t_cells"
  "(IN_SUCC, ProcedureCode_id_RICsubscription) \<in> set e2t_cells"
  "(IN_SUCC, ProcedureCode_id_RICsubscriptionDelete) \<in> set e2t_cells"
  "(IN_UN_SUCC, ProcedureCode_id_RICcontrol) \<in> set e2t_cells"
  "(IN_UN_SUCC, ProcedureCode_id_RICsubscription) \<in> set e2t_cells"
  "(IN_UN_SUCC, ProcedureCode_id_RICsubscriptionDelete) \<in> set e2t_cells"
  "(OUT_SUCC, ProcedureCode_id_E2nodeConfigurationUpdate) \<in> set e2t_cells"
  "(OUT_UN_SUCC, ProcedureCode_id_E2nodeConfigurationUpdate) \<in> set e2t_cells"
  "(OUT_INITI, ProcedureCode_id_RICsubscription) \<in> set e2t_cells"
  "(OUT_INITI, ProcedureCode_id_RICsubscriptionDelete) \<in> set e2t_cells"
  "(OUT_INITI, ProcedureCode_id_RICcontrol) \<in> set e2t_cells"
  "(OUT_INITI, ProcedureCode_id_RICserviceQuery) \<in> set e2t_cells"
  "(OUT_SUCC, ProcedureCode_id_RICserviceUpdate) \<in> set e2t_cells"
  "(OUT_UN_SUCC, ProcedureCode_id_RICserviceUpdate) \<in> set e2t_cells"
  "(OUT_SUCC, ProcedureCode_id_Reset) \<in> set e2t_cells"
  by (simp_all add: e2t_cells_def)

lemmas count_rules = pres_count_in pres_count_in_if in_cells in_e2t_cells
  in_e2t_cells [THEN disjI1] reset_ack_not_built [THEN disjI2]

text \<open>The bodies of the handlers, behind the check.\<close>

lemma pres_route_error: "env_ok T E \<Longrightarrow> pres (active T n True) (route_error E pdu setup)"
  unfolding route_error_def Let_def
  by (auto split: prod.split intro!: pres_intros pres_buildAndSend pres_requests)

lemma pres_send_indication: "env_ok T E \<Longrightarrow> pres (active T n True) (send_indication E i)"
  unfolding send_indication_def
  by (intro pres_intros pres_upd_send pres_stamp pres_send_message count_rules) simp_all

lemma pres_indication_ies: "env_ok T E \<Longrightarrow> pres (active T n True) (indication_ies E ies)"
  by (induction ies) (auto split: ie_value.split intro!: pres_intros pres_send_indication)

lemma pres_send_control:
  "env_ok T E \<Longrightarrow> pres (active T n True) count \<Longrightarrow> pres (active T n True) (send_control E t count i)"
  unfolding send_control_def by (intro pres_intros pres_upd_send pres_stamp pres_send_message) simp_all

lemma pres_control_ack_ies: "env_ok T E \<Longrightarrow> pres (active T n True) (control_ack_ies E ies)"
  by (induction ies) (auto split: ie_value.split intro!: pres_intros pres_send_control count_rules)

lemma pres_control_failure_ies: "env_ok T E \<Longrightarrow> pres (active T n True) (control_failure_ies E ies)"
  by (induction ies) (auto split: ie_value.split intro!: pres_intros pres_send_control count_rules)

lemma pres_get_send [pres_intros]: "pres (active T n f) (bnd get_send (\<lambda>_. ret ()))"
  by (auto simp: pres_def wp_simps dest: active_base [THEN base_sendD])

lemmas handler_rules = pres_intros pres_buildAndSend pres_requests pres_send_message count_rules
  pres_route_error pres_indication_ies pres_control_ack_ies pres_control_failure_ies pres_built_bnd

lemma pres_unknown_outcome:
  assumes "d \<in> {IN_SUCC, IN_UN_SUCC}"
  shows "pres (active T n f) (bnd (peer_counter d MSG_COUNTER ProcedureCode_id_E2connectionUpdate) (\<lambda>l. increment l 1))"
proof (rule presI)
  fix s assume s: "active T n f s"
  then obtain a c k where p: "peerInfo (msg s) = Some a" "heap s a = Some c" "counters c = buildPrometheusList k"
    by (auto simp: active_def built_def)
  have "counter_at (buildPrometheusList k) d MSG_COUNTER ProcedureCode_id_E2connectionUpdate \<noteq> None"
    using assms connection_update_built [of k] by blast
  with s p show "wp (bnd (peer_counter d MSG_COUNTER ProcedureCode_id_E2connectionUpdate) (\<lambda>l. increment l 1))
      (\<lambda>_. active T n f) s"
    by (auto simp: wp_simps)
qed

lemma wp_got_unknown_outcome:
  assumes "base T n f s" "same_name s" "d \<in> {IN_SUCC, IN_UN_SUCC}"
  shows "wp (got_unknown_outcome E d pc) (\<lambda>_. base T n f) s"
  unfolding got_unknown_outcome_def
  by (rule wp_if_known [OF assms(1,2)]) (intro handler_rules pres_unknown_outcome [OF assms(3)])

lemma wp_asnSuccessfulMsg:
  assumes E: "env_ok T E" and s: "base T n True s" "same_name s"
  shows "wp (asnSuccessfulMsg E pdu) (\<lambda>_. base T n True) s"
proof -
  note rule = wp_if_known [OF s]
  have "wp (got_Reset_ack E) (\<lambda>_. base T n True) s" "wp (got_control_ack E pdu) (\<lambda>_. base T n True) s"
    "wp (got_subscription_response E) (\<lambda>_. base T n True) s"
    "wp (got_subscription_delete_response E) (\<lambda>_. base T n True) s"
    unfolding got_Reset_ack_def got_control_ack_def got_subscription_response_def got_subscription_delete_response_def
    by (rule rule; intro handler_rules E)+
  then show ?thesis
    using wp_got_unknown_outcome [OF s] by (simp add: asnSuccessfulMsg_def Let_def)
qed

lemma wp_asnUnSuccsesfulMsg:
  assumes E: "env_ok T E" and s: "base T n True s" "same_name s"
  shows "wp (asnUnSuccsesfulMsg E pdu) (\<lambda>_. base T n True) s"
proof -
  note rule = wp_if_known [OF s]
  have "wp (got_control_failure E pdu) (\<lambda>_. base T n True) s"
    "wp (got_subscription_failure E ProcedureCode_id_RICsubscription) (\<lambda>_. base T n True) s"
    "wp (got_subscription_failure E ProcedureCode_id_RICsubscriptionDelete) (\<lambda>_. base T n True) s"
    unfolding got_control_failure_def got_subscription_failure_def
    by (rule rule; intro handler_rules E)+
  then show ?thesis
    using wp_got_unknown_outcome [OF s] by (simp add: asnUnSuccsesfulMsg_def Let_def)
qed

lemma wp_other_initiating:
  assumes E: "env_ok T E" and s: "base T n True s" "same_name s"
    and pc: "procedureCode pdu \<noteq> ProcedureCode_id_E2setup"
  shows "wp (asnInitiatingRequest E pdu st) (\<lambda>_. base T n True) s"
proof -
  note rule = wp_if_known [OF s]
  have "wp (got_RICserviceUpdate E pdu) (\<lambda>_. base T n True) s"
    "wp (got_E2nodeConfigurationUpdate E pdu) (\<lambda>_. base T n True) s"
    "wp (got_ErrorIndication E pdu) (\<lambda>_. base T n True) s" "wp (got_Reset E) (\<lambda>_. base T n True) s"
    "wp (got_RICindication E pdu) (\<lambda>_. base T n True) s"
    "wp (got_RICsubscriptionDeleteRequired E) (\<lambda>_. base T n True) s" "wp (got_unknown E) (\<lambda>_. base T n True) s"
    unfolding got_RICserviceUpdate_def got_E2nodeConfigurationUpdate_def got_ErrorIndication_def got_Reset_def
      got_RICindication_def got_RICsubscriptionDeleteRequired_def got_unknown_def
    by (rule rule; intro handler_rules E)+
  then show ?thesis using pc by (simp add: asnInitiatingRequest_def Let_def)
qed

section \<open>The setup request\<close>

text \<open>
  A setup request as the E2AP specification has it: one node ID, within its bounds, that gives
  the name \<open>k\<close> (\<open>names_node\<close>), and a transaction ID.
\<close>

definition setup_transaction :: "E2AP_PDU \<Rightarrow> int" where
  "setup_transaction pdu = fold collect_transaction (protocolIEs pdu) (-1)"

definition names_node :: "string \<Rightarrow> E2AP_PDU \<Rightarrow> bool" where
  "names_node k pdu \<longleftrightarrow>
     (\<exists>xs ie ys g. protocolIEs pdu = xs @ ie # ys \<and>
        (\<forall>x \<in> set xs \<union> set ys. ie_id x \<noteq> ProtocolIE_ID_id_GlobalE2node_ID) \<and>
        ie_id ie = ProtocolIE_ID_id_GlobalE2node_ID \<and> ie_value ie = IE_GlobalE2node_ID g \<and>
        valid_node_id g \<and> g \<noteq> GlobalE2node_NOTHING \<and> ran_name_text g = k)"

definition good_setup :: "string \<Rightarrow> E2AP_PDU \<Rightarrow> bool" where
  "good_setup k pdu \<longleftrightarrow> k \<noteq> [] \<and> 0 \<le> setup_transaction pdu \<and> names_node k pdu"

lemma good_setup_names: "good_setup k pdu \<Longrightarrow> names_node k pdu"
  by (simp add: good_setup_def)

lemma names_node_name:
  assumes "names_node k pdu" "k \<noteq> []"
  shows "ran_initial k" "nul_free k" "length k < 64"
  using assms buildRanName_ok ran_name_initial unfolding names_node_def ran_initial_def by blast+

lemma good_setup_name:
  assumes "good_setup k pdu"
  shows "ran_initial k" "nul_free k" "length k < 64"
  using assms names_node_name unfolding good_setup_def by blast+

lemma collect_skip:
  "\<forall>x \<in> set xs. ie_id x \<noteq> ProtocolIE_ID_id_GlobalE2node_ID \<Longrightarrow>
    wp (collect_ies (xs @ ys) t) Q s = wp (collect_ies ys (fold collect_transaction xs t)) Q s"
  by (induction xs arbitrary: t) (simp_all add: wp_simps collect_node_id_def)

lemma poke_name:
  "m = [] \<or> m = k \<Longrightarrow> length k < 64 \<Longrightarrow> poke (padded 64 m) k = Some (padded 64 k)"
  unfolding padded_def by (rule poke_pad) auto

lemma wp_collect_node_id:
  assumes ie: "ie_id ie = ProtocolIE_ID_id_GlobalE2node_ID" "ie_value ie = IE_GlobalE2node_ID g"
      "valid_node_id g" "g \<noteq> GlobalE2node_NOTHING" "ran_name_text g = k"
    and p: "peerInfo (msg s) = Some a" "heap s a = Some c" "cu_enodbName c = zero_buf 64"
    and m: "msg_enodbName (msg s) = padded 64 m" "m = [] \<or> m = k"
  shows "wp (collect_node_id ie) Q s = Q True
    (s\<lparr>heap := (heap s)(a \<mapsto> c\<lparr>cu_enodbName := padded 64 k\<rparr>), msg := (msg s)\<lparr>msg_enodbName := padded 64 k\<rparr>,
       sctpMap := map_setkey (sctpMap s) k a\<rparr>)"
proof -
  have "buildRanName (zero_buf 64) g = Some (0, padded 64 k)" "nul_free k" "length k < 64"
    using buildRanName_ok [OF ie(3,4)] ie(5) by simp_all
  with ie p m show ?thesis
    by (simp add: collect_node_id_def set_key_def wp_simps poke_name)
qed

lemma wp_collect:
  assumes g: "names_node k pdu" and p: "peerInfo (msg s) = Some a" "heap s a = Some c"
    and m: "msg_enodbName (msg s) = padded 64 m" "m = [] \<or> m = k"
  shows "wp (collectSetupRequestData pdu) Q s = Q (setup_transaction pdu)
    (s\<lparr>heap := (heap s)(a \<mapsto> c\<lparr>cu_enodbName := padded 64 k\<rparr>), msg := (msg s)\<lparr>msg_enodbName := padded 64 k\<rparr>,
       sctpMap := map_setkey (sctpMap s) k a\<rparr>)"
proof -
  obtain xs ie ys g where ie: "protocolIEs pdu = xs @ ie # ys"
      "\<forall>x \<in> set xs. ie_id x \<noteq> ProtocolIE_ID_id_GlobalE2node_ID"
      "\<forall>x \<in> set ys. ie_id x \<noteq> ProtocolIE_ID_id_GlobalE2node_ID"
      "ie_id ie = ProtocolIE_ID_id_GlobalE2node_ID" "ie_value ie = IE_GlobalE2node_ID g"
      "valid_node_id g" "g \<noteq> GlobalE2node_NOTHING" "ran_name_text g = k"
    using g unfolding names_node_def by blast
  let ?s = "s\<lparr>heap := (heap s)(a \<mapsto> c\<lparr>cu_enodbName := zero_buf 64\<rparr>)\<rparr>"
  have node: "wp (collect_node_id ie) R ?s = R True (s\<lparr>heap := (heap s)(a \<mapsto> c\<lparr>cu_enodbName := padded 64 k\<rparr>),
      msg := (msg s)\<lparr>msg_enodbName := padded 64 k\<rparr>, sctpMap := map_setkey (sctpMap s) k a\<rparr>)" for R
    using wp_collect_node_id [OF ie(4-8), of ?s a "c\<lparr>cu_enodbName := zero_buf 64\<rparr>" m] p m by simp
  have rest: "wp (collect_ies ys t) Q s' = Q (fold collect_transaction ys t) s'" for t s'
    using collect_skip [OF ie(3), of "[]"] by (simp add: wp_simps)
  have "wp (collectSetupRequestData pdu) Q s = wp (collect_ies (protocolIEs pdu) (-1)) Q ?s"
    using p by (simp add: collectSetupRequestData_def wp_simps)
  also have "\<dots> = wp (collect_ies (ie # ys) (fold collect_transaction xs (-1))) Q ?s"
    unfolding ie(1) by (rule collect_skip [OF ie(2)])
  finally show ?thesis
    by (simp add: wp_bnd node rest setup_transaction_def ie(1))
qed

end
