(* ===== verification/E2_Frames.thy ===== *)
theory E2_Frames
  imports E2_Safety
begin

text \<open>
  What the handlers of a node's messages leave alone. The locale \<open>call_frame\<close> states the
  interface of a frame: a property of the state that does not look at the buffers and the
  counters, that the calls into the environment keep, that of the message sees no more than
  its name and its connection, and of a connection no more than its name, its descriptor and
  whether it is marked as connected.
  A \<open>frame\<close> also survives a change of the procedure state of the message's own node. The
  parts of the handlers keep every call frame, the handlers every frame.
\<close>

lemma map_of_set_other: "n' \<noteq> n \<Longrightarrow> map_of (setE2ProcedureOngoingStatus m n st) n' = map_of m n'"
  by (simp add: setE2ProcedureOngoingStatus_def map_of_write_entry)

lemma map_of_insert_other: "n' \<noteq> n \<Longrightarrow> map_of (insertE2SetupProcedureOngoing m n t) n' = map_of m n'"
  by (auto simp: insertE2SetupProcedureOngoing_def Let_def map_of_std_insert find_entry_map_of map_of_set_other)

locale call_frame =
  fixes E :: "'w env" and I :: "'w e2t \<Rightarrow> bool"
  assumes sent: "I s \<Longrightarrow> rmr_send_msg E b (world s) = (r, w) \<Longrightarrow> I (s\<lparr>world := w\<rparr>)"
    and allocated: "I s \<Longrightarrow> rmr_alloc_msg E n (world s) = (r, w) \<Longrightarrow> I (s\<lparr>world := w\<rparr>)"
    and status_read: "I s \<Longrightarrow> sctp_status E fd (world s) = (st, w) \<Longrightarrow> I (s\<lparr>world := w\<rparr>)"
    and calloced: "I s \<Longrightarrow> calloc_ok E (world s) = (ok, w) \<Longrightarrow> I (s\<lparr>world := w\<rparr>)"
    and received: "I s \<Longrightarrow> sctp_recvmsg E fd (world s) = (rr, w) \<Longrightarrow> I (s\<lparr>world := w\<rparr>)"
    and send_field: "I s \<Longrightarrow> I (s\<lparr>sendMessage := x\<rparr>)"
    and metric_field: "I s \<Longrightarrow> I (s\<lparr>metrics := v\<rparr>)"
    and transaction_field: "I s \<Longrightarrow> I (s\<lparr>transactionCounter := t\<rparr>)"
    and trace_field: "I s \<Longrightarrow> I (s\<lparr>trace_log := l\<rparr>)"
    and msg_field: "I s \<Longrightarrow> peerInfo m' = peerInfo (msg s) \<Longrightarrow>
      msg_enodbName m' = msg_enodbName (msg s) \<Longrightarrow> I (s\<lparr>msg := m'\<rparr>)"
    and CU_field: "I s \<Longrightarrow> heap s a = Some c \<Longrightarrow> cu_enodbName c' = cu_enodbName c \<Longrightarrow>
      fileDescriptor c' = fileDescriptor c \<Longrightarrow> isConnected c' = isConnected c \<Longrightarrow>
      I (s\<lparr>heap := (heap s)(a \<mapsto> c')\<rparr>)"
begin

lemma keeps_calls [keeps_intros]:
  "keeps I (ext (rmr_send_msg E b))" "keeps I (ext (rmr_alloc_msg E n))"
  "keeps I (ext (sctp_status E fd))" "keeps I (ext (calloc_ok E))" "keeps I (ext (sctp_recvmsg E fd))"
  by (auto intro!: keepsI simp: ext_def split: prod.splits dest: sent allocated status_read calloced received)

lemma keeps_upd_msg: "(\<And>m. peerInfo (g m) = peerInfo m) \<Longrightarrow> (\<And>m. msg_enodbName (g m) = msg_enodbName m) \<Longrightarrow>
    keeps I (upd_msg g)"
  unfolding upd_msg_def by (rule keeps_modify) (simp add: msg_field)

lemma keeps_upd_CU:
  assumes "\<And>c. cu_enodbName (g c) = cu_enodbName c" "\<And>c. fileDescriptor (g c) = fileDescriptor c"
    "\<And>c. isConnected (g c) = isConnected c"
  shows "keeps I (upd_CU a g)"
  using assms
  by (auto intro!: keepsI CU_field simp: upd_CU_def deref_def bnd_def gets_def need_def ret_def raise_def modify_def
      split: sum.splits option.splits)

lemma keeps_reads [keeps_intros]:
  "keeps I get_send" "keeps I peer_addr" "keeps I (deref a)" "keeps I peer" "keeps I message_name" "keeps I (CU_name a)"
  unfolding get_send_def peer_addr_def deref_def peer_def message_name_def CU_name_def
  by (intro keeps_intros)+

lemma keeps_writes [keeps_intros]:
  "keeps I (upd_send h)" "keeps I (set_send r)" "keeps I (add_metric l n)" "keeps I next_transaction"
  unfolding upd_send_def set_send_def add_metric_def next_transaction_def
  by (intro keeps_intros keeps_modify; simp add: send_field metric_field transaction_field)+

lemma keeps_text [keeps_intros]: "keeps I (send_text t)" "keeps I point_to_send"
  unfolding send_text_def point_to_send_def by (intro keeps_intros keeps_upd_msg; simp)+

lemma keeps_counting [keeps_intros]:
  "keeps I (increment l n)" "keeps I (increment_if l n)" "keeps I (peer_counter d k p)" "keeps I (e2t_counter d k p)"
  unfolding increment_def increment_if_def peer_counter_def e2t_counter_def
  by (intro keeps_intros)+

lemma keeps_count [keeps_intros]:
  "keeps I (count_message d d' p n)" "keeps I (count_internal a i)" "keeps I count_invalid"
  "keeps I (count_in d p)" "keeps I (count_in_if d p)"
  unfolding count_invalid_def count_in_if_def count_in_def count_message_def count_internal_def
  by (intro keeps_intros)+

lemma keeps_read_asn [keeps_intros]: "keeps I (read_asn p)" "keeps I (lift_fault x)"
  unfolding read_asn_def lift_fault_def by (auto split: asn_ptr.split sum.split intro!: keeps_intros)

lemma keeps_json [keeps_intros]: "keeps I (buildJsonMessage E)"
  unfolding buildJsonMessage_def asn_source_def
  by (intro keeps_intros keeps_upd_msg keeps_modify) (simp_all add: trace_field)

lemma keeps_send_rmr [keeps_intros]:
  "keeps I (alloc_send E)" "keeps I (sendRmrMessage E)" "keeps I (send_message E)"
  unfolding send_message_def sendRmrMessage_def alloc_send_def by (intro keeps_intros)+

lemma keeps_request [keeps_intros]: "keeps I (sendRequestToXapp E t)" "keeps I (request_to_xapp E t)"
proof -
  have "keeps I (sendRequestToXapp E t)" for t
    unfolding sendRequestToXapp_def by (intro keeps_intros keeps_upd_msg) simp_all
  then show "keeps I (sendRequestToXapp E t)" "keeps I (request_to_xapp E t)"
    unfolding request_to_xapp_def by (simp_all add: keeps_bnd keeps_ret)
qed

lemma keeps_encode_rounds [keeps_intros]: "keeps I (encode_rounds k E n sz)"
proof (induction k arbitrary: n sz)
  case (Suc k)
  show ?case unfolding encode_rounds.simps by (intro keeps_intros Suc.IH)
qed (simp add: keeps_raise)

lemma keeps_buildAndSend [keeps_intros]: "keeps I (buildAndSendSetupRequest E pdu)"
  unfolding buildAndSendSetupRequest_def send_once_more_def setup_message_def Let_def
  by (intro keeps_intros keeps_upd_CU; simp)

lemma keeps_recode [keeps_intros]: "keeps I (XML_From_PER E)"
  unfolding XML_From_PER_def by (intro keeps_intros)

lemma keeps_shared [keeps_intros]:
  "(\<And>h. keeps I (g h)) \<Longrightarrow> keeps I (if_known g)" "keeps I (set_type t)" "keeps I (stamp E)"
  unfolding if_known_def set_type_def stamp_def by (intro keeps_intros keeps_upd_msg; simp)+

lemma keeps_route_error [keeps_intros]: "keeps I (route_error E pdu t)"
  unfolding route_error_def Let_def by (intro keeps_intros)

lemma keeps_note_streams [keeps_intros]: "keeps I (note_streams E st)"
  unfolding note_streams_def by (intro keeps_intros keeps_upd_CU; simp)

end

locale frame = call_frame +
  assumes map_field: "I s \<Longrightarrow> cstr (msg_enodbName (msg s)) = Some n \<Longrightarrow>
      (\<And>n'. n' \<noteq> n \<Longrightarrow> map_of m n' = map_of (e2map s) n') \<Longrightarrow> I (s\<lparr>e2map := m\<rparr>)"
begin

lemma keeps_own_entry:
  assumes "\<And>m n n'. n' \<noteq> n \<Longrightarrow> map_of (g m n) n' = map_of m n'"
  shows "keeps I (bnd message_name (\<lambda>n. modify (\<lambda>s. s\<lparr>e2map := g (e2map s) n\<rparr>)))"
  by (rule keepsI) (auto simp: message_name_def bnd_def gets_def need_def ret_def raise_def modify_def
      split: option.splits intro!: map_field assms)

lemma keeps_set_procedure [keeps_intros]: "keeps I (set_procedure st)"
  unfolding set_procedure_def set_state_of_def by (rule keeps_own_entry) (rule map_of_set_other)

lemma keeps_insert_setup [keeps_intros]: "keeps I (insert_setup t)"
  unfolding insert_setup_def by (rule keeps_own_entry) (rule map_of_insert_other)

lemma keeps_ies [keeps_intros]:
  "keeps I (indication_ies E ies)" "keeps I (control_ack_ies E ies)" "keeps I (control_failure_ies E ies)"
  by (induction ies)
    (auto split: ie_value.split intro!: keeps_intros simp: send_indication_def send_control_def)

text \<open>All the handlers but that of the setup request, which gives the connection its name.\<close>

lemma keeps_unknown_outcome [keeps_intros]: "keeps I (got_unknown_outcome E d pc)"
  unfolding got_unknown_outcome_def by (intro keeps_intros)

lemma keeps_successful: "keeps I (asnSuccessfulMsg E pdu)"
  unfolding asnSuccessfulMsg_def Let_def got_Reset_ack_def got_control_ack_def got_subscription_response_def
    got_subscription_delete_response_def
  by (intro keeps_intros)

lemma keeps_unsuccessful: "keeps I (asnUnSuccsesfulMsg E pdu)"
  unfolding asnUnSuccsesfulMsg_def Let_def got_control_failure_def got_subscription_failure_def
  by (intro keeps_intros)

lemma keeps_initiating:
  assumes "procedureCode pdu \<noteq> ProcedureCode_id_E2setup"
  shows "keeps I (asnInitiatingRequest E pdu st)"
proof -
  have "asnInitiatingRequest E pdu st =
     (let pc = procedureCode pdu in
      if pc = ProcedureCode_id_RICserviceUpdate then got_RICserviceUpdate E pdu
      else if pc = ProcedureCode_id_E2nodeConfigurationUpdate then got_E2nodeConfigurationUpdate E pdu
      else if pc = ProcedureCode_id_ErrorIndication then got_ErrorIndication E pdu
      else if pc = ProcedureCode_id_Reset then got_Reset E
      else if pc = ProcedureCode_id_RICindication then got_RICindication E pdu
      else if pc = ProcedureCode_id_RICsubscriptionDeleteRequired then got_RICsubscriptionDeleteRequired E
      else got_unknown E)"
    using assms by (simp add: asnInitiatingRequest_def Let_def)
  moreover have "keeps I \<dots>"
    unfolding Let_def got_RICserviceUpdate_def got_E2nodeConfigurationUpdate_def got_ErrorIndication_def
      got_Reset_def got_RICindication_def got_RICsubscriptionDeleteRequired_def got_unknown_def
    by (intro keeps_intros)
  ultimately show ?thesis by simp
qed

end

end
