(* ===== verification/E2_Invariant.thy ===== *)
theory E2_Invariant
  imports E2_Frames
begin

text \<open>
  The listener's invariant: the setup of a node, the way a connection is taken out, and with
  the handlers of \<open>E2_Safety\<close> every event that \<^verbatim>\<open>epoll_wait\<close> can report.
\<close>

section \<open>A node's setup\<close>

lemma map_ok_setkey:
  assumes "map_ok m h" "h a = Some c" "has_name c n" "n = [] \<or> n = k" "ran_initial k" "has_name c' k"
  shows "map_ok (map_setkey m k a) (h(a \<mapsto> c'))"
proof -
  have "entry_ok (h(a \<mapsto> c')) k' a'" if f: "map_find (map_setkey m k a) k' = Some a'" for k' a'
  proof (cases "k' = k")
    case True
    then show ?thesis using f assms(5,6) by (simp add: map_find_map_of map_of_setkey entry_ok_def)
  next
    case False
    then have old: "entry_ok h k' a'"
      using f assms(1) by (simp add: map_find_map_of map_of_setkey map_ok_def)
    then have "a' \<noteq> a"
      using assms(2-4) False has_name_unique by (fastforce simp: entry_ok_def ran_initial_def)
    then show ?thesis using old by (simp add: entry_ok_def)
  qed
  then show ?thesis using assms(1) by (simp add: map_ok_def map_setkey_invar)
qed

text \<open>The state once the connection has its name and its counters.\<close>

definition named_CU :: "string \<Rightarrow> ConnectedCU \<Rightarrow> ConnectedCU" where
  "named_CU k c = c\<lparr>cu_enodbName := padded 64 k, counters := buildPrometheusList k,
     e2tInternalCounters := buildInternalCounterPrometheusList k\<rparr>"

lemma active_named:
  assumes s: "base T n f s" and p: "peerInfo (msg s) = Some a" "heap s a = Some c" "has_name c m" "m = [] \<or> m = k"
    and k: "ran_initial k" "nul_free k" "length k < 64"
  shows "active T n f (s\<lparr>msg := (msg s)\<lparr>msg_enodbName := padded 64 k\<rparr>,
    sctpMap := map_setkey (sctpMap s) k a, heap := (heap s)(a \<mapsto> named_CU k c)\<rparr>)" (is "active T n f ?s")
proof -
  have c': "has_name (named_CU k c) k" "counters (named_CU k c) = buildPrometheusList k"
    "isConnected (named_CU k c) = isConnected c"
    using k by (simp_all add: has_name_def named_CU_def)
  have "heap_ok ((heap s)(a \<mapsto> named_CU k c)) (next_addr s)"
    using s p(2) c' by (fastforce simp: base_def core_def heap_ok_def CU_ok_def)
  moreover have "map_ok (map_setkey (sctpMap s) k a) ((heap s)(a \<mapsto> named_CU k c))"
    using s p k(1) c'(1) by (intro map_ok_setkey) (auto simp: base_def)
  moreover have "built ?s" using p(1) c'(2) by (auto simp: built_def)
  moreover have "core T n f s" using s by (simp only: base_def)
  then have "core T n f ?s"
    using \<open>heap_ok _ _\<close> name_ok_padded [OF k(2,3)] unfolding core_def by simp
  ultimately show ?thesis by (simp add: active_def base_def)
qed

lemma pres_note_streams:
  assumes E: "env_ok T E"
  shows "pres (active T n f) (note_streams E st)"
proof (rule presI)
  fix s assume s: "active T n f s"
  then obtain a c where p: "peerInfo (msg s) = Some a" "heap s a = Some c"
    by (auto simp: active_def built_def)
  obtain i o' w' where w: "sctp_status E (fileDescriptor c) (world s) = ((i, o'), w')"
    by (metis surj_pair)
  have "T w' \<le> T (world s)"
    by (rule steady_sockets(4) [OF E w])
  then have s': "active T n f (s\<lparr>world := w'\<rparr>)" by (rule active_world [OF s])
  from active_upd_CU [OF this, of a c "c\<lparr>isSingleStream := True, singleStreamId := st\<rparr>"]
  show "wp (note_streams E st) (\<lambda>_. active T n f) s"
    using p w s' by (auto simp: note_streams_def wp_simps)
qed

lemma pres_increment_if [pres_intros]: "pres (active T n f) (increment_if l x)"
  by (simp add: pres_def wp_simps split: option.splits)

lemma pres_insert_setup [pres_intros]: "pres (active T n f) (insert_setup t)"
proof (rule presI)
  fix s assume s: "active T n f s"
  obtain k where "cstr (msg_enodbName (msg s)) = Some k" using base_name [OF active_base [OF s]] by blast
  then show "wp (insert_setup t) (\<lambda>_. active T n f) s"
    using s base_conn [OF active_base [OF s]] by (simp add: insert_setup_def wp_simps active_e2map insertE2Setup_invar)
qed

text \<open>
  \<open>N w fd\<close> is the name of the node at the other end of a descriptor: the calls during the
  handling of a message do not change it, and the setup requests that come in are those of
  that node.
\<close>

definition nodes_ok :: "('w \<Rightarrow> int \<Rightarrow> string) \<Rightarrow> 'w env \<Rightarrow> bool" where
  "nodes_ok N E \<longleftrightarrow>
     (\<forall>b w r w'. rmr_send_msg E b w = (r, w') \<longrightarrow> N w' = N w) \<and>
     (\<forall>n w r w'. rmr_alloc_msg E n w = (r, w') \<longrightarrow> N w' = N w) \<and>
     (\<forall>fd w r w'. sctp_status E fd w = (r, w') \<longrightarrow> N w' = N w) \<and>
     (\<forall>w r w'. calloc_ok E w = (r, w') \<longrightarrow> N w' = N w) \<and>
     (\<forall>fd w r w'. sctp_recvmsg E fd w = (r, w') \<longrightarrow> N w' = N w) \<and>
     (\<forall>fd w bs st w' pdu. sctp_recvmsg E fd w = (Received bs st, w') \<and> per_decode E bs = Some pdu \<and>
        pdu_present pdu = initiatingMessage \<and> procedureCode pdu = ProcedureCode_id_E2setup \<longrightarrow>
        good_setup (N w fd) pdu)"

lemma nodes_okD:
  assumes "nodes_ok N E"
  shows "rmr_send_msg E b w = (r, w') \<Longrightarrow> N w' = N w" "rmr_alloc_msg E n w = (r, w') \<Longrightarrow> N w' = N w"
    "sctp_status E fd w = (st, w') \<Longrightarrow> N w' = N w" "calloc_ok E w = (ok, w') \<Longrightarrow> N w' = N w"
    "sctp_recvmsg E fd w = (rr, w') \<Longrightarrow> N w' = N w"
    "sctp_recvmsg E fd w = (Received bs sid, w') \<Longrightarrow> per_decode E bs = Some pdu \<Longrightarrow>
      pdu_present pdu = initiatingMessage \<Longrightarrow> procedureCode pdu = ProcedureCode_id_E2setup \<Longrightarrow>
      good_setup (N w fd) pdu"
proof -
  note n = assms [unfolded nodes_ok_def]
  show "rmr_send_msg E b w = (r, w') \<Longrightarrow> N w' = N w" "rmr_alloc_msg E n w = (r, w') \<Longrightarrow> N w' = N w"
    "sctp_status E fd w = (st, w') \<Longrightarrow> N w' = N w" "calloc_ok E w = (ok, w') \<Longrightarrow> N w' = N w"
    "sctp_recvmsg E fd w = (rr, w') \<Longrightarrow> N w' = N w"
    "sctp_recvmsg E fd w = (Received bs sid, w') \<Longrightarrow> per_decode E bs = Some pdu \<Longrightarrow>
      pdu_present pdu = initiatingMessage \<Longrightarrow> procedureCode pdu = ProcedureCode_id_E2setup \<Longrightarrow>
      good_setup (N w fd) pdu"
    using n by metis+
qed

text \<open>The message is that of the connection \<open>a\<close>, which has no name yet or the name of its node.\<close>

definition node_at :: "('w \<Rightarrow> int \<Rightarrow> string) \<Rightarrow> 'w env \<Rightarrow> nat \<Rightarrow> int \<Rightarrow> string \<Rightarrow> 'w e2t \<Rightarrow> bool" where
  "node_at N E a fd k s \<longleftrightarrow> nodes_ok N E \<and> peerInfo (msg s) = Some a \<and> N (world s) fd = k \<and>
     (\<exists>c m. heap s a = Some c \<and> fileDescriptor c = fd \<and> has_name c m \<and> (m = [] \<or> m = k))"

text \<open>The setup behind the point where the connection has its name and its counters.\<close>

definition setup_front :: "'w env \<Rightarrow> E2AP_PDU \<Rightarrow> int \<Rightarrow> ('w, unit) act" where
  "setup_front E pdu st = seqs [note_streams E st, upd_msg (\<lambda>m. m\<lparr>messageType := RIC_E2_SETUP_REQ\<rparr>),
       bnd (peer_counter IN_INITI MSG_COUNTER ProcedureCode_id_E2setup) (\<lambda>l. increment_if l 1),
       bnd (peer_counter IN_INITI BYTES_COUNTER ProcedureCode_id_E2setup) (\<lambda>l.
         bnd (gets (msg_asnLength \<circ> msg)) (increment_if l)),
       buildAndSendSetupRequest E pdu]"

definition named :: "string \<Rightarrow> nat \<Rightarrow> ConnectedCU \<Rightarrow> 'w e2t \<Rightarrow> 'w e2t" where
  "named k a c s = s\<lparr>msg := (msg s)\<lparr>msg_enodbName := padded 64 k\<rparr>, sctpMap := map_setkey (sctpMap s) k a,
     heap := (heap s)(a \<mapsto> named_CU k c)\<rparr>"

lemma wp_setup_named:
  assumes g: "good_setup k pdu" and at: "node_at N E a fd k s" "same_name s" and c: "heap s a = Some c"
  shows "wp (got_E2setup E pdu st) Q s =
    wp (sq (setup_front E pdu st) (insert_setup (setup_transaction pdu))) Q (named k a c s)"
proof -
  obtain m where p: "peerInfo (msg s) = Some a" "has_name c m" "m = [] \<or> m = k"
    using at(1) c by (auto simp: node_at_def)
  have "msg_enodbName (msg s) = padded 64 m" using at(2) p c by (auto simp: same_name_def has_name_def)
  note collected = wp_collect [OF good_setup_names [OF g] p(1) c this p(3)]
  note k = good_setup_name [OF g]
  have counters: "wp (build_counters (Some a)) R (s\<lparr>heap := (heap s)(a \<mapsto> c\<lparr>cu_enodbName := padded 64 k\<rparr>),
      msg := (msg s)\<lparr>msg_enodbName := padded 64 k\<rparr>, sctpMap := map_setkey (sctpMap s) k a\<rparr>) = R () (named k a c s)" for R
    using k by (simp add: build_counters_def wp_simps named_CU_def named_def)
  have "0 \<le> setup_transaction pdu" using g by (simp add: good_setup_def)
  moreover have "handleE2SetupReq E pdu t st = bnd (gets (peerInfo \<circ> msg)) (\<lambda>p.
      sq (build_counters p) (sq (setup_front E pdu st) (insert_setup t)))" for t
    by (simp add: handleE2SetupReq_def setup_front_def sq_assoc sq_ret_right)
  ultimately show ?thesis
    using collected p(1)
    by (simp add: got_E2setup_def wp_bnd [of "collectSetupRequestData _"] wp_bnd [of "gets _"] wp_gets
        wp_sq [of "build_counters _"] counters)
qed

lemma named_node_at:
  assumes g: "good_setup k pdu" and at: "node_at N E a fd k s" and c: "heap s a = Some c"
  shows "node_at N E a fd k (named k a c s)"
  using assms good_setup_name [OF g] by (auto simp: node_at_def named_CU_def has_name_def named_def)

lemma wp_setup_front:
  assumes E: "env_ok T E" and g: "good_setup k pdu" and s: "base T n f s" and at: "node_at N E a fd k s" and c: "heap s a = Some c"
  shows "wp (setup_front E pdu st) (\<lambda>_. active T n f) (named k a c s)"
proof -
  obtain m where p: "peerInfo (msg s) = Some a" "has_name c m" "m = [] \<or> m = k"
    using at c by (auto simp: node_at_def)
  have "active T n f (named k a c s)"
    unfolding named_def by (rule active_named [OF s p(1) c p(2,3) good_setup_name [OF g]])
  moreover have "pres (active T n f) (setup_front E pdu st)"
    unfolding setup_front_def
    by (intro pres_built_bnd pres_increment_if handler_rules pres_note_streams [OF E] pres_upd_msg E) simp_all
  ultimately show ?thesis by (rule presD [rotated])
qed

context call_frame
begin

lemma keeps_setup_front: "keeps I (setup_front E pdu st)"
  unfolding setup_front_def by (intro keeps_intros keeps_upd_msg) simp_all

end

section \<open>The messages of one node\<close>

text \<open>
  The interface of a property that holds while the messages of the node \<open>k\<close> at the other end of
  the connection \<open>a\<close> are handled: a frame in which the message is this connection's, that does
  not mind the message being filled in from the connection, nor the connection getting its name.
\<close>

locale node_frame = frame E I
  for E :: "'w env" and I :: "'w e2t \<Rightarrow> bool" +
  fixes N :: "'w \<Rightarrow> int \<Rightarrow> string" and a :: nat and fd :: int and k :: string
  assumes at: "I s \<Longrightarrow> node_at N E a fd k s"
    and filled_in: "I s \<Longrightarrow> heap s a = Some c \<Longrightarrow> msg_enodbName m = cu_enodbName c \<Longrightarrow>
      peerInfo m = peerInfo (msg s) \<Longrightarrow> I (s\<lparr>msg := m\<rparr>)"
    and renamed: "I s \<Longrightarrow> good_setup k pdu \<Longrightarrow> heap s a = Some c \<Longrightarrow> I (named k a c s)"
begin

lemma wp_got_E2setup:
  assumes E: "env_ok T E" and g: "good_setup k pdu" and s: "base T n f s" "I s" "same_name s"
  shows "wp (got_E2setup E pdu st) (\<lambda>_ s. active T n f s \<and> I s) s"
proof -
  note at' = at [OF s(2)]
  obtain c where c: "heap s a = Some c" using at' by (auto simp: node_at_def)
  have last: "wp (insert_setup t) (\<lambda>_ s. active T n f s \<and> I s) s'" if "active T n f s' \<and> I s'" for t s'
    using wp_keeps [OF presD [OF pres_insert_setup] keeps_insert_setup] that by blast
  note front = wp_keeps [OF wp_setup_front [OF E g s(1) at' c] keeps_setup_front renamed [OF s(2) g c]]
  show ?thesis
    unfolding wp_setup_named [OF g at' s(3) c] wp_sq by (rule wp_mono [OF front last])
qed

lemma wp_handle_pdu:
  assumes E: "env_ok T E" and s: "base T n True s" "I s" "same_name s"
    and g: "pdu_present pdu = initiatingMessage \<Longrightarrow> procedureCode pdu = ProcedureCode_id_E2setup \<Longrightarrow> good_setup k pdu"
  shows "wp (handle_pdu E pdu st) (\<lambda>_ s. base T n True s \<and> I s) s"
proof (cases "pdu_present pdu")
  case initiatingMessage
  show ?thesis
  proof (cases "procedureCode pdu = ProcedureCode_id_E2setup")
    case True
    have "wp (got_E2setup E pdu st) (\<lambda>_ s. base T n True s \<and> I s) s"
      using wp_got_E2setup [OF E g [OF initiatingMessage True] s] by (rule wp_mono) (auto dest: active_base)
    then show ?thesis using initiatingMessage True by (simp add: handle_pdu_def asnInitiatingRequest_def)
  next
    case False
    show ?thesis
      using wp_keeps [OF wp_other_initiating [OF E s(1,3) False] keeps_initiating [OF False] s(2)] initiatingMessage
      by (simp add: handle_pdu_def)
  qed
next
  case successfulOutcome
  then show ?thesis
    using wp_keeps [OF wp_asnSuccessfulMsg [OF E s(1,3)] keeps_successful s(2)] by (simp add: handle_pdu_def)
next
  case unsuccessfulOutcome
  then show ?thesis
    using wp_keeps [OF wp_asnUnSuccsesfulMsg [OF E s(1,3)] keeps_unsuccessful s(2)] by (simp add: handle_pdu_def)
next
  case pdu_NOTHING
  then show ?thesis using s by (simp add: handle_pdu_def wp_simps)
qed

end

lemma node_at_msg: "node_at N E a fd k (s\<lparr>msg := m\<rparr>) \<longleftrightarrow> node_at N E a fd k s" if "peerInfo m = peerInfo (msg s)"
  using that by (simp add: node_at_def)

interpretation node: node_frame E "node_at N E a fd k" N a fd k for E :: "'w env" and N a fd k
proof unfold_locales
  fix s :: "'w e2t" and a' and c c' :: ConnectedCU
  assume s: "node_at N E a fd k s" and c: "heap s a' = Some c" "cu_enodbName c' = cu_enodbName c"
    "fileDescriptor c' = fileDescriptor c"
  have "has_name c' m = has_name c m" for m using c(2) by (simp add: has_name_def)
  then show "node_at N E a fd k (s\<lparr>heap := (heap s)(a' \<mapsto> c')\<rparr>)"
    using s c by (auto simp: node_at_def)
qed (auto simp: node_at_msg named_node_at, auto simp: node_at_def dest: nodes_okD)

end
