(* ===== verification/E2_Events.thy ===== *)
theory E2_Events
  imports E2_Invariant
begin

text \<open>
  Every event that \<^verbatim>\<open>epoll_wait\<close> reports, from the invariant to the invariant: reading
  a connection until \<^verbatim>\<open>EAGAIN\<close>, taking it out, the messages of the xApps, new connections.
\<close>

lemma wp_ret_eta: "wp (ret x) Q = Q x"
  by (rule ext) (rule wp_ret)

section \<open>Reading from a connection\<close>

lemma core_mono: "core T n f s \<Longrightarrow> n \<le> n' \<Longrightarrow> core T n' f s"
  by (simp add: core_def)

lemma core_big: "core T n f s \<Longrightarrow> core T n False s"
  by (auto simp: core_def send_ok_def buf_ok_def split: if_splits)

lemma base_big: "base T n f s \<Longrightarrow> base T n False s"
  by (auto simp: base_def dest: core_big)

lemma wp_fill_message:
  assumes b: "sendMessage s = Some b" and p: "peerInfo (msg s) = Some a" "heap s a = Some c"
  shows "wp (fill_message ts) Q s = Q () (s\<lparr>msg := (msg s)\<lparr>asndata := Asn_send (mb_id b), msg_asnLength := mb_len b,
    msg_enodbName := cu_enodbName c, direction := CHR ''U'', tv_sec := fst ts, tv_nsec := snd ts\<rparr>\<rparr>)"
  using assms by (simp add: fill_message_def wp_simps)

text \<open>A filled message is the connection's, and the base invariant does not see the rest.\<close>

lemma filled:
  assumes s: "base T n f s" "heap s a = Some c" and m: "msg_enodbName m = cu_enodbName c"
  shows "base T n f (s\<lparr>msg := m\<rparr>)"
proof -
  have "CU_ok c" using s by (auto simp: base_def core_def heap_ok_def)
  then have "name_ok (cu_enodbName c)" using CU_ok_name has_name_ok by blast
  then show ?thesis using s(1) m by (simp add: base_def core_def)
qed

text \<open>One round of the loop: what is left to do once the read has been stored and the message filled.\<close>

definition after_read :: "nat \<Rightarrow> 'w env \<Rightarrow> int \<times> int \<Rightarrow> recv_result \<Rightarrow> ('w, bool) act" where
  "after_read j E ts r = (case r of
      Recv_error e \<Rightarrow> if e = EINTR then receive_rounds j E ts else ret (e \<noteq> EAGAIN)
    | Received bs st \<Rightarrow> if bs = [] then ret True else (case per_decode E bs of
        None \<Rightarrow> ret False
      | Some pdu \<Rightarrow> sq (handle_pdu E pdu st) (receive_rounds j E ts)))"

definition got_message :: "recv_result \<Rightarrow> bool" where
  "got_message r = (case r of Received bs st \<Rightarrow> True | Recv_error e \<Rightarrow> False)"

text \<open>Steps of which the result is known.\<close>

lemma bnd_known: "(\<And>Q. wp m Q s = Q x s') \<Longrightarrow> bnd m f s = f x s'"
  by (drule meta_spec [of _ "\<lambda>y t. y = x \<and> t = s'"]) (auto simp: wp_def bnd_def split: sum.splits)

lemma sq_known: "(\<And>Q. wp m Q s = Q () s') \<Longrightarrow> sq m n s = n s'"
  unfolding sq_def by (rule bnd_known)

lemma read_run:
  assumes E: "env_ok T E" and s: "base T l f s" and p: "peerInfo (msg s) = Some a" "heap s a = Some c"
    and r: "sctp_recvmsg E (fileDescriptor c) (world s) = (r, w)"
  obtains b m where "send_ok (got_message r) b" "msg_enodbName m = cu_enodbName c" "peerInfo m = Some a"
    "\<And>j. receive_rounds (Suc j) E ts s = after_read j E ts r (s\<lparr>world := w, sendMessage := Some b, msg := m\<rparr>)"
proof -
  obtain b where b: "sendMessage s = Some b" "big b"
    using base_sendD [OF s] by (auto simp: send_ok_def buf_ok_def split: if_splits)
  define filled_from where "filled_from b' = (msg s)\<lparr>asndata := Asn_send (mb_id b'), msg_asnLength := mb_len b',
      msg_enodbName := cu_enodbName c, direction := CHR ''U'', tv_sec := fst ts, tv_nsec := snd ts\<rparr>" for b' :: rmr_mbuf
  have fill: "wp (fill_message ts) Q (s\<lparr>world := w, sendMessage := Some b'\<rparr>) =
      Q () (s\<lparr>world := w, sendMessage := Some b', msg := filled_from b'\<rparr>)" for Q b'
    using p by (subst wp_fill_message [of _ b' a c]) (simp_all add: filled_from_def)
  have peer: "wp peer Q s = Q c s" for Q using p by (simp add: wp_peer)
  have read: "wp (ext (sctp_recvmsg E (fileDescriptor c))) Q s = Q r (s\<lparr>world := w\<rparr>)" for Q
    using r by (simp add: wp_ext)
  note front = receive_rounds.simps(2) bnd_known [OF peer] bnd_known [OF read]
  show thesis
  proof (cases r)
    case (Recv_error e)
    have len: "wp (upd_send (\<lambda>b. b\<lparr>mb_len := -1\<rparr>)) Q (s\<lparr>world := w\<rparr>) =
        Q () (s\<lparr>world := w, sendMessage := Some (b\<lparr>mb_len := -1\<rparr>)\<rparr>)" for Q
      using b by (simp add: wp_upd_send)
    show thesis
    proof (rule that)
      show "receive_rounds (Suc j) E ts s = after_read j E ts r
          (s\<lparr>world := w, sendMessage := Some (b\<lparr>mb_len := -1\<rparr>), msg := filled_from (b\<lparr>mb_len := -1\<rparr>)\<rparr>)" for j
        unfolding front by (simp only: Recv_error recv_result.case sq_known [OF len] sq_known [OF fill] after_read_def)
    qed (use b p Recv_error in \<open>simp_all add: send_ok_def big_def got_message_def filled_from_def\<close>)
  next
    case (Received bs st)
    have bs: "length bs \<le> RECEIVE_SCTP_BUFFER_SIZE" using sockets_okD(20) [OF E] r Received by blast
    let ?b = "b\<lparr>mb_payload := bs @ drop (length bs) (mb_payload b), mb_len := int (length bs)\<rparr>"
    have fits: "length bs \<le> length (mb_payload b)" using bs b(2) by (simp add: big_def)
    have store: "wp (store_received bs) Q (s\<lparr>world := w\<rparr>) = Q () (s\<lparr>world := w, sendMessage := Some ?b\<rparr>)" for Q
      using b fits by (simp add: store_received_def wp_simps)
    have octets: "bnd asn_octets g (s\<lparr>world := w, sendMessage := Some ?b, msg := filled_from ?b\<rparr>) =
        g bs (s\<lparr>world := w, sendMessage := Some ?b, msg := filled_from ?b\<rparr>)" if "bs \<noteq> []" for g :: "byte list \<Rightarrow> ('a, bool) act"
      using fits that by (intro bnd_known) (simp add: asn_octets_def read_asn_def wp_simps filled_from_def)
    show thesis
    proof (rule that)
      show "receive_rounds (Suc j) E ts s = after_read j E ts r
          (s\<lparr>world := w, sendMessage := Some ?b, msg := filled_from ?b\<rparr>)" for j
        unfolding front after_read_def Received recv_result.case sq_known [OF store] sq_known [OF fill]
        by (cases "bs = []") (simp_all only: if_True if_False refl simp_thms octets)
    qed (use b p bs Received in \<open>simp_all add: send_ok_def buf_ok_def big_def got_message_def filled_from_def\<close>)
  qed
qed

lemma wp_read:
  assumes "env_ok T E" "base T l f s" "peerInfo (msg s) = Some a" "heap s a = Some c"
    and "sctp_recvmsg E (fileDescriptor c) (world s) = (r, w)"
  obtains b m where "send_ok (got_message r) b" "msg_enodbName m = cu_enodbName c" "peerInfo m = Some a"
    "\<And>Q. wp (receive_rounds (Suc j) E ts) Q s = wp (after_read j E ts r) Q (s\<lparr>world := w, sendMessage := Some b, msg := m\<rparr>)"
  by (rule read_run [OF assms, where ts = ts]) (rule that, assumption+, simp only: wp_def)

context node_frame
begin

lemma wp_receive_rounds:
  assumes E: "env_ok T E" and s: "base T l f s" "I s" "l < j" "l \<le> n"
  shows "wp (receive_rounds j E ts) (\<lambda>_ s. base T n False s \<and> I s) s"
  using s
proof (induction j arbitrary: s l f)
  case (Suc j)
  obtain c where p: "peerInfo (msg s) = Some a" "heap s a = Some c" "fileDescriptor c = fd" "N (world s) fd = k" "nodes_ok N E"
    using at [OF Suc.prems(2)] by (auto simp: node_at_def)
  obtain r w where r: "sctp_recvmsg E fd (world s) = (r, w)" by fastforce
  have w: "T w \<le> T (world s)" by (rule steady_sockets(2) [OF E r])
  have l: "T (world s) \<le> l" using Suc.prems(1) by (simp add: base_def core_def)
  obtain b m where b: "send_ok (got_message r) b" and m: "msg_enodbName m = cu_enodbName c" "peerInfo m = Some a"
    and read: "\<And>Q. wp (receive_rounds (Suc j) E ts) Q s =
      wp (after_read j E ts r) Q (s\<lparr>world := w, sendMessage := Some b, msg := m\<rparr>)"
    using wp_read [OF E Suc.prems(1) p(1,2), of r w] r p(3) by blast
  let ?u = "s\<lparr>world := w, sendMessage := Some b, msg := m\<rparr>"
  have u: "base T l (got_message r) ?u"
    using p(2) m(1) by (intro filled [OF base_send [OF base_world [OF Suc.prems(1) w] b]]) simp_all
  have I: "I ?u" using p m by (intro filled_in [OF send_field [OF received [OF Suc.prems(2) r]]]) simp_all
  have same: "same_name ?u" using p(2) m by (simp add: same_name_def)
  have again: "wp (receive_rounds j E ts) (\<lambda>_ s. base T n False s \<and> I s) s'"
    if "T w < T (world s)" "base T (l - 1) f' s'" "I s'" for s' f'
    using that l Suc.prems(3,4) by (intro Suc.IH [of "l - 1" f']) simp_all
  have stop: "base T n False ?u \<and> I ?u"
    using base_mono [OF base_big [OF u] Suc.prems(4)] I by simp
  have less: "base T (l - 1) (got_message r) ?u" if "T w < T (world s)"
    using u l that by (simp add: base_def core_def)
  show ?case
  proof (cases r)
    case (Recv_error e)
    have "T w < T (world s)" if "e = EINTR" using sockets_okD(19) [OF E] r Recv_error that by blast
    then show ?thesis
      unfolding read using again [OF _ less I] stop by (cases "e = EINTR") (simp_all add: after_read_def Recv_error wp_ret)
  next
    case (Received bs st)
    have "wp (handle_pdu E pdu st) (\<lambda>_. wp (receive_rounds j E ts)
        (\<lambda>_ s. base T n False s \<and> I s)) ?u" if ne: "bs \<noteq> []" and pdu: "per_decode E bs = Some pdu" for pdu
    proof (rule wp_mono)
      have shrinks: "T w < T (world s)" using sockets_okD(18) [OF E] r Received ne by blast
      show "wp (handle_pdu E pdu st) (\<lambda>_ s. base T (l - 1) True s \<and> I s) ?u"
        using less [OF shrinks] I same nodes_okD(6) [OF p(5) r [unfolded Received] pdu] p(4)
        by (intro wp_handle_pdu [OF E]) (simp_all add: Received got_message_def)
      show "base T (l - 1) True s' \<and> I s' \<Longrightarrow> wp (receive_rounds j E ts)
          (\<lambda>_ s. base T n False s \<and> I s) s'" for s'
        using again [OF shrinks] by blast
    qed
    then show ?thesis
      unfolding read using stop by (cases "per_decode E bs") (simp_all add: after_read_def Received wp_ret wp_sq)
  qed
qed simp

end

section \<open>Taking a connection out\<close>

text \<open>A key of the form \<^verbatim>\<open>host:...\<close> is not a RAN name.\<close>

lemma host_key_not_ran: "\<not> ran_initial (host_key c)"
proof -
  have "hd (take m (CHR ''h'' # t)) = CHR ''h''" if "0 < m" for m :: nat and t :: string
    using that by (cases m) simp_all
  from this [of 2047] show ?thesis
    by (simp add: ran_initial_def host_key_def snprintf_text_def)
qed

lemma map_find_none: "map_ok m h \<Longrightarrow> \<not> ran_initial k \<Longrightarrow> map_find m k = None"
  by (cases "map_find m k") (auto simp: map_ok_def entry_ok_def)

lemma map_find_erase: "map_invar m \<Longrightarrow> map_find (map_erase m k) k' = (if k' = k then None else map_find m k')"
  by (simp add: map_find_map_of map_of_erase map_invar_def)

text \<open>Once its key is erased, a connection can be freed.\<close>

lemma map_ok_forget:
  assumes m: "map_ok m h" and c: "h a = Some c" "has_name c k"
  shows "map_ok (if map_find m k \<noteq> None then map_erase m k else m) (h(a := None))"
proof -
  let ?m = "if map_find m k \<noteq> None then map_erase m k else m"
  have inv: "map_invar m" using m by (simp add: map_ok_def)
  have "entry_ok (h(a := None)) k' a'" if f: "map_find ?m k' = Some a'" for k' a'
  proof -
    have f': "map_find m k' = Some a'" "k' \<noteq> k"
      using f map_find_erase [OF inv, of k k'] by (auto split: if_splits)
    then have e: "entry_ok h k' a'" using m by (simp add: map_ok_def)
    then have "a' \<noteq> a" using c f'(2) has_name_unique by (auto simp: entry_ok_def)
    with e show ?thesis by (simp add: entry_ok_def)
  qed
  moreover have "map_invar ?m" using inv map_erase_invar by simp
  ultimately show ?thesis by (simp add: map_ok_def)
qed

lemma heap_ok_free: "heap_ok h n \<Longrightarrow> heap_ok (h(a := None)) n"
  by (simp add: heap_ok_def)

lemma wp_cleanHashEntry:
  assumes s: "base T n f s" and c: "heap s a = Some c" "has_name c k"
    and Q: "\<And>m'. map_ok m' ((heap s)(a := None)) \<Longrightarrow> Q () (s\<lparr>sctpMap := m', heap := (heap s)(a := None)\<rparr>)"
  shows "wp (cleanHashEntry (Some a)) Q s"
proof -
  have m: "map_ok (sctpMap s) (heap s)" using s by (simp add: base_def)
  have "map_find (sctpMap s) (host_key c) = None" by (rule map_find_none [OF m host_key_not_ran])
  then show ?thesis
    using c Q [OF map_ok_forget [OF m c]] has_name_cstr [OF c(2)]
    by (cases "map_find (sctpMap s) k") (simp_all add: cleanHashEntry_def erase_if_found_def erase_key_def wp_simps)
qed

lemma base_forgotten:
  "base T n f s \<Longrightarrow> map_ok m' ((heap s)(a := None)) \<Longrightarrow>
    base T n f (s\<lparr>sctpMap := m', heap := (heap s)(a := None)\<rparr>)"
  by (simp add: base_def core_def heap_ok_free)

text \<open>Closing the descriptor, forgetting the procedure state and freeing.\<close>

lemma wp_remove_procedure [wp_simps]:
  "wp (remove_procedure k) Q s = Q () (s\<lparr>e2map := removeE2ConnectionEntryFromMap (e2map s) k\<rparr>)"
  by (simp add: remove_procedure_def wp_simps)

lemma wp_clean_base:
  assumes "base T n f s" "heap s a = Some c" "has_name c k"
  shows "wp (cleanHashEntry (Some a)) (\<lambda>_. base T n f) s"
  using assms by (rule wp_cleanHashEntry) (rule base_forgotten [OF assms(1)])

text \<open>The text of a failure in the send buffer.\<close>

lemma base_text:
  assumes s: "base T n f s" and c: "heap s a = Some c" "has_name c k" and t: "length t < 128"
    and Q: "\<And>b. buf_ok b \<Longrightarrow> Q () (s\<lparr>sendMessage := Some b\<rparr>)"
  shows "wp (bnd (CU_name a) (\<lambda>n. send_text (n @ t))) Q s"
proof -
  obtain b where b: "sendMessage s = Some b" "big b"
    using base_sendD [OF s] by (auto simp: send_ok_def buf_ok_def split: if_splits)
  have l: "length (k @ t) < 192" using c(2) t by (simp add: has_name_def)
  obtain p where p: "write_text (mb_payload b) 256 (k @ t) = Some p" "length p = length (mb_payload b)"
    using write_text_some [OF b(2), of "k @ t"] l by auto
  have "buf_ok (b\<lparr>mb_payload := p, mb_len := int (length (k @ t))\<rparr>)"
    using b(2) p(2) l by (simp add: buf_ok_def big_def RECEIVE_SCTP_BUFFER_SIZE_def)
  from Q [OF this] show ?thesis
    using b(1) p(1) c has_name_cstr by (simp add: wp_simps)
qed

lemma base_closed:
  "env_ok T E \<Longrightarrow> base T n f s \<Longrightarrow> base T n f (s\<lparr>world := fd_close E fd (world s)\<rparr>)"
  by (rule base_world) (simp_all add: sockets_okD(15))

lemma base_removed: "base T n f s \<Longrightarrow> base T n f (s\<lparr>e2map := removeE2ConnectionEntryFromMap (e2map s) k\<rparr>)"
  by (intro base_e2map remove_invar base_conn)

lemma base_same_msg:
  "base T n f s \<Longrightarrow> msg_enodbName m = msg_enodbName (msg s) \<Longrightarrow> base T n f (s\<lparr>msg := m\<rparr>)"
  by (simp add: base_def core_def)

text \<open>
  The steps of a disconnect before the connection is freed leave it standing: the failure is
  reported with the connection's name in the message, and its procedure state is removed.
\<close>

definition standing :: "('w \<Rightarrow> nat) \<Rightarrow> nat \<Rightarrow> bool \<Rightarrow> nat \<Rightarrow> ConnectedCU \<Rightarrow> 'w e2t \<Rightarrow> bool" where
  "standing T n f a c s \<longleftrightarrow> base T n f s \<and> heap s a = Some c \<and> (\<exists>k. has_name c k)"

lemma standingI: "base T n f s \<Longrightarrow> heap s a = Some c \<Longrightarrow> standing T n f a c s"
  unfolding standing_def using CU_ok_name by (auto simp: base_def core_def heap_ok_def)

lemma standing_base: "standing T n f a c s \<Longrightarrow> base T n f s"
  by (simp add: standing_def)

lemma wp_standing_text:
  assumes s: "standing T n f a c s" and t: "length t < 128"
  shows "wp (bnd (CU_name a) (\<lambda>n. send_text (n @ t))) (\<lambda>_. standing T n True a c) s"
proof -
  obtain k where c: "heap s a = Some c" "has_name c k" using s by (auto simp: standing_def)
  show ?thesis
    by (rule base_text [OF standing_base [OF s] c t])
      (use s in \<open>auto simp: standing_def send_ok_def intro: base_send\<close>)
qed

lemma pres_standing:
  assumes E: "env_ok T E"
  shows "pres (standing T n f a c) point_to_send" "pres (standing T n f a c) (copy_peer_name a)"
    "pres (standing T n f a c) (count_internal a i)" "pres (standing T n True a c) (request_to_xapp E ty)"
    "pres (standing T n f a c) (bnd (CU_name a) remove_procedure)"
    "pres (standing T n f a c) (ext_do (fd_close E fd))"
    "pres (standing T n f a c) (bnd (deref a) (\<lambda>c. ext_do (fd_close E (fileDescriptor c))))"
proof -
  show "pres (standing T n f a c) point_to_send"
  proof (rule presI)
    fix s assume s: "standing T n f a c s"
    obtain b where b: "sendMessage s = Some b" using base_sendD [OF standing_base [OF s]] by blast
    have "standing T n f a c (s\<lparr>msg := (msg s)\<lparr>asndata := Asn_send (mb_id b), msg_asnLength := mb_len b\<rparr>\<rparr>)"
      using s base_same_msg [OF standing_base [OF s]] by (simp add: standing_def)
    with b show "wp point_to_send (\<lambda>_. standing T n f a c) s" by (simp add: wp_simps)
  qed
  show "pres (standing T n f a c) (copy_peer_name a)"
    by (auto simp: pres_def standing_def wp_simps base_def core_def has_name_ok)
  show "pres (standing T n f a c) (count_internal a i)"
    unfolding pres_def standing_def by (auto intro!: wp_count_internal)
  have req: "standing T n True a c (s\<lparr>msg := (msg s)\<lparr>messageType := m\<rparr>, transactionCounter := t, world := w,
      sendMessage := Some b\<rparr>)"
    if "standing T n True a c s" "buf_ok b" "T w \<le> T (world s)" for s b w m t
    using that base_sent [of T n True s b w t m] by (simp add: standing_def)
  show "pres (standing T n True a c) (request_to_xapp E ty)"
    by (rule pres_request [OF E, where n = n and I = "standing T n True a c", OF _ req]) (simp add: standing_def base_def)
  show "pres (standing T n f a c) (bnd (CU_name a) remove_procedure)"
    by (auto simp: pres_def standing_def wp_bnd wp_CU_name wp_remove_procedure base_removed has_name_cstr
        dest: has_name_cstr)
  show close: "pres (standing T n f a c) (ext_do (fd_close E fd))" for fd
    by (auto simp: pres_def standing_def wp_simps intro: base_closed [OF E])
  show "pres (standing T n f a c) (bnd (deref a) (\<lambda>c. ext_do (fd_close E (fileDescriptor c))))"
    by (auto simp: pres_def standing_def wp_simps intro: base_closed [OF E])
qed

lemma pres_standing_msg:
  "(\<And>m. msg_enodbName (g m) = msg_enodbName m) \<Longrightarrow> pres (standing T n f a c) (upd_msg g)"
  by (auto simp: pres_def standing_def wp_simps intro: base_same_msg)

lemma wp_clean_standing: "standing T n f a c s \<Longrightarrow> wp (cleanHashEntry (Some a)) (\<lambda>_. base T n f) s"
  unfolding standing_def by (blast intro: wp_clean_base)

lemma wp_disconnected:
  assumes E: "env_ok T E" and s: "base T n f s" and p: "peerInfo (msg s) = Some a" "heap s a = Some c"
  shows "wp (disconnected E (Some a)) (\<lambda>_. base T n False) s"
proof -
  let ?tail = "bnd (deref a) (\<lambda>c. bnd (ext (fd_open E (fileDescriptor c))) (\<lambda>open. whenM open
       (sq (ext_do (fd_close E (fileDescriptor c))) (cleanHashEntry (Some a)))))"
  have last: "wp ?tail (\<lambda>_. base T n False) s'" if s': "standing T n True a c s'" for s'
  proof -
    obtain op w where w: "fd_open E (fileDescriptor c) (world s') = (op, w)" by fastforce
    have "standing T n True a c (s'\<lparr>world := w\<rparr>)"
      using s' base_world [OF standing_base [OF s'] steady_sockets(5) [OF E w]] by (simp add: standing_def)
    note w' = this
    have "wp (ext_do (fd_close E fd)) (\<lambda>_. wp (cleanHashEntry (Some a)) (\<lambda>_. base T n True)) (s'\<lparr>world := w\<rparr>)" for fd
      by (rule wp_mono [OF presD [OF pres_standing(6) [OF E] w']]) (rule wp_clean_standing)
    with standing_base [OF w'] have "wp ?tail (\<lambda>_. base T n True) s'"
      using w s' by (simp add: wp_bnd wp_deref wp_ext wp_whenM wp_sq standing_def)
    then show ?thesis by (rule wp_mono) (rule base_big)
  qed
  have "pres (standing T n True a c) (seqs [point_to_send, count_internal a SCTP_ABORT_INITIATED_BY_E2NODE,
      request_to_xapp E RIC_SCTP_CONNECTION_FAILURE, bnd (CU_name a) remove_procedure])"
    by (intro pres_intros pres_standing [OF E])
  note steps = presD [OF this]
  have "wp (bnd (CU_name a) (\<lambda>n. send_text (n @ ''|CU disconnected unexpectedly''))) (\<lambda>_. standing T n True a c) s"
    by (rule wp_standing_text [OF standingI [OF s p(2)]]) simp
  then have "wp (bnd (CU_name a) (\<lambda>n. send_text (n @ ''|CU disconnected unexpectedly'')))
      (\<lambda>_. wp (seqs [point_to_send, count_internal a SCTP_ABORT_INITIATED_BY_E2NODE,
        request_to_xapp E RIC_SCTP_CONNECTION_FAILURE, bnd (CU_name a) remove_procedure])
      (\<lambda>_. wp ?tail (\<lambda>_. base T n False))) s"
    by (rule wp_mono) (rule wp_mono [OF steps last])
  then show ?thesis
    unfolding disconnected_def wp_bnd [of peer_addr] wp_peer_addr wp_seqs using p(1) by (intro exI conjI)
qed

lemma wp_receiveDataFromSctp:
  assumes E: "env_ok T E" "nodes_ok N E" and s: "base T n f s" "n < rounds E"
    and c: "heap s a = Some c" "has_name c m" "m = [] \<or> m = N (world s) (fileDescriptor c)"
  shows "wp (receiveDataFromSctp E ts (Some a)) (\<lambda>_. base T n False) s"
proof -
  let ?s = "s\<lparr>msg := zero_message\<lparr>peerInfo := Some a\<rparr>\<rparr>"
  have s': "base T n f ?s" using s(1) by (simp add: base_def core_def)
  have at: "node_at N E a (fileDescriptor c) (N (world s) (fileDescriptor c)) ?s"
    using E(2) c by (auto simp: node_at_def)
  have stop: "wp (whenM d (disconnected E (Some a))) (\<lambda>_. base T n False) s'"
    if "base T n False s' \<and> node_at N E a fd k s'" for d s' fd k
    using that wp_disconnected [OF E(1)] by (auto simp: wp_whenM node_at_def)
  have "wp (receive_rounds (rounds E) E ts) (\<lambda>d. wp (whenM d (disconnected E (Some a))) (\<lambda>_. base T n False)) ?s"
    by (rule wp_mono [OF node.wp_receive_rounds [OF E(1) s' at s(2) order_refl]]) (rule stop)
  then show ?thesis
    unfolding receiveDataFromSctp_def wp_sq wp_modify wp_bnd by (rule wp_mono) (simp only: wp_sq wp_ret_eta)
qed

lemma wp_poll_error:
  assumes E: "env_ok T E" and s: "base T n f s" "heap s a = Some c"
  shows "wp (poll_error E a) (\<lambda>_. base T n False) s"
proof -
  let ?steps = "seqs [point_to_send, copy_peer_name a, upd_msg (\<lambda>m. m\<lparr>direction := CHR ''N''\<rparr>),
     count_internal a SCTP_ABORT_INITIATED_BY_E2NODE, request_to_xapp E RIC_SCTP_CONNECTION_FAILURE,
     bnd (deref a) (\<lambda>c. ext_do (fd_close E (fileDescriptor c))), bnd (CU_name a) remove_procedure]"
  have steps: "pres (standing T n True a c) ?steps"
    by (intro pres_intros pres_standing [OF E] pres_standing_msg) simp
  have last: "wp (cleanHashEntry (Some a)) (\<lambda>_. base T n False) s'" if "standing T n True a c s'" for s'
    by (rule wp_mono [OF wp_clean_standing [OF that]]) (rule base_big)
  have "wp (bnd (CU_name a) (\<lambda>n. send_text (n @ ''|Failed SCTP Connection''))) (\<lambda>_. standing T n True a c) s"
    by (rule wp_standing_text [OF standingI [OF s]]) simp
  then have "wp (bnd (CU_name a) (\<lambda>n. send_text (n @ ''|Failed SCTP Connection'')))
      (\<lambda>_. wp ?steps (\<lambda>_. wp (cleanHashEntry (Some a)) (\<lambda>_. base T n False))) s"
    by (rule wp_mono) (rule wp_mono [OF presD [OF steps] last])
  then show ?thesis unfolding poll_error_def wp_seqs .
qed

end
