(* ===== verification/E2_Dispatch.thy ===== *)
theory E2_Dispatch
  imports E2_Events
begin

text \<open>
  Sending a message of an xApp to its node, and the cases of the dispatch on its type that
  work on a connection: each keeps the invariant.
\<close>

section \<open>Sending to a node\<close>

lemma wp_send_rounds:
  fixes T :: "'w \<Rightarrow> nat" and s :: "'w e2t"
  assumes E: "env_ok T E" and "T (world s) < k" and "\<And>r w'. T w' \<le> T (world s) \<Longrightarrow> Q r (s\<lparr>world := w'\<rparr>)"
  shows "wp (send_rounds k E fd bs st) Q s"
  using assms(2,3)
proof (induction k arbitrary: s)
  case (Suc k)
  obtain r w where r: "sctp_sendmsg E fd bs st (world s) = (r, w)" by fastforce
  have w: "T w \<le> T (world s)" by (rule steady_sockets(1) [OF E r])
  have "wp (send_rounds k E fd bs st) Q (s\<lparr>world := w\<rparr>)" if "r = Send_error EINTR"
  proof (rule Suc.IH)
    have "T w < T (world s)" using sockets_okD(17) [OF E] r that by blast
    then show "T (world (s\<lparr>world := w\<rparr>)) < k" using Suc.prems(1) by simp
    show "Q r' (s\<lparr>world := w, world := w'\<rparr>)" if "T w' \<le> T (world (s\<lparr>world := w\<rparr>))" for r' w'
      using Suc.prems(2) [of w' r'] that w by simp
  qed
  then show ?case using r w Suc.prems(2) by (cases r) (auto simp: wp_simps)
qed simp

lemma active_conn:
  assumes "active T n f s"
  obtains a c where "peerInfo (msg s) = Some a" "heap s a = Some c" "\<not> isConnected c"
  using assms by (auto simp: state_defs heap_ok_def CU_ok_def)

lemma active_same_msg:
  "active T n f s \<Longrightarrow> msg_enodbName m = msg_enodbName (msg s) \<Longrightarrow> peerInfo m = peerInfo (msg s) \<Longrightarrow>
    active T n f (s\<lparr>msg := m\<rparr>)"
  by (simp add: state_defs)

text \<open>
  No connection is ever marked as connected, so that a failed send gives \<^verbatim>\<open>-1\<close> and leaves
  the connection alone.
\<close>

lemma pres_sendDirectional:
  assumes E: "env_ok T E" and n: "n < rounds E"
  shows "pres (active T n f) (sendDirectionalSctpMsg E)"
proof (rule presI)
  fix s assume s: "active T n f s"
  obtain a c where p: "peerInfo (msg s) = Some a" "heap s a = Some c" "\<not> isConnected c"
    by (rule active_conn [OF s])
  obtain b where b: "rcvMessage s = Some b" "buf_ok b" using base_rcvD [OF active_base [OF s]] by blast
  let ?s = "s\<lparr>msg := (msg s)\<lparr>asndata := Asn_rcv (mb_id b), msg_asnLength := mb_len b, messageType := mb_mtype b\<rparr>\<rparr>"
  have s': "active T n f ?s" by (rule active_same_msg [OF s]) simp_all
  obtain st where stream: "\<And>Q. wp fetchStreamId Q ?s = Q st ?s"
    using p by (cases "isSingleStream c") (auto simp: fetchStreamId_def wp_simps)
  obtain bs where octets: "\<And>Q. wp asn_octets Q ?s = Q bs ?s"
    using b by (cases "mb_len b = 0") (auto simp: asn_octets_def read_asn_def buf_ok_def wp_simps)
  have sent: "active T n f (s'\<lparr>msg := (msg s')\<lparr>direction := d\<rparr>\<rparr>)" if "active T n f s'" for s' d
    by (rule active_same_msg [OF that]) simp_all
  have less: "T (world ?s) < rounds E" using s n by (simp add: state_defs)
  have dir: "wp (sendDirectionalSctpMsg E) (\<lambda>_. active T n f) s = wp (sendSctpMsg E (Some a)) (\<lambda>_. active T n f) ?s"
    using p(1) b(1)
    by (simp add: sendDirectionalSctpMsg_def getRequestMetaData_def sendMessagetoCu_def
        wp_bnd wp_sq wp_get_rcv wp_upd_msg wp_gets)
  have ptr: "wp (deref_ptr (Some a)) Q ?s = Q c ?s" for Q using p by (simp add: wp_deref_ptr)
  show "wp (sendDirectionalSctpMsg E) (\<lambda>_. active T n f) s"
    unfolding dir sendSctpMsg_def wp_bnd ptr stream octets
  proof (rule wp_send_rounds [OF E less])
    fix r :: "errno option" and w' assume "T w' \<le> T (world ?s)"
    then have w': "active T n f (?s\<lparr>world := w'\<rparr>)" by (rule active_world [OF s'])
    show "wp (case r of
        None \<Rightarrow> sq (upd_msg (\<lambda>m. m\<lparr>direction := CHR ''D''\<rparr>)) (sq (buildJsonMessage E) (ret (0::int)))
      | Some e \<Rightarrow>
          bnd (deref_ptr (Some a)) (\<lambda>c'.
          if \<not> isConnected c' then ret (-1)
          else bnd (need Null_Deref (Some a)) (\<lambda>a'. bnd (CU_name a') (\<lambda>n.
            sq (remove_procedure n) (sq (cleanHashEntry (Some a)) (sq (ext_do (fd_close E (fileDescriptor c)))
            (bnd message_name (\<lambda>mn. bnd (gets (messageType \<circ> msg)) (\<lambda>t.
            sq (free_key (msg_key E mn t)) (sq (erase_key (msg_key E mn t)) (ret (-1)))))))))))) (\<lambda>_. active T n f) (?s\<lparr>world := w'\<rparr>)"
    proof (cases r)
      case None
      from presD [OF pres_json(2) sent [OF w', of "CHR ''D''"]]
      have "wp (buildJsonMessage E) (\<lambda>_. active T n f) (?s\<lparr>world := w', msg := (msg ?s)\<lparr>direction := CHR ''D''\<rparr>\<rparr>)"
        by simp
      then show ?thesis by (simp add: None wp_sq wp_upd_msg wp_ret_eta)
    next
      case (Some e)
      then show ?thesis using p w' by (simp add: wp_bnd wp_deref_ptr wp_ret)
    qed
  qed
qed

section \<open>The cases of \<^verbatim>\<open>receiveXappMessages\<close>\<close>

lemma pres_get_rcv [pres_intros]: "pres (active T n f) get_rcv"
  by (auto simp: pres_def wp_simps dest: active_base [THEN base_rcvD])

lemma pres_xapp_parts:
  assumes E: "env_ok T E" and n: "n < rounds E"
  shows "pres (active T n f) k \<Longrightarrow> pres (active T n f) (converted E k)"
    and "pres (active T n f) k' \<Longrightarrow> pres (active T n f) (forwarded E k')"
    and "(d, p) \<in> set peer_cells \<Longrightarrow> (d', p) \<in> set e2t_cells \<Longrightarrow> pres (active T n f) (count_out d d' p)"
    and "pres (active T n f) (count_setup d)"
  unfolding converted_def forwarded_def count_out_def count_setup_def
  by (intro pres_built_bnd pres_intros pres_increment_if pres_count_message pres_sendDirectional [OF E n]; assumption)+

lemma in_xapp_cells [simp]:
  "(IN_INITI, ProcedureCode_id_ErrorIndication) \<in> set e2t_cells" "(IN_INITI, ProcedureCode_id_Reset) \<in> set e2t_cells"
  by (simp_all add: e2t_cells_def)

lemma pres_xapp_case:
  assumes E: "env_ok T E" and n: "n < rounds E" and t: "\<not> needs_no_node t"
  shows "pres (active T n f) (xapp_case E ts t)"
proof -
  have unsupported: "pres (active T n f) (x_unsupported E ts)"
  proof (rule presI)
    fix s assume s: "active T n f s"
    obtain b where b: "rcvMessage s = Some b" using base_rcvD [OF active_base [OF s]] by blast
    have "active T n f (s\<lparr>msg := (msg s)\<lparr>asndata := Asn_rcv (mb_id b), msg_asnLength := mb_len b,
        tv_sec := fst ts, tv_nsec := snd ts, messageType := mb_mtype b\<rparr>\<rparr>)"
      by (rule active_same_msg [OF s]) simp_all
    then show "wp (x_unsupported E ts) (\<lambda>_. active T n f) s"
      using b presD [OF pres_json(2)] by (simp add: x_unsupported_def wp_bnd wp_sq wp_get_rcv wp_upd_msg wp_ret_eta)
  qed
  show ?thesis
    by (cases t)
      (use t unsupported in \<open>auto simp: needs_no_node_def x_E2_SETUP_RESP_def x_E2_SETUP_FAILURE_def
        x_E2NODE_CONFIG_UPDATE_ACK_def x_E2NODE_CONFIG_UPDATE_FAILURE_def x_ERROR_INDICATION_def x_SUB_REQ_def
        x_SUB_DEL_REQ_def x_CONTROL_REQ_def x_SERVICE_QUERY_def x_SERVICE_UPDATE_ACK_def
        x_SERVICE_UPDATE_FAILURE_def x_E2_RESET_REQ_def x_E2_RESET_RESP_def
        intro!: pres_intros pres_xapp_parts [OF E n]\<close>)
qed

end
