(* ===== verification/E2_Loop.thy ===== *)
theory E2_Loop
  imports E2_Dispatch
begin

text \<open>
  \<^verbatim>\<open>RIC_SCTP_CLEAR_ALL\<close>: the loop over the keys of the connection table, which takes out
  every connection while the table changes under it.
\<close>

section \<open>Clearing all connections\<close>

text \<open>The core invariant with the tables fixed: what clearing one connection works under.\<close>

definition frozen :: "('w \<Rightarrow> nat) \<Rightarrow> nat \<Rightarrow> bool \<Rightarrow> map_wrapper \<Rightarrow> (nat \<Rightarrow> ConnectedCU option) \<Rightarrow> 'w e2t \<Rightarrow> bool" where
  "frozen T n f m h s \<longleftrightarrow> core T n f s \<and> sctpMap s = m \<and> heap s = h"

lemma core_send: "core T n f s \<Longrightarrow> send_ok f' b \<Longrightarrow> core T n f' (s\<lparr>sendMessage := Some b\<rparr>)"
  by (simp add: core_def)

lemma core_same_msg:
  "core T n f s \<Longrightarrow> name_ok (msg_enodbName m) \<Longrightarrow> core T n f (s\<lparr>msg := m\<rparr>)"
  by (simp add: core_def)

lemma core_msg_name: "core T n f s \<Longrightarrow> name_ok (msg_enodbName (msg s))"
  by (simp add: core_def)

lemma pres_frozen:
  assumes E: "env_ok T E" and c: "h a = Some c" "has_name c k"
  shows "pres (frozen T n f m h) (ext_do (fd_close E fd))" "pres (frozen T n f m h) (copy_peer_name a)"
    "pres (frozen T n f m h) point_to_send" "pres (frozen T n True m h) (request_to_xapp E ty)"
    "(\<And>x. msg_enodbName (g x) = msg_enodbName x) \<Longrightarrow> pres (frozen T n f m h) (upd_msg g)"
proof -
  show "pres (frozen T n f m h) (ext_do (fd_close E fd))"
    by (auto simp: pres_def frozen_def wp_simps sockets_okD(15) [OF E] intro!: core_world)
  show "pres (frozen T n f m h) (copy_peer_name a)"
    using c by (auto simp: pres_def frozen_def wp_simps has_name_ok intro!: core_same_msg)
  show "pres (frozen T n f m h) (upd_msg g)" if "\<And>x. msg_enodbName (g x) = msg_enodbName x"
    using that by (auto simp: pres_def frozen_def wp_simps core_msg_name intro!: core_same_msg)
  show "pres (frozen T n f m h) point_to_send"
  proof (rule presI)
    fix s assume s: "frozen T n f m h s"
    then obtain b where b: "sendMessage s = Some b" using core_sendD [of T n f s] by (auto simp: frozen_def)
    have "core T n f (s\<lparr>msg := (msg s)\<lparr>asndata := Asn_send (mb_id b), msg_asnLength := mb_len b\<rparr>\<rparr>)"
      using s by (intro core_same_msg) (auto simp: frozen_def core_msg_name)
    with s b show "wp point_to_send (\<lambda>_. frozen T n f m h) s" by (simp add: wp_simps frozen_def)
  qed
  have req: "frozen T n True m h (s\<lparr>msg := (msg s)\<lparr>messageType := m'\<rparr>, transactionCounter := t, world := w,
      sendMessage := Some b\<rparr>)"
    if "frozen T n True m h s" "buf_ok b" "T w \<le> T (world s)" for s b w m' t
    using that core_sent [of T n True s b w t m'] by (simp add: frozen_def)
  show "pres (frozen T n True m h) (request_to_xapp E ty)"
    by (rule pres_request [OF E, where n = n and I = "frozen T n True m h", OF _ req]) (simp add: frozen_def)
qed

lemma wp_frozen_text:
  assumes s: "frozen T n f m h s" and c: "h a = Some c" "has_name c k" and t: "length t < 128"
  shows "wp (bnd (CU_name a) (\<lambda>n. send_text (n @ t))) (\<lambda>_. frozen T n True m h) s"
proof -
  obtain b where b: "sendMessage s = Some b" "big b"
    using s by (auto simp: frozen_def send_ok_def buf_ok_def split: if_splits dest!: core_sendD)
  have l: "length (k @ t) < 192" using c(2) t by (simp add: has_name_def)
  obtain p where p: "write_text (mb_payload b) 256 (k @ t) = Some p" "length p = length (mb_payload b)"
    using write_text_some [OF b(2), of "k @ t"] l by auto
  have "buf_ok (b\<lparr>mb_payload := p, mb_len := int (length (k @ t))\<rparr>)"
    using b(2) p(2) l by (simp add: buf_ok_def big_def RECEIVE_SCTP_BUFFER_SIZE_def)
  then have "frozen T n True m h (s\<lparr>sendMessage := Some (b\<lparr>mb_payload := p, mb_len := int (length (k @ t))\<rparr>)\<rparr>)"
    using s by (auto simp: frozen_def send_ok_def intro: core_send [where f = f])
  then show ?thesis
    using b(1) p(1) c s has_name_cstr by (simp add: wp_simps frozen_def)
qed

lemma wp_clear_one:
  assumes E: "env_ok T E" and s: "frozen T n f m h s" and c: "h a = Some c" "has_name c k"
  shows "wp (clear_one E ts a) (\<lambda>_. frozen T n True m (h(a := None))) s"
proof -
  let ?first = "seqs [ext_do (fd_close E (fileDescriptor c)), copy_peer_name a,
     upd_msg (\<lambda>m. m\<lparr>direction := CHR ''D'', tv_sec := fst ts, tv_nsec := snd ts\<rparr>)]"
  let ?text = "bnd (CU_name a) (\<lambda>n. send_text (n @ ''|RIC_SCTP_CLEAR_ALL''))"
  let ?then = "seqs [point_to_send, request_to_xapp E RIC_SCTP_CONNECTION_FAILURE]"
  have free: "wp (free_CU a) (\<lambda>_. frozen T n True m (h(a := None))) s'" if "frozen T n True m h s'" for s'
    using that c by (auto simp: wp_simps frozen_def core_def heap_ok_free)
  have then_step: "pres (frozen T n True m h) ?then"
    by (intro pres_intros pres_frozen [where h = h and a = a, OF E c])
  have after: "wp ?then (\<lambda>_. wp (free_CU a) (\<lambda>_. frozen T n True m (h(a := None)))) s'"
    if "frozen T n True m h s'" for s'
    by (rule wp_mono [OF presD [OF then_step that]]) (rule free)
  have report: "wp ?text (\<lambda>_. wp ?then (\<lambda>_. wp (free_CU a) (\<lambda>_. frozen T n True m (h(a := None))))) s'"
    if "frozen T n f m h s'" for s'
    by (rule wp_mono [OF wp_frozen_text [where h = h and a = a, OF that c]]) (simp, rule after)
  have first_step: "pres (frozen T n f m h) ?first"
    by (intro pres_intros pres_frozen [where h = h and a = a, OF E c]) simp
  have "wp ?first (\<lambda>_. wp ?text (\<lambda>_. wp ?then (\<lambda>_. wp (free_CU a) (\<lambda>_. frozen T n True m (h(a := None)))))) s"
    by (rule wp_mono [OF presD [OF first_step s]]) (rule report)
  moreover have "heap s a = Some c" using s c by (simp add: frozen_def)
  ultimately show ?thesis unfolding clear_one_def wp_bnd [of "deref a"] wp_deref wp_seqs by (intro exI conjI)
qed

text \<open>The loop: the keys still to come lead to connections that are not freed yet.\<close>

definition cleared :: "('w \<Rightarrow> nat) \<Rightarrow> nat \<Rightarrow> map_wrapper \<Rightarrow> string list \<Rightarrow> (nat \<Rightarrow> ConnectedCU option) \<Rightarrow> 'w e2t \<Rightarrow> bool" where
  "cleared T n m ks h s \<longleftrightarrow> frozen T n False m (heap s) s \<and> (\<forall>a. heap s a = None \<or> heap s a = h a) \<and>
     (\<forall>k a. k \<in> set ks \<and> map_find m k = Some a \<longrightarrow> heap s a = None)"

lemma wp_clear_keys:
  fixes s :: "'w e2t"
  assumes E: "env_ok T E" and s: "frozen T n False m h s" "distinct ks"
    and e: "\<And>k a. k \<in> set ks \<Longrightarrow> map_find m k = Some a \<Longrightarrow> entry_ok h k a"
  shows "wp (iter (clear_key E ts) ks) (\<lambda>_. cleared T n m ks h) s"
  using s e
proof (induction ks arbitrary: s h)
  case Nil
  then show ?case by (auto simp: wp_simps cleared_def frozen_def)
next
  case (Cons k ks)
  show ?case
  proof (cases "map_find m k")
    case None
    then have "wp (clear_key E ts k) Q s = Q () s" for Q
      using Cons.prems(1) by (simp add: clear_key_def wp_simps frozen_def)
    moreover have "wp (iter (clear_key E ts) ks) (\<lambda>_. cleared T n m (k # ks) h) s"
      using Cons.prems(2,3) None by (intro wp_mono [OF Cons.IH [OF Cons.prems(1)]]) (auto simp: cleared_def)
    ultimately show ?thesis by (simp add: wp_sq)
  next
    case (Some a)
    then obtain c where c: "h a = Some c" "has_name c k" "ran_initial k"
      using Cons.prems(3) [of k a] by (auto simp: entry_ok_def)
    have rest: "wp (iter (clear_key E ts) ks) (\<lambda>_. cleared T n m (k # ks) h) s'" if "frozen T n True m (h(a := None)) s'" for s'
    proof (rule wp_mono [OF Cons.IH])
      show "frozen T n False m (h(a := None)) s'" using that by (auto simp: frozen_def dest: core_big)
      show "distinct ks" using Cons.prems(2) by simp
      fix k' a' assume k': "k' \<in> set ks" "map_find m k' = Some a'"
      then have e': "entry_ok h k' a'" "k' \<noteq> k" using Cons.prems(2,3) by auto
      then have "a' \<noteq> a" using c has_name_unique by (auto simp: entry_ok_def)
      then show "entry_ok (h(a := None)) k' a'" using e' by (simp add: entry_ok_def)
    next
      fix x :: unit and t :: "'w e2t"
      assume "cleared T n m ks (h(a := None)) t"
      then show "cleared T n m (k # ks) h t" using Some by (auto simp: cleared_def split: if_splits)
    qed
    have "\<not> starts_with k ''host:''" "\<not> starts_with k ''msg:''"
      using c(3) by (auto simp: ran_initial_def starts_with_def neq_Nil_conv)
    then have "wp (clear_key E ts k) Q s = wp (clear_one E ts a) Q s" for Q
      using Some Cons.prems(1) by (simp add: clear_key_def wp_simps frozen_def)
    then show ?thesis
      using wp_mono [OF wp_clear_one [OF E Cons.prems(1) c(1,2)] rest] by (simp add: wp_sq)
  qed
qed

text \<open>Every connection that the table led to is freed, and the table is empty.\<close>

lemma wp_clear_all_frees:
  assumes E: "env_ok T E" and s: "base T n f s"
  shows "wp (x_SCTP_CLEAR_ALL E ts) (\<lambda>rc s'. rc = 0 \<and> base T n False s' \<and> sctpMap s' = [] \<and>
    (\<forall>k a. map_find (sctpMap s) k = Some a \<longrightarrow> heap s' a = None)) s"
proof -
  have fr: "frozen T n False (sctpMap s) (heap s) s" using s by (auto simp: frozen_def base_def dest: core_big)
  have m: "map_ok (sctpMap s) (heap s)" using s by (simp add: base_def)
  have key: "k \<in> set (map_getKeys (sctpMap s))" if "map_find (sctpMap s) k = Some a" for k a
    using that by (force simp: map_find_map_of map_getKeys_def dest: map_of_SomeD)
  have "wp (iter (clear_key E ts) (map_getKeys (sctpMap s))) (\<lambda>_. cleared T n (sctpMap s) (map_getKeys (sctpMap s)) (heap s)) s"
    by (rule wp_clear_keys [OF E fr]) (use m in \<open>auto simp: map_ok_def map_invar_def map_getKeys_def\<close>)
  then show ?thesis
    unfolding x_SCTP_CLEAR_ALL_def wp_bnd wp_gets wp_sq wp_modify wp_ret_eta
    by (rule wp_mono) (auto simp: wp_simps cleared_def frozen_def base_def core_def map_ok_def map_clear_def
        map_invar_def dest: key)
qed

lemma wp_clear_all:
  assumes E: "env_ok T E" and s: "base T n f s"
  shows "wp (x_SCTP_CLEAR_ALL E ts) (\<lambda>_. base T n False) s"
  by (rule wp_mono [OF wp_clear_all_frees [OF E s]]) simp

end
