(* ===== verification/E2_Event.thy ===== *)
theory E2_Event
  imports E2_Loop
begin

text \<open>
  One event of the listener: the replies to keep-alive and health checks, a message of an
  xApp, a new connection, and the dispatch.
\<close>

section \<open>Replies\<close>

lemma base_reply:
  assumes "base T n f s" "T w \<le> T (world s)"
  shows "buf_ok b \<Longrightarrow> base T n False (s\<lparr>transactionCounter := t, world := w, sendMessage := Some b\<rparr>)"
    and "buf_ok b \<Longrightarrow> base T n False (s\<lparr>transactionCounter := t, world := w, rcvMessage := Some b\<rparr>)"
  using base_big [OF assms(1)] assms(2) by (auto simp: base_def core_def send_ok_def buf_ok_def)

lemma wp_keep_alive:
  assumes E: "env_ok T E" and s: "base T n f s"
  shows "wp (x_KEEP_ALIVE_REQ E) (\<lambda>_. base T n False) s"
proof -
  obtain b where b: "sendMessage s = Some b" "big b"
    using base_sendD [OF s] by (auto simp: send_ok_def buf_ok_def split: if_splits)
  let ?t = "transactionCounter s"
  let ?b = "rmr_bytes2xact E (tx_text ?t) ((rmr_bytes2payload E (map char_byte (ka_message (params s))) b)
    \<lparr>mb_mtype := E2_TERM_KEEP_ALIVE_RESP, mb_state := RMR_OK\<rparr>)"
  have ok: "buf_ok ?b"
    using rmr_returns(5) [OF E b(2)] by (simp add: buf_ok_def big_def rmr_fields [OF E])
  obtain r w where r: "rmr_send_msg E ?b (world s) = (r, w)" by fastforce
  have w: "T w \<le> T (world s)" by (rule steady_rmr(1) [OF E r])
  show ?thesis
  proof (cases r)
    case None
    have "wp (alloc_send E) (\<lambda>_. base T n False) (s\<lparr>transactionCounter := ?t + 1, world := w, sendMessage := None\<rparr>)"
      using base_reply(1) [OF s] w by (intro wp_alloc_send [OF E]) simp
    then show ?thesis
      using b r None by (simp add: x_KEEP_ALIVE_REQ_def set_send_def wp_simps wp_ret_eta)
  next
    case (Some b')
    then have "buf_ok b'" using rmr_returns(1) [OF E] r ok by blast
    then show ?thesis
      using b r Some base_reply(1) [OF s w] by (simp add: x_KEEP_ALIVE_REQ_def set_send_def wp_simps)
  qed
qed

lemma wp_health_check:
  assumes E: "env_ok T E" and s: "base T n f s"
  shows "wp (x_HEALTH_CHECK_REQ E) (\<lambda>_. base T n False) s"
proof -
  obtain b where b: "rcvMessage s = Some b" "big b" using base_rcvD [OF s] by (auto simp: buf_ok_def)
  let ?t = "transactionCounter s"
  let ?b = "rmr_bytes2xact E (tx_text ?t) ((rmr_bytes2payload E (map char_byte ''OK'') b)
    \<lparr>mb_mtype := RIC_HEALTH_CHECK_RESP, mb_state := RMR_OK\<rparr>)"
  have ok: "buf_ok ?b"
    using rmr_returns(5) [OF E b(2)] by (simp add: buf_ok_def big_def rmr_fields [OF E])
  obtain r w where r: "rmr_rts_msg E ?b (world s) = (r, w)" by fastforce
  have w: "T w \<le> T (world s)" by (rule steady_rmr(2) [OF E r])
  show ?thesis
  proof (cases r)
    case None
    have "wp (alloc_rcv E) (\<lambda>_. base T n False) (s\<lparr>transactionCounter := ?t + 1, world := w, rcvMessage := None\<rparr>)"
      using base_reply(2) [OF s] w by (intro wp_alloc_rcv [OF E]) simp
    then show ?thesis
      using b r None by (simp add: x_HEALTH_CHECK_REQ_def set_rcv_def wp_simps wp_ret_eta)
  next
    case (Some b')
    then have "buf_ok b'" using rmr_returns(2) [OF E] r ok by blast
    then show ?thesis
      using b r Some base_reply(2) [OF s w] by (simp add: x_HEALTH_CHECK_REQ_def set_rcv_def wp_simps)
  qed
qed

section \<open>A message of an xApp\<close>

lemma mapped_active:
  assumes s: "base T n f s" and p: "map_find (sctpMap s) k = Some a" "peerInfo (msg s) = Some a"
  shows "active T n f s"
proof -
  obtain c where c: "heap s a = Some c" "has_name c k" "ran_initial k"
    using s p(1) by (auto simp: base_def map_ok_def entry_ok_def)
  obtain k' where "has_name c k'" "k' \<noteq> [] \<Longrightarrow> counters c = buildPrometheusList k'"
    using s c(1) by (auto simp: base_def core_def heap_ok_def CU_ok_def)
  moreover have "k' = k" if "has_name c k'" for k' using that c(2) has_name_unique by blast
  ultimately have "counters c = buildPrometheusList k" using c(3) by (auto simp: ran_initial_def)
  then show ?thesis using s p(2) c(1) by (auto simp: active_def built_def)
qed

lemma wp_dispatch_xapp:
  assumes E: "env_ok T E" and n: "n < rounds E" and s: "base T n f s"
  shows "wp (dispatch_xapp E ts b) (\<lambda>_. base T n False) s"
proof -
  let ?id = "rmr_get_meid E b"
  have id: "nul_free ?id" "length ?id < 64" using rmr_okD(8) [OF E] by blast+
  have len: "length (msg_enodbName (msg s)) = 64" using s by (simp add: base_def core_def name_ok_def)
  define buf where "buf = (?id @ [NUL]) @ drop (length ?id + 1) (msg_enodbName (msg s))"
  have poke: "poke (msg_enodbName (msg s)) (?id @ [NUL]) = Some buf"
    using id len by (simp add: poke_def buf_def)
  have name: "cstr buf = Some ?id" using cstr_nul_free [OF id(1)] by (simp add: buf_def)
  have ok: "name_ok buf" using name id len by (simp add: name_ok_def buf_def)
  define p where "p = map_find (sctpMap s) ?id"
  let ?s = "s\<lparr>msg := (msg s)\<lparr>msg_enodbName := buf, peerInfo := p\<rparr>\<rparr>"
  have s': "base T n f ?s" using s ok by (simp add: base_def core_def)
  let ?count = "\<lambda>t. if mb_mtype b \<noteq> RIC_HEALTH_CHECK_REQ then t\<lparr>num_of_XAPP_messages := num_of_XAPP_messages t + 1\<rparr> else t"
  have counted: "base T n f (?count ?s)" using s' by simp
  have go: "wp (xapp_case E ts (mb_mtype b)) (\<lambda>_. base T n False) (?count ?s)"
    if p': "p \<noteq> None \<or> needs_no_node (mb_mtype b)"
  proof (cases "needs_no_node (mb_mtype b)")
    case True
    then show ?thesis
      using wp_keep_alive [OF E counted] wp_health_check [OF E counted] wp_clear_all [OF E counted, of ts]
      by (auto simp: needs_no_node_def)
  next
    case False
    then obtain a where a: "p = Some a" using p' by auto
    then have "map_find (sctpMap ?s) ?id = Some a" "peerInfo (msg ?s) = Some a" by (simp_all add: p_def)
    from mapped_active [OF s' this] have "active T n f (?count ?s)" by simp
    from presD [OF pres_xapp_case [OF E n False] this] show ?thesis
      by (rule wp_mono) (blast intro: base_big active_base)
  qed
  have "wp (dispatch_xapp E ts b) Q s = (if p = None \<and> \<not> needs_no_node (mb_mtype b) then Q (-1) ?s
      else wp (xapp_case E ts (mb_mtype b)) Q (?count ?s))" for Q
    using poke name by (simp add: dispatch_xapp_def wp_simps p_def)
  then show ?thesis using go base_big [OF s'] by auto
qed

lemma wp_receiveXappMessages:
  assumes E: "env_ok T E" and n: "n < rounds E" and s: "base T n f s"
  shows "wp (receiveXappMessages E ts) (\<lambda>_. base T n False) s"
proof -
  obtain b0 where b0: "rcvMessage s = Some b0" "buf_ok b0" using base_rcvD [OF s] by blast
  obtain r w where r: "rmr_rcv_msg E b0 (world s) = (r, w)" by fastforce
  have w: "T w \<le> T (world s)" by (rule steady_rmr(3) [OF E r])
  show ?thesis
  proof (cases r)
    case None
    have "base T n False (s\<lparr>world := w', rcvMessage := Some b\<rparr>)" if "T w' \<le> T w" "buf_ok b" for w' b
      using base_rcv [OF base_world [OF base_big [OF s], of w']] that w by simp
    then have "wp (alloc_rcv E) (\<lambda>_. base T n False) (s\<lparr>world := w, rcvMessage := None\<rparr>)"
      by (intro wp_alloc_rcv [OF E]) simp
    then show ?thesis
      using b0 r None by (simp add: receiveXappMessages_def set_rcv_def wp_simps wp_ret_eta)
  next
    case (Some b)
    let ?s = "s\<lparr>world := w, rcvMessage := Some b,
      msg := zero_message\<lparr>direction := CHR ''D'', tv_sec := fst ts, tv_nsec := snd ts\<rparr>\<rparr>"
    have "buf_ok b" using rmr_returns(3) [OF E] r Some b0(2) by blast
    then have "base T n f (s\<lparr>world := w, rcvMessage := Some b\<rparr>)" by (intro base_rcv base_world [OF s] w)
    then have s': "base T n f ?s" by (simp add: base_def core_def)
    show ?thesis
      using b0 r Some base_big [OF s'] wp_dispatch_xapp [OF E n s', of ts b]
      by (simp add: receiveXappMessages_def set_rcv_def wp_simps)
  qed
qed

section \<open>New connections\<close>

text \<open>A connection that is set up is in the heap, without a name, and in no table.\<close>

definition newborn :: "('w \<Rightarrow> nat) \<Rightarrow> nat \<Rightarrow> bool \<Rightarrow> nat \<Rightarrow> 'w e2t \<Rightarrow> bool" where
  "newborn T n f a s \<longleftrightarrow> base T n f s \<and> (\<exists>c. heap s a = Some c \<and> has_name c [])"

lemma newborn_alloc:
  assumes s: "base T n f s"
  shows "newborn T n f (next_addr s) (s\<lparr>heap := (heap s)(next_addr s \<mapsto> zero_CU), next_addr := next_addr s + 1\<rparr>)"
proof -
  have h: "heap_ok (heap s) (next_addr s)" and m: "map_ok (sctpMap s) (heap s)"
    using s by (simp_all add: base_def core_def)
  have "heap_ok ((heap s)(next_addr s \<mapsto> zero_CU)) (next_addr s + 1)"
    using h by (auto simp: heap_ok_def less_Suc_eq)
  moreover have "map_ok (sctpMap s) ((heap s)(next_addr s \<mapsto> zero_CU))"
    using h m by (fastforce simp: map_ok_def entry_ok_def heap_ok_def)
  moreover have "has_name zero_CU []"
    by (simp add: has_name_def zero_CU_def)
  ultimately show ?thesis using s by (simp add: newborn_def base_def core_def)
qed

lemma wp_free_newborn:
  assumes "newborn T n f a s"
  shows "wp (free_CU a) (\<lambda>_. base T n f) s"
proof -
  obtain c where c: "heap s a = Some c" "has_name c []" and s: "base T n f s" using assms by (auto simp: newborn_def)
  have m: "map_ok (sctpMap s) (heap s)" using s by (simp add: base_def)
  have "map_find (sctpMap s) [] = None" by (rule map_find_none [OF m]) (simp add: ran_initial_def)
  then have "map_ok (sctpMap s) ((heap s)(a := None))" using map_ok_forget [OF m c] by simp
  then show ?thesis using c(1) s by (simp add: wp_simps base_def core_def heap_ok_free)
qed

lemma newborn_world: "newborn T n f a s \<Longrightarrow> T w \<le> T (world s) \<Longrightarrow> newborn T n f a (s\<lparr>world := w\<rparr>)"
  by (simp add: newborn_def base_world)

lemma pres_newborn_ext:
  fixes T :: "'w \<Rightarrow> nat"
  shows "(\<And>w r w'. g w = (r, w') \<Longrightarrow> T w' \<le> T w) \<Longrightarrow> pres (newborn T n f a) (ext g)"
    and "(\<And>w. T (g' w) \<le> T w) \<Longrightarrow> pres (newborn T n f a) (ext_do g')"
proof -
  show "pres (newborn T n f a) (ext g)" if "\<And>w r w'. g w = (r, w') \<Longrightarrow> T w' \<le> T w"
  proof (rule presI)
    fix s assume s: "newborn T n f a s"
    obtain r w where r: "g (world s) = (r, w)" by fastforce
    from newborn_world [OF s that [OF r]] r show "wp (ext g) (\<lambda>_. newborn T n f a) s" by (simp add: wp_ext)
  qed
  show "pres (newborn T n f a) (ext_do g')" if "\<And>w. T (g' w) \<le> T w"
    by (rule presI) (simp add: wp_ext_do newborn_world that)
qed

lemma pres_newborn_upd:
  assumes g: "\<And>c. has_name c [] \<Longrightarrow> has_name (g c) []" "\<And>c. \<not> isConnected c \<Longrightarrow> \<not> isConnected (g c)"
  shows "pres (newborn T n f a) (upd_CU a g)"
proof (rule presI)
  fix s assume s: "newborn T n f a s"
  obtain c where c: "heap s a = Some c" "has_name c []" and b: "base T n f s" using s by (auto simp: newborn_def)
  have m: "map_ok (sctpMap s) (heap s)" "heap_ok (heap s) (next_addr s)" using b by (simp_all add: base_def core_def)
  have c': "CU_ok (g c)" using g c m(2) by (auto simp: CU_ok_def heap_ok_def)
  have "heap_ok ((heap s)(a \<mapsto> g c)) (next_addr s)" using m(2) c c' by (auto simp: heap_ok_def)
  moreover have "map_ok (sctpMap s) ((heap s)(a \<mapsto> g c))"
  proof -
    have "entry_ok ((heap s)(a \<mapsto> g c)) k a'" if "map_find (sctpMap s) k = Some a'" for k a'
    proof -
      have e: "entry_ok (heap s) k a'" using m(1) that by (simp add: map_ok_def)
      then have "a' \<noteq> a" using c has_name_unique by (fastforce simp: entry_ok_def ran_initial_def)
      with e show ?thesis by (simp add: entry_ok_def)
    qed
    then show ?thesis using m(1) by (simp add: map_ok_def)
  qed
  ultimately show "wp (upd_CU a g) (\<lambda>_. newborn T n f a) s"
    using b c g(1) by (simp add: wp_simps newborn_def base_def core_def)
qed

lemma wp_drop_new:
  assumes E: "env_ok T E" and s: "newborn T n f a s"
  shows "wp (drop_new E a fd) (\<lambda>_. base T n f) s"
  unfolding drop_new_def wp_sq
  by (rule wp_mono [OF presD [OF pres_newborn_ext(2) s]]) (simp_all add: sockets_okD(15) [OF E] wp_free_newborn)

lemma pres_setSocketNoBlocking:
  assumes E: "env_ok T E"
  shows "pres (newborn T n f a) (setSocketNoBlocking E fd)"
  unfolding setSocketNoBlocking_def
  by (intro pres_intros pres_newborn_ext) (rule steady_sockets(6) [OF E] steady_sockets(7) [OF E], assumption)+

lemma wp_addToEpoll_new:
  assumes E: "env_ok T E" and s: "newborn T n f a s"
  shows "wp (addToEpoll E a None (Mtype 0)) (\<lambda>_. newborn T n f a) s"
proof -
  obtain c where c: "heap s a = Some c" using s by (auto simp: newborn_def)
  have blank: "pres (newborn T n f a) (upd_CU a (\<lambda>c. c\<lparr>cu_enodbName := (cu_enodbName c)[0 := NUL]\<rparr>))"
    by (rule pres_newborn_upd) (simp_all add: has_name_def zero_buf_def numeral_eq_Suc)
  have "pres (newborn T n f a) (bnd (ext (epoll_add E (fileDescriptor c) a)) (\<lambda>ok.
     if ok then ret 0
     else sq (ext_do (fd_close E (fileDescriptor c)))
       (sq (upd_CU a (\<lambda>c. c\<lparr>cu_enodbName := (cu_enodbName c)[0 := NUL]\<rparr>)) (ret (-1)))))"
    by (intro pres_intros pres_newborn_ext blank) (simp_all add: sockets_okD(15) [OF E] steady_sockets(3) [OF E])
  from presD [OF this s] c show ?thesis
    unfolding addToEpoll_def option.case wp_bnd [of "deref a"] wp_deref by blast
qed

lemma wp_set_up_new:
  assumes E: "env_ok T E" and s: "newborn T n f a s"
  shows "wp (set_up_new E a fd) (\<lambda>_. base T n f) s"
proof -
  let ?named = "\<lambda>host port. upd_CU a (\<lambda>c. c\<lparr>hostName := host, portNumber := port, isConnected := False, gotSetup := False\<rparr>)"
  have named: "pres (newborn T n f a) (?named host port)" for host port
    by (rule pres_newborn_upd) (simp_all add: has_name_def)
  have epoll: "wp (bnd (addToEpoll E a None (Mtype 0)) (\<lambda>rc. if rc \<noteq> 0 then free_CU a else ret ())) (\<lambda>_. base T n f) s'"
    if "newborn T n f a s'" for s'
    unfolding wp_bnd by (rule wp_mono [OF wp_addToEpoll_new [OF E that]])
      (auto simp: wp_free_newborn wp_ret newborn_def)
  have "wp (case ans of None \<Rightarrow> drop_new E a fd
     | Some (host, port) \<Rightarrow> sq (?named host port)
         (bnd (addToEpoll E a None (Mtype 0)) (\<lambda>rc. if rc \<noteq> 0 then free_CU a else ret ()))) (\<lambda>_. base T n f) s'"
    if "newborn T n f a s'" for ans s'
    using wp_drop_new [OF E that] wp_mono [OF presD [OF named that] epoll]
    by (auto simp: wp_sq split: option.split)
  note ans = this
  have name: "pres (newborn T n f a) (ext (getnameinfo E fd))"
    by (rule pres_newborn_ext) (rule steady_sockets(9) [OF E])
  have opts: "pres (newborn T n f a) (ext_do (set_sctp_options E fd))"
    by (rule pres_newborn_ext) (simp add: sockets_okD(16) [OF E])
  show ?thesis
    unfolding set_up_new_def wp_sq wp_bnd
    by (rule wp_mono [OF presD [OF opts s]], rule wp_mono [OF presD [OF name]], assumption, rule ans)
qed

lemma wp_accept_connection:
  assumes E: "env_ok T E" and s: "base T n f s"
  shows "wp (accept_connection E) (\<lambda>_. base T n f) s"
proof -
  have given: "wp (case r of
          None \<Rightarrow> free_CU a
        | Some fd \<Rightarrow>
            sq (upd_CU a (\<lambda>c. c\<lparr>fileDescriptor := fd\<rparr>))
            (bnd (setSocketNoBlocking E fd) (\<lambda>rc.
              if rc = -1 then drop_new E a fd else set_up_new E a fd))) (\<lambda>_. base T n f) s'"
    if s': "newborn T n f a s'" for r a s'
  proof (cases r)
    case None
    then show ?thesis using wp_free_newborn [OF s'] by simp
  next
    case (Some fd)
    have fd: "pres (newborn T n f a) (upd_CU a (\<lambda>c. c\<lparr>fileDescriptor := fd\<rparr>))"
      by (rule pres_newborn_upd) (simp_all add: has_name_def)
    have "wp (bnd (setSocketNoBlocking E fd) (\<lambda>rc. if rc = -1 then drop_new E a fd else set_up_new E a fd))
        (\<lambda>_. base T n f) s''" if "newborn T n f a s''" for s''
      unfolding wp_bnd by (rule wp_mono [OF presD [OF pres_setSocketNoBlocking [OF E] that]])
        (auto intro: wp_drop_new [OF E] wp_set_up_new [OF E])
    then show ?thesis
      unfolding Some option.case wp_sq by (rule wp_mono [OF presD [OF fd s']])
  qed
  have acc: "pres (newborn T n f a) (ext (accept E lfd))" for a lfd
    by (rule pres_newborn_ext) (rule steady_sockets(8) [OF E])
  obtain ok w where ok: "calloc_ok E (world s) = (ok, w)" by fastforce
  have s': "base T n f (s\<lparr>world := w\<rparr>)" by (rule base_world [OF s steady_rmr(5) [OF E ok]])
  let ?t = "s\<lparr>world := w, heap := (heap s)(next_addr s \<mapsto> zero_CU), next_addr := next_addr s + 1\<rparr>"
  have t: "newborn T n f (next_addr s) ?t" using newborn_alloc [OF s'] by simp
  have "wp (bnd (ext (accept E lfd)) (\<lambda>r. case r of
          None \<Rightarrow> free_CU (next_addr s)
        | Some fd \<Rightarrow>
            sq (upd_CU (next_addr s) (\<lambda>c. c\<lparr>fileDescriptor := fd\<rparr>))
            (bnd (setSocketNoBlocking E fd) (\<lambda>rc.
              if rc = -1 then drop_new E (next_addr s) fd else set_up_new E (next_addr s) fd)))) (\<lambda>_. base T n f) ?t"
    (is "wp ?body _ _") for lfd
    unfolding wp_bnd [of "ext _"]
    by (rule wp_mono [OF presD [OF acc t]]) (rule given)
  note body = this
  have same: "next_addr (s\<lparr>world := w\<rparr>) = next_addr s" "heap (s\<lparr>world := w\<rparr>) = heap s"
    by simp_all
  have "wp (whenM ok (bnd alloc_CU (\<lambda>a. bnd (gets (listenFD \<circ> params)) (\<lambda>lfd. bnd (ext (accept E lfd)) (\<lambda>r. case r of
          None \<Rightarrow> free_CU a
        | Some fd \<Rightarrow>
            sq (upd_CU a (\<lambda>c. c\<lparr>fileDescriptor := fd\<rparr>))
            (bnd (setSocketNoBlocking E fd) (\<lambda>rc.
              if rc = -1 then drop_new E a fd else set_up_new E a fd))))))) (\<lambda>_. base T n f) (s\<lparr>world := w\<rparr>)"
    unfolding wp_whenM wp_bnd [of alloc_CU] wp_alloc_CU same wp_bnd [of "gets _"] wp_gets using body s' by simp
  then show ?thesis
    using ok by (simp add: accept_connection_def wp_bnd [of "ext (calloc_ok E)"] wp_ext)
qed

section \<open>The dispatch\<close>

text \<open>
  What \<^verbatim>\<open>epoll_wait\<close> reports: connections are registered for input only; an event of a
  connection carries the address of a live one whose descriptor is still its node's; of the
  three numbered descriptors, the listening and the RMR one report input, and the RMR one may
  report an error.
\<close>

definition good_event :: "('w \<Rightarrow> int \<Rightarrow> string) \<Rightarrow> 'w e2t \<Rightarrow> epoll_event \<Rightarrow> bool" where
  "good_event N s ev \<longleftrightarrow> \<not> ev_out ev \<and>
     (case ev_data ev of
        Epoll_ptr p \<Rightarrow> \<exists>a c m. p = Some a \<and> heap s a = Some c \<and> has_name c m \<and>
          (m = [] \<or> m = N (world s) (fileDescriptor c))
      | Epoll_fd fd \<Rightarrow> fd = rmrListenFd (params s) \<or> fd = listenFD (params s) \<and> \<not> ev_error ev)"

lemma wp_with_listener_message:
  assumes s: "base T n f s" and m: "\<And>s. base T n f s \<Longrightarrow> heap s = h \<Longrightarrow> wp m (\<lambda>_. base T n False) s" and h: "heap s = h"
  shows "wp (with_listener_message m) (\<lambda>_. base T n False) s"
proof -
  have "base T n f (s\<lparr>msg := lmsg s\<rparr>)" using s by (simp add: base_def core_def)
  from m [OF this] h have "wp m (\<lambda>_. base T n False) (s\<lparr>msg := lmsg s\<rparr>)" by simp
  then have "wp m (\<lambda>_ s'. base T n False (s'\<lparr>lmsg := msg s'\<rparr>)) (s\<lparr>msg := lmsg s\<rparr>)"
    by (rule wp_mono) (simp add: base_def core_def)
  then show ?thesis
    unfolding with_listener_message_def wp_sq wp_modify by (rule wp_mono) (simp add: wp_modify)
qed

lemma wp_handle_event:
  assumes E: "env_ok T E" "nodes_ok N E" and n: "n < rounds E" and s: "base T n f s" and ev: "good_event N s ev"
  shows "wp (handle_event E (ts, ev)) (\<lambda>_. base T n False) s"
proof -
  let ?s = "s\<lparr>lmsg := (lmsg s)\<lparr>tv_sec := fst ts, tv_nsec := snd ts\<rparr>\<rparr>"
  have s': "base T n f ?s" using s by (simp add: base_def core_def)
  have counted: "base T n f (?s\<lparr>num_of_messages := num_of_messages s + 1\<rparr>)" using s' by simp
  note big = base_big [OF s'] base_big [OF counted]
  show ?thesis
  proof (cases "ev_data ev")
    case (Epoll_fd fd)
    have err: "wp (with_listener_message (handlepoll_error E (Epoll_fd fd))) (\<lambda>_. base T n False) ?s" if "ev_error ev"
    proof -
      have "fd = rmrListenFd (params s)" using ev Epoll_fd that by (simp add: good_event_def)
      then show ?thesis using big s' by (simp add: with_listener_message_def handlepoll_error_def wp_simps base_def core_def)
    qed
    have rcv: "wp (receiveXappMessages E ts) (\<lambda>_. base T n False) (?s\<lparr>num_of_messages := num_of_messages s + 1\<rparr>)"
      by (rule wp_receiveXappMessages [OF E(1) n counted])
    have acc: "wp (accept_connection E) (\<lambda>_. base T n False) ?s"
      by (rule wp_accept_connection [OF E(1) big(1)])
    show ?thesis
      using ev Epoll_fd err rcv acc
      by (auto simp: handle_event_def good_event_def Let_def count_event_def wp_sq wp_modify wp_bnd wp_gets wp_ret_eta)
  next
    case (Epoll_ptr p)
    then obtain a c m where c: "p = Some a" "heap s a = Some c" "has_name c m"
        "m = [] \<or> m = N (world s) (fileDescriptor c)"
      using ev by (auto simp: good_event_def)
    have err: "wp (with_listener_message (handlepoll_error E (Epoll_ptr p))) (\<lambda>_. base T n False) ?s"
      using c wp_poll_error [OF E(1)]
      by (intro wp_with_listener_message [OF s', where h = "heap s"]) (auto simp: handlepoll_error_def)
    have rcv: "wp (receiveDataFromSctp E ts p) (\<lambda>_. base T n False) (?s\<lparr>num_of_messages := num_of_messages s + 1\<rparr>)"
      unfolding c(1) by (rule wp_receiveDataFromSctp [OF E counted n]) (use c in simp_all)
    show ?thesis
      using ev Epoll_ptr err rcv
      by (auto simp: handle_event_def good_event_def Let_def count_event_def wp_sq wp_modify wp_bnd wp_gets wp_ret_eta)
  qed
qed

end
