(* ===== verification/E2_Run.thy ===== *)
theory E2_Run
  imports E2_Event
begin

text \<open>
  Operations that end in a fault, the first steps of an operation as equations, and the fault
  that every event of a freed connection ends in.
\<close>

section \<open>Operations that end in a fault\<close>

lemma fails_bnd: "m s = Inl e \<Longrightarrow> bnd m f s = Inl e" "wp m (\<lambda>x s'. f x s' = Inl e) s \<Longrightarrow> bnd m f s = Inl e"
  by (auto simp: bnd_def wp_def split: sum.splits)

lemma fails_sq: "m s = Inl e \<Longrightarrow> sq m n s = Inl e" "wp m (\<lambda>_ s'. n s' = Inl e) s \<Longrightarrow> sq m n s = Inl e"
  unfolding sq_def by (auto intro: fails_bnd)

lemma fails_access:
  "heap s a = None \<Longrightarrow> deref a s = Inl Use_After_Free" "heap s a = None \<Longrightarrow> CU_name a s = Inl Use_After_Free"
  "heap s a = None \<Longrightarrow> copy_peer_name a s = Inl Use_After_Free"
  "raise e s = Inl e" "need e None s = Inl e" "require e False s = Inl e"
  by (simp_all add: CU_name_def copy_peer_name_def deref_def bnd_def gets_def need_def raise_def require_def)

lemma peer_gone: "peerInfo (msg s) = Some a \<Longrightarrow> heap s a = None \<Longrightarrow> peer s = Inl Use_After_Free"
  by (simp add: peer_def peer_addr_def deref_def bnd_def gets_def need_def ret_def raise_def)

text \<open>Running an operation step by step, whether or not it ends in a fault.\<close>

named_theorems run_simps \<open>the first step of an operation\<close>

lemma run_step [run_simps]:
  "bnd (gets f) g s = g (f s) s" "bnd (ret x) g s = g x s" "bnd (raise e) g s = Inl e" "raise e s = Inl e"
  "bnd (need e p) g s = (case p of None \<Rightarrow> Inl e | Some v \<Rightarrow> g v s)"
  "bnd (bnd q j) g s = bnd q (\<lambda>x. bnd (j x) g) s" "bnd (sq m' m) g s = sq m' (bnd m g) s"
  "sq (modify f') n s = n (f' s)" "sq (require e b) n s = (if b then n s else Inl e)"
  "sq (whenM b m') n s = (if b then sq m' n s else n s)" "sq (ret ()) n s = n s" "sq (raise e) n s = Inl e"
  "sq (bnd m h) n s = bnd m (\<lambda>x. sq (h x) n) s" "sq (sq k l) n s = sq k (sq l n) s"
  "seqs (m' # ms) s = sq m' (seqs ms) s"
  by (auto simp: bnd_def sq_def gets_def ret_def raise_def need_def modify_def require_def whenM_def
      split: sum.splits option.splits)

lemma run_access [run_simps]:
  "bnd (ext f) g s = (case f (world s) of (r, w) \<Rightarrow> g r (s\<lparr>world := w\<rparr>))"
  "sq (ext_do f') n s = n (s\<lparr>world := f' (world s)\<rparr>)"
  "sq (upd_msg h) n s = n (s\<lparr>msg := h (msg s)\<rparr>)" "sq (set_rcv r) n s = n (s\<lparr>rcvMessage := r\<rparr>)"
  "bnd get_rcv g' s = (case rcvMessage s of None \<Rightarrow> Inl Null_Deref | Some b \<Rightarrow> g' b s)"
  "bnd message_name g'' s = (case cstr (msg_enodbName (msg s)) of None \<Rightarrow> Inl Buffer_Overflow | Some k \<Rightarrow> g'' k s)"
proof -
  show "bnd (ext f) g s = (case f (world s) of (r, w) \<Rightarrow> g r (s\<lparr>world := w\<rparr>))"
    by (simp add: bnd_def ext_def split: prod.split)
qed (simp_all add: ext_do_def upd_msg_def set_rcv_def get_rcv_def message_name_def run_step)

section \<open>Events of a connection that is gone\<close>

text \<open>The data of an event is read before anything else; that of a freed connection dangles.\<close>

lemma stale_event_faults:
  assumes "heap s a = None" "ev_data ev = Epoll_ptr (Some a)" "0 < rounds E"
  shows "handle_event E (ts, ev) s = Inl Use_After_Free"
proof -
  obtain k where k: "rounds E = Suc k" using assms(3) by (cases "rounds E") auto
  have "heap t a = None \<Longrightarrow> bnd (receiveDataFromSctp E ts (Some a)) (\<lambda>_. ret ()) t = Inl Use_After_Free" for t :: "'a e2t"
    unfolding receiveDataFromSctp_def k receive_rounds.simps
    by (rule fails_bnd(1), rule fails_sq(2), unfold wp_modify, rule fails_bnd(1), rule fails_bnd(1), rule peer_gone) simp_all
  moreover have "heap t a = None \<Longrightarrow> with_listener_message (handleEinprogressMessages E (Epoll_ptr (Some a))) t = Inl Use_After_Free" for t :: "'a e2t"
    unfolding with_listener_message_def handleEinprogressMessages_def
    by (rule fails_sq(2), unfold wp_modify, rule fails_sq(1)) (simp add: fails_sq(1) fails_access)
  moreover have "heap t a = None \<Longrightarrow> with_listener_message (handlepoll_error E (Epoll_ptr (Some a))) t = Inl Use_After_Free" for t :: "'a e2t"
    unfolding with_listener_message_def handlepoll_error_def poll_error_def seqs.simps
    by (rule fails_sq(2), unfold wp_modify, rule fails_sq(1)) (simp add: fails_sq(1) fails_bnd(1) fails_access)
  ultimately show ?thesis
    using assms(1,2) unfolding handle_event_def
    by (auto simp: Let_def count_event_def wp_simps intro!: fails_sq(2) fails_bnd(2))
qed

end
