(* ===== verification/E2_Watch.thy ===== *)
theory E2_Watch
  imports E2_Event
begin

text \<open>
  The watch on the configuration directory: what a change of the file can do to the state,
  and that the listener's invariant survives it while the file keeps the trace off.
\<close>

section \<open>What a change touches\<close>

text \<open>The states that differ from \<open>s\<close> in the world and, if at all, in the trace setting.\<close>

definition trace_differs :: "'w e2t \<Rightarrow> 'w e2t \<Rightarrow> bool" where
  "trace_differs s s' \<longleftrightarrow> (\<exists>w. s' = s\<lparr>world := w\<rparr> \<or>
     (\<exists>b. s' = s\<lparr>world := w, params := (params s)\<lparr>tracing := b\<rparr>, jsonTrace := b\<rparr>))"

lemma trace_differs_refl: "trace_differs s s"
proof -
  have "s = s\<lparr>world := world s\<rparr>" by simp
  then show ?thesis unfolding trace_differs_def by blast
qed

lemma trace_differs_world:
  assumes "trace_differs s t"
  shows "trace_differs s (t\<lparr>world := w\<rparr>)"
proof -
  from assms consider v where "t = s\<lparr>world := v\<rparr>"
    | v b where "t = s\<lparr>world := v, params := (params s)\<lparr>tracing := b\<rparr>, jsonTrace := b\<rparr>"
    by (auto simp: trace_differs_def)
  then show ?thesis
  proof cases
    case 1
    then have "t\<lparr>world := w\<rparr> = s\<lparr>world := w\<rparr>" by simp
    then show ?thesis unfolding trace_differs_def by blast
  next
    case 2
    have "t\<lparr>world := w\<rparr> = s\<lparr>world := w, params := (params s)\<lparr>tracing := b\<rparr>, jsonTrace := b\<rparr>"
      by (rule e2t.equality) (simp_all add: 2)
    then show ?thesis unfolding trace_differs_def by blast
  qed
qed

lemma trace_differs_set:
  assumes "trace_differs s t"
  shows "trace_differs s (t\<lparr>params := (params t)\<lparr>tracing := b\<rparr>, jsonTrace := b\<rparr>)"
proof -
  have "t\<lparr>params := (params t)\<lparr>tracing := b\<rparr>, jsonTrace := b\<rparr> =
      s\<lparr>world := world t, params := (params s)\<lparr>tracing := b\<rparr>, jsonTrace := b\<rparr>"
    using assms unfolding trace_differs_def by (elim exE disjE) (rule e2t.equality; simp)+
  then show ?thesis unfolding trace_differs_def by blast
qed

lemma keeps_trace_ext: "keeps (trace_differs s) (ext g)"
  by (auto simp: keeps_def ext_def trace_differs_world split: prod.splits)

lemma keeps_set_trace: "keeps (trace_differs s) (set_trace b)"
  unfolding set_trace_def by (rule keeps_modify) (rule trace_differs_set)

lemma keeps_reload_trace: "keeps (trace_differs s) (reload_trace E)"
  unfolding reload_trace_def by (intro keeps_intros keeps_trace_ext keeps_set_trace)

lemma keeps_config_events: "keeps (trace_differs s) (config_events E evs b)"
proof (induction evs arbitrary: b)
  case (Cons ev evs)
  show ?case unfolding config_events.simps by (intro keeps_intros keeps_reload_trace Cons.IH)
qed (simp add: keeps_ret)

lemma keeps_config_rounds: "keeps (trace_differs s) (config_rounds k E)"
proof (induction k)
  case (Suc k)
  have again: "keeps (trace_differs s) (case c of True \<Rightarrow> config_rounds k E | False \<Rightarrow> ret ())" for c
    using Suc.IH by (cases c) (simp_all add: keeps_ret)
  show ?case
    unfolding config_rounds.simps by (intro keeps_intros keeps_trace_ext keeps_config_events again)
qed (simp add: keeps_raise)

text \<open>
  C36. A change in the configuration directory touches nothing of the state but the trace
  setting: connections, tables, buffers and all other parameters stay as they were read at
  start-up, whatever the file now says.
\<close>
theorem config_change_only_trace:
  assumes "handleConfigChange E s = Inr ((), s')"
  shows "\<exists>w. s' = s\<lparr>world := w\<rparr> \<or>
    (\<exists>b. s' = s\<lparr>world := w, params := (params s)\<lparr>tracing := b\<rparr>, jsonTrace := b\<rparr>)"
  using keepsD [OF keeps_config_rounds trace_differs_refl assms [unfolded handleConfigChange_def]]
  by (simp only: trace_differs_def)

section \<open>The invariant\<close>

text \<open>
  \<open>watch_ok\<close>: the events of the directory run out. \<open>trace_off\<close>: no version of the file that is
  read turns the trace on.
\<close>

definition watch_ok :: "('w \<Rightarrow> nat) \<Rightarrow> 'w env \<Rightarrow> bool" where
  "watch_ok T E \<longleftrightarrow> (\<forall>p. steady T (file_size E p)) \<and> (\<forall>p. steady T (file_text E p)) \<and>
     (\<forall>fd. steady T (inotify_read E fd)) \<and>
     (\<forall>fd w evs w'. inotify_read E fd w = (Some evs, w') \<longrightarrow> T w' < T w)"

definition trace_off :: "'w env \<Rightarrow> bool" where
  "trace_off E \<longleftrightarrow> (\<forall>p w t w' es. file_text E p w = (t, w') \<and> openConfigFile t = Some es \<longrightarrow>
     \<not> trace_on (getStringValue es ''trace''))"

lemma base_set_trace: "base T n f s \<Longrightarrow> base T n f (s\<lparr>params := (params s)\<lparr>tracing := False\<rparr>, jsonTrace := False\<rparr>)"
  by (simp add: base_def core_def)

lemma pres_base_ext: "steady T g \<Longrightarrow> pres (base T n f) (ext g)"
  by (rule presI) (auto simp: wp_ext steady_def split: prod.split intro: base_world)

lemma wp_reload_trace:
  assumes W: "watch_ok T E" "trace_off E" and s: "base T n f s"
  shows "wp (reload_trace E) (\<lambda>_. base T n f) s"
proof -
  have read: "wp (bnd (ext (file_text E p)) (\<lambda>t. case openConfigFile t of
          None \<Rightarrow> ret False
        | Some es \<Rightarrow> sq (set_trace (trace_on (getStringValue es ''trace''))) (ret True))) (\<lambda>_. base T n f) s'"
    if s': "base T n f s'" for p s'
  proof -
    obtain t w where r: "file_text E p (world s') = (t, w)" by fastforce
    have w: "base T n f (s'\<lparr>world := w\<rparr>)" using W(1) r by (intro base_world [OF s']) (auto simp: watch_ok_def steady_def)
    show ?thesis
      using r w base_set_trace [OF w] W(2) [unfolded trace_off_def, rule_format, OF conjI, OF r]
      by (auto simp: wp_bnd wp_ext wp_sq set_trace_def wp_modify wp_ret split: option.split)
  qed
  have "pres (base T n f) (reload_trace E)"
    unfolding reload_trace_def
    using W(1) by (intro pres_intros pres_base_ext presI [OF read]) (auto simp: watch_ok_def)
  from presD [OF this s] show ?thesis .
qed

lemma pres_config_events:
  assumes W: "watch_ok T E" "trace_off E"
  shows "pres (base T n f) (config_events E evs b)"
proof (induction evs arbitrary: b)
  case (Cons ev evs)
  show ?case
    unfolding config_events.simps by (intro pres_intros presI [OF wp_reload_trace [OF W]] Cons.IH)
qed (simp add: pres_ret)

lemma wp_handleConfigChange:
  assumes W: "watch_ok T E" "trace_off E" and s: "base T n f s" and n: "n < rounds E"
  shows "wp (handleConfigChange E) (\<lambda>_. base T n f) s"
proof -
  have "wp (config_rounds k E) (\<lambda>_. base T n f) s" if "base T m f s" "m < k" "m \<le> n" for k m s
    using that
  proof (induction k arbitrary: m s)
    case (Suc k)
    obtain r w where r: "inotify_read E (inotifyFD (params s)) (world s) = (r, w)" by fastforce
    have w: "T w \<le> T (world s)" using W(1) r by (auto simp: watch_ok_def steady_def)
    have s': "base T m f (s\<lparr>world := w\<rparr>)" by (rule base_world [OF Suc.prems(1) w])
    show ?case
    proof (cases r)
      case None
      then show ?thesis
        using r base_mono [OF s' Suc.prems(3)] by (simp add: wp_bnd wp_gets wp_ext wp_ret)
    next
      case (Some evs)
      have less: "T w < T (world s)" using W(1) r Some by (auto simp: watch_ok_def)
      have le: "T (world s) \<le> m" using Suc.prems(1) by (simp add: base_def core_def)
      have now: "base T (m - 1) f (s\<lparr>world := w\<rparr>)" using s' less le by (simp add: base_def core_def)
      have more: "wp (case c of Some True \<Rightarrow> config_rounds k E | _ \<Rightarrow> ret ()) (\<lambda>_. base T n f) t"
        if t: "base T (m - 1) f t" for c t
        using Suc.IH [OF t] less le Suc.prems(2,3) base_mono [OF t, of n]
        by (auto simp: wp_ret split: option.split bool.split)
      show ?thesis
        using r Some wp_mono [OF presD [OF pres_config_events [OF W] now] more]
        by (simp add: wp_bnd wp_gets wp_ext)
    qed
  qed simp
  from this [OF s n] show ?thesis by (simp add: handleConfigChange_def)
qed

end
