(* ===== verification/E2_Sample.thy ===== *)
theory E2_Sample
  imports E2_Watch E2_Startup
begin

text \<open>
  A concrete environment and platform, in which the hypotheses of the theorems on whole events
  hold: messages that wait in a queue, a routing library that always sends, a codec that knows
  a few messages. The witnesses are evaluated in it; it models no code.
\<close>

section \<open>The world\<close>

record sample_world =
  arriving :: "byte list list"
  changes :: "inotify_event list list"
  rmr_sent :: "rmr_mbuf list"
  sctp_sent :: "(int \<times> byte list) list"

definition sample_world :: sample_world where
  "sample_world = \<lparr>arriving = [], changes = [], rmr_sent = [], sctp_sent = []\<rparr>"

definition sample_work :: "sample_world \<Rightarrow> nat" where
  "sample_work w = length (arriving w) + length (changes w)"

section \<open>The codec\<close>

definition sample_node :: GlobalE2node_ID where
  "sample_node = GlobalE2node_gNB \<lparr>plmn_id = [0x13, 0x00, 0x14],
     gnb_id = gnb_ID \<lparr>buf = [0xb5, 0xc6], bits_unused = 0\<rparr>, gNB_CU_UP_ID = None, gNB_DU_ID = None\<rparr>"

definition sample_name :: string where
  "sample_name = ran_name_text sample_node"

definition sample_setup :: E2AP_PDU where
  "sample_setup = \<lparr>pdu_present = initiatingMessage, procedureCode = ProcedureCode_id_E2setup,
     protocolIEs = [\<lparr>ie_id = ProtocolIE_ID_id_TransactionID, ie_value = IE_TransactionID 7\<rparr>,
       \<lparr>ie_id = ProtocolIE_ID_id_GlobalE2node_ID, ie_value = IE_GlobalE2node_ID sample_node\<rparr>],
     pdu_rest = []\<rparr>"

definition sample_decode :: "byte list \<Rightarrow> E2AP_PDU option" where
  "sample_decode bs = (if bs = [1] then Some sample_setup else None)"

section \<open>The environment\<close>

definition sample_buffer :: "nat \<Rightarrow> int \<Rightarrow> rmr_mbuf" where
  "sample_buffer i n = \<lparr>mb_id = i, mb_payload = replicate (nat n) 0, mb_len = 0, mb_mtype = Mtype 0,
     mb_state = RMR_OK, mb_sub_id = 0, mb_xaction = [], mb_meid = []\<rparr>"

definition sample_send :: "rmr_mbuf \<Rightarrow> sample_world \<Rightarrow> rmr_mbuf option \<times> sample_world" where
  "sample_send b w = (Some (b\<lparr>mb_id := mb_id b + 1, mb_state := RMR_OK\<rparr>), w\<lparr>rmr_sent := rmr_sent w @ [b]\<rparr>)"

definition sample_receive :: "int \<Rightarrow> sample_world \<Rightarrow> recv_result \<times> sample_world" where
  "sample_receive fd w = (case arriving w of
      [] \<Rightarrow> (Recv_error EAGAIN, w)
    | bs # rest \<Rightarrow> (Received (take RECEIVE_SCTP_BUFFER_SIZE bs) 0, w\<lparr>arriving := rest\<rparr>))"

definition sample_changes :: "int \<Rightarrow> sample_world \<Rightarrow> inotify_event list option \<times> sample_world" where
  "sample_changes fd w = (case changes w of
      [] \<Rightarrow> (None, w)
    | evs # rest \<Rightarrow> (Some evs, w\<lparr>changes := rest\<rparr>))"

definition sample_payload :: "byte list \<Rightarrow> rmr_mbuf \<Rightarrow> rmr_mbuf" where
  "sample_payload t b = (let k = min (length t) (length (mb_payload b)) in
     b\<lparr>mb_payload := take k t @ drop k (mb_payload b), mb_len := int k\<rparr>)"

definition sample_config :: string where
  "sample_config = write_config [(''nano'', ''38000''), (''volume'', ''/data/outgoing''),
     (''local-ip'', ''10.0.2.15''), (''sctp-port'', ''36422''), (''external-fqdn'', ''e2t.com''),
     (''pod_name'', ''E2TERM_POD_NAME''), (''trace'', ''stop'')] []"

definition sample_env :: "sample_world env" where
  "sample_env = \<lparr>
     rmr_send_msg = sample_send, rmr_rts_msg = sample_send, rmr_rcv_msg = (\<lambda>b w. (Some b, w)),
     rmr_alloc_msg = (\<lambda>n w. (Some (sample_buffer 100 n), w)),
     rmr_bytes2meid = (\<lambda>t b. b\<lparr>mb_meid := t\<rparr>), rmr_bytes2xact = (\<lambda>t b. b\<lparr>mb_xaction := t\<rparr>),
     rmr_bytes2payload = sample_payload, rmr_get_meid = (\<lambda>_. sample_name), mtype_number = (\<lambda>_. 0),
     sctp_sendmsg = (\<lambda>fd bs st w. (Sent, w\<lparr>sctp_sent := sctp_sent w @ [(fd, bs)]\<rparr>)),
     sctp_recvmsg = sample_receive, epoll_add = (\<lambda>_ _ w. (True, w)), epoll_mod = (\<lambda>_ _ w. (True, w)),
     so_error = (\<lambda>_ w. ((True, 0), w)), so_error_text = (\<lambda>_. []), sctp_status = (\<lambda>_ w. ((2, 2), w)),
     fd_close = (\<lambda>_ w. w), fd_open = (\<lambda>_ w. (True, w)), fcntl_getfl = (\<lambda>_ w. (0, w)),
     fcntl_setfl = (\<lambda>_ _ w. (True, w)), calloc_ok = (\<lambda>w. (True, w)), accept = (\<lambda>_ w. (Some 5, w)),
     set_sctp_options = (\<lambda>_ w. w), getnameinfo = (\<lambda>_ w. (Some (''10.0.2.16'', ''36421''), w)),
     per_decode = sample_decode, per_encode = (\<lambda>_. Some [1]), xer_decode = (\<lambda>_. None),
     xer_encode = (\<lambda>_. Some [60, 97, 62]), xer_written = (\<lambda>_ n. n), per_written = (\<lambda>_ n. n),
     inotify_read = sample_changes, file_size = (\<lambda>_ w. (Some (length sample_config), w)),
     file_text = (\<lambda>_ w. (Some sample_config, w)), rounds = 10\<rparr>"

definition sample_platform :: "sample_world platform" where
  "sample_platform = \<lparr>
     getenv = (\<lambda>v. if v = ''POD_NAME'' \<or> v = ''E2TERM_POD_NAME'' then Some ''e2term-alpha'' else None),
     gethostname = (\<lambda>w. (Some ''e2term'', w)), gethostbyname = (\<lambda>_ w. (Some [''10.0.2.15''], w)),
     epoll_create1 = (\<lambda>w. (3, w)), epoll_add_fd = (\<lambda>_ _ w. (True, w)), rmr_init = (\<lambda>_ w. (True, w)),
     rmr_ready = (\<lambda>w. (True, w)), rmr_get_rcvfd = (\<lambda>w. (4, w)), rmr_close = (\<lambda>w. w),
     inotify_init1 = (\<lambda>w. (6, w)), inotify_add_watch = (\<lambda>_ _ w. (1, w)), socket_sctp = (\<lambda>w. (7, w)),
     set_option = (\<lambda>_ _ w. w), option_size_ok = (\<lambda>_ _ w. (True, w)), bind_port = (\<lambda>_ _ w. (True, w)),
     listen = (\<lambda>_ w. (True, w)), mutex_init = (\<lambda>w. (True, w))\<rparr>"

section \<open>Its contracts\<close>

lemma buffer_size_pos: "0 < RECEIVE_SCTP_BUFFER_SIZE"
  by (simp add: RECEIVE_SCTP_BUFFER_SIZE_def)

lemma sample_node_valid: "valid_node_id sample_node" "sample_node \<noteq> GlobalE2node_NOTHING"
  by (simp_all add: sample_node_def valid_bits_def valid_id_def optional_id_def)

lemma sample_name_ok: "nul_free sample_name" "length sample_name < 64" "ran_initial sample_name" "sample_name \<noteq> []"
proof -
  show "nul_free sample_name" "length sample_name < 64"
    using buildRanName_ok sample_node_valid unfolding sample_name_def by blast+
  show "sample_name \<noteq> []" by (simp add: sample_name_def sample_node_def name_text_def gnb_type_def plmn_part_def)
  then show "ran_initial sample_name"
    using ran_name_initial sample_node_valid unfolding sample_name_def ran_initial_def by blast
qed

lemma sample_rmr_ok: "rmr_ok sample_env"
proof -
  have "buf_ok (sample_payload t b)" if "big b" for t b
    using that by (auto simp: sample_payload_def buf_ok_def big_def Let_def)
  then show ?thesis
    using sample_name_ok by (auto simp: rmr_ok_def sample_env_def sample_send_def buf_ok_def big_def sample_buffer_def)
qed

lemma sample_sockets_ok: "sockets_ok sample_work sample_env"
  using buffer_size_pos
  by (auto simp: sockets_ok_def steady_def sample_env_def sample_send_def sample_receive_def sample_work_def
      split: list.splits)

lemma sample_env_ok: "env_ok sample_work sample_env"
proof -
  have "codec_ok sample_env" by (simp add: codec_ok_def sample_env_def RECEIVE_SCTP_BUFFER_SIZE_def)
  then show ?thesis using sample_rmr_ok sample_sockets_ok by (simp only: env_ok_def)
qed

lemma sample_setup_good: "good_setup sample_name sample_setup"
  unfolding good_setup_def names_node_def
proof (intro conjI)
  show "\<exists>xs ie ys g. protocolIEs sample_setup = xs @ ie # ys \<and>
      (\<forall>x \<in> set xs \<union> set ys. ie_id x \<noteq> ProtocolIE_ID_id_GlobalE2node_ID) \<and>
      ie_id ie = ProtocolIE_ID_id_GlobalE2node_ID \<and> ie_value ie = IE_GlobalE2node_ID g \<and>
      valid_node_id g \<and> g \<noteq> GlobalE2node_NOTHING \<and> ran_name_text g = sample_name"
    by (rule exI [of _ "[\<lparr>ie_id = ProtocolIE_ID_id_TransactionID, ie_value = IE_TransactionID 7\<rparr>]"])
      (simp add: sample_setup_def sample_node_valid sample_name_def)
qed (simp_all add: sample_name_ok sample_setup_def setup_transaction_def collect_transaction_def)

lemma sample_nodes_ok: "nodes_ok (\<lambda>_ _. sample_name) sample_env"
  by (auto simp: nodes_ok_def sample_env_def sample_decode_def sample_setup_good split: if_splits)

lemma sample_config_text: "openConfigFile (Some sample_config) =
    Some [''nano'' \<mapsto> ''38000'', ''volume'' \<mapsto> ''/data/outgoing'', ''local-ip'' \<mapsto> ''10.0.2.15'',
      ''sctp-port'' \<mapsto> ''36422'', ''external-fqdn'' \<mapsto> ''e2t.com'', ''pod_name'' \<mapsto> ''E2TERM_POD_NAME'',
      ''trace'' \<mapsto> ''stop'']"
  using openConfigFile_write [of "[(''nano'', ''38000''), (''volume'', ''/data/outgoing''),
     (''local-ip'', ''10.0.2.15''), (''sctp-port'', ''36422''), (''external-fqdn'', ''e2t.com''),
     (''pod_name'', ''E2TERM_POD_NAME''), (''trace'', ''stop'')]" "[]"]
  by (simp add: sample_config_def plain_entry_def trimmed_def is_space_def written_entries_def fun_upd_twist)

section \<open>States\<close>

text \<open>The listener before its first connection, with a new one, and with one that is set up.\<close>

definition sample_idle :: "sample_world e2t" where
  "sample_idle = (initial_state sample_world 1 ''config'' ''config.conf'')\<lparr>
     sendMessage := Some (sample_buffer 1 (int RECEIVE_SCTP_BUFFER_SIZE)),
     rcvMessage := Some (sample_buffer 2 (int RECEIVE_SCTP_BUFFER_SIZE)),
     params := (initial_params ''config'' ''config.conf'')\<lparr>epoll_fd := 3, rmrListenFd := 4, inotifyFD := 6, listenFD := 7,
       e2tCounters := buildE2TPrometheusCounters\<rparr>\<rparr>"

definition sample_fresh :: "sample_world e2t" where
  "sample_fresh = sample_idle\<lparr>heap := [1 \<mapsto> zero_CU\<lparr>fileDescriptor := 5\<rparr>], next_addr := 2,
     msg := zero_message\<lparr>peerInfo := Some 1\<rparr>\<rparr>"

definition sample_CU :: ConnectedCU where
  "sample_CU = zero_CU\<lparr>fileDescriptor := 5, cu_enodbName := padded 64 sample_name,
     counters := buildPrometheusList sample_name\<rparr>"

definition sample_setup_done :: E2NodeConnectionHandling where
  "sample_setup_done = \<lparr>e2tProcedureOngoingStatus = E2_SETUP_PROCEDURE_COMPLETED, e2SetupProcedureTransactionId = 7\<rparr>"

definition sample_state :: "sample_world e2t" where
  "sample_state = sample_idle\<lparr>heap := [1 \<mapsto> sample_CU], next_addr := 2, sctpMap := [(sample_name, 1)],
     e2map := [(sample_name, sample_setup_done)],
     msg := zero_message\<lparr>peerInfo := Some 1, msg_enodbName := padded 64 sample_name\<rparr>\<rparr>"

lemma sample_buffer_ok: "buf_ok (sample_buffer i (int RECEIVE_SCTP_BUFFER_SIZE))"
  by (simp add: buf_ok_def big_def sample_buffer_def)

lemma sample_CU_name: "has_name sample_CU sample_name" "CU_ok sample_CU"
  using sample_name_ok by (auto simp: has_name_def sample_CU_def CU_ok_def zero_CU_def)

lemma sample_idle_base: "base sample_work 0 True sample_idle"
  using sample_buffer_ok
  by (simp add: base_def core_def sample_idle_def initial_state_def initial_params_def sample_work_def sample_world_def
      heap_ok_def conn_invar_def map_ok_def map_invar_def send_ok_def)

lemma sample_fresh_base: "base sample_work 0 True sample_fresh"
proof -
  have "CU_ok (zero_CU\<lparr>fileDescriptor := 5\<rparr>)" using zero_CU_ok by (simp add: CU_ok_def has_name_def)
  then show ?thesis
    using sample_idle_base by (simp add: base_def core_def sample_fresh_def heap_ok_def map_ok_def)
      (simp add: sample_idle_def initial_state_def)
qed

lemma sample_state_base: "base sample_work 0 True sample_state"
  using sample_idle_base sample_CU_name sample_name_ok
  by (simp add: base_def core_def sample_state_def heap_ok_def map_ok_def conn_invar_def map_invar_def entry_ok_def)

lemma sample_state_active: "active sample_work 0 True sample_state"
proof -
  have "built sample_state" unfolding built_def
    by (intro exI [of _ 1] exI [of _ sample_CU] exI [of _ sample_name]) (simp add: sample_state_def sample_CU_def)
  then show ?thesis using sample_state_base by (simp add: active_def)
qed

lemma sample_fresh_node: "node_at (\<lambda>_ _. sample_name) sample_env 1 5 sample_name sample_fresh" "same_name sample_fresh"
proof -
  have "has_name (zero_CU\<lparr>fileDescriptor := 5\<rparr>) []" by (simp add: has_name_def zero_CU_def)
  then show "node_at (\<lambda>_ _. sample_name) sample_env 1 5 sample_name sample_fresh"
    using sample_nodes_ok by (auto simp: node_at_def sample_fresh_def)
  show "same_name sample_fresh" by (simp add: same_name_def sample_fresh_def zero_CU_def zero_message_def)
qed

end
