(* ===== verification/E2_Boot.thy ===== *)
theory E2_Boot
  imports E2_Sample
begin

text \<open>
  What the start-up of \<open>E2_Startup\<close> does: which configurations it accepts and what it takes
  from them, that it reaches the listener's invariant or ends in one of two faults, and how the
  announcement to the E2 manager is sent.
\<close>

section \<open>Accepted configurations\<close>

definition good_config :: "'w platform \<Rightarrow> entries \<Rightarrow> bool" where
  "good_config G es \<longleftrightarrow> getIntValue es ''nano'' \<noteq> -1 \<and> getIntValue es ''sctp-port'' \<noteq> -1 \<and>
     getStringValue es ''volume'' \<noteq> [] \<and> getStringValue es ''local-ip'' \<noteq> [] \<and>
     getStringValue es ''external-fqdn'' \<noteq> [] \<and> getStringValue es ''pod_name'' \<noteq> [] \<and>
     (case getenv G (c_str (getStringValue es ''pod_name'')) of None \<Rightarrow> False | Some pod \<Rightarrow> pod \<noteq> [])"

definition configured_names :: "'w platform \<Rightarrow> entries \<Rightarrow> sctp_params \<Rightarrow> sctp_params" where
  "configured_names G es p = p\<lparr>rmrPort := getIntValue es ''nano'' mod 2 ^ 16,
     rmrAddress := fmt_d (getIntValue es ''nano'' mod 2 ^ 16),
     volume := take 255 (c_str (getStringValue es ''volume'')), myIP := getStringValue es ''local-ip'',
     sctpPort := getIntValue es ''sctp-port'' mod 2 ^ 16, fqdn := getStringValue es ''external-fqdn'',
     podName := the (getenv G (c_str (getStringValue es ''pod_name'')))\<rparr>"

definition configured :: "'w platform \<Rightarrow> entries \<Rightarrow> sctp_params \<Rightarrow> sctp_params" where
  "configured G es p = (configured_names G es p)\<lparr>
     tracing := (map to_lower (getStringValue es ''trace'') = ''start''),
     prometheusPort := (if getStringValue es ''prometheusPort'' = [] then prometheusPort p
                        else getStringValue es ''prometheusPort''),
     ka_message := take 2047 (ka_text (configured_names G es p)),
     ka_message_length := int (length (ka_text (configured_names G es p)))\<rparr>"

definition volume_fits :: "entries \<Rightarrow> bool" where
  "volume_fits es \<longleftrightarrow> length (c_str (getStringValue es ''volume'')) < VOLUME_URL_SIZE - length log_file_pattern"

lemma length_log_file_pattern: "length log_file_pattern = 39"
  by (simp add: log_file_pattern_def)

lemma wp_set_volume [wp_simps]:
  "wp (set_volume vol) Q s \<longleftrightarrow> length (c_str vol) < VOLUME_URL_SIZE - length log_file_pattern \<and>
     Q (take 255 (c_str vol) @ log_file_pattern)
       (s\<lparr>params := (params s)\<lparr>volume := take 255 (c_str vol)\<rparr>\<rparr>)"
  by (auto simp: set_volume_def set_param_def wp_simps Let_def snprintf_text_def VOLUME_URL_SIZE_def
      length_log_file_pattern)

lemma wp_set_param [wp_simps]: "wp (set_param f) Q s = Q () (s\<lparr>params := f (params s)\<rparr>)"
  by (simp add: set_param_def wp_simps)

lemma ka_text_other [simp]:
  "ka_text (p\<lparr>tracing := b\<rparr>) = ka_text p" "ka_text (p\<lparr>prometheusPort := x\<rparr>) = ka_text p"
  by (simp_all add: ka_text_def)

lemma port_text: "snprintf_text 256 (fmt_d (v mod 65536)) = fmt_d (v mod 65536)"
proof -
  have v: "0 \<le> v mod 65536" "v mod 65536 < 65536" by simp_all
  then have "nat (v mod 65536) < 10 ^ 5" by simp
  then have "length (nat_base 10 (nat (v mod 65536))) \<le> 5" by (intro length_nat_base) simp_all
  moreover have "\<not> v mod 65536 < 0" using v(1) by simp
  ultimately show ?thesis by (simp add: snprintf_text_def fmt_d_def)
qed

lemma wp_config_rest:
  "wp (config_rest es) Q s = Q () (s\<lparr>
     jsonTrace := (map to_lower (getStringValue es ''trace'') = ''start''), params := (params s)\<lparr>
     tracing := (map to_lower (getStringValue es ''trace'') = ''start''),
     prometheusPort := (if getStringValue es ''prometheusPort'' = [] then prometheusPort (params s)
                        else getStringValue es ''prometheusPort''),
     ka_message := take 2047 (ka_text (params s)), ka_message_length := int (length (ka_text (params s)))\<rparr>\<rparr>)"
  by (simp add: config_rest_def config_trace_def set_trace_def set_ka_message_def wp_simps snprintf_text_def
      KA_MESSAGE_SIZE_def)

lemma config_values_run:
  "\<exists>t. config_values G es s =
     (if getIntValue es ''nano'' \<noteq> -1 \<and> \<not> volume_fits es then Inl Buffer_Overflow
      else if good_config G es then Inr (0, s\<lparr>jsonTrace := (map to_lower (getStringValue es ''trace'') = ''start''),
        params := configured G es (params s)\<rparr>)
      else Inr (-1, t))"
proof (cases "getIntValue es ''nano'' \<noteq> -1 \<and> \<not> volume_fits es")
  case True
  then have "c_str (getStringValue es ''volume'') \<noteq> []"
    by (auto simp: volume_fits_def VOLUME_URL_SIZE_def length_log_file_pattern)
  then have "getStringValue es ''volume'' \<noteq> []" by (auto simp: c_str_def)
  moreover have "\<not> min (length (c_str (getStringValue es ''volume''))) 255 < 217"
    using True by (auto simp: volume_fits_def VOLUME_URL_SIZE_def length_log_file_pattern min_def)
  ultimately show ?thesis
    using True by (simp add: config_values_def Let_def set_volume_def set_param_def volume_fits_def sq_def bnd_def modify_def
        require_def raise_def snprintf_text_def VOLUME_URL_SIZE_def length_log_file_pattern)
next
  case False
  then have "wp (config_values G es) (\<lambda>rc s'. rc = (if good_config G es then 0 else -1) \<and>
    (rc = 0 \<longrightarrow> s' = s\<lparr>jsonTrace := (map to_lower (getStringValue es ''trace'') = ''start''),
       params := configured G es (params s)\<rparr>)) s"
    by (auto simp: config_values_def config_names_def wp_simps wp_config_rest good_config_def volume_fits_def Let_def
        port_text configured_def configured_names_def to_uint16_def take_bit_eq_mod split: option.splits)
  from wp_exec [OF this] obtain rc s' where "config_values G es s = Inr (rc, s')" "rc = (if good_config G es then 0 else -1)"
    "rc = 0 \<longrightarrow> s' = s\<lparr>jsonTrace := (map to_lower (getStringValue es ''trace'') = ''start''), params := configured G es (params s)\<rparr>"
    by blast
  then show ?thesis using False by (intro exI [of _ s']) auto
qed

text \<open>What is found of the file: one that cannot be opened, or of more than 2048 octets, is not read.\<close>

definition config_found :: "'w env \<Rightarrow> 'w e2t \<Rightarrow> entries option \<times> 'w" where
  "config_found E s = (case file_size E (config_path (params s)) (world s) of
     (None, w) \<Rightarrow> (None, w)
   | (Some n, w) \<Rightarrow> if n > 2048 then (None, w)
       else (case file_text E (config_path (params s)) w of (t, w') \<Rightarrow> (openConfigFile t, w')))"

lemma buildConfiguration_run:
  "buildConfiguration G E s = (case config_found E s of
     (None, w) \<Rightarrow> Inr (-1, s\<lparr>world := w\<rparr>)
   | (Some es, w) \<Rightarrow> config_values G es (s\<lparr>world := w\<rparr>))"
  by (simp add: buildConfiguration_def config_found_def bnd_def ext_def gets_def ret_def split: prod.splits option.splits)

lemma buildConfiguration_cases:
  "\<exists>t. buildConfiguration G E s = (case config_found E s of
     (None, w) \<Rightarrow> Inr (-1, s\<lparr>world := w\<rparr>)
   | (Some es, w) \<Rightarrow>
       if getIntValue es ''nano'' \<noteq> -1 \<and> \<not> volume_fits es then Inl Buffer_Overflow
       else if good_config G es then Inr (0, s\<lparr>world := w, jsonTrace := (map to_lower (getStringValue es ''trace'') = ''start''),
         params := configured G es (params s)\<rparr>)
       else Inr (-1, t))"
proof (cases "config_found E s")
  case (Pair f w)
  show ?thesis
  proof (cases f)
    case (Some es)
    obtain t where "config_values G es (s\<lparr>world := w\<rparr>) = (if getIntValue es ''nano'' \<noteq> -1 \<and> \<not> volume_fits es then Inl Buffer_Overflow
      else if good_config G es then Inr (0, (s\<lparr>world := w\<rparr>)\<lparr>jsonTrace := (map to_lower (getStringValue es ''trace'') = ''start''),
        params := configured G es (params (s\<lparr>world := w\<rparr>))\<rparr>)
      else Inr (-1, t))"
      using config_values_run by blast
    then show ?thesis using Pair Some by (intro exI [of _ t]) (simp add: buildConfiguration_run)
  qed (simp add: Pair buildConfiguration_run)
qed

text \<open>
  C32. What becomes of a configuration. A file that is missing, has more than 2048 octets or
  cannot be parsed is rejected, and nothing is touched. Of a file that is read, a volume of 217
  characters or more overruns a buffer, unless the RMR port before it is missing. Any other is
  accepted exactly if the two ports, the volume, the local address, the domain name and the
  pod's name are given and the pod's name is that of an environment variable that is not empty;
  the parameters then are those of the file, the ports taken modulo 65536, and nothing is touched
  beside them and the trace setting.
\<close>
theorem configuration_accepted_iff:
  "\<exists>t. buildConfiguration G E s = (case config_found E s of
     (None, w) \<Rightarrow> Inr (-1, s\<lparr>world := w\<rparr>)
   | (Some es, w) \<Rightarrow>
       if getIntValue es ''nano'' \<noteq> -1 \<and> \<not> volume_fits es then Inl Buffer_Overflow
       else if good_config G es then Inr (0, s\<lparr>world := w, jsonTrace := (map to_lower (getStringValue es ''trace'') = ''start''),
         params := configured G es (params s)\<rparr>)
       else Inr (-1, t))"
  by (rule buildConfiguration_cases)

definition sample_entries :: entries where
  "sample_entries = [''nano'' \<mapsto> ''38000'', ''volume'' \<mapsto> ''/data/outgoing'', ''local-ip'' \<mapsto> ''10.0.2.15'',
     ''sctp-port'' \<mapsto> ''36422'', ''external-fqdn'' \<mapsto> ''e2t.com'', ''pod_name'' \<mapsto> ''E2TERM_POD_NAME'',
     ''trace'' \<mapsto> ''stop'']"

lemma sample_entries_fit: "volume_fits sample_entries"
  by (simp add: volume_fits_def sample_entries_def getStringValue_def c_str_def VOLUME_URL_SIZE_def length_log_file_pattern)

lemma sample_ports: "getIntValue sample_entries ''nano'' = 38000" "getIntValue sample_entries ''sctp-port'' = 36422"
  by (simp_all add: sample_entries_def getIntValue_def c_str_def strtol_def is_space_def decimal_def is_digit_def
      clamp_long_def int_of_long_def signed_take_bit_int_eq_self)

text \<open>
  C33. A volume of 217 characters or more overruns the 256 characters of \<^verbatim>\<open>tmpLogFilespec\<close>,
  although both copies of the name are cut to their arrays: the file pattern that
  \<^verbatim>\<open>strcat\<close> appends is not. A shorter volume never does.
\<close>
theorem volume_overflow_iff:
  "faults (set_volume vol) s \<longleftrightarrow> 217 \<le> length (c_str vol)"
  by (auto simp: faults_def set_volume_def set_param_def sq_def bnd_def modify_def require_def raise_def ret_def Let_def
      snprintf_text_def VOLUME_URL_SIZE_def length_log_file_pattern)

section \<open>Reaching the listener\<close>

text \<open>
  The platform: no call adds to the work of the world, and the routing library becomes ready.
\<close>

definition platform_ok :: "('w \<Rightarrow> nat) \<Rightarrow> 'w platform \<Rightarrow> bool" where
  "platform_ok T G \<longleftrightarrow>
     steady T (gethostname G) \<and> (\<forall>h. steady T (gethostbyname G h)) \<and> steady T (epoll_create1 G) \<and>
     (\<forall>ep fd. steady T (epoll_add_fd G ep fd)) \<and> (\<forall>a. steady T (rmr_init G a)) \<and> steady T (rmr_ready G) \<and>
     steady T (rmr_get_rcvfd G) \<and> (\<forall>w. T (rmr_close G w) \<le> T w) \<and> steady T (inotify_init1 G) \<and>
     (\<forall>fd p. steady T (inotify_add_watch G fd p)) \<and> steady T (socket_sctp G) \<and>
     (\<forall>fd x w. T (set_option G fd x w) \<le> T w) \<and> (\<forall>fd x. steady T (option_size_ok G fd x)) \<and>
     (\<forall>fd p. steady T (bind_port G fd p)) \<and> (\<forall>fd. steady T (listen G fd)) \<and> steady T (mutex_init G) \<and>
     (\<forall>w w'. rmr_ready G w = (False, w') \<longrightarrow> T w' < T w)"

text \<open>The host: its environment names the pod, it has a name, and the name service knows an address of it.\<close>

definition host_known :: "'w platform \<Rightarrow> bool" where
  "host_known G \<longleftrightarrow> getenv G ''POD_NAME'' \<noteq> None \<and> (\<forall>w. fst (gethostname G w) \<noteq> None) \<and>
     (\<forall>h w. fst (gethostbyname G h w) \<noteq> None \<and> fst (gethostbyname G h w) \<noteq> Some [])"

lemma platform_okD:
  assumes "platform_ok T G"
  shows "steady T (gethostname G)" "steady T (gethostbyname G h)" "steady T (rmr_ready G)"
    "rmr_ready G w = (False, w') \<Longrightarrow> T w' < T w" "steady T (epoll_create1 G)" "steady T (mutex_init G)"
    "T (rmr_close G w) \<le> T w"
  using assms by (simp_all add: platform_ok_def)

text \<open>
  The configuration that is found fits the buffers it is copied to: the volume and, for the keep-alive
  message, the address, the domain name and the pod's name.
\<close>

definition config_fits :: "'w platform \<Rightarrow> 'w env \<Rightarrow> 'w e2t \<Rightarrow> bool" where
  "config_fits G E s \<longleftrightarrow> (case config_found E s of
     (None, w) \<Rightarrow> True
   | (Some es, w) \<Rightarrow> volume_fits es \<and> length (ka_text (configured_names G es (params s))) < KA_MESSAGE_SIZE)"

text \<open>
  The state on the way to the listener; \<open>p\<close> tells that the keep-alive message is known to fit, \<open>q\<close>
  that the trace is known to be off.
\<close>

definition boot :: "('w \<Rightarrow> nat) \<Rightarrow> bool \<Rightarrow> bool \<Rightarrow> nat \<Rightarrow> 'w e2t \<Rightarrow> bool" where
  "boot T p q n s \<longleftrightarrow> T (world s) \<le> n \<and> heap s = Map.empty \<and> e2map s = [] \<and> name_ok (msg_enodbName (msg s)) \<and>
     (p \<longrightarrow> ka_message_length (params s) < int KA_MESSAGE_SIZE) \<and> (q \<longrightarrow> \<not> jsonTrace s)"

definition booted :: "('w \<Rightarrow> nat) \<Rightarrow> bool \<Rightarrow> bool \<Rightarrow> nat \<Rightarrow> 'w e2t \<Rightarrow> bool" where
  "booted T p q n s \<longleftrightarrow> boot T p q n s \<and> e2tCounters (params s) = buildE2TPrometheusCounters"

lemma boot_world: "boot T p q n s \<Longrightarrow> T w \<le> T (world s) \<Longrightarrow> boot T p q n (s\<lparr>world := w\<rparr>)"
  by (simp add: boot_def)

lemma booted_world: "booted T p q n s \<Longrightarrow> T w \<le> T (world s) \<Longrightarrow> booted T p q n (s\<lparr>world := w\<rparr>)"
  by (simp add: booted_def boot_world)

lemma pres_booted_ext: "steady T g \<Longrightarrow> pres (booted T p q n) (ext g)"
  by (rule presI) (auto simp: wp_ext steady_def split: prod.split intro: booted_world)

lemma pres_booted_do: "(\<And>w. T (g w) \<le> T w) \<Longrightarrow> pres (booted T p q n) (ext_do g)"
  by (rule presI) (simp add: wp_ext_do booted_world)

lemma pres_booted_param:
  "(\<And>p. ka_message_length (f p) = ka_message_length p) \<Longrightarrow> (\<And>p. e2tCounters (f p) = e2tCounters p) \<Longrightarrow>
    pres (booted T p q n) (set_param f)"
  by (rule presI) (simp add: wp_set_param booted_def boot_def)

text \<open>Operations that may end in a fault, of which something is known.\<close>

definition wpx :: "('s, 'a) op \<Rightarrow> (fault \<Rightarrow> bool) \<Rightarrow> ('a \<Rightarrow> 's \<Rightarrow> bool) \<Rightarrow> 's \<Rightarrow> bool" where
  "wpx m F Q s \<longleftrightarrow> (case m s of Inl e \<Rightarrow> F e | Inr (x, s') \<Rightarrow> Q x s')"

lemma wpx_bnd: "wpx (bnd m f) F Q s = wpx m F (\<lambda>x. wpx (f x) F Q) s"
  by (simp add: wpx_def bnd_def split: sum.splits)

lemma wpx_wp: "wp m Q s \<Longrightarrow> wpx m F Q s"
  by (auto simp: wpx_def wp_def split: sum.splits)

lemma wpx_ret: "wpx (ret x) F Q s = Q x s"
  by (simp add: wpx_def ret_def)

lemma wpx_mono: "wpx m F P s \<Longrightarrow> (\<And>x s'. P x s' \<Longrightarrow> Q x s') \<Longrightarrow> wpx m F Q s"
  by (auto simp: wpx_def split: sum.splits)

lemma wpx_weaken: "wpx m F Q s \<Longrightarrow> (\<And>e. F e \<Longrightarrow> F' e) \<Longrightarrow> wpx m F' Q s"
  by (auto simp: wpx_def split: sum.splits)

lemma config_found_steady:
  assumes "watch_ok T E" "config_found E s = (es, w)"
  shows "T w \<le> T (world s)"
proof -
  have "steady T (file_size E p)" "steady T (file_text E p)" for p using assms(1) by (simp_all add: watch_ok_def)
  with assms(2) show ?thesis
    by (auto simp: config_found_def steady_def split: prod.splits option.splits if_splits) (meson order_trans)+
qed

lemma quiet_config:
  assumes "trace_off E" "config_found E s = (Some es, w)"
  shows "map to_lower (getStringValue es ''trace'') \<noteq> ''start''"
proof -
  have "\<not> trace_on (getStringValue es ''trace'')"
    using assms by (auto simp: config_found_def trace_off_def split: prod.splits option.splits if_splits)
  then show ?thesis by (cases "getStringValue es ''trace'' = []") (simp_all add: trace_on_def)
qed

lemma wpx_buildConfiguration:
  fixes w :: 'w and tc path name
  assumes W: "watch_ok T E" and w: "T w \<le> n"
  defines "s \<equiv> initial_state w tc path name"
  shows "wpx (buildConfiguration G E) (\<lambda>e. e = Buffer_Overflow \<and> \<not> config_fits G E s)
    (\<lambda>rc s'. rc = 0 \<longrightarrow> boot T (config_fits G E s) (trace_off E) n s') s"
proof (cases "config_found E s")
  case (Pair f v)
  have v: "T v \<le> n" using config_found_steady [OF W Pair] w by (simp add: s_def initial_state_def)
  obtain t where run: "buildConfiguration G E s = (case config_found E s of
     (None, w) \<Rightarrow> Inr (-1, s\<lparr>world := w\<rparr>)
   | (Some es, w) \<Rightarrow>
       if getIntValue es ''nano'' \<noteq> -1 \<and> \<not> volume_fits es then Inl Buffer_Overflow
       else if good_config G es then Inr (0, s\<lparr>world := w, jsonTrace := (map to_lower (getStringValue es ''trace'') = ''start''),
         params := configured G es (params s)\<rparr>)
       else Inr (-1, t))"
    using buildConfiguration_cases by blast
  show ?thesis
  proof (cases f)
    case None
    then show ?thesis using Pair run by (simp add: wpx_def)
  next
    case (Some es)
    have "trace_off E \<longrightarrow> map to_lower (getStringValue es ''trace'') \<noteq> ''start''"
      using quiet_config [of E s es v] Pair Some by simp
    then have "boot T (config_fits G E s) (trace_off E) n (s\<lparr>world := v,
        jsonTrace := (map to_lower (getStringValue es ''trace'') = ''start''), params := configured G es (params s)\<rparr>)"
      using v Pair Some by (auto simp: boot_def config_fits_def configured_def s_def initial_state_def)
    then show ?thesis using Pair Some run by (auto simp: wpx_def config_fits_def)
  qed
qed

lemma wpx_startPrometheus:
  assumes G: "platform_ok T G" and s: "boot T p q n s"
  shows "wpx (startPrometheus G) (\<lambda>e. e = Null_Deref \<and> \<not> host_known G) (\<lambda>_. booted T p q n) s"
proof -
  obtain h w1 where h: "gethostname G (world s) = (h, w1)" by fastforce
  obtain a w2 where a: "gethostbyname G (the h) w1 = (a, w2)" by fastforce
  have T: "T w1 \<le> T (world s)" "T w2 \<le> T w1" using platform_okD(1,2) [OF G] h a unfolding steady_def by blast+
  have addr: "a \<noteq> None" "a \<noteq> Some []" if "host_known G" using that a unfolding host_known_def by (metis fst_conv)+
  have name: "getenv G ''POD_NAME'' \<noteq> None" "h \<noteq> None" if "host_known G"
    using that h unfolding host_known_def by (metis fst_conv)+
  have ok: "booted T p q n (s\<lparr>world := w2, params := (params s)\<lparr>e2tCounters := buildE2TPrometheusCounters\<rparr>\<rparr>)"
    using s T by (simp add: booted_def boot_def)
  note run = wpx_def startPrometheus_def getinterfaceip_def bnd_def need_def raise_def ret_def ext_def sq_def set_param_def
    modify_def gets_def
  show ?thesis
  proof (cases "getenv G ''POD_NAME'' = None \<or> h = None \<or> a = None \<or> a = Some []")
    case True
    then have "\<not> host_known G" using addr name by blast
    then show ?thesis
      using True h a by (cases "getenv G ''POD_NAME''"; cases h; cases a rule: option.exhaust)
        (auto simp: run split: list.splits)
  next
    case False
    then obtain pod h' ip ips where "getenv G ''POD_NAME'' = Some pod" "h = Some h'" "a = Some (ip # ips)"
      by (cases "getenv G ''POD_NAME''"; cases h; cases a; cases "the a") simp_all
    then show ?thesis using h a ok by (simp add: run)
  qed
qed

lemma wp_ready_rounds:
  assumes G: "platform_ok T G"
  shows "booted T p q m s \<Longrightarrow> m < k \<Longrightarrow> m \<le> n \<Longrightarrow> wp (ready_rounds k G) (\<lambda>_. booted T p q n) s"
proof (induction k arbitrary: m s)
  case (Suc k)
  obtain r w where r: "rmr_ready G (world s) = (r, w)" by fastforce
  have le: "T w \<le> T (world s)" "T (world s) \<le> m"
    using platform_okD(3) [OF G] r Suc.prems(1) by (auto simp: steady_def booted_def boot_def)
  show ?case
  proof (cases r)
    case True
    then show ?thesis using r le Suc.prems by (simp add: wp_bnd wp_ext wp_ret booted_def boot_def)
  next
    case False
    then have "T w < T (world s)" using platform_okD(4) [OF G] r by simp
    then have "wp (ready_rounds k G) (\<lambda>_. booted T p q n) (s\<lparr>world := w\<rparr>)"
      using le Suc.prems by (intro Suc.IH [of "m - 1"]) (auto simp: booted_def boot_def)
    then show ?thesis using r False by (simp add: wp_bnd wp_ext)
  qed
qed simp

lemma pres_getRmrContext:
  assumes E: "env_ok T E" and G: "platform_ok T G" and n: "n < rounds E"
  shows "pres (booted T p q n) (getRmrContext G E)"
  unfolding getRmrContext_def
  using G sockets_okD(15) [OF E] n
  by (intro pres_intros pres_booted_ext pres_booted_do pres_booted_param presI [OF wp_ready_rounds [OF G]])
    (auto simp: platform_ok_def)

lemma pres_buildInotify:
  assumes E: "env_ok T E" and G: "platform_ok T G"
  shows "pres (booted T p q n) (buildInotify G E)"
  unfolding buildInotify_def
  using G sockets_okD(15) [OF E]
  by (intro pres_intros pres_booted_ext pres_booted_do pres_booted_param) (auto simp: platform_ok_def)

lemma pres_setSocketNoBlocking_booted:
  assumes E: "env_ok T E"
  shows "pres (booted T p q n) (setSocketNoBlocking E fd)"
  unfolding setSocketNoBlocking_def
  by (intro pres_intros pres_booted_ext) (simp_all add: steady_def steady_sockets [OF E])

lemma pres_tune_socket:
  assumes G: "platform_ok T G"
  shows "pres (booted T p q n) (tune_socket G fd v f)"
  unfolding tune_socket_def Let_def
  using G by (intro pres_intros pres_booted_ext pres_booted_do) (auto simp: platform_ok_def)

lemma pres_buildListeningPort:
  assumes E: "env_ok T E" and G: "platform_ok T G"
  shows "pres (booted T p q n) (buildListeningPort G E)"
  unfolding buildListeningPort_def
  using G
  by (intro pres_intros pres_booted_ext pres_booted_do pres_booted_param pres_tune_socket
      pres_setSocketNoBlocking_booted [OF E]) (auto simp: platform_ok_def)

lemma listener_start_cases:
  assumes E: "env_ok T E" and s: "booted T p q n s" "sctpMap s = []"
  shows "wpx (listener_start E) (\<lambda>e. e = Buffer_Overflow \<and> \<not> p) (\<lambda>_ s. ka_message_length (params s) < int KA_MESSAGE_SIZE \<and> (q \<longrightarrow> base T n False s)) s"
proof -
  obtain s1 where r: "alloc_rcv E s = Inr ((), s1)" "\<exists>b w. s1 = s\<lparr>world := w, rcvMessage := Some b\<rparr> \<and> buf_ok b \<and> T w \<le> T (world s)"
    using wp_exec [OF wp_alloc_rcv [OF E, of s "\<lambda>_ t. \<exists>b w. t = s\<lparr>world := w, rcvMessage := Some b\<rparr> \<and> buf_ok b \<and> T w \<le> T (world s)"]] by auto
  obtain s2 where r2: "alloc_send E s1 = Inr ((), s2)" "\<exists>b w. s2 = s1\<lparr>world := w, sendMessage := Some b\<rparr> \<and> buf_ok b \<and> T w \<le> T (world s1)"
    using wp_exec [OF wp_alloc_send [OF E, of s1 "\<lambda>_ t. \<exists>b w. t = s1\<lparr>world := w, sendMessage := Some b\<rparr> \<and> buf_ok b \<and> T w \<le> T (world s1)"]] by auto
  have t2: "ka_message_length (params s2) = ka_message_length (params s)" "q \<longrightarrow> base T n False (s2\<lparr>lmsg := zero_message\<rparr>)"
    using s r(2) r2(2) by (auto simp: base_def core_def booted_def boot_def heap_ok_def conn_invar_def map_ok_def
        map_invar_def send_ok_def buf_ok_def)
  then show ?thesis
    using r(1) r2(1) s(1) by (auto simp: listener_start_def wpx_def sq_def bnd_def gets_def require_def raise_def ret_def
        modify_def booted_def boot_def)
qed

lemma wpx_start_threads:
  assumes E: "env_ok T E" and G: "platform_ok T G" and s: "booted T p q n s"
  shows "wpx (start_threads G E) (\<lambda>e. e = Buffer_Overflow \<and> \<not> p) (\<lambda>ok s. ok \<longrightarrow> ka_message_length (params s) < int KA_MESSAGE_SIZE \<and> (q \<longrightarrow> base T n False s)) s"
proof -
  obtain ok w where m: "mutex_init G (world s) = (ok, w)" by fastforce
  then have "T w \<le> T (world s)" using platform_okD(6) [OF G] by (simp add: steady_def)
  then have s': "booted T p q n (s\<lparr>sctpMap := [], world := w\<rparr>)" using s by (simp add: booted_def boot_def)
  have "wpx (listener_start E) (\<lambda>e. e = Buffer_Overflow \<and> \<not> p) (\<lambda>_ s. ka_message_length (params s) < int KA_MESSAGE_SIZE \<and> (q \<longrightarrow> base T n False s)) (s\<lparr>sctpMap := [], world := w\<rparr>)"
    by (rule listener_start_cases [OF E s']) simp
  then show ?thesis
    using m by (auto simp: start_threads_def wpx_def sq_def bnd_def modify_def ext_def ret_def split: sum.splits)
qed

lemma wpx_main_start:
  fixes w :: 'w and tc path name
  assumes E: "env_ok T E" and G: "platform_ok T G" and W: "watch_ok T E" and w: "T w \<le> n" "n < rounds E"
  defines "s0 \<equiv> initial_state w tc path name"
  shows "wpx (main_start G E) (\<lambda>e. e = Null_Deref \<and> \<not> host_known G \<or> e = Buffer_Overflow \<and> \<not> config_fits G E s0)
    (\<lambda>ok s. ok \<longrightarrow> ka_message_length (params s) < int KA_MESSAGE_SIZE \<and> (trace_off E \<longrightarrow> base T n False s)) s0"
proof -
  let ?F = "\<lambda>e. e = Null_Deref \<and> \<not> host_known G \<or> e = Buffer_Overflow \<and> \<not> config_fits G E s0"
  let ?Q = "\<lambda>ok s. ok \<longrightarrow> ka_message_length (params s) < int KA_MESSAGE_SIZE \<and> (trace_off E \<longrightarrow> base T n False s)"
  let ?B = "booted T (config_fits G E s0) (trace_off E) n"
  have close: "wpx (close_all G E) ?F ?Q s" "wpx (sq (ext_do g) (ret False)) ?F ?Q s" for s g
    by (rule wpx_wp, simp add: close_all_def wp_simps)+
  have port: "wpx (bnd (buildListeningPort G E) (\<lambda>rc. if rc \<noteq> 0 then close_all G E else start_threads G E)) ?F ?Q s"
    if "?B s" for s
    unfolding wpx_bnd
    by (rule wpx_wp, rule wp_mono [OF presD [OF pres_buildListeningPort [OF E G] that]])
      (auto intro: close wpx_weaken [OF wpx_start_threads [OF E G]])
  have watch: "wpx (bnd (buildInotify G E) (\<lambda>rc. if rc = -1 then close_all G E
      else bnd (buildListeningPort G E) (\<lambda>rc. if rc \<noteq> 0 then close_all G E else start_threads G E))) ?F ?Q s"
    if "?B s" for s
    unfolding wpx_bnd [of "buildInotify G E"]
    by (rule wpx_wp, rule wp_mono [OF presD [OF pres_buildInotify [OF E G] that]]) (simp add: close port)
  have ctx: "wpx (bnd (getRmrContext G E) (\<lambda>ctx. if \<not> ctx then sq (ext_do (fd_close E ep)) (ret False)
      else bnd (buildInotify G E) (\<lambda>rc. if rc = -1 then close_all G E
      else bnd (buildListeningPort G E) (\<lambda>rc. if rc \<noteq> 0 then close_all G E else start_threads G E)))) ?F ?Q s"
    if "?B s" for s ep
    unfolding wpx_bnd [of "getRmrContext G E"]
    by (rule wpx_wp, rule wp_mono [OF presD [OF pres_getRmrContext [OF E G w(2)] that]]) (simp add: watch close)
  have epoll: "wpx (bnd (ext (epoll_create1 G)) (\<lambda>ep. sq (set_param (\<lambda>p. p\<lparr>epoll_fd := ep\<rparr>))
     (if ep = -1 then ret False
      else bnd (getRmrContext G E) (\<lambda>ctx. if \<not> ctx then sq (ext_do (fd_close E ep)) (ret False)
      else bnd (buildInotify G E) (\<lambda>rc. if rc = -1 then close_all G E
      else bnd (buildListeningPort G E) (\<lambda>rc. if rc \<noteq> 0 then close_all G E else start_threads G E)))))) ?F ?Q s"
    if s: "?B s" for s
  proof -
    obtain ep v where ep: "epoll_create1 G (world s) = (ep, v)" by fastforce
    then have "T v \<le> T (world s)" using platform_okD(5) [OF G] by (simp add: steady_def)
    then have "?B (s\<lparr>world := v, params := (params s)\<lparr>epoll_fd := ep\<rparr>\<rparr>)"
      using s by (simp add: booted_def boot_def)
    from ctx [OF this] show ?thesis
      using ep unfolding wpx_bnd [of "ext _"] sq_def wpx_bnd [of "set_param _"]
      by (intro wpx_wp) (simp add: wp_ext wp_set_param wpx_ret wpx_wp)
  qed
  have metrics: "wpx (bnd (startPrometheus G) (\<lambda>_. bnd (ext (epoll_create1 G)) (\<lambda>ep.
     sq (set_param (\<lambda>p. p\<lparr>epoll_fd := ep\<rparr>))
     (if ep = -1 then ret False
      else bnd (getRmrContext G E) (\<lambda>ctx. if \<not> ctx then sq (ext_do (fd_close E ep)) (ret False)
      else bnd (buildInotify G E) (\<lambda>rc. if rc = -1 then close_all G E
      else bnd (buildListeningPort G E) (\<lambda>rc. if rc \<noteq> 0 then close_all G E else start_threads G E))))))) ?F ?Q s"
    if "boot T (config_fits G E s0) (trace_off E) n s" for s
    unfolding wpx_bnd [of "startPrometheus G"]
    by (rule wpx_mono [OF wpx_weaken [OF wpx_startPrometheus [OF G that]]]) (auto intro: epoll)
  show ?thesis
    unfolding main_start_def wpx_bnd [of "buildConfiguration G E"] s0_def
    by (rule wpx_mono [OF wpx_weaken [OF wpx_buildConfiguration [OF W w(1)]]])
      (auto simp: wpx_ret intro: metrics [unfolded s0_def])
qed

text \<open>
  C4. How the start-up ends. There are two faults it can end in: a null pointer, and only if the
  environment does not name the pod or the host's name or address cannot be found, and a buffer
  overrun, and only if the configuration that was found does not fit its buffers. Otherwise it
  exits or starts the listener; and if it starts the listener, the keep-alive message fits its
  array and, if no configuration file turns the message trace on, the listener's invariant holds:
  no connection, empty tables, both buffers allocated at full size and the counters of the instance
  built. That the platform adds nothing to
  the work of the world, that the routing library becomes ready and that it allocates the buffers
  it is asked for are the contracts.
\<close>
theorem startup_reaches_invariant:
  assumes "env_ok T E" "platform_ok T G" "watch_ok T E" "T w \<le> n" "n < rounds E"
  shows "case main_start G E (initial_state w tc path name) of
      Inl e \<Rightarrow> e = Null_Deref \<and> \<not> host_known G \<or> e = Buffer_Overflow \<and> \<not> config_fits G E (initial_state w tc path name)
    | Inr (ok, s) \<Rightarrow> ok \<longrightarrow> ka_message_length (params s) < int KA_MESSAGE_SIZE \<and> (trace_off E \<longrightarrow> base T n False s)"
  using wpx_main_start [OF assms, of tc path name] by (simp add: wpx_def)

lemma main_start_base:
  assumes "env_ok T E" "platform_ok T G" "watch_ok T E" "trace_off E" "T w \<le> n" "n < rounds E"
    and "main_start G E (initial_state w tc path name) = Inr (True, s)"
  shows "base T n False s" "ka_message_length (params s) < int KA_MESSAGE_SIZE"
  using wpx_main_start [OF assms(1-3,5,6), where tc = tc and path = path and name = name] assms(4,7)
  by (simp_all add: wpx_def)

lemma sample_watch_ok: "watch_ok sample_work sample_env"
  by (auto simp: watch_ok_def steady_def sample_env_def sample_changes_def sample_work_def split: list.splits)

lemma sample_file: "file_text sample_env p w = (t, w') \<Longrightarrow> openConfigFile t = Some es \<Longrightarrow> es = sample_entries"
  using sample_config_text by (auto simp: sample_env_def sample_entries_def)

lemma sample_trace_off: "trace_off sample_env"
proof -
  have "\<not> trace_on (getStringValue sample_entries ''trace'')"
    by (simp add: sample_entries_def getStringValue_def trace_on_def to_lower_def)
  then show ?thesis unfolding trace_off_def using sample_file by blast
qed

lemma sample_config_fits: "config_fits sample_platform sample_env s"
proof -
  have "length (ka_text (configured_names sample_platform sample_entries q)) < KA_MESSAGE_SIZE" for q
  proof -
    have "length (fmt_d 38000) \<le> 5" using length_nat_base [of 10 5 38000] by (simp add: fmt_d_def)
    then show ?thesis
      by (simp add: ka_text_def configured_names_def sample_ports KA_MESSAGE_SIZE_def)
        (simp add: sample_entries_def getStringValue_def c_str_def sample_platform_def)
  qed
  moreover have "es = sample_entries" if "config_found sample_env s = (Some es, w)" for es w
    using that sample_file by (auto simp: config_found_def split: prod.splits option.splits if_splits)
  ultimately show ?thesis using sample_entries_fit by (auto simp: config_fits_def split: prod.splits option.splits)
qed

lemma sample_platform_ok: "platform_ok sample_work sample_platform"
  by (simp add: platform_ok_def sample_platform_def steady_def)

lemma sample_host_known: "host_known sample_platform"
  by (simp add: host_known_def sample_platform_def)

theorem startup_reaches_invariant_witness:
  "\<exists>ok s. main_start sample_platform sample_env (initial_state sample_world 1 ''config'' ''config.conf'') = Inr (ok, s) \<and>
     (ok \<longrightarrow> base sample_work 0 False s)"
proof -
  have "sample_work sample_world \<le> 0" "0 < rounds sample_env"
    by (simp_all add: sample_work_def sample_world_def sample_env_def)
  from startup_reaches_invariant [OF sample_env_ok sample_platform_ok sample_watch_ok this, of 1 "''config''" "''config.conf''"]
  show ?thesis using sample_host_known sample_config_fits sample_trace_off by (auto split: sum.splits)
qed

section \<open>The announcement\<close>

text \<open>A send that does not end in \<^verbatim>\<open>RMR_OK\<close> takes from the world's work.\<close>

definition patient :: "('w \<Rightarrow> nat) \<Rightarrow> 'w env \<Rightarrow> bool" where
  "patient T E \<longleftrightarrow> (\<forall>b w r w'. rmr_send_msg E b w = (r, w') \<and> map_option mb_state r \<noteq> Some RMR_OK \<longrightarrow> T w' < T w)"

text \<open>The announcement was sent: the last send is of a message with the keep-alive text.\<close>

definition announced :: "('w \<Rightarrow> nat) \<Rightarrow> 'w env \<Rightarrow> 'w e2t \<Rightarrow> 'w e2t \<Rightarrow> bool" where
  "announced T E s s' \<longleftrightarrow> T (world s') \<le> T (world s) \<and> (\<exists>t m m' w. transactionCounter s \<le> t \<and>
     rmr_send_msg E (init_message E (params s) t m) w = (Some m', world s') \<and> mb_state m' = RMR_OK \<and>
     s' = s\<lparr>world := world s', transactionCounter := t + 1\<rparr>)"

lemma wp_send_init_rounds:
  assumes E: "env_ok T E" and P: "patient T E"
  shows "ka_message_length (params s) \<le> int KA_MESSAGE_SIZE \<Longrightarrow> T (world s) < k \<Longrightarrow>
    wp (send_init_rounds k E (Some m)) (\<lambda>_. announced T E s) s"
proof (induction k arbitrary: s m)
  case (Suc k)
  let ?t = "transactionCounter s" and ?l = "ka_message_length (params s)"
  let ?m = "init_message E (params s) ?t m"
  obtain r w where r: "rmr_send_msg E ?m (world s) = (r, w)" by fastforce
  show ?case
  proof (cases "map_option mb_state r = Some RMR_OK")
    case True
    then obtain m' where m': "r = Some m'" "mb_state m' = RMR_OK" by auto
    have "T w \<le> T (world s)" by (rule steady_rmr(1) [OF E r])
    then have "announced T E s (s\<lparr>transactionCounter := ?t + 1, world := w\<rparr>)"
      unfolding announced_def using r m' by (intro conjI, simp, intro exI [of _ ?t] exI [of _ m] exI [of _ m'] exI [of _ "world s"]) simp
    then show ?thesis using Suc.prems(1) r m' by (simp add: wp_simps)
  next
    case False
    then have less: "T w < T (world s)" using P r by (auto simp: patient_def)
    have later: "wp (send_init_rounds k E (Some m')) (\<lambda>_. announced T E s) (s\<lparr>transactionCounter := ?t + 1, world := v\<rparr>)"
      if "T v \<le> T w" for m' v
    proof (rule wp_mono [OF Suc.IH])
      show "T (world (s\<lparr>transactionCounter := ?t + 1, world := v\<rparr>)) < k" using that less Suc.prems(2) by simp
      fix x :: unit and s' assume "announced T E (s\<lparr>transactionCounter := ?t + 1, world := v\<rparr>) s'"
      then obtain t n n' u where t: "T (world s') \<le> T v" "?t + 1 \<le> t" "rmr_send_msg E (init_message E (params s) t n) u = (Some n', world s')"
          "mb_state n' = RMR_OK" "s' = s\<lparr>world := world s', transactionCounter := t + 1\<rparr>"
        by (auto simp: announced_def)
      moreover have "T (world s') \<le> T (world s)" using t(1) that less by linarith
      ultimately show "announced T E s s'"
        unfolding announced_def using t by (intro conjI, simp, intro exI [of _ t] exI [of _ n] exI [of _ n'] exI [of _ u]) simp
    qed (use Suc.prems(1) in simp)
    show ?thesis
    proof (cases r)
      case None
      obtain b v where a: "rmr_alloc_msg E ?l w = (Some b, v)" using rmr_returns(4) [OF E] by blast
      then have "T v \<le> T w" by (rule steady_rmr(4) [OF E])
      then show ?thesis using Suc.prems(1) r None a later by (simp add: wp_simps)
    next
      case (Some m')
      then have "mb_state m' \<noteq> RMR_OK" using False by simp
      then show ?thesis using Suc.prems(1) r Some later [of w] by (simp add: wp_simps)
    qed
  qed
qed simp

lemma wp_sendTermInit:
  assumes "env_ok T E" "patient T E" "ka_message_length (params s) \<le> int KA_MESSAGE_SIZE" "T (world s) < rounds E"
  shows "wp (sendTermInit E) (\<lambda>_. announced T E s) s"
proof -
  let ?l = "ka_message_length (params s)"
  obtain b v where a: "rmr_alloc_msg E ?l (world s) = (Some b, v)" using rmr_returns(4) [OF assms(1)] by blast
  then have v: "T v \<le> T (world s)" by (rule steady_rmr(4) [OF assms(1)])
  then have "wp (send_init_rounds (rounds E) E (Some b)) (\<lambda>_. announced T E (s\<lparr>world := v\<rparr>)) (s\<lparr>world := v\<rparr>)"
    using assms(3,4) by (intro wp_send_init_rounds [OF assms(1,2)]) simp_all
  then have "wp (send_init_rounds (rounds E) E (Some b)) (\<lambda>_. announced T E s) (s\<lparr>world := v\<rparr>)"
    by (rule wp_mono) (use v in \<open>auto simp: announced_def\<close>)
  then show ?thesis using a by (simp add: sendTermInit_def wp_simps)
qed

text \<open>
  C34. The announcement gets through: as long as the routing library does not refuse messages
  for ever, \<^verbatim>\<open>sendTermInit\<close> ends, having sent a message of type \<^verbatim>\<open>E2_TERM_INIT\<close> with the
  keep-alive text that the library accepted, and changed nothing but the transaction counter.
\<close>
theorem announcement_sent:
  assumes "env_ok T E" "patient T E" "ka_message_length (params s) \<le> int KA_MESSAGE_SIZE" "T (world s) < rounds E"
  shows "wp (sendTermInit E) (\<lambda>_ s'. \<exists>t m m' w. transactionCounter s \<le> t \<and>
     rmr_send_msg E (init_message E (params s) t m) w = (Some m', world s') \<and> mb_state m' = RMR_OK \<and>
     s' = s\<lparr>world := world s', transactionCounter := t + 1\<rparr>) s"
  by (rule wp_mono [OF wp_sendTermInit [OF assms]]) (simp add: announced_def)

theorem announcement_sent_witness:
  "wp (sendTermInit sample_env) (\<lambda>_ s'. transactionCounter s' \<ge> 2) (initial_state sample_world 1 ''config'' ''config.conf'')"
proof (rule wp_mono [OF announcement_sent [OF sample_env_ok]])
  show "patient sample_work sample_env"
    by (auto simp: patient_def sample_env_def sample_send_def)
  fix x :: unit and s'
  assume "\<exists>t m m' w. transactionCounter (initial_state sample_world 1 ''config'' ''config.conf'') \<le> t \<and>
     rmr_send_msg sample_env (init_message sample_env (params (initial_state sample_world 1 ''config'' ''config.conf'')) t m) w =
       (Some m', world s') \<and> mb_state m' = RMR_OK \<and>
     s' = (initial_state sample_world 1 ''config'' ''config.conf'')\<lparr>world := world s', transactionCounter := t + 1\<rparr>"
  then obtain t where "1 \<le> t" "s' = (initial_state sample_world 1 ''config'' ''config.conf'')
      \<lparr>world := world s', transactionCounter := t + 1\<rparr>"
    by (auto simp: initial_state_def)
  then show "2 \<le> transactionCounter s'"
    by (metis (no_types, lifting) add_mono_thms_linordered_semiring(1) e2t.select_convs(13) e2t.surjective e2t.update_convs(13) one_add_one order_refl)
qed (simp_all add: initial_state_def initial_params_def KA_MESSAGE_SIZE_def sample_work_def sample_world_def sample_env_def)

lemma term_init_sends:
  "k + length xs < 2 ^ 31 \<Longrightarrow> term_init_rounds E (int k) xs =
    sq (iter (\<lambda>_. sendTermInit E) (replicate ((k + length (takeWhile (\<lambda>x. x \<le> 0) xs)) div 1000 - k div 1000) ()))
      (ret (list_ex (\<lambda>x. x > 0) xs))"
proof (induction xs arbitrary: k)
  case (Cons x xs)
  show ?case
  proof (cases "x > 0")
    case True
    then show ?thesis by (simp add: sq_ret)
  next
    case False
    let ?n = "length (takeWhile (\<lambda>x. x \<le> 0) xs)"
    have small: "int k < 2 ^ 31 - 1" using Cons.prems by simp
    have IH: "term_init_rounds E (int k + 1) xs =
        sq (iter (\<lambda>_. sendTermInit E) (replicate ((Suc k + ?n) div 1000 - Suc k div 1000) ())) (ret (list_ex (\<lambda>x. x > 0) xs))"
      using Cons.IH [of "Suc k"] Cons.prems by (simp add: add.commute)
    have sent: "(Suc k + ?n) div 1000 - k div 1000 =
        (if (int k + 1) mod 1000 = 0 then Suc ((Suc k + ?n) div 1000 - Suc k div 1000)
         else (Suc k + ?n) div 1000 - Suc k div 1000)"
    proof -
      have "(int k + 1) mod 1000 = int (Suc k mod 1000)" by (simp add: zmod_int add.commute)
      moreover have "Suc k div 1000 \<le> (Suc k + ?n) div 1000" by (rule div_le_mono) simp
      ultimately show ?thesis using div_Suc [of k 1000] by (auto split: if_splits)
    qed
    show ?thesis
      using False small IH sent by (simp add: require_def sq_ret sq_assoc whenM_def)
  qed
qed (simp add: sq_ret)

text \<open>
  C35. How often the terminator announces itself: once, and once more after every thousand
  rounds of the loop that still read no message of an xApp; the loop returns exactly if one
  of its rounds reads a positive count.
\<close>
theorem announcements_repeated:
  assumes "length xs < 2 ^ 31"
  shows "handleTermInit E xs =
    sq (iter (\<lambda>_. sendTermInit E) (replicate (1 + length (takeWhile (\<lambda>x. x \<le> 0) xs) div 1000) ()))
      (ret (list_ex (\<lambda>x. x > 0) xs))"
  using term_init_sends [of 0 xs E] assms by (simp add: handleTermInit_def sq_assoc sq_ret)

theorem announcements_repeated_witness:
  "handleTermInit sample_env [0, 0, 4] = sq (iter (\<lambda>_. sendTermInit sample_env) [()]) (ret True)"
  using announcements_repeated [of "[0, 0, 4]" sample_env] by simp

end
