(* ===== verification/E2_Messages.thy ===== *)
theory E2_Messages
  imports E2_Boot
begin

text \<open>
  What the handlers achieve: a setup request registers its node, a node's messages change the
  procedure state of that node only, an indication goes to the xApp that asked for it, and the
  requests of the xApps reach the node they name.
\<close>

section \<open>A node's messages and the rest of the state\<close>

text \<open>The states that agree with \<open>s0\<close> but for the node \<open>k\<close>'s procedure state.\<close>

definition own_entry :: "'w e2t \<Rightarrow> string \<Rightarrow> 'w e2t \<Rightarrow> bool" where
  "own_entry s0 k s \<longleftrightarrow> cstr (msg_enodbName (msg s)) = Some k \<and>
     (\<forall>n. n \<noteq> k \<longrightarrow> map_of (e2map s) n = map_of (e2map s0) n) \<and> sctpMap s = sctpMap s0 \<and>
     dom (heap s) = dom (heap s0) \<and> params s = params s0 \<and> rcvMessage s = rcvMessage s0 \<and>
     (\<forall>a c. heap s a = Some c \<longrightarrow> (\<exists>c0. heap s0 a = Some c0 \<and> cu_enodbName c = cu_enodbName c0 \<and>
        fileDescriptor c = fileDescriptor c0))"

interpretation isolated: frame E "own_entry s0 k" for E :: "'w env" and s0 k
proof unfold_locales
  fix s :: "'w e2t" and a and c c' :: ConnectedCU
  assume s: "own_entry s0 k s" and c: "heap s a = Some c" "cu_enodbName c' = cu_enodbName c"
    "fileDescriptor c' = fileDescriptor c"
  have "dom ((heap s)(a \<mapsto> c')) = dom (heap s0)" using s c(1) by (auto simp: own_entry_def)
  then show "own_entry s0 k (s\<lparr>heap := (heap s)(a \<mapsto> c')\<rparr>)"
    using s c by (auto simp: own_entry_def)
qed (auto simp: own_entry_def)

definition is_setup :: "E2AP_PDU \<Rightarrow> bool" where
  "is_setup pdu \<longleftrightarrow> pdu_present pdu = initiatingMessage \<and> procedureCode pdu = ProcedureCode_id_E2setup"

lemma keeps_own_entry_pdu: "\<not> is_setup pdu \<Longrightarrow> keeps (own_entry s0 k) (handle_pdu E pdu st)"
  by (cases "pdu_present pdu") (simp_all add: handle_pdu_def is_setup_def keeps_ret
      isolated.keeps_initiating isolated.keeps_successful isolated.keeps_unsuccessful)

text \<open>
  C2. A message of a node, other than its setup request, never changes the procedure state of
  another node, the table of connections, the configuration or the message of an xApp that
  waits in the receive buffer; it neither allocates nor frees a connection, and leaves every
  connection its name and its descriptor.
\<close>
theorem node_message_isolated:
  assumes "handle_pdu E pdu st s = Inr ((), s')" "cstr (msg_enodbName (msg s)) = Some k" "\<not> is_setup pdu"
  shows "(\<forall>n. n \<noteq> k \<longrightarrow> map_of (e2map s') n = map_of (e2map s) n) \<and> sctpMap s' = sctpMap s \<and>
     dom (heap s') = dom (heap s) \<and> params s' = params s \<and> rcvMessage s' = rcvMessage s \<and>
     (\<forall>a c. heap s' a = Some c \<longrightarrow> (\<exists>c0. heap s a = Some c0 \<and> cu_enodbName c = cu_enodbName c0 \<and>
        fileDescriptor c = fileDescriptor c0))"
proof -
  have "own_entry s k s" using assms(2) by (simp add: own_entry_def)
  from keepsD [OF keeps_own_entry_pdu [OF assms(3)] this assms(1)] show ?thesis by (simp add: own_entry_def)
qed

section \<open>The setup request\<close>

text \<open>The states in which the connection has been registered, with the procedure states \<open>e\<close>.\<close>

definition registered :: "nat \<Rightarrow> string \<Rightarrow> map_wrapper \<Rightarrow> conn_map \<Rightarrow> 'w e2t \<Rightarrow> bool" where
  "registered a k m e s \<longleftrightarrow> cstr (msg_enodbName (msg s)) = Some k \<and> peerInfo (msg s) = Some a \<and>
     sctpMap s = m \<and> e2map s = e \<and> (\<exists>c. heap s a = Some c \<and> has_name c k)"

interpretation registered: call_frame E "registered a k m e" for E :: "'w env" and a k m e
proof unfold_locales
  fix s :: "'w e2t" and a' and c c' :: ConnectedCU
  assume s: "registered a k m e s" and c: "heap s a' = Some c" "cu_enodbName c' = cu_enodbName c"
    "fileDescriptor c' = fileDescriptor c"
  have "has_name c' k = has_name c k" using c(2) by (simp add: has_name_def)
  then show "registered a k m e (s\<lparr>heap := (heap s)(a' \<mapsto> c')\<rparr>)"
    using s c by (auto simp: registered_def)
qed (auto simp: registered_def)

lemma get_status_map_of: "k \<noteq> [] \<Longrightarrow> getE2tProcedureOngoingStatus m k = map_of m k"
  by (simp add: getE2tProcedureOngoingStatus_def find_entry_map_of)

lemma named_counters: "base T n f s \<Longrightarrow> heap s a = Some c \<Longrightarrow> has_name c k \<Longrightarrow> k \<noteq> [] \<Longrightarrow> counters c = buildPrometheusList k"
proof -
  assume s: "base T n f s" "heap s a = Some c" "has_name c k" "k \<noteq> []"
  then have "CU_ok c" by (simp add: base_def core_def heap_ok_def)
  then obtain k' where k': "has_name c k'" "k' \<noteq> [] \<longrightarrow> counters c = buildPrometheusList k'" by (auto simp: CU_ok_def)
  then show "counters c = buildPrometheusList k" using has_name_unique [OF s(3) k'(1)] s(4) by simp
qed

lemma registered_named:
  assumes "good_setup k pdu" "node_at N E a fd k s"
  shows "registered a k (map_setkey (sctpMap s) k a) (e2map s) (named k a c s)"
proof -
  have "peerInfo (msg s) = Some a" using assms(2) by (simp add: node_at_def)
  then show ?thesis
    using good_setup_name [OF assms(1)] by (simp add: registered_def named_def named_CU_def has_name_def)
qed

text \<open>
  C1. A well-formed setup request from a connection that has no name yet, or repeats its name, registers
  the node: the table leads from the node's RAN name to the connection, the connection has
  that name and its counters, the node's procedure state is that of an ongoing setup with the
  request's transaction ID (the first one, if the node was known), and no other node's
  procedure state changes.
\<close>
theorem setup_registers_node:
  assumes "env_ok T E" "good_setup k pdu" "base T n f s" "node_at N E a fd k s" "same_name s" "is_setup pdu"
  shows "wp (handle_pdu E pdu st) (\<lambda>_ s'. map_find (sctpMap s') k = Some a \<and>
    (\<exists>c. heap s' a = Some c \<and> has_name c k \<and> counters c = buildPrometheusList k) \<and>
    getE2tProcedureOngoingStatus (e2map s') k = Some \<lparr>e2tProcedureOngoingStatus = E2_SETUP_PROCEDURE_ONGOING,
      e2SetupProcedureTransactionId = (case getE2tProcedureOngoingStatus (e2map s) k of
         None \<Rightarrow> setup_transaction pdu | Some h \<Rightarrow> e2SetupProcedureTransactionId h)\<rparr> \<and>
    (\<forall>n. n \<noteq> k \<longrightarrow> map_of (e2map s') n = map_of (e2map s) n)) s"
proof -
  obtain c where c: "heap s a = Some c" using assms(4) by (auto simp: node_at_def)
  have k: "k \<noteq> []" using assms(2) by (simp add: good_setup_def)
  note front = wp_keeps [OF wp_setup_front [OF assms(1-4) c] registered.keeps_setup_front registered_named [OF assms(2,4)]]
  have last: "wp (insert_setup (setup_transaction pdu)) (\<lambda>_ s'. map_find (sctpMap s') k = Some a \<and>
      (\<exists>c. heap s' a = Some c \<and> has_name c k \<and> counters c = buildPrometheusList k) \<and>
      map_of (e2map s') k = Some (setup_value (setup_transaction pdu) (map_of (e2map s) k)) \<and>
      (\<forall>n. n \<noteq> k \<longrightarrow> map_of (e2map s') n = map_of (e2map s) n)) t"
    if "active T n f t" "registered a k (map_setkey (sctpMap s) k a) (e2map s) t" for t
    using that k named_counters [OF active_base [OF that(1)]]
    by (auto simp: insert_setup_def wp_simps registered_def map_find_map_of map_of_setkey map_of_insertE2Setup)
  have "wp (got_E2setup E pdu st) (\<lambda>_ s'. map_find (sctpMap s') k = Some a \<and>
      (\<exists>c. heap s' a = Some c \<and> has_name c k \<and> counters c = buildPrometheusList k) \<and>
      map_of (e2map s') k = Some (setup_value (setup_transaction pdu) (map_of (e2map s) k)) \<and>
      (\<forall>n. n \<noteq> k \<longrightarrow> map_of (e2map s') n = map_of (e2map s) n)) s"
    unfolding wp_setup_named [OF assms(2,4,5) c] wp_sq by (rule wp_mono [OF front last]) simp_all
  then have "wp (handle_pdu E pdu st) (\<lambda>_ s'. map_find (sctpMap s') k = Some a \<and>
      (\<exists>c. heap s' a = Some c \<and> has_name c k \<and> counters c = buildPrometheusList k) \<and>
      map_of (e2map s') k = Some (setup_value (setup_transaction pdu) (map_of (e2map s) k)) \<and>
      (\<forall>n. n \<noteq> k \<longrightarrow> map_of (e2map s') n = map_of (e2map s) n)) s"
    using assms(6) by (simp add: handle_pdu_def asnInitiatingRequest_def is_setup_def)
  then show ?thesis
    by (rule wp_mono) (simp add: get_status_map_of [OF k] setup_value_def split: option.split)
qed

theorem setup_registers_node_witness:
  "wp (handle_pdu sample_env sample_setup 0) (\<lambda>_ s'. map_find (sctpMap s') sample_name = Some 1) sample_fresh"
proof (rule wp_mono [OF setup_registers_node [OF sample_env_ok sample_setup_good sample_fresh_base sample_fresh_node]])
  show "is_setup sample_setup" by (simp add: is_setup_def sample_setup_def)
qed simp

definition sample_indication :: E2AP_PDU where
  "sample_indication = \<lparr>pdu_present = initiatingMessage, procedureCode = ProcedureCode_id_RICindication,
     protocolIEs = [\<lparr>ie_id = ProtocolIE_ID_id_RICrequestID, ie_value = IE_RICrequestID 3 17\<rparr>], pdu_rest = []\<rparr>"

lemma sample_state_simps:
  "cstr (msg_enodbName (msg sample_state)) = Some sample_name" "map_of (e2map sample_state) sample_name = Some sample_setup_done"
  "sendMessage sample_state = Some (sample_buffer 1 (int RECEIVE_SCTP_BUFFER_SIZE))"
  "rcvMessage sample_state = Some (sample_buffer 2 (int RECEIVE_SCTP_BUFFER_SIZE))"
  "sctpMap sample_state = [(sample_name, 1)]" "heap sample_state = [1 \<mapsto> sample_CU]" "world sample_state = sample_world"
  using sample_name_ok by (simp_all add: sample_state_def sample_idle_def initial_state_def)

theorem node_message_isolated_witness:
  "\<exists>s'. handle_pdu sample_env (sample_indication\<lparr>protocolIEs := []\<rparr>) 0 sample_state = Inr ((), s') \<and> sctpMap s' = [(sample_name, 1)]"
proof -
  have "handle_pdu sample_env (sample_indication\<lparr>protocolIEs := []\<rparr>) 0 sample_state =
      Inr ((), sample_state\<lparr>e2map := setE2ProcedureOngoingStatus (e2map sample_state) sample_name RIC_INDICATION_PROCEDURE_ONGOING\<rparr>)"
    (is "?m = Inr ((), ?s)")
  proof -
    have "wp (handle_pdu sample_env (sample_indication\<lparr>protocolIEs := []\<rparr>) 0) (\<lambda>_ s. s = ?s) sample_state"
      using sample_state_simps sample_name_ok
      by (simp add: handle_pdu_def sample_indication_def asnInitiatingRequest_def got_RICindication_def if_known_def
          wp_simps get_status_map_of)
    then show ?thesis by (auto dest: wp_exec)
  qed
  from node_message_isolated [OF this] show ?thesis
    using \<open>?m = Inr ((), ?s)\<close> sample_state_simps by (simp add: is_setup_def sample_indication_def)
qed

section \<open>Indications\<close>

lemma write_entry_Nil [simp]: "write_entry n st m = [] \<longleftrightarrow> m = []"
  by (induction n st m rule: write_entry.induct) auto

text \<open>The message for the xApp: the octets received, with the instance that asked for them.\<close>

definition indication_message :: "'w env \<Rightarrow> string \<Rightarrow> int \<Rightarrow> int \<Rightarrow> rmr_mbuf \<Rightarrow> rmr_mbuf" where
  "indication_message E k t i b = (rmr_bytes2meid E k (rmr_bytes2xact E (tx_text t) (b\<lparr>mb_mtype := RIC_INDICATION\<rparr>)))
     \<lparr>mb_state := RMR_OK, mb_sub_id := to_int32 i\<rparr>"

lemma indication_skip:
  "list_all (\<lambda>x. ie_id x \<noteq> ProtocolIE_ID_id_RICrequestID) xs \<Longrightarrow> indication_ies E (xs @ ys) = indication_ies E ys"
  by (induction xs) simp_all

lemma wp_count:
  assumes s: "built s" "e2tCounters (params s) = buildE2TPrometheusCounters"
    and d: "(d, p) \<in> set peer_cells" "(d', p) \<in> set e2t_cells" and Q: "\<And>v. Q () (s\<lparr>metrics := v\<rparr>)"
  shows "wp (count_message d d' p x) Q s"
proof -
  obtain a c k where p: "peerInfo (msg s) = Some a" "heap s a = Some c" "counters c = buildPrometheusList k"
    using s(1) by (auto simp: built_def)
  obtain l1 l2 l3 l4 where "counter_at (counters c) d MSG_COUNTER p = Some l1" "counter_at (counters c) d BYTES_COUNTER p = Some l2"
    "counter_at (e2tCounters (params s)) d' MSG_COUNTER p = Some l3"
    "counter_at (e2tCounters (params s)) d' BYTES_COUNTER p = Some l4"
    using counter_some [OF peer_cells_built [OF d(1)]] counter_some [OF e2t_cells_built [OF d(2)]] p(3) s(2) by metis
  then show ?thesis using Q p by (simp add: count_message_def wp_simps)
qed

lemma active_built: "active T n f s \<Longrightarrow> built s" "active T n f s \<Longrightarrow> e2tCounters (params s) = buildE2TPrometheusCounters"
  by (simp_all add: state_defs)

lemma built_other: "peerInfo (msg t) = peerInfo (msg s) \<Longrightarrow> heap t = heap s \<Longrightarrow> built t = built s"
  by (simp add: built_def)

lemma wp_send_accepted:
  assumes "\<not> jsonTrace s" "sendMessage s = Some b" "rmr_send_msg E b (world s) = (Some b', w')" "mb_state b' = RMR_OK"
  shows "wp (send_message E) Q s = Q () (s\<lparr>world := w', sendMessage := Some b'\<rparr>)"
  using assms by (simp add: send_message_def sendRmrMessage_def set_send_def wp_simps no_trace)

text \<open>
  C3. An indication of a node that is set up goes to the xApps as it was received: the message
  handed to the routing library is the receive buffer with the message type, the transaction
  number, the node's name and, as subscription, the instance of the first RIC request ID; the
  node's procedure then is a completed indication.
\<close>
theorem indication_forwarded:
  assumes "active T n True s" "cstr (msg_enodbName (msg s)) = Some k" "k \<noteq> []" "map_of (e2map s) k = Some h"
    and "pdu_present pdu = initiatingMessage" "procedureCode pdu = ProcedureCode_id_RICindication"
    and "protocolIEs pdu = xs @ ie # ys" "list_all (\<lambda>x. ie_id x \<noteq> ProtocolIE_ID_id_RICrequestID) xs"
      "ie_id ie = ProtocolIE_ID_id_RICrequestID" "ie_value ie = IE_RICrequestID r i"
    and "sendMessage s = Some b"
      "rmr_send_msg E (indication_message E k (transactionCounter s) i b) (world s) = (Some b', w')" "mb_state b' = RMR_OK"
  shows "wp (handle_pdu E pdu st) (\<lambda>_ s'. world s' = w' \<and> sendMessage s' = Some b' \<and>
    getE2tProcedureOngoingStatus (e2map s') k = Some (h\<lparr>e2tProcedureOngoingStatus := RIC_INDICATION_PROCEDURE_COMPLETED\<rparr>)) s"
proof -
  have ne: "e2map s \<noteq> []" using assms(4) by auto
  let ?e = "setE2ProcedureOngoingStatus (e2map s) k RIC_INDICATION_PROCEDURE_ONGOING"
  let ?m = "indication_message E k (transactionCounter s) i b"
  let ?s = "s\<lparr>e2map := ?e, msg := (msg s)\<lparr>messageType := RIC_INDICATION\<rparr>,
    transactionCounter := transactionCounter s + 1, sendMessage := Some ?m\<rparr>"
  have tr: "\<not> jsonTrace s" by (rule base_no_trace [OF active_base [OF assms(1)]])
  have count: "wp (count_in IN_INITI ProcedureCode_id_RICindication) R ?s" if R: "\<And>v. R () (?s\<lparr>metrics := v\<rparr>)" for R
  proof -
    have "built ?s" using active_built(1) [OF assms(1)] by (subst built_other [of ?s s]) simp_all
    then show ?thesis
      using active_built(2) [OF assms(1)] R in_cells in_e2t_cells
      unfolding count_in_def wp_bnd wp_gets by (intro wp_count) simp_all
  qed
  have send: "wp (send_message E) R (?s\<lparr>metrics := v\<rparr>) = R () (?s\<lparr>metrics := v, world := w', sendMessage := Some b'\<rparr>)" for v R
    using tr assms(12,13) by (subst wp_send_accepted [where b = ?m and b' = b' and w' = w']) simp_all
  have "wp (send_indication E i) (\<lambda>_. wp (set_procedure RIC_INDICATION_PROCEDURE_COMPLETED) (\<lambda>_ s'.
      world s' = w' \<and> sendMessage s' = Some b' \<and> map_of (e2map s') k =
        Some (h\<lparr>e2tProcedureOngoingStatus := RIC_INDICATION_PROCEDURE_COMPLETED\<rparr>))) (s\<lparr>e2map := ?e\<rparr>)"
  proof -
    define front where "front = seqs [set_type RIC_INDICATION, upd_send (\<lambda>b. b\<lparr>mb_mtype := RIC_INDICATION\<rparr>), stamp E,
        upd_send (\<lambda>b. b\<lparr>mb_state := RMR_OK, mb_sub_id := to_int32 i\<rparr>)]"
    have front: "wp front R (s\<lparr>e2map := ?e\<rparr>) = R () ?s" for R
      using assms(2,11) by (simp add: front_def set_type_def stamp_def wp_simps indication_message_def)
    have parts: "send_indication E i = sq front (sq (count_in IN_INITI ProcedureCode_id_RICindication) (send_message E))"
      by (simp add: send_indication_def front_def sq_assoc sq_ret_right)
    show ?thesis
      unfolding parts wp_sq front
      by (rule count, unfold send)
        (use assms(2,4) ne in \<open>simp add: wp_set_procedure setE2ProcedureOngoingStatus_def map_of_write_entry\<close>)
  qed
  then show ?thesis
    using assms(2-10) ne tr
    by (simp add: handle_pdu_def asnInitiatingRequest_def got_RICindication_def if_known_def indication_skip
      get_status_map_of wp_simps)
qed

theorem indication_forwarded_witness:
  "wp (handle_pdu sample_env sample_indication 0) (\<lambda>_ s'. map_option (mb_sub_id \<circ> hd \<circ> rmr_sent) (Some (world s')) = Some 17) sample_state"
proof -
  let ?b = "sample_buffer 1 (int RECEIVE_SCTP_BUFFER_SIZE)"
  let ?m = "indication_message sample_env sample_name (transactionCounter sample_state) 17 ?b"
  have sent: "rmr_send_msg sample_env ?m (world sample_state) =
      (Some (?m\<lparr>mb_id := mb_id ?m + 1, mb_state := RMR_OK\<rparr>), sample_world\<lparr>rmr_sent := [?m]\<rparr>)"
    using sample_state_simps by (simp add: sample_env_def sample_send_def sample_world_def)
  have "wp (handle_pdu sample_env sample_indication 0) (\<lambda>_ s'. world s' = sample_world\<lparr>rmr_sent := [?m]\<rparr> \<and>
      sendMessage s' = Some (?m\<lparr>mb_id := mb_id ?m + 1, mb_state := RMR_OK\<rparr>) \<and>
      getE2tProcedureOngoingStatus (e2map s') sample_name =
        Some (sample_setup_done\<lparr>e2tProcedureOngoingStatus := RIC_INDICATION_PROCEDURE_COMPLETED\<rparr>)) sample_state"
    by (rule indication_forwarded [OF sample_state_active sample_state_simps(1) sample_name_ok(4) sample_state_simps(2)
          _ _ _ _ _ _ sample_state_simps(3) sent, where xs = "[]" and ys = "[]" and r = 3
          and ie = "\<lparr>ie_id = ProtocolIE_ID_id_RICrequestID, ie_value = IE_RICrequestID 3 17\<rparr>"])
      (simp_all add: sample_indication_def)
  then show ?thesis
    by (rule wp_mono) (simp add: indication_message_def to_int32_def signed_take_bit_int_eq_self)
qed

section \<open>Answers to a reset\<close>

text \<open>What the forwarding of a message leaves to the counters.\<close>

definition uncounted :: "(labels \<Rightarrow> int) \<Rightarrow> sctp_params \<Rightarrow> 'w e2t \<Rightarrow> bool" where
  "uncounted v p s \<longleftrightarrow> metrics s = v \<and> params s = p"

lemma uncounted_forward:
  "keeps (uncounted v p) (XML_From_PER E)" "keeps (uncounted v p) (request_to_xapp E t)"
proof -
  have set_send: "keeps (uncounted v p) (set_send r)" "keeps (uncounted v p) (upd_msg g)" for r g
    unfolding set_send_def upd_msg_def by (rule keeps_modify; simp add: uncounted_def)+
  have ext: "keeps (uncounted v p) (ext f)" for f
    by (auto intro!: keepsI simp: ext_def uncounted_def split: prod.splits)
  have lift: "keeps (uncounted v p) (lift_fault x)" for x
    unfolding lift_fault_def by (auto split: sum.split intro!: keeps_intros)
  have reads: "keeps (uncounted v p) get_send" "keeps (uncounted v p) message_name" "keeps (uncounted v p) (read_asn q)" for q
    unfolding get_send_def message_name_def read_asn_def deref_def
    by (auto split: asn_ptr.split intro!: keeps_intros)
  have writes: "keeps (uncounted v p) (upd_send h)" "keeps (uncounted v p) next_transaction" for h
    unfolding upd_send_def next_transaction_def
    by (intro keeps_intros reads set_send keeps_modify; simp add: uncounted_def)+
  have json: "keeps (uncounted v p) (buildJsonMessage E)"
    unfolding buildJsonMessage_def asn_source_def
    by (intro keeps_intros lift reads set_send keeps_modify) (simp add: uncounted_def)
  show "keeps (uncounted v p) (XML_From_PER E)"
    unfolding XML_From_PER_def by (intro keeps_intros lift reads set_send)
  show "keeps (uncounted v p) (request_to_xapp E t)"
    unfolding request_to_xapp_def sendRequestToXapp_def sendRmrMessage_def alloc_send_def
    by (intro keeps_intros reads writes json ext set_send)
qed

text \<open>
  C22. The answer of a node to a reset is handled to its end and is never counted: neither the
  counters of its connection nor those of the instance change, whether it is forwarded or not.
  The cell that the handler checks before it counts is not one that the start-up builds.
\<close>
theorem reset_answers_uncounted:
  assumes "env_ok T E" "base T n True s" "same_name s"
    and "pdu_present pdu = successfulOutcome" "procedureCode pdu = ProcedureCode_id_Reset"
  shows "wp (handle_pdu E pdu st) (\<lambda>_ s'. metrics s' = metrics s) s"
proof -
  have none: "counter_at (e2tCounters (params s)) IN_SUCC MSG_COUNTER ProcedureCode_id_Reset = None"
    using assms(2) reset_ack_not_built by (simp add: base_def core_def)
  have count: "keeps (\<lambda>t. t = s) (count_in_if IN_SUCC ProcedureCode_id_Reset)"
    using none by (auto simp: keeps_def count_in_if_def e2t_counter_def peer_def peer_addr_def deref_def bnd_def gets_def
        need_def ret_def raise_def whenM_def split: sum.splits option.splits if_splits)
  have "metrics s' = metrics s" if run: "asnSuccessfulMsg E pdu s = Inr (x, s')" for x s'
  proof -
    define rest where "rest = bnd (XML_From_PER E) (\<lambda>rc. if rc < 0 then ret () else request_to_xapp E RIC_E2_RESET_RESP)"
    have rest: "keeps (uncounted (metrics s) (params s)) rest"
      unfolding rest_def by (intro keeps_intros uncounted_forward)
    have ack: "got_Reset_ack E = if_known (\<lambda>_. sq (count_in_if IN_SUCC ProcedureCode_id_Reset) rest)"
      by (simp add: got_Reset_ack_def rest_def)
    consider "s' = s" | t where "count_in_if IN_SUCC ProcedureCode_id_Reset s = Inr ((), t)" "rest t = Inr (x, s')"
      using run assms(5) by (auto simp: asnSuccessfulMsg_def Let_def ack if_known_def
          message_name_def bnd_def gets_def need_def ret_def raise_def sq_def split: sum.splits option.splits)
    then show ?thesis
    proof cases
      case (2 t)
      then have "t = s" using keepsD [OF count] by blast
      then have "uncounted (metrics s) (params s) t" by (simp add: uncounted_def)
      from keepsD [OF rest this 2(2)] show ?thesis by (simp add: uncounted_def)
    qed simp
  qed
  then show ?thesis
    using wp_exec [OF wp_asnSuccessfulMsg [OF assms(1-3), of pdu]] assms(4) by (auto simp: handle_pdu_def wp_def)
qed

definition sample_reset_answer :: E2AP_PDU where
  "sample_reset_answer = sample_indication\<lparr>pdu_present := successfulOutcome, procedureCode := ProcedureCode_id_Reset\<rparr>"

theorem reset_answers_uncounted_witness:
  "wp (handle_pdu sample_env sample_reset_answer 0) (\<lambda>_ s'. metrics s' = metrics sample_state) sample_state"
proof (rule reset_answers_uncounted [OF sample_env_ok sample_state_base])
  show "same_name sample_state"
    using sample_state_simps by (simp add: same_name_def sample_state_def sample_idle_def sample_CU_def)
qed (simp_all add: sample_reset_answer_def)

section \<open>A change of the configuration\<close>

theorem config_change_only_trace_witness:
  "\<exists>s'. handleConfigChange sample_env
      (sample_state\<lparr>world := sample_world\<lparr>changes := [[\<lparr>in_isdir = False, in_close_write = True, in_name = None\<rparr>]]\<rparr>\<rparr>) =
        Inr ((), s') \<and> sctpMap s' = [(sample_name, 1)]"
proof -
  let ?w = "sample_world\<lparr>changes := [[\<lparr>in_isdir = False, in_close_write = True, in_name = None\<rparr>]]\<rparr>"
  let ?s = "sample_state\<lparr>world := ?w\<rparr>"
  have "base sample_work 1 True ?s"
    using sample_state_base by (simp add: base_def core_def sample_work_def sample_world_def)
  then have "wp (handleConfigChange sample_env) (\<lambda>_. base sample_work 1 True) ?s"
    by (rule wp_handleConfigChange [OF sample_watch_ok sample_trace_off]) (simp add: sample_env_def)
  then obtain s' where s': "handleConfigChange sample_env ?s = Inr ((), s')" by (auto dest: wp_exec)
  then show ?thesis using config_change_only_trace [OF s'] sample_state_simps by auto
qed

end
