(* ===== verification/E2_System.thy ===== *)
theory E2_System
  imports E2_Messages E2_Run
begin

text \<open>
  The terminator as a whole: the listener is a transition system, started by the start-up, that
  handles the events \<^verbatim>\<open>epoll_wait\<close> reports one after the other while the world moves on
  between them. Its invariant holds in every reachable state, and the events that end in a fault
  there are exactly those of freed connections and the errors of the two descriptors that are not
  expected to have any.
\<close>

section \<open>Transition systems and their invariants\<close>

locale transition_system =
  fixes init :: "'s \<Rightarrow> bool" and step :: "'s \<Rightarrow> 'e \<Rightarrow> 's \<Rightarrow> bool"
begin

inductive reachable :: "'s \<Rightarrow> bool" where
  reach_init: "init s \<Longrightarrow> reachable s"
| reach_step: "reachable s \<Longrightarrow> step s e s' \<Longrightarrow> reachable s'"

inductive runs :: "'s \<Rightarrow> 'e list \<Rightarrow> 's \<Rightarrow> bool" where
  runs_Nil: "runs s [] s"
| runs_Cons: "step s e s' \<Longrightarrow> runs s' es s'' \<Longrightarrow> runs s (e # es) s''"

lemma runs_append: "runs s es s' \<Longrightarrow> runs s' es' s'' \<Longrightarrow> runs s (es @ es') s''"
  by (induction rule: runs.induct) (auto intro: runs_Cons)

lemma reachable_runs: "runs s es s' \<Longrightarrow> reachable s \<Longrightarrow> reachable s'"
  by (induction rule: runs.induct) (auto intro: reach_step)

end

locale invariant_system = transition_system init step
  for init :: "'s \<Rightarrow> bool" and step :: "'s \<Rightarrow> 'e \<Rightarrow> 's \<Rightarrow> bool" +
  fixes inv :: "'s \<Rightarrow> bool"
  assumes init_inv: "init s \<Longrightarrow> inv s"
    and step_inv: "inv s \<Longrightarrow> step s e s' \<Longrightarrow> inv s'"
begin

lemma reachable_inv: "reachable s \<Longrightarrow> inv s"
  by (induction rule: reachable.induct) (auto intro: init_inv step_inv)

lemma runs_inv: "runs s es s' \<Longrightarrow> inv s \<Longrightarrow> inv s'"
  by (induction rule: runs.induct) (auto intro: step_inv)

end

section \<open>One event\<close>

text \<open>
  The events that the listener stands: those of \<open>good_event\<close>, and input on the configuration watch.
\<close>

definition reported :: "('w \<Rightarrow> int \<Rightarrow> string) \<Rightarrow> 'w e2t \<Rightarrow> epoll_event \<Rightarrow> bool" where
  "reported N s ev \<longleftrightarrow> good_event N s ev \<or>
     \<not> ev_error ev \<and> \<not> ev_out ev \<and> ev_data ev = Epoll_fd (inotifyFD (params s)) \<and>
     inotifyFD (params s) \<noteq> listenFD (params s) \<and> inotifyFD (params s) \<noteq> rmrListenFd (params s)"

text \<open>
  What \<^verbatim>\<open>epoll_wait\<close> can report. Every descriptor is registered for input, to which the kernel
  adds errors; none is registered for output. The three numbered ones are the listening socket, the
  routing library's and the watch's; for the others the data is the address of a connection, and if
  that is still there it has no name yet or the name of the node at the other end.
\<close>

definition possible_event :: "('w \<Rightarrow> int \<Rightarrow> string) \<Rightarrow> 'w e2t \<Rightarrow> epoll_event \<Rightarrow> bool" where
  "possible_event N s ev \<longleftrightarrow> \<not> ev_out ev \<and>
     (case ev_data ev of
        Epoll_fd fd \<Rightarrow> fd \<noteq> 0 \<and> (fd = listenFD (params s) \<or> fd = rmrListenFd (params s) \<or> fd = inotifyFD (params s))
      | Epoll_ptr p \<Rightarrow> \<exists>a. p = Some a \<and> (\<forall>c. heap s a = Some c \<longrightarrow>
          (\<exists>m. has_name c m \<and> (m = [] \<or> m = N (world s) (fileDescriptor c)))))"

text \<open>Those that are handled to their end: of a connection that is still there, or no error, or one of the routing library's.\<close>

definition handled_event :: "'w e2t \<Rightarrow> epoll_event \<Rightarrow> bool" where
  "handled_event s ev \<longleftrightarrow>
     (case ev_data ev of
        Epoll_fd fd \<Rightarrow> ev_error ev \<longrightarrow> fd = rmrListenFd (params s)
      | Epoll_ptr p \<Rightarrow> (case p of None \<Rightarrow> False | Some a \<Rightarrow> heap s a \<noteq> None))"

lemma reported_iff: "possible_event N s ev \<Longrightarrow> reported N s ev \<longleftrightarrow> handled_event s ev"
  by (cases "ev_data ev") (auto simp: possible_event_def handled_event_def reported_def good_event_def)

text \<open>What the listener relies on: the contracts of its environment, and rounds enough for its work.\<close>

definition sound :: "('w \<Rightarrow> nat) \<Rightarrow> ('w \<Rightarrow> int \<Rightarrow> string) \<Rightarrow> 'w env \<Rightarrow> nat \<Rightarrow> bool" where
  "sound T N E n \<longleftrightarrow> env_ok T E \<and> nodes_ok N E \<and> watch_ok T E \<and> trace_off E \<and> n < rounds E"

lemma wp_reported:
  assumes E: "sound T N E n" and s: "base T n f s" and ev: "reported N s ev"
  shows "wp (handle_event E (ts, ev)) (\<lambda>_. base T n False) s"
proof (cases "good_event N s ev")
  case True
  then show ?thesis using E s by (intro wp_handle_event) (auto simp: sound_def)
next
  case False
  let ?s = "s\<lparr>lmsg := (lmsg s)\<lparr>tv_sec := fst ts, tv_nsec := snd ts\<rparr>\<rparr>"
  have s': "base T n False ?s" using base_big [OF s] by (simp add: base_def core_def)
  have ev': "\<not> ev_error ev" "\<not> ev_out ev" "ev_data ev = Epoll_fd (inotifyFD (params s))"
     "inotifyFD (params s) \<noteq> listenFD (params s)" "inotifyFD (params s) \<noteq> rmrListenFd (params s)"
    using ev False by (auto simp: reported_def)
  have "wp (handleConfigChange E) (\<lambda>_. base T n False) ?s"
    using E s' by (intro wp_handleConfigChange) (auto simp: sound_def)
  then show ?thesis
    using ev' by (simp add: handle_event_def Let_def wp_sq wp_modify wp_bnd [of "gets params"] wp_gets)
qed

section \<open>The listener\<close>

datatype action = World_moves | Handles "int \<times> int" epoll_event

text \<open>
  Between two events the world may change in any way that leaves work enough; an event is one
  that the listener stands in the state, and is handled to its end. Which of the possible events
  those are is shown below.
\<close>

inductive listener_step :: "('w \<Rightarrow> nat) \<Rightarrow> ('w \<Rightarrow> int \<Rightarrow> string) \<Rightarrow> 'w env \<Rightarrow> nat \<Rightarrow> 'w e2t \<Rightarrow> action \<Rightarrow> 'w e2t \<Rightarrow> bool"
  for T N E n where
  world_moves: "T w \<le> n \<Longrightarrow> listener_step T N E n s World_moves (s\<lparr>world := w\<rparr>)"
| handles: "reported N s ev \<Longrightarrow> handle_event E (ts, ev) s = Inr ((), s') \<Longrightarrow>
    listener_step T N E n s (Handles ts ev) s'"

inductive_cases listener_moves: "listener_step T N E n s World_moves s'"
inductive_cases listener_handles: "listener_step T N E n s (Handles ts ev) s'"
inductive_simps listener_step_simps: "listener_step T N E n s (Handles ts ev) s'"

text \<open>The states in which the start-up has handed over to the listener.\<close>

definition started :: "('w \<Rightarrow> nat) \<Rightarrow> 'w platform \<Rightarrow> 'w env \<Rightarrow> nat \<Rightarrow> 'w e2t \<Rightarrow> bool" where
  "started T G E n s \<longleftrightarrow> platform_ok T G \<and>
     (\<exists>w tc path name. T w \<le> n \<and> main_start G E (initial_state w tc path name) = Inr (True, s))"

lemma base_moves: "base T n f s \<Longrightarrow> T w \<le> n \<Longrightarrow> base T n f (s\<lparr>world := w\<rparr>)"
  by (simp add: base_def core_def)

lemma started_base: "sound T N E n \<Longrightarrow> started T G E n s \<Longrightarrow> base T n False s"
proof -
  assume E: "sound T N E n" and s: "started T G E n s"
  then obtain w tc path name where w: "T w \<le> n" "main_start G E (initial_state w tc path name) = Inr (True, s)"
    by (auto simp: started_def)
  have "env_ok T E" "platform_ok T G" "watch_ok T E" "trace_off E" "n < rounds E"
    using E s by (simp_all add: sound_def started_def)
  then show ?thesis using w by (blast intro: main_start_base(1))
qed

interpretation listener: invariant_system "\<lambda>s. sound T N E n \<and> started T G E n s" "listener_step T N E n"
    "\<lambda>s. sound T N E n \<and> base T n False s"
  for T :: "'w \<Rightarrow> nat" and N G E n
proof unfold_locales
  fix s e s'
  assume s: "sound T N E n \<and> base T n False s" and e: "listener_step T N E n s e s'"
  from e show "sound T N E n \<and> base T n False s'"
  proof cases
    case (world_moves w)
    then show ?thesis using s by (simp add: base_moves)
  next
    case (handles ev ts)
    then show ?thesis using s wp_exec [OF wp_reported [of T N E n False s ev ts]] by auto
  qed
qed (auto intro: started_base)

abbreviation listener_reachable :: "('w \<Rightarrow> nat) \<Rightarrow> ('w \<Rightarrow> int \<Rightarrow> string) \<Rightarrow> 'w platform \<Rightarrow> 'w env \<Rightarrow> nat \<Rightarrow> 'w e2t \<Rightarrow> bool" where
  "listener_reachable T N G E n \<equiv> transition_system.reachable (\<lambda>s. sound T N E n \<and> started T G E n s) (listener_step T N E n)"

abbreviation listener_runs :: "('w \<Rightarrow> nat) \<Rightarrow> ('w \<Rightarrow> int \<Rightarrow> string) \<Rightarrow> 'w env \<Rightarrow> nat \<Rightarrow> 'w e2t \<Rightarrow> action list \<Rightarrow> 'w e2t \<Rightarrow> bool" where
  "listener_runs T N E n \<equiv> transition_system.runs (listener_step T N E n)"

lemma possible_fault:
  assumes "possible_event N s ev" "\<not> handled_event s ev" "0 < rounds E"
  shows "handle_event E (ts, ev) s = Inl (case ev_data ev of Epoll_fd fd \<Rightarrow> Wild_Pointer | Epoll_ptr p \<Rightarrow> Use_After_Free)"
proof (cases "ev_data ev")
  case (Epoll_fd fd)
  then have "ev_error ev" "fd \<noteq> rmrListenFd (params s)" "fd \<noteq> 0"
    using assms(1,2) by (auto simp: possible_event_def handled_event_def)
  then show ?thesis
    using Epoll_fd by (simp add: handle_event_def Let_def with_listener_message_def handlepoll_error_def run_simps sq_def [of _ "modify _"])
next
  case (Epoll_ptr p)
  then obtain a where "p = Some a" "heap s a = None"
    using assms(1,2) by (auto simp: possible_event_def handled_event_def)
  then show ?thesis using stale_event_faults [of s a ev E ts] Epoll_ptr assms(3) by simp
qed


text \<open>
  C9. The tables of a reachable state, under the contracts of \<open>sound\<close>: every key of the connection table is a RAN name and
  leads to a live connection that has this name and its counters; no key occurs twice; the
  procedure states are in the order of their names; no connection is marked as connected.
\<close>
theorem reachable_tables:
  assumes "listener_reachable T N G E n s"
  shows "distinct (map_getKeys (sctpMap s)) \<and> sorted_wrt (<) (map fst (e2map s)) \<and>
    (\<forall>k a. map_find (sctpMap s) k = Some a \<longrightarrow> ran_initial k \<and>
       (\<exists>c. heap s a = Some c \<and> cu_enodbName c = padded 64 k \<and> counters c = buildPrometheusList k)) \<and>
    (\<forall>a c. heap s a = Some c \<longrightarrow> a < next_addr s \<and> \<not> isConnected c)"
proof -
  have b: "base T n False s" using listener.reachable_inv [OF assms(1)] by blast
  have "ran_initial k \<and> (\<exists>c. heap s a = Some c \<and> cu_enodbName c = padded 64 k \<and> counters c = buildPrometheusList k)"
    if k: "map_find (sctpMap s) k = Some a" for k a
  proof -
    obtain c where c: "ran_initial k" "heap s a = Some c" "has_name c k"
      using b k by (auto simp: base_def map_ok_def entry_ok_def)
    then have "k \<noteq> []" by (simp add: ran_initial_def)
    then show ?thesis using c named_counters [OF b c(2,3)] by (simp add: has_name_def)
  qed
  then show ?thesis
    using b by (auto simp: base_def core_def map_ok_def map_invar_def conn_invar_def heap_ok_def CU_ok_def map_getKeys_def)
qed

section \<open>The sample run\<close>

lemma sample_configured:
  "wp (buildConfiguration sample_platform sample_env) (\<lambda>rc s. rc = 0 \<and> (rc = 0 \<longrightarrow> boot sample_work True True 0 s))
     (initial_state sample_world 1 ''config'' ''config.conf'')"
proof -
  let ?s = "initial_state sample_world 1 ''config'' ''config.conf''"
  have good: "good_config sample_platform sample_entries"
    by (simp add: good_config_def sample_ports) (simp add: sample_entries_def getStringValue_def c_str_def sample_platform_def)
  have content: "file_text sample_env p w = (Some sample_config, w)" "file_size sample_env p w = (Some (length sample_config), w)" for p w
    by (simp_all add: sample_env_def)
  have "length sample_config \<le> 2048"
    by (simp add: sample_config_def write_config_def entry_line_def)
  moreover have "openConfigFile (Some sample_config) = Some sample_entries"
    using sample_config_text by (simp add: sample_entries_def)
  ultimately have "config_found sample_env ?s = (Some sample_entries, sample_world)"
    by (simp add: config_found_def content initial_state_def)
  then obtain t where "buildConfiguration sample_platform sample_env ?s = Inr (0, t)"
    using buildConfiguration_cases [of sample_platform sample_env ?s] good sample_entries_fit by auto
  moreover have "sample_work sample_world \<le> 0" by (simp add: sample_work_def sample_world_def)
  ultimately show ?thesis
    using wpx_buildConfiguration [OF sample_watch_ok, of sample_world 0 sample_platform 1 "''config''" "''config.conf''"]
      sample_config_fits sample_trace_off by (simp add: wpx_def wp_def)
qed

lemma sample_platform_simps:
  "rmr_init sample_platform a w = (True, w)" "rmr_get_rcvfd sample_platform w = (4, w)"
  "rmr_ready sample_platform w = (True, w)" "epoll_add_fd sample_platform ep fd w = (True, w)"
  "socket_sctp sample_platform w = (7, w)" "set_option sample_platform fd x w = w"
  "bind_port sample_platform fd p w = (True, w)" "listen sample_platform fd w = (True, w)"
  "epoll_create1 sample_platform w = (3, w)"
  by (simp_all add: sample_platform_def)

lemma sample_main:
  "wp (main_start sample_platform sample_env) (\<lambda>ok s. ok \<and> rmrListenFd (params s) = 4 \<and> heap s = Map.empty) (initial_state sample_world 1 ''config'' ''config.conf'')"
proof -
  have tune: "wp (tune_socket sample_platform fd v f) Q s = Q () s" if "v \<noteq> ''POD_NAME''" "v \<noteq> ''E2TERM_POD_NAME''" for fd v f Q s
    using that by (simp add: tune_socket_def sample_platform_def wp_simps)
  have start: "wp (start_threads sample_platform sample_env) (\<lambda>ok s. ok \<and> rmrListenFd (params s) = 4 \<and> heap s = Map.empty) s"
    if "ka_message_length (params s) < 2048" "rmrListenFd (params s) = 4" "heap s = Map.empty" for s
    using that by (simp add: start_threads_def listener_start_def alloc_rcv_def alloc_send_def set_rcv_def set_send_def
        wp_simps KA_MESSAGE_SIZE_def sample_env_def sample_platform_def)
  show ?thesis
    unfolding main_start_def wp_bnd [of "buildConfiguration _ _"]
  proof (rule wp_mono [OF sample_configured])
    fix rc :: int and s :: "sample_world e2t"
    assume "rc = 0 \<and> (rc = 0 \<longrightarrow> boot sample_work True True 0 s)"
    then have rc: "rc = 0" and ka: "ka_message_length (params s) < 2048" "heap s = Map.empty"
      by (simp_all add: boot_def KA_MESSAGE_SIZE_def)
    have host: "wp (startPrometheus sample_platform) Q s = Q (''E2TAlpha'', ''10.0.2.15:'' @ prometheusPort (params s))
        (s\<lparr>params := (params s)\<lparr>e2tCounters := buildE2TPrometheusCounters\<rparr>\<rparr>)" for Q
      by (simp add: startPrometheus_def getinterfaceip_def sample_platform_def wp_simps)
    have ctx: "wp (getRmrContext sample_platform sample_env) Q t = Q True (t\<lparr>params := (params t)\<lparr>rmrListenFd := 4\<rparr>\<rparr>)" for Q t
    proof -
      have rounds: "rounds sample_env = Suc 9" by (simp add: sample_env_def)
      have "wp (ready_rounds (rounds sample_env) sample_platform) R u = R () u" for R u
        unfolding rounds ready_rounds.simps wp_bnd wp_ext by (simp add: sample_platform_simps wp_ret)
      then show ?thesis by (simp add: getRmrContext_def wp_simps sample_platform_simps)
    qed
    have watch: "wp (buildInotify sample_platform sample_env) Q t = Q 0 (t\<lparr>params := (params t)\<lparr>inotifyFD := 6\<rparr>\<rparr>)" for Q t
      by (simp add: buildInotify_def wp_simps sample_platform_def)
    have port: "wp (buildListeningPort sample_platform sample_env) Q t = Q 0 (t\<lparr>params := (params t)\<lparr>listenFD := 7\<rparr>\<rparr>)" for Q t
    proof -
      have "wp (setSocketNoBlocking sample_env fd) R u = R 0 u" for R fd and u :: "sample_world e2t"
        by (simp add: setSocketNoBlocking_def wp_simps sample_env_def)
      then show ?thesis by (simp add: buildListeningPort_def wp_simps tune sample_platform_simps)
    qed
    show "wp (if rc \<noteq> 0 then ret False else bnd (startPrometheus sample_platform) (\<lambda>_. bnd (ext (epoll_create1 sample_platform)) (\<lambda>ep.
       sq (set_param (\<lambda>p. p\<lparr>epoll_fd := ep\<rparr>))
       (if ep = -1 then ret False
        else bnd (getRmrContext sample_platform sample_env) (\<lambda>ctx.
          if \<not> ctx then sq (ext_do (fd_close sample_env ep)) (ret False)
          else bnd (buildInotify sample_platform sample_env) (\<lambda>rc. if rc = -1 then close_all sample_platform sample_env
          else bnd (buildListeningPort sample_platform sample_env) (\<lambda>rc. if rc \<noteq> 0 then close_all sample_platform sample_env
          else start_threads sample_platform sample_env))))))) (\<lambda>ok s. ok \<and> rmrListenFd (params s) = 4 \<and> heap s = Map.empty) s"
      using ka by (simp add: rc wp_bnd host wp_ext wp_sq wp_set_param ctx watch port start sample_platform_simps)
  qed
qed

lemma sample_sound: "sound sample_work (\<lambda>_ _. sample_name) sample_env 0"
  by (simp add: sound_def sample_env_ok sample_nodes_ok sample_watch_ok sample_trace_off) (simp add: sample_env_def)

lemma sample_reachable:
  "\<exists>s. listener_reachable sample_work (\<lambda>_ _. sample_name) sample_platform sample_env 0 s \<and> reported (\<lambda>_ _. sample_name) s
     \<lparr>ev_error = False, ev_out = False, ev_data = Epoll_fd (rmrListenFd (params s))\<rparr> \<and> heap s 1 = None \<and> rmrListenFd (params s) = 4"
proof -
  obtain s where "main_start sample_platform sample_env (initial_state sample_world 1 ''config'' ''config.conf'') = Inr (True, s)"
    and fixed: "heap s 1 = None" "rmrListenFd (params s) = 4"
    using wp_exec [OF sample_main] by (auto simp del: One_nat_def)
  moreover have "sample_work sample_world \<le> 0" by (simp add: sample_work_def sample_world_def)
  ultimately have "started sample_work sample_platform sample_env 0 s"
    unfolding started_def using sample_platform_ok by blast
  then have "listener_reachable sample_work (\<lambda>_ _. sample_name) sample_platform sample_env 0 s"
    using sample_sound by (intro listener.reach_init) simp
  moreover have "reported (\<lambda>_ _. sample_name) s \<lparr>ev_error = False, ev_out = False, ev_data = Epoll_fd (rmrListenFd (params s))\<rparr>"
    by (simp add: reported_def good_event_def)
  ultimately show ?thesis using fixed by blast
qed


theorem reachable_tables_witness:
  "\<exists>s. listener_reachable sample_work (\<lambda>_ _. sample_name) sample_platform sample_env 0 s \<and> distinct (map_getKeys (sctpMap s))"
proof -
  obtain s where s: "listener_reachable sample_work (\<lambda>_ _. sample_name) sample_platform sample_env 0 s"
    using sample_reachable by blast
  with reachable_tables [OF s] show ?thesis by blast
qed

end
