(* ===== verification/E2_Faults.thy ===== *)
theory E2_Faults
  imports E2_System
begin

text \<open>
  Where the contracts end: inputs and answers of the environment that the listener does not
  stand. Each theorem states the condition under which an operation of the source reaches
  behaviour that C++ leaves undefined, and which.
\<close>

section \<open>Clearing all connections\<close>

text \<open>
  C16. Clearing all connections frees each connection of the table, and the events that the same
  \<^verbatim>\<open>epoll_wait\<close> has reported behind it are still handled: any of them that belongs to such a
  connection uses it after it was freed.
\<close>
theorem clear_all_then_event_faults:
  assumes "env_ok T E" "base T n f s" "0 < rounds E"
    and "rcvMessage s = Some b0" "rmr_rcv_msg E b0 (world s) = (Some b, w)" "mb_state b = RMR_OK"
      "mb_mtype b = RIC_SCTP_CLEAR_ALL"
    and "ev_data ev0 = Epoll_fd (rmrListenFd (params s))" "\<not> ev_error ev0" "\<not> ev_out ev0"
      "rmrListenFd (params s) \<noteq> listenFD (params s)"
    and "map_find (sctpMap s) k = Some a" "ev_data ev = Epoll_ptr (Some a)"
  shows "handle_batch E ((ts0, ev0) # (ts, ev) # evs) s = Inl Use_After_Free"
proof -
  let ?id = "rmr_get_meid E b"
  have id: "nul_free ?id" "length ?id < 64" using rmr_okD(8) [OF assms(1)] by blast+
  obtain buf where buf: "poke (zero_buf 64) (?id @ [NUL]) = Some buf" "cstr buf = Some ?id" "name_ok buf"
    using id cstr_nul_free [of ?id "drop (length ?id + 1) (zero_buf 64)"] by (simp add: poke_def name_ok_def zero_buf_def)
  have w: "T w \<le> T (world s)" by (rule steady_rmr(3) [OF assms(1,5)])
  obtain b0' where "rcvMessage s = Some b0'" "buf_ok b0'" using base_rcvD [OF assms(2)] by blast
  then have "buf_ok b" using rmr_returns(3) [OF assms(1)] assms(4,5) by auto
  then have "buf_ok b" using rmr_returns(3) [OF assms(1)] assms(4,5) by auto
  then have "base T n f (s\<lparr>lmsg := (lmsg s)\<lparr>tv_sec := fst ts0, tv_nsec := snd ts0\<rparr>, num_of_messages := num_of_messages s + 1,
      world := w, rcvMessage := Some b, msg := zero_message\<lparr>direction := CHR ''D'', tv_sec := fst ts0, tv_nsec := snd ts0,
      msg_enodbName := buf, peerInfo := map_find (sctpMap s) ?id\<rparr>, num_of_XAPP_messages := num_of_XAPP_messages s + 1\<rparr>)"
    (is "base _ _ _ ?s") using assms(2) w buf(3) by (simp add: base_def core_def)
  note frees = wp_clear_all_frees [OF assms(1) this, of ts0]
  have run: "wp (handle_event E (ts0, ev0)) Q s = wp (x_SCTP_CLEAR_ALL E ts0) (\<lambda>_. wp (ret ()) Q) ?s" for Q
    using assms(4-11) buf(1,2)
    by (simp add: handle_event_def Let_def count_event_def receiveXappMessages_def dispatch_xapp_def set_rcv_def
        zero_message_def needs_no_node_def wp_sq wp_modify wp_bnd wp_gets wp_ret wp_ext wp_need wp_upd_msg wp_message_name wp_whenM)
  have "wp (handle_event E (ts0, ev0)) (\<lambda>_ s'. heap s' a = None) s"
    unfolding run using assms(12) by (intro wp_mono [OF frees]) (simp add: wp_ret)
  then have "wp (handle_event E (ts0, ev0)) (\<lambda>_ s'. handle_event E (ts, ev) s' = Inl Use_After_Free) s"
    by (rule wp_mono) (rule stale_event_faults [OF _ assms(13,3)])
  then show ?thesis
    unfolding handle_batch_def iter.simps
    by - (rule fails_sq(2), erule wp_mono, rule fails_sq(1))
qed

theorem clear_all_then_event_faults_witness:
  "handle_batch sample_env [((1, 0), \<lparr>ev_error = False, ev_out = False, ev_data = Epoll_fd 4\<rparr>),
       ((1, 0), \<lparr>ev_error = False, ev_out = False, ev_data = Epoll_ptr (Some 1)\<rparr>)]
     (sample_state\<lparr>rcvMessage := Some ((sample_buffer 2 (int RECEIVE_SCTP_BUFFER_SIZE))\<lparr>mb_mtype := RIC_SCTP_CLEAR_ALL\<rparr>)\<rparr>) =
   Inl Use_After_Free"
proof -
  let ?b = "(sample_buffer 2 (int RECEIVE_SCTP_BUFFER_SIZE))\<lparr>mb_mtype := RIC_SCTP_CLEAR_ALL\<rparr>"
  have "buf_ok ?b" by (simp add: buf_ok_def big_def sample_buffer_def)
  then have s: "base sample_work 0 True (sample_state\<lparr>rcvMessage := Some ?b\<rparr>)"
    by (rule base_rcv [OF sample_state_base])
  have fds: "rmrListenFd (params sample_state) = 4" "listenFD (params sample_state) = 7"
    by (simp_all add: sample_state_def sample_idle_def)
  have same: "params (sample_state\<lparr>rcvMessage := r\<rparr>) = params sample_state"
    "sctpMap (sample_state\<lparr>rcvMessage := r\<rparr>) = sctpMap sample_state" for r by simp_all
  have "rmr_rcv_msg sample_env b w = (Some b, w)" for b w by (simp add: sample_env_def)
  then show ?thesis
    using sample_state_simps(5) fds
    by (intro clear_all_then_event_faults [OF sample_env_ok s, of ?b ?b _ _ sample_name 1])
      (simp_all add: sample_env_def sample_buffer_def map_find_map_of)
qed

section \<open>Socket errors\<close>

text \<open>
  C17. An event with \<^verbatim>\<open>EPOLLERR\<close> or \<^verbatim>\<open>EPOLLHUP\<close> is handled to its end exactly when it is the
  routing library's, or that of a live connection: on the listening socket or on the watch the
  descriptor number is used as the address of a connection.
\<close>
theorem error_event_handled_iff:
  assumes "env_ok T E" "base T n f s" "n < rounds E" "ev_error ev"
  shows "(\<exists>s'. handle_event E (ts, ev) s = Inr ((), s')) \<longleftrightarrow>
    (case ev_data ev of
       Epoll_fd fd \<Rightarrow> fd = rmrListenFd (params s) \<or> fd = 0
     | Epoll_ptr None \<Rightarrow> True
     | Epoll_ptr (Some a) \<Rightarrow> heap s a \<noteq> None)"
proof -
  let ?s = "s\<lparr>lmsg := (lmsg s)\<lparr>tv_sec := fst ts, tv_nsec := snd ts\<rparr>\<rparr>"
  have s: "base T n f ?s" using assms(2) by (simp add: base_def core_def)
  have run: "wp (handle_event E (ts, ev)) Q s = wp (with_listener_message (handlepoll_error E (ev_data ev))) Q ?s" for Q
    using assms(4) by (simp add: handle_event_def Let_def wp_sq wp_modify wp_bnd wp_gets)
  have ends: "(\<exists>s'. handle_event E (ts, ev) s = Inr ((), s')) \<longleftrightarrow> wp (handle_event E (ts, ev)) (\<lambda>_ _. True) s"
    by (auto simp: wp_def split: sum.splits)
  show ?thesis
  proof (cases "ev_data ev")
    case (Epoll_fd fd)
    then show ?thesis
      unfolding ends run by (simp add: with_listener_message_def handlepoll_error_def wp_simps)
  next
    case (Epoll_ptr p)
    show ?thesis
    proof (cases p)
      case None
      then show ?thesis
        unfolding ends run using Epoll_ptr by (simp add: with_listener_message_def handlepoll_error_def wp_simps)
    next
      case (Some a)
      have "wp (with_listener_message (handlepoll_error E (Epoll_ptr (Some a)))) (\<lambda>_. base T n False) ?s" if "heap s a \<noteq> None"
        using that wp_poll_error [OF assms(1)]
        by (intro wp_with_listener_message [OF s, where h = "heap s"]) (auto simp: handlepoll_error_def)
      moreover have "handle_event E (ts, ev) s = Inl Use_After_Free" if "heap s a = None"
        using that assms(3) Epoll_ptr Some by (intro stale_event_faults) auto
      ultimately show ?thesis
        using Epoll_ptr Some run wp_exec [of "handle_event E (ts, ev)" "\<lambda>_. base T n False" s]
        by (cases "heap s a") auto
    qed
  qed
qed

theorem error_event_handled_iff_witness:
  "\<not> (\<exists>s'. handle_event sample_env ((1, 0), \<lparr>ev_error = True, ev_out = False, ev_data = Epoll_fd 7\<rparr>) sample_state = Inr ((), s'))"
proof -
  have "rmrListenFd (params sample_state) = 4" by (simp add: sample_state_def sample_idle_def)
  then show ?thesis
    using error_event_handled_iff [OF sample_env_ok sample_state_base, of "\<lparr>ev_error = True, ev_out = False, ev_data = Epoll_fd 7\<rparr>" "(1, 0)"]
    by (simp add: sample_env_def)
qed

lemma wp_cleaned:
  assumes "heap s a = Some c" "cstr (cu_enodbName c) = Some k"
  shows "wp (cleanHashEntry (Some a)) (\<lambda>_ s'. heap s' a = None) s"
  using assms by (simp add: cleanHashEntry_def erase_if_found_def erase_key_def wp_simps)

lemma forget_connection_faults:
  assumes "heap s a = Some c" "cstr (cu_enodbName c) = Some k"
  shows "forget_connection E a (Some a) t s = Inl Use_After_Free"
proof -
  have gone: "name_at (Some a) s' = Inl Use_After_Free" if "heap s' a = None" for s' :: "'a e2t"
    using that by (simp add: name_at_def need_def bnd_def ret_def fails_access)
  have cleaned: "wp (cleanHashEntry (Some a)) (\<lambda>_ s'. bnd (name_at (Some a)) f s' = Inl Use_After_Free) s'"
    if "heap s' = heap s" for s' and f :: "string \<Rightarrow> ('a, unit) act"
    by (rule wp_mono [OF wp_cleaned]) (use that assms gone in \<open>auto intro: fails_bnd(1)\<close>)
  have "wp (name_at (Some a)) (\<lambda>x s'. x = k \<and> s' = s) s"
    using assms by (simp add: name_at_def wp_simps)
  then show ?thesis
    unfolding forget_connection_def
    by (intro fails_bnd(2), elim wp_mono) (auto intro!: fails_sq(2) cleaned simp: wp_remove_procedure)
qed

text \<open>
  A connect that is reported as completed counts as successful whatever error is pending on
  the socket, since the length passed to \<^verbatim>\<open>getsockopt\<close> is zero; when the registration for its
  events then cannot be changed, the name of the connection is read from it after it was freed.
\<close>
theorem connect_completed_faults:
  assumes "heap s a = Some c" "has_name c k" "so_error E (fileDescriptor c) (world s) = ((True, v), w)"
    and "epoll_mod E (fileDescriptor c) a w = (False, w')"
  shows "handleEinprogressMessages E (Epoll_ptr (Some a)) s = Inl Use_After_Free"
proof -
  let ?s = "s\<lparr>msg := (msg s)\<lparr>msg_enodbName := cu_enodbName c\<rparr>, world := w, heap := (heap s)(a \<mapsto> c\<lparr>isConnected := True\<rparr>)\<rparr>"
  have "forget_connection E a (Some a) t s' = Inl Use_After_Free" if "heap s' = heap ?s" for t s'
    by (rule forget_connection_faults [of _ _ "c\<lparr>isConnected := True\<rparr>" k])
      (use that has_name_cstr [OF assms(2)] in simp_all)
  then have "modifyToEpoll E a (Some a) t ?s = Inl Use_After_Free" for t
    unfolding modifyToEpoll_def using assms(4)
    by (intro fails_bnd(2)) (simp add: wp_deref run_simps fails_sq(1) [where e = Use_After_Free])
  then have "connect_succeeded E a (s\<lparr>msg := (msg s)\<lparr>msg_enodbName := cu_enodbName c\<rparr>, world := w\<rparr>) = Inl Use_After_Free"
    unfolding connect_succeeded_def using assms(1)
    by (intro fails_sq(2)) (simp add: wp_upd_CU fails_bnd(2) [of "deref a"] wp_deref fails_bnd(1) [where e = Use_After_Free])
  then show ?thesis
    unfolding handleEinprogressMessages_def using assms(1,3)
    by (auto intro!: fails_sq(2) fails_bnd(2) simp: wp_simps option_value_def)
qed

theorem connect_completed_faults_witness:
  "handleEinprogressMessages (sample_env\<lparr>so_error := (\<lambda>_ w. ((True, 111), w)), epoll_mod := (\<lambda>_ _ w. (False, w))\<rparr>)
     (Epoll_ptr (Some 1)) sample_state = Inl Use_After_Free"
  using sample_state_simps by (intro connect_completed_faults [OF _ sample_CU_name(1)]) simp_all

section \<open>Setup requests\<close>

text \<open>
  C18. A setup request without a transaction ID registers the node all the same, without its
  counters and without a procedure state; the next subscription request for the node goes
  through a null counter.
\<close>
theorem setup_without_transaction_faults:
  fixes s :: "'w e2t"
  assumes "names_node k pdu" "k \<noteq> []" "setup_transaction pdu < 0" "is_setup pdu"
    and "base T n f s" "node_at N E a fd k s" "same_name s" "heap s a = Some c" "counters c = []"
  shows "wp (handle_pdu E pdu st) (\<lambda>_ s'. map_find (sctpMap s') k = Some a \<and> e2map s' = e2map s \<and>
    (\<forall>ts b0 b w. rcvMessage s' = Some b0 \<and> rmr_rcv_msg E b0 (world s') = (Some b, w) \<and> mb_state b = RMR_OK \<and>
       mb_mtype b = RIC_SUB_REQ \<and> rmr_get_meid E b = k \<longrightarrow> receiveXappMessages E ts s' = Inl Null_Deref)) s"
proof -
  obtain m where p: "peerInfo (msg s) = Some a" "has_name c m" "m = [] \<or> m = k"
    using assms(6,8) by (auto simp: node_at_def)
  have m: "msg_enodbName (msg s) = padded 64 m" using assms(7,8) p by (auto simp: same_name_def has_name_def)
  note k = names_node_name [OF assms(1,2)]
  let ?s = "s\<lparr>heap := (heap s)(a \<mapsto> c\<lparr>cu_enodbName := padded 64 k\<rparr>), msg := (msg s)\<lparr>msg_enodbName := padded 64 k\<rparr>,
       sctpMap := map_setkey (sctpMap s) k a\<rparr>"
  have run: "wp (handle_pdu E pdu st) Q s = Q () ?s" for Q
    using assms(3,4) wp_collect [OF assms(1) p(1) assms(8) m p(3)]
    by (simp add: handle_pdu_def is_setup_def asnInitiatingRequest_def got_E2setup_def wp_bnd wp_ret)
  have find: "map_find (sctpMap ?s) k = Some a" by (simp add: map_find_map_of map_of_setkey)
  have "receiveXappMessages E ts ?s = Inl Null_Deref"
    if b: "rcvMessage ?s = Some b0" "rmr_rcv_msg E b0 (world ?s) = (Some b, w)" "mb_state b = RMR_OK"
      "mb_mtype b = RIC_SUB_REQ" "rmr_get_meid E b = k" for ts b0 b w
  proof -
    have "count_out OUT_INITI OUT_INITI ProcedureCode_id_RICsubscription s' = Inl Null_Deref"
      if "rcvMessage s' = Some b" "peerInfo (msg s') = Some a" "heap s' = heap ?s" for s' :: "'w e2t"
      unfolding count_out_def count_message_def seqs.simps using that assms(9)
      by (intro fails_bnd(2)) (simp add: wp_get_rcv fails_sq(1) fails_bnd(2) wp_peer_counter counter_at_def increment_def
        fails_bnd(1) fails_access)
    then have "xapp_case E ts RIC_SUB_REQ s' = Inl Null_Deref"
      if "rcvMessage s' = Some b" "peerInfo (msg s') = Some a" "heap s' = heap ?s" "cstr (msg_enodbName (msg s')) = Some k" for s'
      unfolding xapp_case.simps x_SUB_REQ_def using that
      by (intro fails_sq(2)) (simp add: wp_set_procedure fails_sq(1) [where e = Null_Deref])
    moreover have "poke (zero_buf 64) (k @ [NUL]) = Some (padded 64 k)"
      using k(3) by (simp add: poke_def padded_def zero_buf_def flip: replicate_Suc)
    ultimately show ?thesis
      using b find k
      by (simp add: receiveXappMessages_def dispatch_xapp_def run_simps zero_message_def needs_no_node_def)
  qed
  then show ?thesis unfolding run using find by simp
qed

theorem setup_without_transaction_faults_witness:
  "\<exists>s'. handle_pdu sample_env (sample_setup\<lparr>protocolIEs := tl (protocolIEs sample_setup)\<rparr>) 0 sample_fresh = Inr ((), s') \<and>
     map_find (sctpMap s') sample_name = Some 1"
proof -
  let ?pdu = "sample_setup\<lparr>protocolIEs := tl (protocolIEs sample_setup)\<rparr>"
  have "names_node sample_name ?pdu"
    unfolding names_node_def
    by (rule exI [of _ "[]"], rule exI [of _ "\<lparr>ie_id = ProtocolIE_ID_id_GlobalE2node_ID, ie_value = IE_GlobalE2node_ID sample_node\<rparr>"],
        rule exI [of _ "[]"], rule exI [of _ sample_node]) (simp add: sample_setup_def sample_node_valid sample_name_def)
  from setup_without_transaction_faults [OF this sample_name_ok(4) _ _ sample_fresh_base sample_fresh_node,
      of "zero_CU\<lparr>fileDescriptor := 5\<rparr>"]
  have "wp (handle_pdu sample_env ?pdu 0) (\<lambda>_ s'. map_find (sctpMap s') sample_name = Some 1) sample_fresh"
    by (rule wp_mono) (simp_all add: setup_transaction_def sample_setup_def collect_transaction_def is_setup_def sample_fresh_def zero_CU_def)
  then show ?thesis by (auto dest: wp_exec)
qed

text \<open>
  C31. The buffer for the XML text of a message to the E2 manager has no room for its terminating
  NUL when the text is exactly as long as the buffer: the NUL is written behind it.
\<close>
theorem setup_request_at_limit_faults:
  assumes "calloc_ok E (world s) = (True, w)" "xer_encode E pdu = Some x" "length x = 262144"
  shows "buildAndSendSetupRequest E pdu s = Inl Buffer_Overflow"
proof -
  have "encode_rounds 2 E (length x) (RECEIVE_SCTP_BUFFER_SIZE * 2) = ret (Some 262144)"
    using assms(3) by (simp add: numeral_2_eq_2 RECEIVE_SCTP_BUFFER_SIZE_def)
  then show ?thesis
    using assms unfolding buildAndSendSetupRequest_def
    by (simp add: run_simps RECEIVE_SCTP_BUFFER_SIZE_def Let_def) (simp add: whenM_def run_simps)
qed

theorem setup_request_at_limit_faults_witness:
  "buildAndSendSetupRequest (sample_env\<lparr>xer_encode := (\<lambda>_. Some (replicate 262144 65))\<rparr>) sample_setup sample_state = Inl Buffer_Overflow"
  by (rule setup_request_at_limit_faults [of _ _ _ _ "replicate 262144 65"]) (simp_all add: sample_env_def)

end
