(* ===== verification/E2_Registry.thy ===== *)
theory E2_Registry
  imports E2_Faults
begin

text \<open>
  The terminator seen from the E2 manager: a registry that gives each RAN name its connection
  and its procedure state. Each event the listener handles is one step of the registry: it
  changes the entry of one node, or clears the connections.
\<close>

section \<open>Refinement\<close>

text \<open>A system with an invariant refines another one when each of its steps is one of the other's.\<close>

locale refinement = concrete: invariant_system init step inv
  for init :: "'s \<Rightarrow> bool" and step :: "'s \<Rightarrow> 'e \<Rightarrow> 's \<Rightarrow> bool" and inv :: "'s \<Rightarrow> bool" +
  fixes astep :: "'a \<Rightarrow> 'f \<Rightarrow> 'a \<Rightarrow> bool" and abst :: "'s \<Rightarrow> 'a"
  assumes step_refines: "inv s \<Longrightarrow> step s e s' \<Longrightarrow> \<exists>f. astep (abst s) f (abst s')"
begin

sublocale abstract: transition_system "\<lambda>R. \<exists>s. init s \<and> R = abst s" astep .

lemma runs_refine: "concrete.runs s es s' \<Longrightarrow> inv s \<Longrightarrow> \<exists>fs. abstract.runs (abst s) fs (abst s') \<and> length fs = length es"
proof (induction rule: concrete.runs.induct)
  case (runs_Nil s)
  show ?case by (auto intro: abstract.runs_Nil)
next
  case (runs_Cons s e s' es s'')
  then have "inv s'" by (blast intro: concrete.step_inv)
  then obtain fs where "abstract.runs (abst s') fs (abst s'')" "length fs = length es" using runs_Cons by blast
  moreover obtain f where "astep (abst s) f (abst s')" using step_refines runs_Cons by blast
  ultimately show ?case by (intro exI [of _ "f # fs"]) (simp add: abstract.runs_Cons)
qed

lemma reachable_refines: "concrete.reachable s \<Longrightarrow> abstract.reachable (abst s)"
proof (induction rule: concrete.reachable.induct)
  case (reach_init s)
  then show ?case by (blast intro: abstract.reach_init)
next
  case (reach_step s e s')
  then show ?case using step_refines [OF concrete.reachable_inv] by (blast intro: abstract.reach_step)
qed

end

section \<open>The registry\<close>

type_synonym entry = "nat option \<times> E2NodeConnectionHandling option"

definition registry :: "'w e2t \<Rightarrow> string \<Rightarrow> entry" where
  "registry s n = (if n = [] then (None, None) else (map_find (sctpMap s) n, map_of (e2map s) n))"

datatype registry_event = Silent | Node string | Request string | Cleared

text \<open>
  A node's own messages and the end of its connection change its entry only; a request of an
  xApp changes the procedure state of the node it names; clearing takes every connection out
  and leaves the procedure states.
\<close>

inductive registry_step :: "(string \<Rightarrow> entry) \<Rightarrow> registry_event \<Rightarrow> (string \<Rightarrow> entry) \<Rightarrow> bool" where
  silent: "registry_step R Silent R"
| node: "(\<And>n. n \<noteq> k \<Longrightarrow> R' n = R n) \<Longrightarrow> registry_step R (Node k) R'"
| request: "(\<And>n. n \<noteq> k \<Longrightarrow> R' n = R n) \<Longrightarrow> fst (R' k) = fst (R k) \<Longrightarrow> registry_step R (Request k) R'"
| cleared: "(\<And>n. R' n = (None, snd (R n))) \<Longrightarrow> registry_step R Cleared R'"

inductive_cases registry_node: "registry_step R (Node k) R'"
inductive_cases registry_request: "registry_step R (Request k) R'"
inductive_cases registry_cleared: "registry_step R Cleared R'"

definition others_kept :: "'w e2t \<Rightarrow> string \<Rightarrow> 'w e2t \<Rightarrow> bool" where
  "others_kept s0 k s \<longleftrightarrow> (\<forall>n. n \<noteq> k \<longrightarrow> registry s n = registry s0 n)"

lemma registry_same: "sctpMap s = sctpMap s0 \<Longrightarrow> e2map s = e2map s0 \<Longrightarrow> registry s = registry s0"
  by (rule ext) (simp add: registry_def)

lemma registry_fields [simp]:
  "registry (s\<lparr>world := w\<rparr>) = registry s" "registry (s\<lparr>sendMessage := b\<rparr>) = registry s" "registry (s\<lparr>rcvMessage := b\<rparr>) = registry s"
  "registry (s\<lparr>msg := m\<rparr>) = registry s" "registry (s\<lparr>lmsg := m\<rparr>) = registry s" "registry (s\<lparr>metrics := v\<rparr>) = registry s"
  "registry (s\<lparr>transactionCounter := t\<rparr>) = registry s" "registry (s\<lparr>trace_log := l\<rparr>) = registry s"
  "registry (s\<lparr>heap := h\<rparr>) = registry s" "registry (s\<lparr>num_of_messages := i\<rparr>) = registry s"
  "registry (s\<lparr>num_of_XAPP_messages := i\<rparr>) = registry s"
  by (rule registry_same; simp)+

lemma others_kept_fields [simp]:
  "others_kept s0 k (s\<lparr>world := w\<rparr>) = others_kept s0 k s" "others_kept s0 k (s\<lparr>sendMessage := b\<rparr>) = others_kept s0 k s"
  "others_kept s0 k (s\<lparr>rcvMessage := b\<rparr>) = others_kept s0 k s" "others_kept s0 k (s\<lparr>msg := m\<rparr>) = others_kept s0 k s"
  "others_kept s0 k (s\<lparr>lmsg := m\<rparr>) = others_kept s0 k s" "others_kept s0 k (s\<lparr>metrics := v\<rparr>) = others_kept s0 k s"
  "others_kept s0 k (s\<lparr>transactionCounter := t\<rparr>) = others_kept s0 k s" "others_kept s0 k (s\<lparr>trace_log := l\<rparr>) = others_kept s0 k s"
  "others_kept s0 k (s\<lparr>heap := h\<rparr>) = others_kept s0 k s" "others_kept s0 k (s\<lparr>num_of_messages := i\<rparr>) = others_kept s0 k s"
  by (simp_all add: others_kept_def)

lemma others_kept_e2map:
  "others_kept s0 k s \<Longrightarrow> n = [] \<or> n = k \<Longrightarrow> (\<And>n'. n' \<noteq> n \<Longrightarrow> map_of m n' = map_of (e2map s) n') \<Longrightarrow>
    others_kept s0 k (s\<lparr>e2map := m\<rparr>)"
  by (auto simp: others_kept_def registry_def)

lemma others_kept_setkey: "others_kept s0 k s \<Longrightarrow> others_kept s0 k (s\<lparr>sctpMap := map_setkey (sctpMap s) k a\<rparr>)"
  by (auto simp: others_kept_def registry_def map_find_map_of map_of_setkey)

lemma others_kept_erase:
  "others_kept s0 k s \<Longrightarrow> n = [] \<or> n = k \<Longrightarrow> others_kept s0 k (s\<lparr>sctpMap := map_erase (sctpMap s) n\<rparr>)"
  by (auto simp: others_kept_def registry_def map_find_map_of map_of_erase_other)

section \<open>The messages of a node\<close>

definition following :: "'w e2t \<Rightarrow> ('w \<Rightarrow> int \<Rightarrow> string) \<Rightarrow> 'w env \<Rightarrow> nat \<Rightarrow> int \<Rightarrow> string \<Rightarrow> 'w e2t \<Rightarrow> bool" where
  "following s0 N E a fd k s \<longleftrightarrow> node_at N E a fd k s \<and> others_kept s0 k s \<and>
     (cstr (msg_enodbName (msg s)) = Some [] \<or> cstr (msg_enodbName (msg s)) = Some k)"

interpretation following: node_frame E "following s0 N E a fd k" N a fd k for s0 and E :: "'w env" and N a fd k
proof unfold_locales
  fix s :: "'w e2t" and c and m :: ReportingMessages assume s: "following s0 N E a fd k s" and c: "heap s a = Some c"
    and m: "msg_enodbName m = cu_enodbName c" "peerInfo m = peerInfo (msg s)"
  have "cstr (cu_enodbName c) = Some [] \<or> cstr (cu_enodbName c) = Some k"
    using s c has_name_cstr by (auto simp: following_def node_at_def)
  then show "following s0 N E a fd k (s\<lparr>msg := m\<rparr>)"
    using s m by (simp add: following_def node_at_msg)
next
  fix s :: "'w e2t" and pdu c assume s: "following s0 N E a fd k s" and g: "good_setup k pdu" and c: "heap s a = Some c"
  have "cstr (padded 64 k) = Some k" using good_setup_name [OF g] by simp
  moreover have "others_kept s0 k (named k a c s)"
    using s others_kept_setkey [of s0 k "s\<lparr>msg := (msg s)\<lparr>msg_enodbName := padded 64 k\<rparr>\<rparr>" a]
    by (simp add: following_def named_def)
  ultimately show "following s0 N E a fd k (named k a c s)"
    using s named_node_at [OF g _ c] by (simp add: following_def) (simp add: named_def)
next
  fix s :: "'w e2t" and n m assume s: "following s0 N E a fd k s" and n: "cstr (msg_enodbName (msg s)) = Some n"
    and m: "\<And>n'. n' \<noteq> n \<Longrightarrow> map_of m n' = map_of (e2map s) n'"
  have "others_kept s0 k (s\<lparr>e2map := m\<rparr>)" using s n m by (intro others_kept_e2map) (auto simp: following_def)
  then show "following s0 N E a fd k (s\<lparr>e2map := m\<rparr>)" using s by (simp add: following_def node_at_def)
qed (auto simp: following_def node_at_msg intro: node.sent node.allocated node.status_read node.calloced node.received
    node.send_field node.metric_field node.transaction_field node.trace_field node.CU_field)

section \<open>The end of a connection\<close>

text \<open>
  While a connection is taken out: it is gone, or has no name or the name \<open>k\<close>; no key of the
  table is of the form \<^verbatim>\<open>host:...\<close>.
\<close>

definition quiet :: "'w e2t \<Rightarrow> string \<Rightarrow> nat \<Rightarrow> 'w e2t \<Rightarrow> bool" where
  "quiet s0 k a s \<longleftrightarrow> others_kept s0 k s \<and> (\<forall>c. heap s a = Some c \<longrightarrow> has_name c [] \<or> has_name c k) \<and>
     (\<forall>c. map_find (sctpMap s) (host_key c) = None)"

interpretation quiet: call_frame E "quiet s0 k a" for E :: "'w env" and s0 k a
proof unfold_locales
  fix s :: "'w e2t" and b and c c' :: ConnectedCU
  assume s: "quiet s0 k a s" and c: "heap s b = Some c" "cu_enodbName c' = cu_enodbName c"
  have "has_name c' m = has_name c m" for m using c(2) by (simp add: has_name_def)
  then show "quiet s0 k a (s\<lparr>heap := (heap s)(b \<mapsto> c')\<rparr>)" using s c by (auto simp: quiet_def)
qed (simp_all add: quiet_def)

lemma quiet_ext: "keeps (quiet s0 k a) (ext g)" "keeps (quiet s0 k a) (ext_do h)"
  by (auto simp: keeps_def ext_def ext_do_def modify_def quiet_def split: prod.splits)

lemma quiet_own_name:
  assumes "\<And>n. n = [] \<or> n = k \<Longrightarrow> keeps (quiet s0 k a) (f n)"
  shows "keeps (quiet s0 k a) (bnd (CU_name a) f)"
proof (rule keepsI)
  fix s x s' assume s: "quiet s0 k a s" and r: "bnd (CU_name a) f s = Inr (x, s')"
  obtain c n where c: "heap s a = Some c" "cstr (cu_enodbName c) = Some n" "f n s = Inr (x, s')"
    using r by (auto simp: CU_name_def deref_def bnd_def gets_def need_def ret_def raise_def split: sum.splits option.splits)
  then have "n = [] \<or> n = k" using s has_name_cstr by (fastforce simp: quiet_def)
  from keepsD [OF assms [OF this] s c(3)] show "quiet s0 k a s'" .
qed

lemma quiet_erase: "n = [] \<or> n = k \<Longrightarrow> keeps (quiet s0 k a) (erase_key n)"
  unfolding erase_key_def
  by (rule keeps_modify) (auto simp: quiet_def map_find_map_of intro: others_kept_erase map_of_erase_None)

lemma quiet_clean: "keeps (quiet s0 k a) (cleanHashEntry (Some a))"
proof -
  have host: "keeps (quiet s0 k a) (erase_if_found (host_key c))" for c
    by (auto simp: keeps_def quiet_def erase_if_found_def bnd_def gets_def whenM_def ret_def)
  have found: "keeps (quiet s0 k a) (erase_if_found n)" if "n = [] \<or> n = k" for n
    unfolding erase_if_found_def by (intro keeps_intros quiet_erase that)
  have free: "keeps (quiet s0 k a) (free_CU a)"
    unfolding free_CU_def by (intro keeps_intros keeps_modify) (simp add: quiet_def)
  show ?thesis
    unfolding cleanHashEntry_def option.case
    by (intro keeps_intros quiet.keeps_reads host quiet_own_name found free)
qed

lemma quiet_remove:
  assumes "n = [] \<or> n = k"
  shows "keeps (quiet s0 k a) (remove_procedure n)"
  unfolding remove_procedure_def
proof (rule keeps_modify)
  fix s assume s: "quiet s0 k a s"
  then have "others_kept s0 k s" by (simp add: quiet_def)
  from others_kept_e2map [OF this assms map_of_remove_other]
  show "quiet s0 k a (s\<lparr>e2map := removeE2ConnectionEntryFromMap (e2map s) n\<rparr>)"
    using s by (simp add: quiet_def)
qed

definition disconnect_steps :: "'w env \<Rightarrow> nat \<Rightarrow> ('w, unit) act" where
  "disconnect_steps E a = seqs [
     bnd (CU_name a) (\<lambda>n. send_text (n @ ''|CU disconnected unexpectedly'')),
     point_to_send,
     count_internal a SCTP_ABORT_INITIATED_BY_E2NODE,
     request_to_xapp E RIC_SCTP_CONNECTION_FAILURE,
     bnd (CU_name a) remove_procedure,
     bnd (deref a) (\<lambda>c. bnd (ext (fd_open E (fileDescriptor c))) (\<lambda>open. whenM open
       (sq (ext_do (fd_close E (fileDescriptor c))) (cleanHashEntry (Some a)))))]"

lemma quiet_disconnected:
  assumes "quiet s0 k a s" "peerInfo (msg s) = Some a" "disconnected E (Some a) s = Inr (x, s')"
  shows "quiet s0 k a s'"
proof -
  have steps: "keeps (quiet s0 k a) (disconnect_steps E a)"
    unfolding disconnect_steps_def
    by (intro keeps_intros quiet.keeps_reads quiet.keeps_text quiet.keeps_count quiet.keeps_request quiet_ext
        quiet_own_name quiet_remove quiet_clean)
  have "disconnected E (Some a) s = disconnect_steps E a s"
    unfolding disconnected_def disconnect_steps_def peer_addr_def
    using assms(2) by (simp only: run_step(1,5,6) option.case o_apply)
  with assms(3) keepsD [OF steps assms(1)] show ?thesis by simp
qed

lemma quiet_poll_error: "keeps (quiet s0 k a) (poll_error E a)"
proof -
  have name: "keeps (quiet s0 k a) (copy_peer_name a)"
    unfolding copy_peer_name_def upd_msg_def
    by (intro keeps_intros quiet.keeps_reads keeps_modify) (simp add: quiet_def)
  show ?thesis
    unfolding poll_error_def
    by (intro keeps_intros quiet.keeps_reads quiet.keeps_text quiet.keeps_count quiet.keeps_request
        quiet.keeps_upd_msg name quiet_ext quiet_own_name quiet_remove quiet_clean) simp_all
qed

lemma quiet_start:
  assumes "base T n f s" "heap s a = Some c" "has_name c m" "m = [] \<or> m = k" "others_kept s0 k s"
  shows "quiet s0 k a s"
proof -
  have "map_ok (sctpMap s) (heap s)" using assms(1) by (simp add: base_def)
  then show ?thesis using assms(2-5) map_find_none host_key_not_ran by (auto simp: quiet_def)
qed

lemma wp_node_event:
  assumes E: "env_ok T E" "nodes_ok N E" and s: "base T n f s" "n < rounds E"
    and c: "heap s a = Some c" "has_name c m" "m = [] \<or> m = N (world s) (fileDescriptor c)"
  shows "wp (receiveDataFromSctp E ts (Some a)) (\<lambda>_. others_kept s (N (world s) (fileDescriptor c))) s"
proof -
  let ?k = "N (world s) (fileDescriptor c)"
  let ?s = "s\<lparr>msg := zero_message\<lparr>peerInfo := Some a\<rparr>\<rparr>"
  have s': "base T n f ?s" using s(1) by (simp add: base_def core_def)
  have at: "following s N E a (fileDescriptor c) ?k ?s"
    using E(2) c by (auto simp: following_def node_at_def others_kept_def zero_message_def)
  have stop: "wp (whenM d (disconnected E (Some a))) (\<lambda>_. others_kept s ?k) s'"
    if t: "base T n False s'" "following s N E a (fileDescriptor c) ?k s'" for d s'
  proof -
    obtain c' m' where c': "peerInfo (msg s') = Some a" "heap s' a = Some c'" "has_name c' m'" "m' = [] \<or> m' = ?k"
      using t(2) by (auto simp: following_def node_at_def)
    have q: "quiet s ?k a s'" using quiet_start [OF t(1) c'(2-4)] t(2) by (simp add: following_def)
    obtain s'' where r: "disconnected E (Some a) s' = Inr ((), s'')"
      using wp_exec [OF wp_disconnected [OF E(1) t(1) c'(1,2)]] by auto
    have "wp (disconnected E (Some a)) (\<lambda>_. others_kept s ?k) s'"
      using quiet_disconnected [OF q c'(1) r] r by (simp add: wp_def quiet_def)
    then show ?thesis using q by (simp add: wp_whenM quiet_def)
  qed
  have "wp (receive_rounds (rounds E) E ts) (\<lambda>d. wp (whenM d (disconnected E (Some a))) (\<lambda>_. others_kept s ?k)) ?s"
    by (rule wp_mono [OF following.wp_receive_rounds [OF E(1) s' at s(2) order_refl]]) (blast intro: stop)
  then show ?thesis
    unfolding receiveDataFromSctp_def wp_sq wp_modify wp_bnd by (rule wp_mono) (simp only: wp_sq wp_ret_eta)
qed

section \<open>The requests of the xApps\<close>

text \<open>
  A frame for the handlers of the xApps' messages also survives a change of the world and of the
  receive buffer, and knows no connection that is marked as connected: sending to a node then
  leaves the tables alone.
\<close>

locale request_frame = frame E I
  for E :: "'w env" and I :: "'w e2t \<Rightarrow> bool" +
  assumes world_field: "I s \<Longrightarrow> I (s\<lparr>world := w\<rparr>)"
    and rcv_field: "I s \<Longrightarrow> I (s\<lparr>rcvMessage := b\<rparr>)"
    and not_connected: "I s \<Longrightarrow> heap s a = Some c \<Longrightarrow> \<not> isConnected c"
begin

lemma keeps_ext [keeps_intros]: "keeps I (ext g)"
  by (auto simp: keeps_def ext_def world_field split: prod.splits)

lemma keeps_rcv [keeps_intros]: "keeps I get_rcv" "keeps I (upd_rcv h)" "keeps I (set_rcv r)" "keeps I (alloc_rcv E)"
proof -
  show rcv: "keeps I get_rcv" unfolding get_rcv_def by (intro keeps_intros)
  show "keeps I (set_rcv r)" for r unfolding set_rcv_def by (rule keeps_modify) (rule rcv_field)
  then show "keeps I (alloc_rcv E)" unfolding alloc_rcv_def by (intro keeps_intros)
  show "keeps I (upd_rcv h)" unfolding upd_rcv_def by (intro keeps_intros rcv keeps_modify) (rule rcv_field)
qed

lemma keeps_idle_peer:
  assumes "\<And>c. \<not> isConnected c \<Longrightarrow> keeps I (f c)"
  shows "keeps I (bnd (deref_ptr p) f)"
proof (rule keepsI)
  fix s x s' assume s: "I s" and r: "bnd (deref_ptr p) f s = Inr (x, s')"
  obtain a c where c: "heap s a = Some c" "f c s = Inr (x, s')"
    using r by (auto simp: deref_ptr_def deref_def bnd_def gets_def need_def ret_def raise_def split: sum.splits option.splits)
  from keepsD [OF assms [OF not_connected [OF s c(1)]] s c(2)] show "I s'" .
qed

lemma keeps_send_rounds: "keeps I (send_rounds j E fd bs st)"
proof (induction j)
  case (Suc j)
  then show ?case
    unfolding send_rounds.simps by (auto split: send_result.split intro!: keeps_intros)
qed (simp add: keeps_raise)

lemma keeps_octets: "keeps I asn_octets" "keeps I fetchStreamId"
  unfolding asn_octets_def fetchStreamId_def by (intro keeps_intros)+

lemma keeps_sendSctpMsg: "keeps I (sendSctpMsg E p)"
  unfolding sendSctpMsg_def
proof (intro keeps_idle_peer keeps_bnd keeps_octets keeps_send_rounds keeps_option)
  show "keeps I (sq (upd_msg (\<lambda>m. m\<lparr>direction := CHR ''D''\<rparr>)) (sq (buildJsonMessage E) (ret 0)))"
    by (intro keeps_intros keeps_upd_msg) simp_all
qed (simp_all add: keeps_ret)

lemma keeps_sendDirectional [keeps_intros]: "keeps I (sendDirectionalSctpMsg E)"
  unfolding sendDirectionalSctpMsg_def getRequestMetaData_def sendMessagetoCu_def
  by (intro keeps_intros keeps_upd_msg keeps_sendSctpMsg) simp_all

lemma keeps_xapp_parts [keeps_intros]:
  "keeps I m \<Longrightarrow> keeps I (converted E m)" "keeps I k \<Longrightarrow> keeps I (forwarded E k)"
  "keeps I (count_out d d' p)" "keeps I (count_setup d)"
  unfolding converted_def forwarded_def count_out_def count_setup_def PER_FromXML_def by (intro keeps_intros; assumption)+

lemma keeps_replies: "keeps I (x_KEEP_ALIVE_REQ E)" "keeps I (x_HEALTH_CHECK_REQ E)" "keeps I (x_unsupported E ts)"
  unfolding x_KEEP_ALIVE_REQ_def x_HEALTH_CHECK_REQ_def x_unsupported_def by (intro keeps_intros keeps_upd_msg; simp)+

lemma keeps_xapp_case: "t \<noteq> RIC_SCTP_CLEAR_ALL \<Longrightarrow> keeps I (xapp_case E ts t)"
  by (cases t)
    (auto simp: x_E2_SETUP_RESP_def x_E2_SETUP_FAILURE_def x_E2NODE_CONFIG_UPDATE_ACK_def
      x_E2NODE_CONFIG_UPDATE_FAILURE_def x_ERROR_INDICATION_def x_SUB_REQ_def x_SUB_DEL_REQ_def x_CONTROL_REQ_def
      x_SERVICE_QUERY_def x_SERVICE_UPDATE_ACK_def x_SERVICE_UPDATE_FAILURE_def x_E2_RESET_REQ_def
      x_E2_RESET_RESP_def keeps_replies intro!: keeps_intros)

end

definition asking :: "'w e2t \<Rightarrow> string \<Rightarrow> 'w e2t \<Rightarrow> bool" where
  "asking s0 k s \<longleftrightarrow> others_kept s0 k s \<and> sctpMap s = sctpMap s0 \<and> cstr (msg_enodbName (msg s)) = Some k \<and>
     (\<forall>a c. heap s a = Some c \<longrightarrow> \<not> isConnected c)"

interpretation asking: request_frame E "asking s0 k" for E :: "'w env" and s0 k
proof unfold_locales
  fix s :: "'w e2t" and n m assume s: "asking s0 k s" and n: "cstr (msg_enodbName (msg s)) = Some n"
    and m: "\<And>n'. n' \<noteq> n \<Longrightarrow> map_of m n' = map_of (e2map s) n'"
  have "others_kept s0 k (s\<lparr>e2map := m\<rparr>)" using s n m by (intro others_kept_e2map [where n = n]) (auto simp: asking_def)
  then show "asking s0 k (s\<lparr>e2map := m\<rparr>)" using s by (simp add: asking_def)
qed (auto simp: asking_def split: if_splits)

section \<open>Events that leave the tables alone\<close>

definition tables :: "map_wrapper \<Rightarrow> conn_map \<Rightarrow> 'w e2t \<Rightarrow> bool" where
  "tables m e s \<longleftrightarrow> sctpMap s = m \<and> e2map s = e"

lemma keeps_tables [keeps_intros]:
  "keeps (tables m e) (ext g)" "keeps (tables m e) (ext_do g')" "keeps (tables m e) (upd_msg h)"
  "keeps (tables m e) (deref a)" "keeps (tables m e) (upd_CU a f)" "keeps (tables m e) alloc_CU" "keeps (tables m e) (free_CU a)"
proof -
  show world: "keeps (tables m e) (ext g)" for g :: "'a \<Rightarrow> 'b \<times> 'a"
    by (auto simp: keeps_def ext_def tables_def split: prod.splits)
  show "keeps (tables m e) (ext_do g')" "keeps (tables m e) (upd_msg h)"
    unfolding ext_do_def upd_msg_def by (rule keeps_modify, simp add: tables_def)+
  show deref: "keeps (tables m e) (deref a)" for a :: nat
    unfolding deref_def by (intro keeps_intros)
  show "keeps (tables m e) (upd_CU a f)" "keeps (tables m e) alloc_CU" "keeps (tables m e) (free_CU a)"
    unfolding upd_CU_def alloc_CU_def free_CU_def
    by (intro keeps_intros deref keeps_modify; simp add: tables_def)+
qed

lemma keeps_tables_accept: "keeps (tables m e) (accept_connection E)"
  unfolding accept_connection_def setSocketNoBlocking_def drop_new_def set_up_new_def addToEpoll_def option.case
  by (intro keeps_intros)

text \<open>Clearing leaves the procedure states.\<close>

definition procedures :: "conn_map \<Rightarrow> 'w e2t \<Rightarrow> bool" where
  "procedures e s \<longleftrightarrow> e2map s = e"

interpretation procedures: call_frame E "procedures e" for E :: "'w env" and e
  by unfold_locales (simp_all add: procedures_def)

lemma keeps_clear_all: "keeps (procedures e) (x_SCTP_CLEAR_ALL E ts)"
proof -
  have fields: "keeps (procedures e) (ext_do g)" "keeps (procedures e) (upd_msg h)" "keeps (procedures e) (free_CU a)" for g h a
    unfolding ext_do_def upd_msg_def free_CU_def by (intro keeps_intros keeps_modify; simp add: procedures_def)+
  have one: "keeps (procedures e) (clear_one E ts a)" for a
    unfolding clear_one_def copy_peer_name_def
    by (intro keeps_intros procedures.keeps_reads procedures.keeps_text procedures.keeps_request fields)
  have key: "keeps (procedures e) (clear_key E ts k)" for k
    unfolding clear_key_def by (intro keeps_intros one)
  show ?thesis
    unfolding x_SCTP_CLEAR_ALL_def by (intro keeps_intros key keeps_modify) (simp add: procedures_def)
qed

lemma clear_all_registry:
  assumes "x_SCTP_CLEAR_ALL E ts s = Inr (x, s')"
  shows "registry_step (registry s) Cleared (registry s')"
proof (rule cleared)
  have "e2map s' = e2map s"
    using keepsD [OF keeps_clear_all _ assms] by (simp add: procedures_def)
  moreover have "sctpMap s' = []"
    using assms by (auto simp: x_SCTP_CLEAR_ALL_def bnd_def sq_def gets_def modify_def ret_def map_clear_def split: sum.splits)
  ultimately show "registry s' n = (None, snd (registry s n))" for n
    by (simp add: registry_def map_find_map_of)
qed

section \<open>Every event is a step of the registry\<close>

text \<open>What a message of an xApp does: nothing, the request of a node, or a clearing.\<close>

definition xapp_step :: "'w e2t \<Rightarrow> 'w e2t \<Rightarrow> bool" where
  "xapp_step s s' \<longleftrightarrow> (\<exists>e. (e = Silent \<or> e = Cleared \<or> (\<exists>k. e = Request k)) \<and> registry_step (registry s) e (registry s'))"

lemma xapp_step_same: "registry s' = registry s \<Longrightarrow> xapp_step s s'"
  unfolding xapp_step_def by (rule exI [of _ Silent]) (simp add: silent)

lemma case_event:
  assumes n: "cstr (msg_enodbName (msg t)) = Some k" "\<forall>a c. heap t a = Some c \<longrightarrow> \<not> isConnected c"
    and r: "xapp_case E ts ty t = Inr (x, s')"
  shows "xapp_step t s'"
proof (cases "ty = RIC_SCTP_CLEAR_ALL")
  case True
  then have "registry_step (registry t) Cleared (registry s')" using r by (intro clear_all_registry) simp
  then show ?thesis unfolding xapp_step_def by blast
next
  case False
  have "asking t k t" using n by (simp add: asking_def others_kept_def)
  from keepsD [OF asking.keeps_xapp_case [OF False] this r] have "registry_step (registry t) (Request k) (registry s')"
    by (intro request) (simp_all add: asking_def others_kept_def, simp add: registry_def)
  then show ?thesis unfolding xapp_step_def by blast
qed

lemma dispatch_event:
  assumes s: "\<forall>a c. heap s a = Some c \<longrightarrow> \<not> isConnected c" and r: "dispatch_xapp E ts b s = Inr (x, s')"
  shows "xapp_step s s'"
proof -
  obtain buf n where n: "cstr buf = Some n"
    and r': "(if map_find (sctpMap s) n = None \<and> \<not> needs_no_node (mb_mtype b)
        then Inr (-1, s\<lparr>msg := (msg s)\<lparr>msg_enodbName := buf, peerInfo := map_find (sctpMap s) n\<rparr>\<rparr>)
        else xapp_case E ts (mb_mtype b) (if mb_mtype b \<noteq> RIC_HEALTH_CHECK_REQ
          then s\<lparr>msg := (msg s)\<lparr>msg_enodbName := buf, peerInfo := map_find (sctpMap s) n\<rparr>,
            num_of_XAPP_messages := num_of_XAPP_messages s + 1\<rparr>
          else s\<lparr>msg := (msg s)\<lparr>msg_enodbName := buf, peerInfo := map_find (sctpMap s) n\<rparr>\<rparr>)) = Inr (x, s')"
    using r by (auto simp: dispatch_xapp_def run_simps ret_def split: option.splits if_splits)
  have step: "xapp_step t s'" if "xapp_case E ts ty t = Inr (x, s')" "msg_enodbName (msg t) = buf" "heap t = heap s" for t ty
    using that n s by (intro case_event [where k = n]) simp_all
  have via: "xapp_step t s' \<Longrightarrow> registry t = registry s \<Longrightarrow> xapp_step s s'" for t
    by (simp add: xapp_step_def)
  show ?thesis
    using r' by (auto simp del: xapp_case.simps split: if_splits intro: via [OF step] xapp_step_same)
qed

lemma request_event:
  assumes s: "\<forall>a c. heap s a = Some c \<longrightarrow> \<not> isConnected c" and r: "receiveXappMessages E ts s = Inr (x, s')"
  shows "xapp_step s s'"
proof -
  consider "registry s' = registry s"
    | t b where "dispatch_xapp E ts b t = Inr (x, s')" "heap t = heap s" "registry t = registry s"
    using r by (fastforce simp: receiveXappMessages_def alloc_rcv_def set_rcv_def run_simps ret_def split: option.splits prod.splits if_splits)
  then show ?thesis
  proof cases
    case 2
    then show ?thesis using dispatch_event [OF _ 2(1)] s by (simp add: xapp_step_def)
  qed (rule xapp_step_same)
qed

lemma tables_event:
  assumes "keeps (tables (sctpMap s) (e2map s)) m" "m t = Inr (x, s')" "sctpMap t = sctpMap s" "e2map t = e2map s"
  shows "xapp_step s s'"
proof -
  have "tables (sctpMap s) (e2map s) t" using assms(3,4) by (simp add: tables_def)
  from keepsD [OF assms(1) this assms(2)] show ?thesis
    by (intro xapp_step_same registry_same) (simp_all add: tables_def)
qed

text \<open>The handling of an event, applied to its state.\<close>

definition stamped :: "int \<times> int \<Rightarrow> 'w e2t \<Rightarrow> 'w e2t" where
  "stamped ts s = s\<lparr>lmsg := (lmsg s)\<lparr>tv_sec := fst ts, tv_nsec := snd ts\<rparr>\<rparr>"

definition counted :: "'w e2t \<Rightarrow> 'w e2t" where
  "counted s = s\<lparr>num_of_messages := num_of_messages s + 1\<rparr>"

lemma stamped_simps [simp]:
  "params (stamped ts s) = params s" "heap (stamped ts s) = heap s" "world (stamped ts s) = world s"
  "sctpMap (stamped ts s) = sctpMap s" "e2map (stamped ts s) = e2map s" "registry (stamped ts s) = registry s"
  "params (counted s) = params s" "heap (counted s) = heap s" "world (counted s) = world s"
  "sctpMap (counted s) = sctpMap s" "e2map (counted s) = e2map s" "registry (counted s) = registry s"
  by (simp_all add: stamped_def counted_def)

lemma base_stamped: "base T n f s \<Longrightarrow> base T n f (stamped ts s)" "base T n f s \<Longrightarrow> base T n f (counted s)"
  by (simp_all add: stamped_def counted_def base_def core_def)

lemma handle_event_run:
  "handle_event E (ts, ev) s =
    (if ev_error ev then with_listener_message (handlepoll_error E (ev_data ev)) (stamped ts s)
     else if ev_out ev then with_listener_message (handleEinprogressMessages E (ev_data ev)) (stamped ts s)
     else (case ev_data ev of
         Epoll_fd fd \<Rightarrow>
           if fd = listenFD (params s) then accept_connection E (stamped ts s)
           else if fd = rmrListenFd (params s) then
             bnd (receiveXappMessages E ts) (\<lambda>_. ret ()) (counted (stamped ts s))
           else if fd = inotifyFD (params s) then handleConfigChange E (stamped ts s)
           else Inl (if fd = 0 then Null_Deref else Wild_Pointer)
       | Epoll_ptr p \<Rightarrow> bnd (receiveDataFromSctp E ts p) (\<lambda>_. ret ()) (counted (stamped ts s))))"
  by (simp add: handle_event_def Let_def count_event_def run_simps stamped_def counted_def split: epoll_data.split)

lemma with_listener_run:
  "with_listener_message m s = Inr (x, s') \<Longrightarrow> \<exists>t. m (s\<lparr>msg := lmsg s\<rparr>) = Inr ((), t) \<and> s' = t\<lparr>lmsg := msg t\<rparr>"
  by (auto simp: with_listener_message_def sq_def bnd_def modify_def split: sum.splits)

text \<open>An event of one of the numbered descriptors.\<close>

lemma descriptor_event:
  assumes s: "base T n f s" and ev: "reported N s ev" "ev_data ev = Epoll_fd fd"
    and r: "handle_event E (ts, ev) s = Inr (x, s')"
  shows "xapp_step s s'"
proof -
  have idle: "\<forall>a c. heap s a = Some c \<longrightarrow> \<not> isConnected c" using s by (auto simp: base_def core_def heap_ok_def CU_ok_def)
  consider (error) "fd = rmrListenFd (params s)" "ev_error ev"
    | (accept) "accept_connection E (stamped ts s) = Inr (x, s')"
    | (xapp) y t where "receiveXappMessages E ts (counted (stamped ts s)) = Inr (y, t)" "s' = t"
    | (config) "handleConfigChange E (stamped ts s) = Inr (x, s')"
    using ev r by (auto simp: handle_event_run reported_def good_event_def bnd_def ret_def split: if_splits sum.splits)
  then show ?thesis
  proof cases
    case error
    then show ?thesis
      using r ev(2) by (intro xapp_step_same)
        (auto simp: handle_event_run handlepoll_error_def bnd_def gets_def ret_def stamped_def dest!: with_listener_run)
  next
    case accept
    then show ?thesis by (intro tables_event [OF keeps_tables_accept accept]) simp_all
  next
    case xapp
    have "xapp_step (counted (stamped ts s)) t" by (rule request_event [OF _ xapp(1)]) (simp add: idle)
    then show ?thesis using xapp(2) by (simp add: xapp_step_def)
  next
    case config
    have "trace_differs (stamped ts s) s'"
      using config keepsD [OF keeps_config_rounds trace_differs_refl] by (simp add: handleConfigChange_def)
    then have "sctpMap s' = sctpMap (stamped ts s)" "e2map s' = e2map (stamped ts s)" by (auto simp: trace_differs_def)
    then show ?thesis by (intro xapp_step_same registry_same) simp_all
  qed
qed

text \<open>An event of a connection.\<close>

lemma connection_event:
  assumes E: "sound T N E n" and s: "base T n f s" and ev: "reported N s ev" "ev_data ev = Epoll_ptr p"
    and r: "handle_event E (ts, ev) s = Inr (x, s')"
  obtains a c where "p = Some a" "heap s a = Some c" "others_kept s (N (world s) (fileDescriptor c)) s'"
proof -
  obtain a c m where c: "p = Some a" "heap s a = Some c" "has_name c m" "m = [] \<or> m = N (world s) (fileDescriptor c)"
    and out: "\<not> ev_out ev"
    using ev by (auto simp: reported_def good_event_def)
  let ?k = "N (world s) (fileDescriptor c)"
  have same: "others_kept t k = others_kept s k" if "registry t = registry s" for t k
    using that by (simp add: others_kept_def fun_eq_iff)
  have "others_kept s ?k s'"
  proof (cases "ev_error ev")
    case True
    let ?t = "(stamped ts s)\<lparr>msg := lmsg (stamped ts s)\<rparr>"
    have "base T n f ?t" using base_stamped(1) [OF s, of ts] by (simp add: base_def core_def)
    then have q: "quiet s ?k a ?t" using c by (intro quiet_start) (simp_all add: others_kept_def)
    obtain t where t: "poll_error E a ?t = Inr ((), t)" "s' = t\<lparr>lmsg := msg t\<rparr>"
      using r ev(2) True c(1) by (auto simp: handle_event_run handlepoll_error_def dest!: with_listener_run)
    from keepsD [OF quiet_poll_error q t(1)] t(2) show ?thesis by (simp add: quiet_def)
  next
    case False
    have "wp (receiveDataFromSctp E ts (Some a)) (\<lambda>_. others_kept (counted (stamped ts s)) ?k) (counted (stamped ts s))"
      using E c wp_node_event [of T E N n f "counted (stamped ts s)" a c m ts] base_stamped [OF base_stamped(1) [OF s]]
      by (simp add: sound_def)
    moreover obtain y where "receiveDataFromSctp E ts (Some a) (counted (stamped ts s)) = Inr (y, s')"
      using r ev(2) False out c(1) by (auto simp: handle_event_run bnd_def ret_def split: sum.splits)
    ultimately show ?thesis by (simp add: wp_def same [of "counted (stamped ts s)"])
  qed
  with c that show thesis by blast
qed

text \<open>A step of the listener and the step of the registry that it implements.\<close>

lemma step_event:
  assumes E: "sound T N E n" and s: "base T n False s" and step: "listener_step T N E n s act s'"
  shows "\<exists>e. registry_step (registry s) e (registry s') \<and>
    (case act of
       World_moves \<Rightarrow> e = Silent
     | Handles ts ev \<Rightarrow> (case ev_data ev of
         Epoll_ptr p \<Rightarrow> \<exists>a c. p = Some a \<and> heap s a = Some c \<and> e = Node (N (world s) (fileDescriptor c))
       | Epoll_fd fd \<Rightarrow> e = Silent \<or> e = Cleared \<or> (\<exists>k. e = Request k)))"
  using step
proof cases
  case (world_moves w)
  then show ?thesis by (auto intro: silent)
next
  case (handles ev ts)
  show ?thesis
  proof (cases "ev_data ev")
    case (Epoll_fd fd)
    then show ?thesis
      using descriptor_event [OF s handles(2) Epoll_fd handles(3)] handles(1) by (auto simp: xapp_step_def)
  next
    case (Epoll_ptr p)
    obtain a c where c: "p = Some a" "heap s a = Some c" "others_kept s (N (world s) (fileDescriptor c)) s'"
      by (rule connection_event [OF E s handles(2) Epoll_ptr handles(3)])
    then have "registry_step (registry s) (Node (N (world s) (fileDescriptor c))) (registry s')"
      by (intro registry_step.node) (simp add: others_kept_def)
    with c(1,2) show ?thesis
      unfolding handles(1) action.case Epoll_ptr epoll_data.case by blast
  qed
qed

interpretation listener_registry: refinement "\<lambda>s. sound T N E n \<and> started T G E n s" "listener_step T N E n"
    "\<lambda>s. sound T N E n \<and> base T n False s" registry_step registry
  for T :: "'w \<Rightarrow> nat" and N G E n
  by unfold_locales (blast dest: step_event)

text \<open>
  C8. The listener implements the registry: from every reachable state, each of its steps is a
  step of the registry. A move of the world leaves it alone, an event of a connection changes
  at most the entry of the node at its other end, and every other event changes at most the
  procedure state of the one node that an xApp names, or takes all connections out.
\<close>
theorem listener_refines_registry:
  assumes "listener_reachable T N G E n s" "listener_step T N E n s act s'"
  shows "\<exists>e. registry_step (registry s) e (registry s') \<and>
    (case act of
       World_moves \<Rightarrow> e = Silent
     | Handles ts ev \<Rightarrow> (case ev_data ev of
         Epoll_ptr p \<Rightarrow> \<exists>a c. p = Some a \<and> heap s a = Some c \<and> e = Node (N (world s) (fileDescriptor c))
       | Epoll_fd fd \<Rightarrow> e = Silent \<or> e = Cleared \<or> (\<exists>k. e = Request k)))"
proof -
  have "sound T N E n" "base T n False s" using listener.reachable_inv [OF assms(1)] by blast+
  then show ?thesis by (rule step_event [OF _ _ assms(2)])
qed

lemma sample_step:
  "\<exists>s s'. listener_reachable sample_work (\<lambda>_ _. sample_name) sample_platform sample_env 0 s \<and>
     listener_step sample_work (\<lambda>_ _. sample_name) sample_env 0 s
       (Handles (1, 0) \<lparr>ev_error = False, ev_out = False, ev_data = Epoll_fd (rmrListenFd (params s))\<rparr>) s'"
proof -
  obtain s where s: "listener_reachable sample_work (\<lambda>_ _. sample_name) sample_platform sample_env 0 s"
    "reported (\<lambda>_ _. sample_name) s \<lparr>ev_error = False, ev_out = False, ev_data = Epoll_fd (rmrListenFd (params s))\<rparr>"
    using sample_reachable by blast
  have "sound sample_work (\<lambda>_ _. sample_name) sample_env 0" "base sample_work 0 False s"
    using listener.reachable_inv [OF s(1)] by blast+
  from wp_exec [OF wp_reported [OF this s(2)], of "(1, 0)"] s show ?thesis by (auto intro: handles)
qed

theorem listener_refines_registry_witness:
  "\<exists>s s' e. listener_step sample_work (\<lambda>_ _. sample_name) sample_env 0 s
     (Handles (1, 0) \<lparr>ev_error = False, ev_out = False, ev_data = Epoll_fd (rmrListenFd (params s))\<rparr>) s' \<and>
     registry_step (registry s) e (registry s') \<and> e \<noteq> Node sample_name"
proof -
  obtain s s' where s: "listener_reachable sample_work (\<lambda>_ _. sample_name) sample_platform sample_env 0 s"
    and step: "listener_step sample_work (\<lambda>_ _. sample_name) sample_env 0 s
     (Handles (1, 0) \<lparr>ev_error = False, ev_out = False, ev_data = Epoll_fd (rmrListenFd (params s))\<rparr>) s'"
    using sample_step by blast
  from listener_refines_registry [OF s step] obtain e where "registry_step (registry s) e (registry s')"
    "e = Silent \<or> e = Cleared \<or> (\<exists>k. e = Request k)" by auto
  with step show ?thesis by blast
qed

end
