(* ===== verification/E2_Batch.thy ===== *)
theory E2_Batch
  imports E2_Registry
begin

text \<open>
  The events of one \<^verbatim>\<open>epoll_wait\<close>: they are reported together, so each is handled in the
  state that the ones before it leave. Handling an event of one connection spares the others,
  and the loop around \<^verbatim>\<open>epoll_wait\<close> runs on until the call fails.
\<close>

section \<open>The connections that an event spares\<close>

text \<open>What is fixed once the listener runs: the descriptors and the length of the announcement.\<close>

definition fixed_part :: "'w e2t \<Rightarrow> int \<times> int \<times> int \<times> int" where
  "fixed_part s = (listenFD (params s), rmrListenFd (params s), inotifyFD (params s), ka_message_length (params s))"

definition spares :: "nat set \<Rightarrow> 'w e2t \<Rightarrow> 'w e2t \<Rightarrow> bool" where
  "spares A s0 s \<longleftrightarrow> fixed_part s = fixed_part s0 \<and> (\<forall>b c. b \<notin> A \<and> heap s0 b = Some c \<longrightarrow>
     (\<exists>c'. heap s b = Some c' \<and> cu_enodbName c' = cu_enodbName c \<and> fileDescriptor c' = fileDescriptor c))"

lemma spares_refl: "spares A s s"
  by (simp add: spares_def)

lemma spares_same: "heap s' = heap s \<Longrightarrow> fixed_part s' = fixed_part s \<Longrightarrow> spares A s0 s' = spares A s0 s"
  by (simp add: spares_def)

lemma spares_fields [simp]:
  "spares A s0 (s\<lparr>world := w\<rparr>) = spares A s0 s" "spares A s0 (s\<lparr>sendMessage := b\<rparr>) = spares A s0 s"
  "spares A s0 (s\<lparr>rcvMessage := b\<rparr>) = spares A s0 s" "spares A s0 (s\<lparr>msg := m\<rparr>) = spares A s0 s"
  "spares A s0 (s\<lparr>lmsg := m\<rparr>) = spares A s0 s" "spares A s0 (s\<lparr>metrics := v\<rparr>) = spares A s0 s"
  "spares A s0 (s\<lparr>transactionCounter := t\<rparr>) = spares A s0 s" "spares A s0 (s\<lparr>trace_log := l\<rparr>) = spares A s0 s"
  "spares A s0 (s\<lparr>sctpMap := h\<rparr>) = spares A s0 s" "spares A s0 (s\<lparr>e2map := e\<rparr>) = spares A s0 s"
  "spares A s0 (s\<lparr>num_of_messages := i\<rparr>) = spares A s0 s" "spares A s0 (s\<lparr>num_of_XAPP_messages := i\<rparr>) = spares A s0 s"
  "spares A (stamped ts s) s' = spares A s s'" "spares A (counted s) s' = spares A s s'"
  by (simp_all add: spares_def fixed_part_def stamped_def counted_def)

lemma spares_weaken:
  assumes "spares A s0 s" "\<And>a. a \<in> A \<Longrightarrow> a \<notin> B \<Longrightarrow> heap s0 a = None"
  shows "spares B s0 s"
proof -
  have "b \<notin> A" if "b \<notin> B" "heap s0 b = Some c" for b c using assms(2) that by fastforce
  then show ?thesis using assms(1) by (simp add: spares_def)
qed

lemma spares_trans: "spares A s0 s1 \<Longrightarrow> spares A s1 s2 \<Longrightarrow> spares A s0 s2"
  unfolding spares_def by fastforce

lemma spares_more: "spares A s0 s \<Longrightarrow> A \<subseteq> B \<Longrightarrow> spares B s0 s"
  by (auto simp: spares_def)

lemma spares_cell:
  assumes "spares A s0 s" "a \<in> A"
  shows "spares A s0 (s\<lparr>heap := (heap s)(a := v)\<rparr>)"
  using assms by (auto simp: spares_def fixed_part_def)

lemma spares_update:
  assumes "spares A s0 s" "heap s a = Some c" "cu_enodbName c' = cu_enodbName c" "fileDescriptor c' = fileDescriptor c"
  shows "spares A s0 (s\<lparr>heap := (heap s)(a \<mapsto> c')\<rparr>)"
  using assms by (fastforce simp: spares_def fixed_part_def)

interpretation spared: call_frame E "spares A s0" for E :: "'w env" and A s0
  by unfold_locales (simp_all add: spares_update)

text \<open>A connection's own messages.\<close>

definition serving :: "'w e2t \<Rightarrow> ('w \<Rightarrow> int \<Rightarrow> string) \<Rightarrow> 'w env \<Rightarrow> nat \<Rightarrow> int \<Rightarrow> string \<Rightarrow> 'w e2t \<Rightarrow> bool" where
  "serving s0 N E a fd k s \<longleftrightarrow> node_at N E a fd k s \<and> spares {a} s0 s"

interpretation serving: node_frame E "serving s0 N E a fd k" N a fd k for s0 and E :: "'w env" and N a fd k
proof unfold_locales
  fix s :: "'w e2t" and c and m :: ReportingMessages assume s: "serving s0 N E a fd k s" and m: "peerInfo m = peerInfo (msg s)"
  then show "serving s0 N E a fd k (s\<lparr>msg := m\<rparr>)" by (simp add: serving_def node_at_msg)
next
  fix s :: "'w e2t" and pdu c assume s: "serving s0 N E a fd k s" and g: "good_setup k pdu" and c: "heap s a = Some c"
  have "spares {a} s0 (named k a c s)"
    using s spares_cell [of "{a}" s0 "s\<lparr>msg := (msg s)\<lparr>msg_enodbName := padded 64 k\<rparr>, sctpMap := map_setkey (sctpMap s) k a\<rparr>" a]
    by (simp add: serving_def named_def)
  then show "serving s0 N E a fd k (named k a c s)"
    using s named_node_at [OF g _ c] by (simp add: serving_def)
qed (auto simp: serving_def node_at_msg intro: node.sent node.allocated node.status_read node.calloced node.received
    node.send_field node.metric_field node.transaction_field node.trace_field node.CU_field node.map_field spares_update)

text \<open>The end of a connection.\<close>

lemma spared_ext: "keeps (spares A s0) (ext g)" "keeps (spares A s0) (ext_do h)" "keeps (spares A s0) (upd_msg m)"
  "keeps (spares A s0) (remove_procedure n)" "keeps (spares A s0) (erase_key n)"
  by (auto simp: keeps_def ext_def ext_do_def upd_msg_def remove_procedure_def erase_key_def modify_def split: prod.splits)

lemma spared_free: "a \<in> A \<Longrightarrow> keeps (spares A s0) (free_CU a)"
  unfolding free_CU_def by (intro keeps_intros keeps_modify) (simp add: spares_cell)

lemma spared_clean: "a \<in> A \<Longrightarrow> keeps (spares A s0) (cleanHashEntry (Some a))"
  unfolding cleanHashEntry_def option.case erase_if_found_def
  by (intro keeps_intros spared.keeps_reads spared_ext spared_free)

lemma spared_disconnected:
  assumes "spares {a} s0 s" "peerInfo (msg s) = Some a" "disconnected E (Some a) s = Inr (x, s')"
  shows "spares {a} s0 s'"
proof -
  have steps: "keeps (spares {a} s0) (disconnect_steps E a)"
    unfolding disconnect_steps_def
    by (intro keeps_intros spared.keeps_reads spared.keeps_text spared.keeps_count spared.keeps_request spared_ext
        spared_clean) simp
  have "disconnected E (Some a) s = disconnect_steps E a s"
    unfolding disconnected_def disconnect_steps_def peer_addr_def
    using assms(2) by (simp only: run_step(1,5,6) option.case o_apply)
  with assms(3) keepsD [OF steps assms(1)] show ?thesis by simp
qed

lemma spared_poll_error: "keeps (spares {a} s0) (poll_error E a)"
  unfolding poll_error_def copy_peer_name_def
  by (intro keeps_intros spared.keeps_reads spared.keeps_text spared.keeps_count spared.keeps_request spared_ext
      spared_clean) simp

lemma wp_node_spares:
  assumes E: "env_ok T E" "nodes_ok N E" and s: "base T n f s" "n < rounds E"
    and c: "heap s a = Some c" "has_name c m" "m = [] \<or> m = N (world s) (fileDescriptor c)"
  shows "wp (receiveDataFromSctp E ts (Some a)) (\<lambda>_. spares {a} s) s"
proof -
  let ?k = "N (world s) (fileDescriptor c)"
  let ?s = "s\<lparr>msg := zero_message\<lparr>peerInfo := Some a\<rparr>\<rparr>"
  have s': "base T n f ?s" using s(1) by (simp add: base_def core_def)
  have at: "serving s N E a (fileDescriptor c) ?k ?s"
    using E(2) c by (auto simp: serving_def node_at_def spares_refl zero_message_def)
  have stop: "wp (whenM d (disconnected E (Some a))) (\<lambda>_. spares {a} s) s'"
    if t: "base T n False s'" "serving s N E a (fileDescriptor c) ?k s'" for d s'
  proof -
    obtain c' where c': "peerInfo (msg s') = Some a" "heap s' a = Some c'" "spares {a} s s'"
      using t(2) by (auto simp: serving_def node_at_def)
    obtain s'' where r: "disconnected E (Some a) s' = Inr ((), s'')"
      using wp_exec [OF wp_disconnected [OF E(1) t(1) c'(1,2)]] by auto
    have "wp (disconnected E (Some a)) (\<lambda>_. spares {a} s) s'"
      using spared_disconnected [OF c'(3,1) r] r by (simp add: wp_def)
    then show ?thesis using c'(3) by (simp add: wp_whenM)
  qed
  have "wp (receive_rounds (rounds E) E ts) (\<lambda>d. wp (whenM d (disconnected E (Some a))) (\<lambda>_. spares {a} s)) ?s"
    by (rule wp_mono [OF serving.wp_receive_rounds [OF E(1) s' at s(2) order_refl]]) (blast intro: stop)
  then show ?thesis
    unfolding receiveDataFromSctp_def wp_sq wp_modify wp_bnd by (rule wp_mono) (simp only: wp_sq wp_ret_eta)
qed

text \<open>The messages of the xApps.\<close>

definition requesting :: "'w e2t \<Rightarrow> 'w e2t \<Rightarrow> bool" where
  "requesting s0 s \<longleftrightarrow> spares {} s0 s \<and> (\<forall>a c. heap s a = Some c \<longrightarrow> \<not> isConnected c)"

interpretation requesting: request_frame E "requesting s0" for E :: "'w env" and s0
  by unfold_locales (auto simp: requesting_def spares_update split: if_splits)

text \<open>The message that an xApp's event brings asks for all connections to be cleared.\<close>

definition asks_clear :: "'w env \<Rightarrow> 'w e2t \<Rightarrow> bool" where
  "asks_clear E s \<longleftrightarrow> (\<exists>b m w. rcvMessage s = Some b \<and> rmr_rcv_msg E b (world s) = (Some m, w) \<and> mb_state m = RMR_OK \<and>
     mb_mtype m = RIC_SCTP_CLEAR_ALL)"

definition clears :: "'w env \<Rightarrow> 'w e2t \<Rightarrow> epoll_event \<Rightarrow> bool" where
  "clears E s ev \<longleftrightarrow> ev_data ev = Epoll_fd (rmrListenFd (params s)) \<and> \<not> ev_error ev \<and> asks_clear E s"

lemma keeps_dispatch:
  assumes "mb_mtype b \<noteq> RIC_SCTP_CLEAR_ALL"
  shows "keeps (requesting s0) (dispatch_xapp E ts b)"
proof -
  have upd: "keeps (requesting s0) (upd_msg g)" for g
    unfolding upd_msg_def by (rule keeps_modify) (simp add: requesting_def)
  show ?thesis
    unfolding dispatch_xapp_def
    by (intro keeps_intros upd requesting.keeps_reads requesting.keeps_xapp_case [OF assms] keeps_modify)
      (simp add: requesting_def)
qed

lemma receiveXapp_cases:
  assumes "receiveXappMessages E ts s = Inr (x, s')"
  obtains "heap s' = heap s" "params s' = params s"
  | t b where "dispatch_xapp E ts b t = Inr (x, s')" "heap t = heap s" "params t = params s"
      "mb_mtype b = RIC_SCTP_CLEAR_ALL \<longleftrightarrow> asks_clear E s"
proof -
  show thesis
  proof (cases "rcvMessage s")
    case None
    then show thesis using assms that(1) by (simp add: receiveXappMessages_def run_simps ret_def)
  next
    case (Some b0)
    obtain r w where r: "rmr_rcv_msg E b0 (world s) = (r, w)" by fastforce
    show thesis
    proof (cases r)
      case None
      then show thesis
        using assms that(1) Some r by (auto simp: receiveXappMessages_def alloc_rcv_def set_rcv_def run_simps ret_def split: prod.splits)
    next
      case (Some b)
      let ?t = "s\<lparr>world := w, rcvMessage := Some b, msg := zero_message\<lparr>direction := CHR ''D'', tv_sec := fst ts, tv_nsec := snd ts\<rparr>\<rparr>"
      have run: "receiveXappMessages E ts s = (if mb_state b \<noteq> RMR_OK then Inr (-1, ?t) else dispatch_xapp E ts b ?t)"
        using \<open>rcvMessage s = Some b0\<close> r Some by (simp add: receiveXappMessages_def set_rcv_def run_simps ret_def)
      show thesis
      proof (cases "mb_state b = RMR_OK")
        case True
        then have "mb_mtype b = RIC_SCTP_CLEAR_ALL \<longleftrightarrow> asks_clear E s"
          using \<open>rcvMessage s = Some b0\<close> r Some by (simp add: asks_clear_def)
        then show thesis using assms run True by (intro that(2) [of b ?t]) simp_all
      next
        case False
        then show thesis using assms run by (intro that(1)) auto
      qed
    qed
  qed
qed

lemma receiveXapp_requesting:
  assumes "\<not> asks_clear E s" "requesting s0 s" "receiveXappMessages E ts s = Inr (x, s')"
  shows "requesting s0 s'"
proof -
  have same: "requesting s0 t" if "heap t = heap s" "params t = params s" for t
    using assms(2) that by (simp add: requesting_def spares_def fixed_part_def)
  from assms(3) show ?thesis
  proof (cases rule: receiveXapp_cases)
    case (2 t b)
    then show ?thesis using assms(1) keepsD [OF keeps_dispatch [of b s0 E ts] same [OF 2(2,3)] 2(1)] by blast
  qed (simp add: same)
qed

text \<open>Whatever the message, the descriptors of the listener stay.\<close>

lemma keeps_fds_clear: "keeps (spares UNIV s0) (x_SCTP_CLEAR_ALL E ts)"
proof -
  have upd: "keeps (spares UNIV s0) (modify (\<lambda>s. s\<lparr>sctpMap := map_clear (sctpMap s)\<rparr>))"
    by (rule keeps_modify) simp
  have free: "keeps (spares UNIV s0) (free_CU a)" for a by (rule spared_free) simp
  have one: "keeps (spares UNIV s0) (clear_one E ts a)" for a
    unfolding clear_one_def copy_peer_name_def
    by (intro keeps_intros spared.keeps_reads spared.keeps_text spared.keeps_request spared_ext free)
  show ?thesis
    unfolding x_SCTP_CLEAR_ALL_def clear_key_def [abs_def]
    by (intro keeps_intros upd one)
qed

lemma receiveXapp_fds:
  assumes "receiveXappMessages E ts s = Inr (x, s')" "requesting s s"
  shows "fixed_part s' = fixed_part s"
proof (cases "asks_clear E s")
  case True
  from assms(1) show ?thesis
  proof (cases rule: receiveXapp_cases)
    case (2 t b)
    have upd: "keeps (spares UNIV s) (upd_msg g)" "keeps (spares UNIV s) (modify (\<lambda>s. s\<lparr>num_of_XAPP_messages := num_of_XAPP_messages s + 1\<rparr>))" for g
      by (simp_all add: spared_ext keeps_modify)
    have "xapp_case E ts (mb_mtype b) = x_SCTP_CLEAR_ALL E ts" using 2(4) True by simp
    then have "keeps (spares UNIV s) (dispatch_xapp E ts b)"
      unfolding dispatch_xapp_def by (simp only:) (intro keeps_intros upd spared.keeps_reads keeps_fds_clear)
    moreover have "spares UNIV s t" using 2(2,3) by (simp add: spares_def fixed_part_def)
    ultimately have "spares UNIV s s'" using 2(1) by (rule keepsD)
    then show ?thesis by (simp add: spares_def)
  qed (simp add: fixed_part_def)
next
  case False
  then show ?thesis using receiveXapp_requesting [OF _ assms(2,1)] by (auto simp: requesting_def spares_def)
qed

text \<open>A new connection gets a cell that no connection has.\<close>

definition accept_rest :: "'w env \<Rightarrow> nat \<Rightarrow> ('w, unit) act" where
  "accept_rest E a = bnd (gets (listenFD \<circ> params)) (\<lambda>lfd. bnd (ext (accept E lfd)) (\<lambda>r. case r of
     None \<Rightarrow> free_CU a
   | Some fd \<Rightarrow> sq (upd_CU a (\<lambda>c. c\<lparr>fileDescriptor := fd\<rparr>))
       (bnd (setSocketNoBlocking E fd) (\<lambda>rc. if rc = -1 then drop_new E a fd else set_up_new E a fd))))"

lemma accept_with_rest: "accept_connection E = bnd (ext (calloc_ok E)) (\<lambda>ok. whenM ok (bnd alloc_CU (accept_rest E)))"
  unfolding accept_connection_def accept_rest_def [abs_def] by (rule refl)

lemma allocated_run: "bnd alloc_CU f s = f (next_addr s) (s\<lparr>heap := (heap s)(next_addr s \<mapsto> zero_CU), next_addr := next_addr s + 1\<rparr>)"
  by (simp add: alloc_CU_def run_simps)

lemma spared_accept_rest: "keeps (spares {a} s0) (accept_rest E a)"
proof -
  have upd: "keeps (spares {a} s0) (upd_CU a g)" for g
    unfolding upd_CU_def by (intro keeps_intros spared.keeps_reads keeps_modify) (simp add: spares_cell)
  have free: "keeps (spares {a} s0) (free_CU a)" by (rule spared_free) simp
  show ?thesis
    unfolding accept_rest_def setSocketNoBlocking_def drop_new_def set_up_new_def addToEpoll_def option.case
    by (intro keeps_intros upd free spared_ext)
qed

lemma accept_spares:
  assumes s: "heap_ok (heap s) (next_addr s)" and r: "accept_connection E s = Inr (x, s')"
  shows "spares {} s s'"
proof -
  let ?a = "next_addr s"
  have fresh: "heap s ?a = None" using s by (cases "heap s ?a") (auto simp: heap_ok_def)
  consider w where "s' = s\<lparr>world := w\<rparr>"
    | w where "accept_rest E ?a (s\<lparr>world := w, heap := (heap s)(?a \<mapsto> zero_CU), next_addr := ?a + 1\<rparr>) = Inr (x, s')"
    using r by (auto simp: accept_with_rest allocated_run run_simps whenM_def ret_def split: prod.splits if_splits)
  then show ?thesis
  proof cases
    case 1
    then show ?thesis by (simp add: spares_refl)
  next
    case 2
    have "spares {?a} s (s\<lparr>world := w, heap := (heap s)(?a \<mapsto> zero_CU), next_addr := ?a + 1\<rparr>)"
      by (auto simp: spares_def fixed_part_def)
    from keepsD [OF spared_accept_rest this 2] show ?thesis using fresh by (auto intro: spares_weaken)
  qed
qed

lemma config_spares:
  assumes "handleConfigChange E s = Inr (x, s')"
  shows "spares {} s s'"
proof -
  have "trace_differs s s'"
    using assms keepsD [OF keeps_config_rounds trace_differs_refl] by (simp add: handleConfigChange_def)
  then show ?thesis by (auto simp: trace_differs_def spares_def fixed_part_def)
qed

text \<open>The connection of an event.\<close>

definition event_cells :: "epoll_event \<Rightarrow> nat set" where
  "event_cells ev = (case ev_data ev of Epoll_ptr (Some a) \<Rightarrow> {a} | _ \<Rightarrow> {})"

lemma descriptor_spares:
  assumes s: "base T n f s" and ev: "reported N s ev" "ev_data ev = Epoll_fd fd"
    and r: "handle_event E (ts, ev) s = Inr (x, s')"
  shows "fixed_part s' = fixed_part s" "\<not> clears E s ev \<Longrightarrow> spares {} s s'"
proof -
  have heap: "heap_ok (heap s) (next_addr s)" using s by (simp add: base_def core_def)
  then have idle: "requesting s s" by (auto simp: requesting_def spares_refl heap_ok_def CU_ok_def)
  then have idle': "requesting s (counted (stamped ts s))" "requesting (counted (stamped ts s)) (counted (stamped ts s))"
    by (auto simp: requesting_def stamped_def counted_def spares_refl)
  have same: "asks_clear E (counted (stamped ts s)) = asks_clear E s" "fixed_part (counted (stamped ts s)) = fixed_part s" "fixed_part (stamped ts s) = fixed_part s"
    by (simp_all add: asks_clear_def counted_def stamped_def fixed_part_def)
  have "fixed_part s' = fixed_part s \<and> (\<not> clears E s ev \<longrightarrow> spares {} s s')"
  proof -
    consider (error) "fd = rmrListenFd (params s)" "ev_error ev"
      | (accept) "accept_connection E (stamped ts s) = Inr (x, s')"
      | (xapp) y where "receiveXappMessages E ts (counted (stamped ts s)) = Inr (y, s')" "clears E s ev = asks_clear E s"
      | (config) "handleConfigChange E (stamped ts s) = Inr (x, s')"
      using ev r by (auto simp: handle_event_run reported_def good_event_def bnd_def ret_def clears_def split: if_splits sum.splits)
    then show ?thesis
    proof cases
      case error
      then have "spares {} s s'"
        using r ev(2) by (auto simp: handle_event_run handlepoll_error_def bnd_def gets_def ret_def stamped_def spares_refl
            dest!: with_listener_run)
      then show ?thesis by (simp add: spares_def)
    next
      case accept
      have "spares {} (stamped ts s) s'"
        by (rule accept_spares [OF _ accept]) (use heap in \<open>simp add: stamped_def\<close>)
      then show ?thesis by (simp add: spares_def same)
    next
      case xapp
      have "requesting s s'" if "\<not> asks_clear E s"
        by (rule receiveXapp_requesting [OF _ idle'(1) xapp(1)]) (simp add: same that)
      then show ?thesis using receiveXapp_fds [OF xapp(1) idle'(2)] xapp(2) by (auto simp: same requesting_def)
    next
      case config
      have "spares {} (stamped ts s) s'" by (rule config_spares [OF config])
      then show ?thesis by (simp add: spares_def same)
    qed
  qed
  then show "fixed_part s' = fixed_part s" "\<not> clears E s ev \<Longrightarrow> spares {} s s'" by blast+
qed

lemma connection_spares:
  assumes E: "sound T N E n" and s: "base T n f s" and ev: "reported N s ev" "ev_data ev = Epoll_ptr p"
    and r: "handle_event E (ts, ev) s = Inr (x, s')"
  obtains a where "p = Some a" "spares {a} s s'"
proof -
  obtain a c m where c: "p = Some a" "heap s a = Some c" "has_name c m" "m = [] \<or> m = N (world s) (fileDescriptor c)"
    and out: "\<not> ev_out ev"
    using ev by (auto simp: reported_def good_event_def)
  have "spares {a} s s'"
  proof (cases "ev_error ev")
    case True
    let ?t = "(stamped ts s)\<lparr>msg := lmsg (stamped ts s)\<rparr>"
    have q: "spares {a} s ?t" by (simp add: spares_def fixed_part_def stamped_def)
    obtain t where t: "poll_error E a ?t = Inr ((), t)" "s' = t\<lparr>lmsg := msg t\<rparr>"
      using r ev(2) True c(1) by (auto simp: handle_event_run handlepoll_error_def dest!: with_listener_run)
    from keepsD [OF spared_poll_error q t(1)] t(2) show ?thesis by simp
  next
    case False
    have "wp (receiveDataFromSctp E ts (Some a)) (\<lambda>_. spares {a} (counted (stamped ts s))) (counted (stamped ts s))"
      using E c wp_node_spares [of T E N n f "counted (stamped ts s)" a c m ts] base_stamped [OF base_stamped(1) [OF s]]
      by (simp add: sound_def)
    moreover obtain y where "receiveDataFromSctp E ts (Some a) (counted (stamped ts s)) = Inr (y, s')"
      using r ev(2) False out c(1) by (auto simp: handle_event_run bnd_def ret_def split: sum.splits)
    ultimately show ?thesis by (simp add: wp_def)
  qed
  with c(1) that show thesis by blast
qed

text \<open>An event spares every connection but its own.\<close>

lemma event_spares:
  assumes "sound T N E n" "\<not> clears E s ev" "base T n f s" "reported N s ev" "handle_event E (ts, ev) s = Inr (x, s')"
  shows "spares (event_cells ev) s s'"
proof (cases "ev_data ev")
  case (Epoll_fd fd)
  then show ?thesis using descriptor_spares(2) [OF assms(3,4) _ assms(5,2)] by (simp add: event_cells_def)
next
  case (Epoll_ptr p)
  obtain a where "p = Some a" "spares {a} s s'"
    by (rule connection_spares [OF assms(1,3,4) Epoll_ptr assms(5)])
  then show ?thesis using Epoll_ptr by (simp add: event_cells_def)
qed

text \<open>
  C10. The connections do not disturb each other in memory: an event that the listener stands
  leaves every connection but its own live, with its name and the number of its descriptor, unless
  it brings the message \<^verbatim>\<open>RIC_SCTP_CLEAR_ALL\<close>. Whether the descriptor is still open is another
  matter: a message of an xApp that cannot be sent to its node closes it.
\<close>
theorem other_connections_spared:
  assumes "sound T N E n" "base T n f s" "reported N s ev" "\<not> clears E s ev"
    and "handle_event E (ts, ev) s = Inr (x, s')" "heap s b = Some c" "ev_data ev \<noteq> Epoll_ptr (Some b)"
  shows "\<exists>c'. heap s' b = Some c' \<and> cu_enodbName c' = cu_enodbName c \<and> fileDescriptor c' = fileDescriptor c"
proof -
  have "b \<notin> event_cells ev" using assms(7) by (auto simp: event_cells_def split: epoll_data.splits option.splits)
  then show ?thesis using event_spares [OF assms(1,4,2,3,5)] assms(6) by (simp add: spares_def)
qed

section \<open>Batches\<close>

text \<open>
  What one \<^verbatim>\<open>epoll_wait\<close> reports: events that the listener stands in the state it returns in, no
  two of them for one connection.
\<close>

fun batch_ok :: "('w \<Rightarrow> int \<Rightarrow> string) \<Rightarrow> 'w e2t \<Rightarrow> ((int \<times> int) \<times> epoll_event) list \<Rightarrow> bool" where
  "batch_ok N s [] \<longleftrightarrow> True"
| "batch_ok N s ((ts, ev) # evs) \<longleftrightarrow> reported N s ev \<and>
     (\<forall>(ts', ev') \<in> set evs. event_cells ev' \<inter> event_cells ev = {}) \<and> batch_ok N s evs"

text \<open>
  What happens while a batch is handled: the nodes at the other end of the connections whose events
  are still to come stay the same, and no event of a connection is left when an xApp has all of them
  cleared.
\<close>

definition peers_stay :: "('w \<Rightarrow> int \<Rightarrow> string) \<Rightarrow> 'w e2t \<Rightarrow> 'w e2t \<Rightarrow> epoll_event \<Rightarrow> bool" where
  "peers_stay N s s' ev \<longleftrightarrow> (\<forall>a c. ev_data ev = Epoll_ptr (Some a) \<and> heap s a = Some c \<longrightarrow>
     N (world s') (fileDescriptor c) = N (world s) (fileDescriptor c))"

fun orderly :: "('w \<Rightarrow> int \<Rightarrow> string) \<Rightarrow> 'w env \<Rightarrow> 'w e2t \<Rightarrow> ((int \<times> int) \<times> epoll_event) list \<Rightarrow> bool" where
  "orderly N E s [] \<longleftrightarrow> True"
| "orderly N E s ((ts, ev) # evs) \<longleftrightarrow>
     (clears E s ev \<longrightarrow> (\<forall>(ts', ev') \<in> set evs. event_cells ev' = {})) \<and>
     (\<forall>s'. handle_event E (ts, ev) s = Inr ((), s') \<longrightarrow>
       (\<forall>(ts', ev') \<in> set evs. peers_stay N s s' ev') \<and> orderly N E s' evs)"

text \<open>An event that the listener stands stays so while its connection is spared and its node stays.\<close>

lemma reported_spared:
  assumes "reported N s ev" "spares A s s'" "event_cells ev \<inter> A = {}" "peers_stay N s s' ev"
  shows "reported N s' ev"
proof (cases "ev_data ev")
  case (Epoll_fd fd)
  then show ?thesis using assms(1,2) by (simp add: reported_def good_event_def spares_def fixed_part_def)
next
  case (Epoll_ptr p)
  then obtain a c m where a: "\<not> ev_out ev" "p = Some a" "heap s a = Some c" "has_name c m" "m = [] \<or> m = N (world s) (fileDescriptor c)"
    using assms(1) by (auto simp: reported_def good_event_def)
  then have "a \<notin> A" using assms(3) Epoll_ptr by (simp add: event_cells_def)
  then obtain c' where "heap s' a = Some c'" "cu_enodbName c' = cu_enodbName c" "fileDescriptor c' = fileDescriptor c"
    using assms(2) a(3) by (auto simp: spares_def)
  moreover from this have "has_name c' m" using a(4) by (simp add: has_name_def)
  moreover have "N (world s') (fileDescriptor c) = N (world s) (fileDescriptor c)"
    using assms(4) Epoll_ptr a by (simp add: peers_stay_def)
  ultimately show ?thesis using Epoll_ptr a by (auto simp: reported_def good_event_def)
qed

lemma reported_fds: "reported N s ev \<Longrightarrow> event_cells ev = {} \<Longrightarrow> fixed_part s' = fixed_part s \<Longrightarrow> reported N s' ev"
  by (cases "ev_data ev") (auto simp: reported_def good_event_def event_cells_def fixed_part_def)

lemma batch_ok_all:
  "batch_ok N s evs \<Longrightarrow> (\<And>ts ev. (ts, ev) \<in> set evs \<Longrightarrow> reported N s ev \<Longrightarrow> reported N s' ev) \<Longrightarrow> batch_ok N s' evs"
proof (induction evs)
  case (Cons te evs)
  obtain ts ev where te: "te = (ts, ev)" by fastforce
  have "batch_ok N s' evs" using Cons.prems te by (intro Cons.IH) auto
  moreover have "reported N s' ev" using Cons.prems(1) te by (intro Cons.prems(2) [of "fst te"]) simp_all
  ultimately show ?case using Cons.prems(1) te by simp
qed simp

lemma batch_spared:
  assumes E: "sound T N E n" and s: "base T n f s" and ev: "reported N s ev" and r: "handle_event E (ts, ev) s = Inr ((), s')"
    and evs: "batch_ok N s ((ts, ev) # evs)" "orderly N E s ((ts, ev) # evs)"
  shows "batch_ok N s' evs"
proof (rule batch_ok_all)
  show "batch_ok N s evs" using evs(1) by simp
  fix ts' ev' assume ev': "(ts', ev') \<in> set evs" "reported N s ev'"
  show "reported N s' ev'"
  proof (cases "clears E s ev")
    case True
    then have "event_cells ev' = {}" using evs(2) ev'(1) by auto
    moreover have "fixed_part s' = fixed_part s"
      using True descriptor_spares(1) [OF s ev _ r] by (auto simp: clears_def)
    ultimately show ?thesis using reported_fds [OF ev'(2)] by blast
  next
    case False
    have "event_cells ev' \<inter> event_cells ev = {}" "peers_stay N s s' ev'" using evs ev'(1) r by auto
    then show ?thesis using reported_spared [OF ev'(2) event_spares [OF E False s ev r]] by blast
  qed
qed

text \<open>A batch is a run of the transition system.\<close>

lemma batch_runs:
  assumes "sound T N E n" "base T n False s" "batch_ok N s evs" "orderly N E s evs"
  shows "\<exists>s' es. handle_batch E evs s = Inr ((), s') \<and> listener_runs T N E n s es s'"
  using assms(2-4)
proof (induction evs arbitrary: s)
  case Nil
  show ?case by (auto simp: handle_batch_def ret_def intro: transition_system.runs_Nil)
next
  case (Cons te evs)
  obtain ts ev where te: "te = (ts, ev)" by fastforce
  have ev: "reported N s ev" using Cons.prems(2) te by simp
  obtain t where t: "handle_event E (ts, ev) s = Inr ((), t)" "base T n False t"
    using wp_exec [OF wp_reported [OF assms(1) Cons.prems(1) ev, of ts]] by auto
  have "batch_ok N t evs" "orderly N E t evs"
    using batch_spared [OF assms(1) Cons.prems(1) ev t(1)] Cons.prems(2,3) te t(1) by auto
  then obtain s' es where s': "handle_batch E evs t = Inr ((), s')" "listener_runs T N E n t es s'"
    using Cons.IH t(2) by blast
  have "handle_batch E (te # evs) s = Inr ((), s')"
    using te t(1) s'(1) by (simp add: handle_batch_def sq_def bnd_def)
  then show ?case using transition_system.runs_Cons [of "listener_step T N E n", OF handles [OF ev t(1)] s'(2)] by blast
qed

section \<open>The loop\<close>

text \<open>What the answers report is there when they do, and the world has work enough left.\<close>

fun answers_ok :: "('w \<Rightarrow> nat) \<Rightarrow> ('w \<Rightarrow> int \<Rightarrow> string) \<Rightarrow> 'w env \<Rightarrow> nat \<Rightarrow> (poll_answer \<times> 'w) list \<Rightarrow> 'w e2t \<Rightarrow> bool" where
  "answers_ok T N E n [] s \<longleftrightarrow> True"
| "answers_ok T N E n ((ans, w) # answers) s \<longleftrightarrow> T w \<le> n \<and>
     (case ans of
        Poll_events evs \<Rightarrow> batch_ok N (s\<lparr>world := w\<rparr>) evs \<and> orderly N E (s\<lparr>world := w\<rparr>) evs \<and>
          (\<forall>s'. handle_batch E evs (s\<lparr>world := w\<rparr>) = Inr ((), s') \<longrightarrow> answers_ok T N E n answers s')
      | _ \<Rightarrow> answers_ok T N E n answers (s\<lparr>world := w\<rparr>))"

fun loop_over :: "poll_answer \<times> 'w \<Rightarrow> bool" where
  "loop_over (Poll_error e, w) \<longleftrightarrow> e \<noteq> EINTR"
| "loop_over _ \<longleftrightarrow> False"

lemma listener_rounds_runs:
  assumes "sound T N E n" "base T n False s" "answers_ok T N E n answers s"
  shows "\<exists>s' es. listener_rounds E answers s = Inr (\<exists>x \<in> set answers. loop_over x, s') \<and> listener_runs T N E n s es s'"
  using assms(2,3)
proof (induction answers arbitrary: s)
  case Nil
  show ?case by (auto simp: ret_def intro: transition_system.runs_Nil)
next
  case (Cons x answers)
  obtain ans w where x: "x = (ans, w)" by fastforce
  let ?s = "s\<lparr>world := w\<rparr>"
  have w: "T w \<le> n" using Cons.prems(2) x by simp
  have moved: "listener_runs T N E n s (World_moves # es) s'" if "listener_runs T N E n ?s es s'" for es s'
  proof (rule transition_system.runs_Cons [OF _ that])
    show "listener_step T N E n s World_moves ?s" using w by (rule world_moves)
  qed
  have here: "base T n False ?s" by (rule base_moves [OF Cons.prems(1) w])
  have run: "listener_rounds E (x # answers) s = (case ans of
        Poll_timeout \<Rightarrow> listener_rounds E answers
      | Poll_error e \<Rightarrow> if e = EINTR then listener_rounds E answers else ret True
      | Poll_events evs \<Rightarrow> sq (handle_batch E evs) (listener_rounds E answers)) ?s"
    by (simp add: x run_simps)
  show ?case
  proof (cases ans)
    case Poll_timeout
    then have "answers_ok T N E n answers ?s" using Cons.prems(2) x by simp
    from Cons.IH [OF here this] show ?thesis using x run Poll_timeout by (auto intro: moved)
  next
    case (Poll_error e)
    then have ok: "answers_ok T N E n answers ?s" using Cons.prems(2) x by simp
    show ?thesis
    proof (cases "e = EINTR")
      case True
      then show ?thesis using Cons.IH [OF here ok] x run Poll_error by (auto intro: moved)
    next
      case False
      have "listener_runs T N E n s [World_moves] ?s" by (intro moved transition_system.runs_Nil)
      then show ?thesis using False x run Poll_error by (auto simp: ret_def)
    qed
  next
    case (Poll_events evs)
    have "batch_ok N ?s evs" "orderly N E ?s evs" using Cons.prems(2) x Poll_events by simp_all
    with batch_runs [OF assms(1) here] obtain t es where t: "handle_batch E evs ?s = Inr ((), t)" "listener_runs T N E n ?s es t"
      by blast
    have "base T n False t" using listener.runs_inv [OF t(2)] assms(1) here by blast
    moreover have "answers_ok T N E n answers t" using Cons.prems(2) x Poll_events t(1) by simp
    ultimately obtain s' es' where s': "listener_rounds E answers t = Inr (\<exists>x \<in> set answers. loop_over x, s')"
        "listener_runs T N E n t es' s'"
      using Cons.IH by blast
    have "listener_rounds E (x # answers) s = listener_rounds E answers t"
      using run Poll_events t(1) by (simp add: sq_def bnd_def)
    then show ?thesis
      using moved [OF transition_system.runs_append [OF t(2) s'(2)]] s'(1) x Poll_events by auto
  qed
qed

text \<open>A run keeps what is standing.\<close>

lemma event_fixed:
  assumes "sound T N E n" "base T n f s" "reported N s ev" "handle_event E (ts, ev) s = Inr (x, s')"
  shows "fixed_part s' = fixed_part s"
proof (cases "ev_data ev")
  case (Epoll_fd fd)
  then show ?thesis using descriptor_spares(1) [OF assms(2,3) _ assms(4)] by blast
next
  case (Epoll_ptr p)
  obtain a where "spares {a} s s'" by (rule connection_spares [OF assms(1-3) Epoll_ptr assms(4)])
  then show ?thesis by (simp add: spares_def)
qed

lemma runs_fixed:
  assumes "listener_runs T N E n s es s'" "sound T N E n" "base T n False s"
  shows "fixed_part s' = fixed_part s"
  using assms
proof (induction rule: listener.runs.induct)
  case (runs_Cons s e s' es s'')
  then have "base T n False s'" using listener.step_inv by blast
  moreover have "fixed_part s' = fixed_part s"
    using runs_Cons.hyps(1)
  proof cases
    case (handles ev ts)
    then show ?thesis using event_fixed runs_Cons.prems by blast
  qed (simp add: fixed_part_def)
  ultimately show ?case using runs_Cons by simp
qed simp


text \<open>The sample environment in which the xApps only ask for the terminator's health.\<close>

definition calm_env :: "sample_world env" where
  "calm_env = sample_env\<lparr>rmr_rcv_msg := (\<lambda>b w. (Some (b\<lparr>mb_mtype := RIC_HEALTH_CHECK_REQ\<rparr>), w))\<rparr>"

lemma calm_main: "main_start G (E\<lparr>rmr_rcv_msg := r\<rparr>) = main_start G E"
proof -
  let ?E = "E\<lparr>rmr_rcv_msg := r\<rparr>"
  have fields: "file_size ?E = file_size E" "file_text ?E = file_text E" "rounds ?E = rounds E" "fd_close ?E = fd_close E"
    "fcntl_getfl ?E = fcntl_getfl E" "fcntl_setfl ?E = fcntl_setfl E" "rmr_alloc_msg ?E = rmr_alloc_msg E"
    by simp_all
  show ?thesis
    unfolding main_start_def start_threads_def listener_start_def close_all_def buildConfiguration_def getRmrContext_def
      buildInotify_def buildListeningPort_def setSocketNoBlocking_def alloc_send_def alloc_rcv_def fields
    by (rule refl)
qed

lemma calm_sound: "sound sample_work (\<lambda>_ _. sample_name) calm_env 0" "\<not> clears calm_env s ev"
proof -
  have fields: "rmr_send_msg calm_env = rmr_send_msg sample_env" "rmr_rts_msg calm_env = rmr_rts_msg sample_env"
    "rmr_alloc_msg calm_env = rmr_alloc_msg sample_env" "rmr_bytes2meid calm_env = rmr_bytes2meid sample_env"
    "rmr_bytes2xact calm_env = rmr_bytes2xact sample_env" "rmr_get_meid calm_env = rmr_get_meid sample_env"
    "rmr_bytes2payload calm_env = rmr_bytes2payload sample_env"
    by (simp_all add: calm_env_def)
  have "\<forall>b w b' w'. buf_ok b \<and> rmr_rcv_msg calm_env b w = (Some b', w') \<longrightarrow> buf_ok b'"
    by (auto simp: calm_env_def buf_ok_def big_def)
  with sample_rmr_ok have "rmr_ok calm_env"
    unfolding rmr_ok_def fields by (elim conjE, intro conjI) assumption+
  moreover have "sockets_ok sample_work calm_env" using sample_sockets_ok by (simp add: sockets_ok_def steady_def calm_env_def)
  moreover have "codec_ok calm_env" using sample_env_ok by (simp add: env_ok_def codec_ok_def calm_env_def)
  moreover have "nodes_ok (\<lambda>_ _. sample_name) calm_env" using sample_nodes_ok by (simp add: nodes_ok_def calm_env_def)
  moreover have "watch_ok sample_work calm_env" using sample_watch_ok by (simp add: watch_ok_def calm_env_def)
  moreover have "trace_off calm_env" using sample_trace_off by (simp add: trace_off_def calm_env_def)
  moreover have "0 < rounds calm_env" by (simp add: calm_env_def sample_env_def)
  ultimately show "sound sample_work (\<lambda>_ _. sample_name) calm_env 0" by (simp add: sound_def env_ok_def)
  show "\<not> clears calm_env s ev" by (auto simp: clears_def asks_clear_def calm_env_def)
qed

lemma calm_reachable: "\<exists>s. listener_reachable sample_work (\<lambda>_ _. sample_name) sample_platform calm_env 0 s"
proof -
  obtain s where "main_start sample_platform calm_env (initial_state sample_world 1 ''config'' ''config.conf'') = Inr (True, s)"
    using wp_exec [OF sample_main] by (auto simp: calm_env_def calm_main)
  moreover have "sample_work sample_world \<le> 0" by (simp add: sample_work_def sample_world_def)
  ultimately have "started sample_work sample_platform calm_env 0 s"
    unfolding started_def using sample_platform_ok by blast
  then show ?thesis using calm_sound(1) listener.reach_init by blast
qed


theorem other_connections_spared_witness:
  "\<exists>s' c. handle_event calm_env ((1, 0), \<lparr>ev_error = False, ev_out = False, ev_data = Epoll_fd 7\<rparr>) sample_state = Inr ((), s') \<and>
     heap s' 1 = Some c \<and> fileDescriptor c = 5"
proof -
  let ?ev = "\<lparr>ev_error = False, ev_out = False, ev_data = Epoll_fd 7\<rparr>"
  have ev: "reported (\<lambda>_ _. sample_name) sample_state ?ev"
    by (simp add: reported_def good_event_def sample_state_def sample_idle_def)
  have cell: "heap sample_state 1 = Some sample_CU" "fileDescriptor sample_CU = 5" by (simp_all add: sample_state_def sample_CU_def)
  obtain s' where s': "handle_event calm_env ((1, 0), ?ev) sample_state = Inr ((), s')"
    using wp_exec [OF wp_reported [OF calm_sound(1) sample_state_base ev, of "(1, 0)"]] by auto
  from other_connections_spared [OF calm_sound(1) sample_state_base ev calm_sound(2) s' cell(1)] cell(2) s' show ?thesis by auto
qed

end
