(* ===== verification/E2_Requests.thy ===== *)
theory E2_Requests
  imports E2_Batch
begin

text \<open>
  What reaches the other side: the requests of the xApps on their way to a node, the end of a
  connection, the octets in the message trace; and that the loops of the program end.
\<close>

section \<open>Requests of the xApps\<close>

text \<open>The procedure that a request of an xApp starts.\<close>

fun request_status :: "rmr_mtype \<Rightarrow> E2T_Procedure_States option" where
  "request_status RIC_SUB_REQ = Some RIC_SUBS_PROCEDURE_ONGOING"
| "request_status RIC_SUB_DEL_REQ = Some RIC_SUBS_DEL_PROCEDURE_ONGOING"
| "request_status RIC_CONTROL_REQ = Some CONTROL_PROCEDURE_ONGOING"
| "request_status _ = None"

lemma request_case:
  assumes "request_status ty = Some st"
  obtains p where "(OUT_INITI, p) \<in> set peer_cells" "(OUT_INITI, p) \<in> set e2t_cells"
    "xapp_case E ts ty = sq (set_procedure E2_SETUP_PROCEDURE_COMPLETED) (sq (count_out OUT_INITI OUT_INITI p)
       (forwarded E (set_procedure st)))"
    "stream_of ty = 1" "\<not> needs_no_node ty"
  using assms that [of ProcedureCode_id_RICsubscription] that [of ProcedureCode_id_RICsubscriptionDelete]
    that [of ProcedureCode_id_RICcontrol]
  by (cases ty) (auto simp: x_SUB_REQ_def x_SUB_DEL_REQ_def x_CONTROL_REQ_def needs_no_node_def)

lemma wp_sent_to_node:
  assumes p: "peerInfo (msg s) = Some a" "heap s a = Some c" and b: "rcvMessage s = Some b" "buf_ok b"
    and t: "\<not> jsonTrace s" "0 < rounds E"
    and sent: "sctp_sendmsg E (fileDescriptor c) (take (nat (mb_len b)) (mb_payload b))
      (if isSingleStream c then singleStreamId c else stream_of (mb_mtype b)) (world s) = (Sent, w')"
  shows "wp (sendDirectionalSctpMsg E) Q s = Q 0 (s\<lparr>world := w', msg := (msg s)\<lparr>asndata := Asn_rcv (mb_id b),
    msg_asnLength := mb_len b, messageType := mb_mtype b, direction := CHR ''D''\<rparr>\<rparr>)"
proof -
  obtain j where j: "rounds E = Suc j" using t(2) by (cases "rounds E") auto
  let ?s = "s\<lparr>msg := (msg s)\<lparr>asndata := Asn_rcv (mb_id b), msg_asnLength := mb_len b, messageType := mb_mtype b\<rparr>\<rparr>"
  have octets: "wp asn_octets R ?s = R (take (nat (mb_len b)) (mb_payload b)) ?s" for R
    using b by (auto simp: asn_octets_def read_asn_def buf_ok_def wp_simps)
  have stream: "wp fetchStreamId R ?s = R (if isSingleStream c then singleStreamId c else stream_of (mb_mtype b)) ?s" for R
    using p by (simp add: fetchStreamId_def wp_simps)
  show ?thesis
    using p b t(1) sent
    by (simp add: sendDirectionalSctpMsg_def getRequestMetaData_def sendMessagetoCu_def sendSctpMsg_def j
        wp_bnd wp_sq wp_get_rcv wp_upd_msg wp_gets wp_deref_ptr octets stream wp_ext wp_ret no_trace)
qed

lemma map_of_set_same:
  "map_of m k = Some h \<Longrightarrow> map_of (setE2ProcedureOngoingStatus m k st) = (map_of m)(k \<mapsto> h\<lparr>e2tProcedureOngoingStatus := st\<rparr>)"
  by (rule ext) (auto simp: setE2ProcedureOngoingStatus_def map_of_write_entry)

text \<open>A request whose message has been filled in and whose node has been found.\<close>

lemma wp_request_case:
  assumes ty: "request_status (mb_mtype b) = Some st"
    and s: "base T n f s" "0 < rounds E" "peerInfo (msg s) = Some a" "heap s a = Some c" "has_name c k" "k \<noteq> []"
      "rcvMessage s = Some b" "cstr (msg_enodbName (msg s)) = Some k" "map_of (e2map s) k = Some h"
    and sent: "sctp_sendmsg E (fileDescriptor c) (take (nat (mb_len b)) (mb_payload b))
      (if isSingleStream c then singleStreamId c else 1) (world s) = (Sent, w')"
  shows "wp (xapp_case E ts (mb_mtype b)) (\<lambda>rc s'. rc = 0 \<and> world s' = w' \<and> sctpMap s' = sctpMap s \<and>
    map_of (e2map s') = (map_of (e2map s))(k \<mapsto> h\<lparr>e2tProcedureOngoingStatus := st\<rparr>)) s"
proof -
  obtain p where p: "(OUT_INITI, p) \<in> set peer_cells" "(OUT_INITI, p) \<in> set e2t_cells" "stream_of (mb_mtype b) = 1"
    and run: "xapp_case E ts (mb_mtype b) = sq (set_procedure E2_SETUP_PROCEDURE_COMPLETED)
      (sq (count_out OUT_INITI OUT_INITI p) (forwarded E (set_procedure st)))"
    by (rule request_case [OF ty])
  let ?s = "s\<lparr>e2map := setE2ProcedureOngoingStatus (e2map s) k E2_SETUP_PROCEDURE_COMPLETED\<rparr>"
  have b: "buf_ok b" using base_rcvD [OF s(1)] s(7) by auto
  have "counters c = buildPrometheusList k" by (rule named_counters [OF s(1,4-6)])
  then have built: "built ?s" using s(3,4) by (auto simp: built_def)
  have counters: "e2tCounters (params ?s) = buildE2TPrometheusCounters" using s(1) by (simp add: base_def core_def)
  have send: "wp (sendDirectionalSctpMsg E) Q (?s\<lparr>metrics := v\<rparr>) = Q 0 (?s\<lparr>metrics := v, world := w',
      msg := (msg s)\<lparr>asndata := Asn_rcv (mb_id b), msg_asnLength := mb_len b, messageType := mb_mtype b, direction := CHR ''D''\<rparr>\<rparr>)" for Q v
    using s b sent p(3) base_no_trace [OF s(1)]
    by (subst wp_sent_to_node [where b = b and c = c and a = a and w' = w']) (simp_all split: if_splits)
  have "wp (count_message OUT_INITI OUT_INITI p (mb_len b)) (\<lambda>_. wp (forwarded E (set_procedure st)) (\<lambda>rc s'. rc = 0 \<and> world s' = w' \<and>
      sctpMap s' = sctpMap s \<and> map_of (e2map s') = (map_of (e2map s))(k \<mapsto> h\<lparr>e2tProcedureOngoingStatus := st\<rparr>))) ?s"
  proof (rule wp_count [OF built counters p(1,2)])
    show "wp (forwarded E (set_procedure st)) (\<lambda>rc s'. rc = 0 \<and> world s' = w' \<and> sctpMap s' = sctpMap s \<and>
        map_of (e2map s') = (map_of (e2map s))(k \<mapsto> h\<lparr>e2tProcedureOngoingStatus := st\<rparr>)) (?s\<lparr>metrics := v\<rparr>)" for v
      using s(8,9) by (simp add: forwarded_def wp_bnd send wp_sq wp_ret wp_set_procedure map_of_set_same)
  qed
  then show ?thesis
    using s(7,8) by (simp add: run wp_sq wp_set_procedure count_out_def wp_bnd wp_get_rcv)
qed

text \<open>
  C11. A subscription request, a subscription delete request and a control request for a node
  that is set up reach it: the octets that the xApp sent go out on the connection that the table
  has for the node, on stream 1 or on the only stream the connection has; the node's procedure
  is then the request's, and nothing else in the tables changes.
\<close>
theorem request_reaches_node:
  assumes "env_ok T E" "base T n f s" "0 < rounds E"
    and "rcvMessage s = Some b0" "rmr_rcv_msg E b0 (world s) = (Some b, w)" "mb_state b = RMR_OK"
      "request_status (mb_mtype b) = Some st"
    and "map_find (sctpMap s) (rmr_get_meid E b) = Some a" "heap s a = Some c" "map_of (e2map s) (rmr_get_meid E b) = Some h"
    and "sctp_sendmsg E (fileDescriptor c) (take (nat (mb_len b)) (mb_payload b))
      (if isSingleStream c then singleStreamId c else 1) w = (Sent, w')"
  shows "wp (receiveXappMessages E ts) (\<lambda>rc s'. rc = 0 \<and> world s' = w' \<and> sctpMap s' = sctpMap s \<and>
    map_of (e2map s') = (map_of (e2map s))(rmr_get_meid E b \<mapsto> h\<lparr>e2tProcedureOngoingStatus := st\<rparr>)) s"
proof -
  let ?k = "rmr_get_meid E b"
  have id: "nul_free ?k" "length ?k < 64" using rmr_okD(8) [OF assms(1)] by blast+
  obtain buf where buf: "poke (zero_buf 64) (?k @ [NUL]) = Some buf" "cstr buf = Some ?k" "name_ok buf"
    using id cstr_nul_free [of ?k "drop (length ?k + 1) (zero_buf 64)"] by (simp add: poke_def name_ok_def zero_buf_def)
  have "entry_ok (heap s) ?k a" using assms(2,8) by (simp add: base_def map_ok_def)
  then have name: "has_name c ?k" "?k \<noteq> []" using assms(9) by (auto simp: entry_ok_def ran_initial_def)
  have b: "buf_ok b" using base_rcvD [OF assms(2)] rmr_returns(3) [OF assms(1)] assms(4,5) by auto
  let ?s = "s\<lparr>world := w, rcvMessage := Some b, msg := zero_message\<lparr>direction := CHR ''D'', tv_sec := fst ts, tv_nsec := snd ts,
    msg_enodbName := buf, peerInfo := Some a\<rparr>, num_of_XAPP_messages := num_of_XAPP_messages s + 1\<rparr>"
  have s: "base T n f ?s"
    using assms(2) b buf(3) steady_rmr(3) [OF assms(1,5)] by (simp add: base_def core_def)
  have "\<not> needs_no_node (mb_mtype b)" "mb_mtype b \<noteq> RIC_HEALTH_CHECK_REQ"
    using assms(7) by (auto simp: needs_no_node_def)
  then have run: "wp (receiveXappMessages E ts) Q s = wp (xapp_case E ts (mb_mtype b)) Q ?s" for Q
    using assms(4-6,8) buf
    by (simp add: receiveXappMessages_def dispatch_xapp_def set_rcv_def zero_message_def wp_sq wp_modify wp_bnd wp_gets
        wp_ext wp_need wp_upd_msg wp_message_name wp_whenM)
  show ?thesis
    unfolding run using assms(3,9-11) name buf(2)
    by (intro wp_mono [OF wp_request_case [OF assms(7) s]]) (simp_all add: zero_message_def)
qed

definition sample_request :: rmr_mbuf where
  "sample_request = (sample_buffer 2 (int RECEIVE_SCTP_BUFFER_SIZE))\<lparr>mb_mtype := RIC_SUB_REQ, mb_len := 2\<rparr>"

theorem request_reaches_node_witness:
  "wp (receiveXappMessages sample_env (1, 0)) (\<lambda>rc s'. rc = 0 \<and> sctp_sent (world s') = [(5, [0, 0])])
     (sample_state\<lparr>rcvMessage := Some sample_request\<rparr>)"
proof -
  let ?s = "sample_state\<lparr>rcvMessage := Some sample_request\<rparr>"
  have "buf_ok sample_request" by (simp add: buf_ok_def big_def sample_buffer_def sample_request_def RECEIVE_SCTP_BUFFER_SIZE_def)
  then have s: "base sample_work 0 True ?s" by (rule base_rcv [OF sample_state_base])
  have two: "take (nat 2) (replicate (nat (int RECEIVE_SCTP_BUFFER_SIZE)) (0::byte)) = [0, 0]"
    by (simp add: RECEIVE_SCTP_BUFFER_SIZE_def numeral_2_eq_2)
  have sent: "sctp_sendmsg sample_env (fileDescriptor sample_CU) (take (nat (mb_len sample_request)) (mb_payload sample_request))
      (if isSingleStream sample_CU then singleStreamId sample_CU else 1) sample_world =
      (Sent, sample_world\<lparr>sctp_sent := [(5, [0, 0])]\<rparr>)"
    using two by (simp add: sample_env_def sample_CU_def sample_request_def sample_buffer_def sample_world_def)
  have env: "rmr_rcv_msg sample_env b w = (Some b, w)" "rmr_get_meid sample_env b = sample_name" "0 < rounds sample_env" for b w
    by (simp_all add: sample_env_def)
  have req: "mb_state sample_request = RMR_OK" "mb_mtype sample_request = RIC_SUB_REQ"
    by (simp_all add: sample_request_def sample_buffer_def)
  have "wp (receiveXappMessages sample_env (1, 0)) (\<lambda>rc s'. rc = 0 \<and> world s' = sample_world\<lparr>sctp_sent := [(5, [0, 0])]\<rparr> \<and>
      sctpMap s' = sctpMap ?s \<and> map_of (e2map s') = (map_of (e2map ?s))(rmr_get_meid sample_env sample_request \<mapsto>
        sample_setup_done\<lparr>e2tProcedureOngoingStatus := RIC_SUBS_PROCEDURE_ONGOING\<rparr>)) ?s"
    by (rule request_reaches_node [OF sample_env_ok s env(3), of sample_request sample_request sample_world _ 1 sample_CU])
      (use sample_state_simps env req sent in \<open>simp_all add: map_find_map_of\<close>)
  then show ?thesis by (rule wp_mono) simp
qed

section \<open>The end of a connection\<close>

lemma wp_clean_connection:
  assumes m: "map_ok (sctpMap s) (heap s)" and c: "heap s a = Some c" "has_name c k"
  shows "wp (cleanHashEntry (Some a)) (\<lambda>_ s'. heap s' = (heap s)(a := None) \<and> e2map s' = e2map s \<and> world s' = world s \<and>
    map_find (sctpMap s') k = None \<and> (\<forall>n. n \<noteq> k \<longrightarrow> map_find (sctpMap s') n = map_find (sctpMap s) n)) s"
proof -
  have "map_find (sctpMap s) (host_key c) = None" by (rule map_find_none [OF m host_key_not_ran])
  moreover have "map_invar (sctpMap s)" using m by (simp add: map_ok_def)
  ultimately show ?thesis
    using c has_name_cstr [OF c(2)]
    by (cases "map_find (sctpMap s) k")
      (simp_all add: cleanHashEntry_def erase_if_found_def erase_key_def wp_simps map_find_erase)
qed

text \<open>The steps before the procedure state is removed, and those behind it.\<close>

lemma wp_connection_taken_out:
  assumes E: "env_ok T E" and s: "standing T n True a c s" and k: "has_name c k"
    and op: "\<And>w. fst (fd_open E (fileDescriptor c) w)"
  shows "wp (seqs [bnd (CU_name a) remove_procedure,
     bnd (deref a) (\<lambda>c. bnd (ext (fd_open E (fileDescriptor c))) (\<lambda>open. whenM open
       (sq (ext_do (fd_close E (fileDescriptor c))) (cleanHashEntry (Some a)))))])
    (\<lambda>_ s'. heap s' a = None \<and> map_find (sctpMap s') k = None \<and> map_of (e2map s') k = None) s"
proof -
  have c: "heap s a = Some c" and m: "map_ok (sctpMap s) (heap s)" and e: "conn_invar (e2map s)"
    using s by (auto simp: standing_def base_def core_def)
  obtain w where w: "fd_open E (fileDescriptor c) (world s) = (True, w)"
    using op [of "world s"] by (cases "fd_open E (fileDescriptor c) (world s)") auto
  let ?s = "s\<lparr>e2map := removeE2ConnectionEntryFromMap (e2map s) k, world := w\<rparr>"
  let ?t = "?s\<lparr>world := fd_close E (fileDescriptor c) w\<rparr>"
  have "wp (cleanHashEntry (Some a)) (\<lambda>_ s'. heap s' = (heap ?t)(a := None) \<and> e2map s' = e2map ?t \<and> world s' = world ?t \<and>
      map_find (sctpMap s') k = None \<and> (\<forall>n. n \<noteq> k \<longrightarrow> map_find (sctpMap s') n = map_find (sctpMap ?t) n)) ?t"
    using m c k by (intro wp_clean_connection) simp_all
  then have "wp (cleanHashEntry (Some a)) (\<lambda>_ s'. heap s' a = None \<and> map_find (sctpMap s') k = None \<and> map_of (e2map s') k = None) ?t"
    by (rule wp_mono) (use e in \<open>simp add: map_of_remove\<close>)
  then show ?thesis
    using c w has_name_cstr [OF k]
    by (simp add: wp_seqs wp_bnd wp_CU_name wp_remove_procedure wp_deref wp_ext wp_whenM wp_sq wp_ext_do wp_ret_eta)
qed

lemma wp_disconnected_forgets:
  assumes "env_ok T E" "base T n f s" "peerInfo (msg s) = Some a" "heap s a = Some c" "has_name c k"
    and "\<And>w. fst (fd_open E (fileDescriptor c) w)"
  shows "wp (disconnected E (Some a)) (\<lambda>_ s'. heap s' a = None \<and> map_find (sctpMap s') k = None \<and>
    getE2tProcedureOngoingStatus (e2map s') k = None) s"
proof -
  let ?begun = "seqs [point_to_send, count_internal a SCTP_ABORT_INITIATED_BY_E2NODE, request_to_xapp E RIC_SCTP_CONNECTION_FAILURE]"
  let ?rest = "seqs [bnd (CU_name a) remove_procedure,
     bnd (deref a) (\<lambda>c. bnd (ext (fd_open E (fileDescriptor c))) (\<lambda>open. whenM open
       (sq (ext_do (fd_close E (fileDescriptor c))) (cleanHashEntry (Some a)))))]"
  let ?Q = "\<lambda>s'. heap s' a = None \<and> map_find (sctpMap s') k = None \<and> map_of (e2map s') k = None"
  have "wp (bnd (CU_name a) (\<lambda>n. send_text (n @ ''|CU disconnected unexpectedly''))) (\<lambda>_. standing T n True a c) s"
    by (rule wp_standing_text [OF standingI [OF assms(2,4)]]) simp
  moreover have "pres (standing T n True a c) ?begun" by (intro pres_intros pres_standing [OF assms(1)])
  ultimately have "wp (bnd (CU_name a) (\<lambda>n. send_text (n @ ''|CU disconnected unexpectedly'')))
      (\<lambda>_. wp ?begun (\<lambda>_. wp ?rest (\<lambda>_. ?Q))) s"
    by (elim wp_mono) (rule wp_mono, erule presD, assumption, rule wp_connection_taken_out [OF assms(1) _ assms(5,6)])
  then have "wp (disconnected E (Some a)) (\<lambda>_. ?Q) s"
    unfolding disconnected_def wp_bnd [of peer_addr] wp_peer_addr wp_seqs using assms(3) by (intro exI conjI)
  then show ?thesis
    by (rule wp_mono) (simp add: getE2tProcedureOngoingStatus_def find_entry_map_of)
qed

text \<open>
  C13. When the connection of a node ends whose descriptor is open, the terminator forgets the node: its memory is freed,
  and neither the table nor the procedure states have an entry for its name any more, not even
  one that by now leads to a newer connection of the same node.
\<close>
theorem disconnect_forgets_node:
  assumes "env_ok T E" "base T n f s" "peerInfo (msg s) = Some a" "heap s a = Some c" "has_name c k"
    and "\<And>w. fst (fd_open E (fileDescriptor c) w)"
  shows "wp (disconnected E (Some a)) (\<lambda>_ s'. heap s' a = None \<and> map_find (sctpMap s') k = None \<and>
    getE2tProcedureOngoingStatus (e2map s') k = None) s"
  using assms by (rule wp_disconnected_forgets)

theorem disconnect_forgets_node_witness:
  "\<exists>s'. disconnected sample_env (Some 1) sample_state = Inr ((), s') \<and> map_find (sctpMap s') sample_name = None"
proof -
  have "fst (fd_open sample_env (fileDescriptor sample_CU) w)" for w by (simp add: sample_env_def)
  from disconnect_forgets_node [OF sample_env_ok sample_state_base _ _ sample_CU_name(1) this, of 1]
  have "wp (disconnected sample_env (Some 1)) (\<lambda>_ s'. heap s' 1 = None \<and> map_find (sctpMap s') sample_name = None \<and>
    getE2tProcedureOngoingStatus (e2map s') sample_name = None) sample_state"
    using sample_state_simps by (simp add: sample_state_def)
  from wp_exec [OF this] show ?thesis by auto
qed

section \<open>The loops end\<close>

text \<open>Rounds that are enough: more of them change nothing.\<close>

lemma bnd_more:
  assumes "\<And>r. m s = Inr r \<Longrightarrow> m' s = Inr r" "\<And>x s' r. f x s' = Inr r \<Longrightarrow> f' x s' = Inr r" "bnd m f s = Inr r"
  shows "bnd m' f' s = Inr r"
proof -
  obtain x s' where m: "m s = Inr (x, s')" and f: "f x s' = Inr r" using assms(3) by (auto simp: bnd_def split: sum.splits)
  show ?thesis by (simp add: bnd_def assms(1) [OF m] assms(2) [OF f])
qed

lemma send_rounds_more: "send_rounds j E fd bs st s = Inr r \<Longrightarrow> send_rounds (j + i) E fd bs st s = Inr r"
proof (induction j arbitrary: s r)
  case (Suc j)
  show ?case
    unfolding add_Suc send_rounds.simps
    by (rule bnd_more [OF _ _ Suc.prems [unfolded send_rounds.simps]])
      (auto split: send_result.splits if_splits intro: Suc.IH)
qed (simp add: raise_def)

text \<open>
  The reads of one event. A read ends the loop unless it was interrupted or brought a message
  that can be decoded; it ends the connection if it failed or found its end.
\<close>

definition ends_reading :: "'w env \<Rightarrow> recv_result \<Rightarrow> bool" where
  "ends_reading E r = (case r of Recv_error e \<Rightarrow> e \<noteq> EINTR | Received bs st \<Rightarrow> bs = [] \<or> per_decode E bs = None)"

definition ends_connection :: "recv_result \<Rightarrow> bool" where
  "ends_connection r = (case r of Recv_error e \<Rightarrow> e \<noteq> EINTR \<and> e \<noteq> EAGAIN | Received bs st \<Rightarrow> bs = [])"

text \<open>
  \<open>reading E ts fd s rs d s'\<close>: from \<open>s\<close> on the calls of \<^verbatim>\<open>sctp_recvmsg\<close> on \<open>fd\<close> give \<open>rs\<close>, one after
  the other, each but the last in the state that the round before it left, and the round of the
  last one leaves the loop with the flag \<open>d\<close> in \<open>s'\<close>, having touched neither the tables nor the
  connections.
\<close>

inductive reading :: "'w env \<Rightarrow> int \<times> int \<Rightarrow> int \<Rightarrow> 'w e2t \<Rightarrow> recv_result list \<Rightarrow> bool \<Rightarrow> 'w e2t \<Rightarrow> bool"
  for E ts fd where
  last_read: "sctp_recvmsg E fd (world s) = (r, world s') \<Longrightarrow> ends_reading E r \<Longrightarrow>
    (\<And>k. receive_rounds (Suc k) E ts s = Inr (d, s')) \<Longrightarrow> heap s' = heap s \<Longrightarrow> sctpMap s' = sctpMap s \<Longrightarrow>
    e2map s' = e2map s \<Longrightarrow> reading E ts fd s [r] d s'"
| next_read: "sctp_recvmsg E fd (world s) = (r, w) \<Longrightarrow> \<not> ends_reading E r \<Longrightarrow>
    (\<And>k. receive_rounds (Suc k) E ts s = receive_rounds k E ts t) \<Longrightarrow> reading E ts fd t rs d s' \<Longrightarrow>
    reading E ts fd s (r # rs) d s'"

lemma reading_rounds: "reading E ts fd s rs d s' \<Longrightarrow> receive_rounds (length rs + i) E ts s = Inr (d, s')"
  by (induction rule: reading.induct) (simp_all del: receive_rounds.simps)

lemma reading_answers:
  "reading E ts fd s rs d s' \<Longrightarrow> rs \<noteq> [] \<and> ends_reading E (last rs) \<and> (\<forall>r \<in> set (butlast rs). \<not> ends_reading E r)"
  by (induction rule: reading.induct) auto

text \<open>The loop runs for as long as messages arrive, and each takes from what there is to do.\<close>

lemma reading_exists:
  assumes E: "env_ok T E" and s: "base T l f s" "node_at N E a fd k s"
  obtains rs d s' where "reading E ts fd s rs d s'" "length rs \<le> Suc l" "base T l False s'" "node_at N E a fd k s'"
    "d \<longleftrightarrow> ends_connection (last rs)"
  using s
proof (induction l arbitrary: s f thesis rule: less_induct)
  case (less l)
  obtain c where p: "peerInfo (msg s) = Some a" "heap s a = Some c" "fileDescriptor c = fd" "N (world s) fd = k" "nodes_ok N E"
    using less.prems(3) by (auto simp: node_at_def)
  obtain r w where r: "sctp_recvmsg E fd (world s) = (r, w)" by fastforce
  have w: "T w \<le> T (world s)" by (rule steady_sockets(2) [OF E r])
  have l: "T (world s) \<le> l" using less.prems(2) by (simp add: base_def core_def)
  obtain b m where b: "send_ok (got_message r) b" and m: "msg_enodbName m = cu_enodbName c" "peerInfo m = Some a"
    and read: "\<And>j. receive_rounds (Suc j) E ts s = after_read j E ts r (s\<lparr>world := w, sendMessage := Some b, msg := m\<rparr>)"
    using read_run [OF E less.prems(2) p(1,2), of r w] r p(3) by blast
  let ?u = "s\<lparr>world := w, sendMessage := Some b, msg := m\<rparr>"
  have u: "base T l (got_message r) ?u"
    using p(2) m(1) by (intro filled [OF base_send [OF base_world [OF less.prems(2) w] b]]) simp_all
  have at: "node_at N E a fd k ?u"
    using p m by (intro node.filled_in [OF node.send_field [OF node.received [OF less.prems(3) r]]]) simp_all
  have on: thesis if "\<And>j. receive_rounds (Suc j) E ts s = receive_rounds j E ts t" "\<not> ends_reading E r"
      "T w < T (world s)" "base T (l - 1) f' t" "node_at N E a fd k t" for t f'
  proof -
    have "l - 1 < l" using that(3) l by simp
    from less.IH [OF this _ that(4,5)] obtain rs d s' where rs: "reading E ts fd t rs d s'" "length rs \<le> Suc (l - 1)"
      "base T (l - 1) False s'" "node_at N E a fd k s'" "d \<longleftrightarrow> ends_connection (last rs)" by blast
    have "reading E ts fd s (r # rs) d s'" by (rule next_read [OF r that(2,1) rs(1)])
    moreover have "rs \<noteq> []" using reading_answers [OF rs(1)] by blast
    ultimately show thesis
      using rs that(3) l by (intro less.prems(1) [of "r # rs" d s']) (auto intro: base_mono)
  qed
  have stop: thesis if "\<And>j. receive_rounds (Suc j) E ts s = Inr (ends_connection r, ?u)" "ends_reading E r"
  proof (rule less.prems(1))
    show "reading E ts fd s [r] (ends_connection r) ?u" using r that by (intro last_read) simp_all
  qed (use base_big [OF u] at in simp_all)
  have less': "base T (l - 1) (got_message r) ?u" if "T w < T (world s)"
    using u l that by (simp add: base_def core_def)
  show thesis
  proof (cases r)
    case (Recv_error e)
    have "T w < T (world s)" if "e = EINTR" using sockets_okD(19) [OF E] r Recv_error that by blast
    then show ?thesis
      using stop on [of ?u, OF _ _ _ less' at] read
      by (cases "e = EINTR") (simp_all add: Recv_error after_read_def ends_reading_def ends_connection_def ret_def)
  next
    case (Received bs st)
    show ?thesis
    proof (cases "bs = [] \<or> per_decode E bs = None")
      case True
      then show ?thesis
        using stop read by (auto simp: Received after_read_def ends_reading_def ends_connection_def ret_def)
    next
      case False
      then obtain pdu where pdu: "bs \<noteq> []" "per_decode E bs = Some pdu" by blast
      have shrinks: "T w < T (world s)" using sockets_okD(18) [OF E] r Received pdu(1) by blast
      have same: "same_name ?u" using p(2) m by (simp add: same_name_def)
      have "wp (handle_pdu E pdu st) (\<lambda>_ s. base T (l - 1) True s \<and> node_at N E a fd k s) ?u"
        using less' [OF shrinks] at same nodes_okD(6) [OF p(5) r [unfolded Received] pdu(2)] p(4)
        by (intro node.wp_handle_pdu [OF E]) (simp_all add: Received got_message_def)
      from wp_exec [OF this] obtain t where t: "handle_pdu E pdu st ?u = Inr ((), t)" "base T (l - 1) True t" "node_at N E a fd k t"
        by auto
      show ?thesis
      proof (rule on [OF _ _ shrinks t(2,3)])
        show "receive_rounds (Suc j) E ts s = receive_rounds j E ts t" for j
          using read pdu t(1) by (simp add: Received after_read_def sq_def bnd_def del: receive_rounds.simps)
      qed (use pdu in \<open>simp add: Received ends_reading_def\<close>)
    qed
  qed
qed

text \<open>
  C14. An event of a connection whose descriptor is open is read to its end. The calls of \<^verbatim>\<open>sctp_recvmsg\<close> are at most one
  more than the world has work for; all but the last were interrupted or brought a message that
  was handled, in the state that the one before it left. The last one found nothing or brought a
  message that cannot be decoded, and then the connection stays as this call found it; or it
  failed or found the end of the connection, and then the connection is taken out.
\<close>
theorem reading_ends:
  fixes s :: "'w e2t"
  assumes "env_ok T E" "nodes_ok N E" "base T n f s" "n < rounds E"
    and "heap s a = Some c" "has_name c m" "m = [] \<or> m = N (world s) (fileDescriptor c)"
    and "\<And>w. fst (fd_open E (fileDescriptor c) w)"
  shows "\<exists>rs d t s'. reading E ts (fileDescriptor c) (s\<lparr>msg := zero_message\<lparr>peerInfo := Some a\<rparr>\<rparr>) rs d t \<and>
    length rs \<le> Suc (T (world s)) \<and> ends_reading E (last rs) \<and> (\<forall>r \<in> set (butlast rs). \<not> ends_reading E r) \<and>
    receiveDataFromSctp E ts (Some a) s = Inr (0, s') \<and>
    (if ends_connection (last rs) then heap s' a = None else s' = t \<and> heap t a \<noteq> None)"
proof -
  let ?s = "s\<lparr>msg := zero_message\<lparr>peerInfo := Some a\<rparr>\<rparr>" and ?fd = "fileDescriptor c"
  have base: "base T (T (world s)) f ?s" and le: "T (world s) \<le> n" using assms(3) by (simp_all add: base_def core_def)
  have at: "node_at N E a ?fd (N (world s) ?fd) ?s" using assms(2,5-7) by (auto simp: node_at_def)
  obtain rs d t where rs: "reading E ts ?fd ?s rs d t" "length rs \<le> Suc (T (world s))" "base T (T (world s)) False t"
    "node_at N E a ?fd (N (world s) ?fd) t" "d \<longleftrightarrow> ends_connection (last rs)"
    by (rule reading_exists [OF assms(1) base at])
  have "length rs + (rounds E - length rs) = rounds E" using rs(2) le assms(4) by simp
  then have run: "receive_rounds (rounds E) E ts ?s = Inr (d, t)"
    using reading_rounds [OF rs(1), of "rounds E - length rs"] by simp
  obtain c' k where c': "peerInfo (msg t) = Some a" "heap t a = Some c'" "fileDescriptor c' = ?fd" "has_name c' k"
    using rs(4) by (auto simp: node_at_def)
  have "wp (disconnected E (Some a)) (\<lambda>_ s'. heap s' a = None) t"
    by (rule wp_mono [OF wp_disconnected_forgets [OF assms(1) rs(3) c'(1,2,4)]]) (simp_all add: c'(3) assms(8))
  then obtain u where u: "disconnected E (Some a) t = Inr ((), u)" "heap u a = None" by (auto dest: wp_exec)
  have "receiveDataFromSctp E ts (Some a) s = Inr (0, if d then u else t)"
    using run u(1) by (simp add: receiveDataFromSctp_def sq_def bnd_def modify_def whenM_def ret_def)
  then show ?thesis using rs u(2) c'(2) reading_answers [OF rs(1)] by auto
qed

theorem reading_ends_witness:
  "\<exists>rs d t s'. reading sample_env (1, 0) 5 (sample_state\<lparr>world := sample_world\<lparr>arriving := [[2], [1]]\<rparr>,
       msg := zero_message\<lparr>peerInfo := Some 1\<rparr>\<rparr>) rs d t \<and> length rs \<le> 3 \<and>
     receiveDataFromSctp sample_env (1, 0) (Some 1) (sample_state\<lparr>world := sample_world\<lparr>arriving := [[2], [1]]\<rparr>\<rparr>) = Inr (0, s')"
proof -
  let ?s = "sample_state\<lparr>world := sample_world\<lparr>arriving := [[2], [1]]\<rparr>\<rparr>"
  have s: "base sample_work 2 True ?s"
    using sample_state_base by (simp add: base_def core_def sample_work_def sample_world_def)
  have env: "rounds sample_env = 10" "fileDescriptor sample_CU = 5" "fst (fd_open sample_env fd w)" for fd w
    by (simp_all add: sample_env_def sample_CU_def)
  have "sample_work (world ?s) = 2" by (simp add: sample_work_def sample_world_def)
  then show ?thesis
    using reading_ends [OF sample_env_ok sample_nodes_ok s, of 1 sample_CU sample_name "(1, 0)"] env
      sample_state_simps sample_CU_name by (simp add: numeral_3_eq_3) blast
qed

text \<open>
  Sending to a node ends: the call is repeated while it is interrupted, which the world does
  not do for ever, and the result is that of the first call that is not.
\<close>
theorem sending_ends:
  fixes s :: "'w e2t"
  assumes "env_ok T E" "T (world s) < j"
  shows "\<exists>r w w0. (\<forall>i. send_rounds (j + i) E fd bs st s = Inr (r, s\<lparr>world := w\<rparr>)) \<and>
    sctp_sendmsg E fd bs st w0 = (case r of None \<Rightarrow> Sent | Some e \<Rightarrow> Send_error e, w) \<and> r \<noteq> Some EINTR"
proof -
  have "\<exists>r w w0. send_rounds j E fd bs st s = Inr (r, s\<lparr>world := w\<rparr>) \<and>
      sctp_sendmsg E fd bs st w0 = (case r of None \<Rightarrow> Sent | Some e \<Rightarrow> Send_error e, w) \<and> r \<noteq> Some EINTR"
    using assms(2)
  proof (induction j arbitrary: s)
    case (Suc j)
    obtain q w where q: "sctp_sendmsg E fd bs st (world s) = (q, w)" by fastforce
    show ?case
    proof (cases "q = Send_error EINTR")
      case True
      then have "T (world (s\<lparr>world := w\<rparr>)) < j" using sockets_okD(17) [OF assms(1)] q Suc.prems by fastforce
      from Suc.IH [OF this] True q show ?thesis by (auto simp: bnd_def ext_def)
    next
      case False
      then show ?thesis
        by (intro exI [of _ "case q of Sent \<Rightarrow> None | Send_error e \<Rightarrow> Some e"] exI [of _ w] exI [of _ "world s"])
          (use q in \<open>auto simp: bnd_def ext_def ret_def split: send_result.split\<close>)
    qed
  qed simp
  then show ?thesis by (meson send_rounds_more)
qed

theorem sending_ends_witness:
  "\<exists>r w. send_rounds 2 sample_env 5 [7] 1 sample_state = Inr (r, sample_state\<lparr>world := w\<rparr>) \<and> r \<noteq> Some EINTR"
proof -
  have "sample_work (world sample_state) < 1" using sample_state_simps(7) by (simp add: sample_work_def sample_world_def)
  from sending_ends [OF sample_env_ok this, of 5 "[7]" 1] obtain r w
    where "\<forall>i. send_rounds (1 + i) sample_env 5 [7] 1 sample_state = Inr (r, sample_state\<lparr>world := w\<rparr>)" "r \<noteq> Some EINTR" by blast
  then show ?thesis by (metis one_add_one)
qed

text \<open>
  The buffer of the XML text grows at most once: whatever the length of the encoding, two
  rounds of the loop are enough, the text fits into what they give, and only a text of just the
  first size leaves no room behind it.
\<close>
theorem encoding_ends:
  fixes s :: "'w e2t"
  shows "\<exists>r w. (\<forall>i. encode_rounds (2 + i) E n sz s = Inr (r, s\<lparr>world := w\<rparr>)) \<and>
    (case r of None \<Rightarrow> sz < n | Some z \<Rightarrow> n \<le> z \<and> (z = n \<longleftrightarrow> n = sz))"
proof (cases "n \<le> sz")
  case True
  then show ?thesis by (intro exI [of _ "Some sz"] exI [of _ "world s"]) (auto simp: ret_def numeral_2_eq_2)
next
  case False
  obtain ok w where ok: "calloc_ok E (world s) = (ok, w)" by fastforce
  show ?thesis
    by (intro exI [of _ "if ok then Some (n + 128) else None"] exI [of _ w])
      (use False ok in \<open>auto simp: bnd_def ext_def ret_def numeral_2_eq_2\<close>)
qed

text \<open>
  C15. A message that cannot be decoded ends the reading of its connection's event at once: what
  has arrived behind it is left in the socket, and the tables are as they were.
\<close>
theorem undecodable_message_ends_reading:
  assumes "env_ok T E" "base T n f s" "0 < rounds E" "heap s a = Some c"
    and "sctp_recvmsg E (fileDescriptor c) (world s) = (Received bs st, w)" "bs \<noteq> []" "per_decode E bs = None"
  shows "\<exists>s'. receiveDataFromSctp E ts (Some a) s = Inr (0, s') \<and> world s' = w \<and> sctpMap s' = sctpMap s \<and>
    e2map s' = e2map s \<and> heap s' = heap s"
proof -
  obtain j where j: "rounds E = Suc j" using assms(3) by (cases "rounds E") auto
  let ?s = "s\<lparr>msg := zero_message\<lparr>peerInfo := Some a\<rparr>\<rparr>"
  have s: "base T n f ?s" using assms(2) by (simp add: base_def core_def)
  have p: "peerInfo (msg ?s) = Some a" "heap ?s a = Some c" "sctp_recvmsg E (fileDescriptor c) (world ?s) = (Received bs st, w)"
    using assms(4,5) by simp_all
  obtain b m where "\<And>Q. wp (receive_rounds (Suc j) E ts) Q ?s =
      wp (after_read j E ts (Received bs st)) Q (?s\<lparr>world := w, sendMessage := Some b, msg := m\<rparr>)"
    using wp_read [OF assms(1) s p, where j = j and ts = ts] by blast
  then have "wp (receiveDataFromSctp E ts (Some a)) (\<lambda>rc s'. rc = 0 \<and> world s' = w \<and> sctpMap s' = sctpMap s \<and>
      e2map s' = e2map s \<and> heap s' = heap s) s"
    using assms(6,7) by (simp add: receiveDataFromSctp_def j after_read_def wp_sq wp_modify wp_bnd wp_ret wp_whenM del: receive_rounds.simps)
  from wp_exec [OF this] show ?thesis by auto
qed

theorem undecodable_message_ends_reading_witness:
  "\<exists>s'. receiveDataFromSctp sample_env (1, 0) (Some 1) (sample_state\<lparr>world := sample_world\<lparr>arriving := [[2], [1]]\<rparr>\<rparr>) = Inr (0, s') \<and>
     arriving (world s') = [[1]]"
proof -
  let ?s = "sample_state\<lparr>world := sample_world\<lparr>arriving := [[2], [1]]\<rparr>\<rparr>"
  have s: "base sample_work 2 True ?s"
    using sample_state_base by (simp add: base_def core_def sample_work_def sample_world_def)
  have "take RECEIVE_SCTP_BUFFER_SIZE [2] = [2::byte]" by (simp add: RECEIVE_SCTP_BUFFER_SIZE_def)
  then have "sctp_recvmsg sample_env (fileDescriptor sample_CU) (world ?s) =
      (Received [2] 0, sample_world\<lparr>arriving := [[1]]\<rparr>)" "per_decode sample_env [2] = None" "0 < rounds sample_env"
    by (simp_all add: sample_env_def sample_receive_def sample_decode_def sample_world_def)
  from undecodable_message_ends_reading [OF sample_env_ok s this(3) _ this(1) _ this(2), of 1 "(1, 0)"]
  show ?thesis using sample_state_simps by auto
qed

section \<open>The message trace\<close>

lemma char_byte_char [simp]: "char_byte (byte_char b) = b"
proof -
  have "unat b < 256" by (rule order_less_le_trans [OF unsigned_less]) simp
  then have "(of_char (byte_char b) :: nat) = unat b" by (simp add: byte_char_def)
  moreover have "of_char c = (of_nat (of_char c) :: byte)" for c by (simp only: of_nat_of_char)
  ultimately show ?thesis by (simp add: char_byte_def)
qed

lemma inv_zero: "inv_b64 0 = 0x80"
proof -
  have "0 \<notin> set base64_table" by (simp add: base64_table_def)
  then have "base64_table ! i \<noteq> 0" if "i < 64" for i
    using that length_base64_table by (metis nth_mem)
  then have "0 \<notin> (\<lambda>i. unat (base64_table ! i)) ` set [0..<64]"
    by (auto simp: unat_eq_0 dest: sym)
  from fold_update_other [OF this, of of_nat "replicate 256 0x80"] show ?thesis
    by (simp add: inv_b64_def inv_table_def)
qed

lemma encoded_text: "bytes_text (encode_loop bs @ 0 # t) = Some (map byte_char (encode_loop bs))"
proof -
  have "c \<noteq> 0" if "c \<in> set (encode_loop bs)" for c
    using encode_loop_alphabet [OF that] by (auto simp: inv_zero)
  then have "byte_char c \<noteq> NUL" if "c \<in> set (encode_loop bs)" for c
    using that char_byte_char [of c] by (auto simp: char_byte_def)
  then have "nul_free (map byte_char (encode_loop bs))"
    unfolding nul_free_def by (metis imageE list.set_map)
  moreover have "byte_char 0 = NUL"
    by (simp add: byte_char_def) (simp add: char_of_def)
  ultimately show ?thesis by (simp add: bytes_text_def cstr_nul_free)
qed

text \<open>
  C19. The message trace keeps what was on the wire: the line that is logged carries the name of
  the node and a text that decodes to the octets of the message, all of them and no others: the decoder
  stops having written that many.
\<close>
theorem traced_octets_decode:
  fixes s :: "'w e2t"
  assumes "jsonTrace s" "read_asn (asndata (msg s)) s = Inr (Some (bs @ rest), s)" "bs \<noteq> []"
    and "msg_asnLength (msg s) = int (length bs)" "length bs \<le> RECEIVE_SCTP_BUFFER_SIZE"
    and "length (base64Data (msg s)) = RECEIVE_SCTP_BUFFER_SIZE * 2" "cstr (msg_enodbName (msg s)) = Some k"
  shows "\<exists>s' data d. buildJsonMessage E s = Inr ((), s') \<and>
    trace_log s' = trace_log s @ [takeWhile (\<lambda>c. c \<noteq> NUL) (json_line E (msg s') k data)] \<and>
    base64_decode (map char_byte data) (int (length data)) (Some (zero_bytes (RECEIVE_SCTP_BUFFER_SIZE * 2)))
      (int RECEIVE_SCTP_BUFFER_SIZE * 2) = Inr (0, Some d) \<and>
    base64_decode_run (map char_byte data) (int (length data)) (Some (zero_bytes (RECEIVE_SCTP_BUFFER_SIZE * 2)))
      (int RECEIVE_SCTP_BUFFER_SIZE * 2) = Inr (0, Some d, int (length bs)) \<and> take (length bs) d = bs"
proof -
  let ?code = "encode_loop bs" and ?size = "RECEIVE_SCTP_BUFFER_SIZE * 2"
  let ?data = "map byte_char ?code" and ?tail = "drop (length ?code + 1) (base64Data (msg s))"
  have len: "length ?code = 4 * ((length bs + 2) div 3)" by (rule length_encode_loop)
  have small: "length bs \<le> 131072" "0 < length bs" using assms(3,5) by (simp_all add: RECEIVE_SCTP_BUFFER_SIZE_def)
  have int32: "to_int32 (int (length bs)) = int (length bs)"
    using small by (simp add: to_int32_def signed_take_bit_int_eq_self)
  have fits: "length ?code + 1 \<le> ?size" "int (length bs) * 4 div 3 \<le> int ?size" "int (length bs) * 4 \<le> 2 ^ 31 - 1"
    using small unfolding len by (simp_all add: RECEIVE_SCTP_BUFFER_SIZE_def)
  have encode: "base64_encode (Some (bs @ rest)) (int (length bs)) (Some (base64Data (msg s))) (int RECEIVE_SCTP_BUFFER_SIZE * 2) =
      Inr (0, Some (?code @ 0 # ?tail), int (length ?code))"
    using fits small assms(6) by (simp add: base64_encode_def Let_def RECEIVE_SCTP_BUFFER_SIZE_def)
  let ?m = "(msg s)\<lparr>base64Data := ?code @ 0 # ?tail, outLen := int (length ?code)\<rparr>"
  let ?s = "s\<lparr>msg := ?m, trace_log := trace_log s @ [takeWhile (\<lambda>c. c \<noteq> NUL) (json_line E ?m k ?data)]\<rparr>"
  have run: "buildJsonMessage E s = Inr ((), ?s)"
    using assms int32 small encode encoded_text [of bs ?tail]
    by (simp add: buildJsonMessage_def bnd_def gets_def whenM_def asn_source_def lift_fault_def ret_def sq_def upd_msg_def
        modify_def message_name_def need_def)
  have decoded: "map char_byte ?data = ?code" by (simp add: comp_def)
  have "3 * ((length bs + 2) div 3) \<le> length (zero_bytes ?size)"
    using small by (simp add: zero_bytes_def RECEIVE_SCTP_BUFFER_SIZE_def)
  from decode_of_encoded [OF small(2) this, of "[]"] obtain d where
    "base64_decode_run ?code (int (length ?code)) (Some (zero_bytes ?size)) (int (length (zero_bytes ?size))) = Inr (0, Some d, int (length bs))"
    "take (length bs) d = bs" by auto
  then have "base64_decode_run (map char_byte ?data) (int (length ?data)) (Some (zero_bytes ?size)) (int RECEIVE_SCTP_BUFFER_SIZE * 2) =
      Inr (0, Some d, int (length bs)) \<and> take (length bs) d = bs"
    unfolding decoded by (simp add: zero_bytes_def)
  with run show ?thesis
    by (intro exI [of _ ?s] exI [of _ ?data] exI [of _ d]) (simp add: base64_decode_def)
qed

theorem traced_octets_decode_witness:
  "\<exists>s'. buildJsonMessage sample_env (sample_state\<lparr>jsonTrace := True,
     msg := (msg sample_state)\<lparr>asndata := Asn_send 1, msg_asnLength := 3\<rparr>\<rparr>) = Inr ((), s') \<and> length (trace_log s') = 1"
proof -
  let ?s = "sample_state\<lparr>jsonTrace := True, msg := (msg sample_state)\<lparr>asndata := Asn_send 1, msg_asnLength := 3\<rparr>\<rparr>"
  have pay: "mb_payload (sample_buffer 1 (int RECEIVE_SCTP_BUFFER_SIZE)) = [0, 0, 0] @ replicate (RECEIVE_SCTP_BUFFER_SIZE - 3) 0"
    using replicate_add [of 3 "RECEIVE_SCTP_BUFFER_SIZE - 3" "0::byte"]
    by (simp add: sample_buffer_def RECEIVE_SCTP_BUFFER_SIZE_def) (simp add: numeral_3_eq_3)
  have "mb_id (sample_buffer 1 (int RECEIVE_SCTP_BUFFER_SIZE)) = 1" by (simp add: sample_buffer_def)
  then have read: "read_asn (asndata (msg ?s)) ?s = Inr (Some ([0, 0, 0] @ replicate (RECEIVE_SCTP_BUFFER_SIZE - 3) 0), ?s)"
    using sample_state_simps(3) pay by (simp add: read_asn_def bnd_def gets_def ret_def)
  have log: "trace_log ?s = []" "length (base64Data (msg ?s)) = RECEIVE_SCTP_BUFFER_SIZE * 2"
    by (simp_all add: sample_state_def sample_idle_def initial_state_def zero_message_def zero_bytes_def)
  show ?thesis
    using traced_octets_decode [OF _ read _ _ _ log(2), of sample_name sample_env] sample_state_simps(1) log(1)
    by (auto simp: RECEIVE_SCTP_BUFFER_SIZE_def)
qed

end
