(* ===== verification/E2_ErrorIndication.thy ===== *)
theory E2_ErrorIndication
  imports E2_Messages
begin

text \<open>
  The error indication of a node, which \<^verbatim>\<open>asnInitiatingRequest\<close> sends twice: to the manager
  that \<^verbatim>\<open>getSendMsgBitSetValue\<close> names, and to the xApps.
\<close>

text \<open>The message that \<^verbatim>\<open>sendRequestToXapp\<close> makes of a buffer.\<close>

definition request_message :: "'w env \<Rightarrow> string \<Rightarrow> rmr_mtype \<Rightarrow> int \<Rightarrow> rmr_mbuf \<Rightarrow> rmr_mbuf" where
  "request_message E k ty t b = rmr_bytes2xact E (tx_text t) ((rmr_bytes2meid E k b)\<lparr>mb_mtype := ty, mb_state := RMR_OK\<rparr>)"

lemma wp_request_accepted:
  assumes "\<not> jsonTrace s" "cstr (msg_enodbName (msg s)) = Some k" "sendMessage s = Some b"
    "rmr_send_msg E (request_message E k ty (transactionCounter s) b) (world s) = (Some b', w')" "mb_state b' = RMR_OK"
  shows "wp (request_to_xapp E ty) Q s =
    Q () (s\<lparr>msg := (msg s)\<lparr>messageType := ty\<rparr>, transactionCounter := transactionCounter s + 1, world := w', sendMessage := Some b'\<rparr>)"
  using assms
  by (simp add: request_to_xapp_def sendRequestToXapp_def sendRmrMessage_def set_send_def wp_simps no_trace request_message_def)

lemma request_message_fields:
  assumes "env_ok T E"
  shows "mb_payload (request_message E k ty t b) = mb_payload b" "mb_len (request_message E k ty t b) = mb_len b"
  using assms by (simp_all add: request_message_def rmr_okD)

lemma sub_mgr_only: "sendMsgToSubMgr (getSendMsgBitSetValue m pc r k) \<Longrightarrow> \<not> sendMsgToE2M (getSendMsgBitSetValue m pc r k)"
  by (auto simp: getSendMsgBitSetValue_def Let_def split: if_splits)

text \<open>
  C12. An error indication for the subscription manager is sent a second time, to the xApps. The
  first message has the octets and the length that were received; the second one is made in the
  buffer that the routing library gave back for the first and has the octets and the length of
  that buffer, whatever they are. They are the node's only if the library gives back a buffer
  with the octets it has sent, which its interface does not promise.
\<close>
theorem error_indication_sent_twice:
  assumes "env_ok T E" "active T n True s" "cstr (msg_enodbName (msg s)) = Some k" "k \<noteq> []" "map_of (e2map s) k = Some h"
    and "pdu_present pdu = initiatingMessage" "procedureCode pdu = ProcedureCode_id_ErrorIndication"
    and "error_ies (e2SetupProcedureTransactionId h) (protocolIEs pdu) = (r, pc)"
      "sendMsgToSubMgr (getSendMsgBitSetValue (e2map s) pc r k)"
    and "sendMessage s = Some b"
      "rmr_send_msg E (request_message E k RIC_E2_RAN_ERROR_INDICATION (transactionCounter s) b) (world s) = (Some b1, w1)"
      "mb_state b1 = RMR_OK"
    and "rmr_send_msg E (request_message E k RIC_ERROR_INDICATION (transactionCounter s + 1) b1) w1 = (Some b2, w2)"
      "mb_state b2 = RMR_OK"
  shows "wp (handle_pdu E pdu st) (\<lambda>_ s'. world s' = w2 \<and> sendMessage s' = Some b2 \<and> e2map s' = e2map s) s \<and>
    mb_payload (request_message E k RIC_E2_RAN_ERROR_INDICATION (transactionCounter s) b) = mb_payload b \<and>
    mb_len (request_message E k RIC_E2_RAN_ERROR_INDICATION (transactionCounter s) b) = mb_len b \<and>
    mb_payload (request_message E k RIC_ERROR_INDICATION (transactionCounter s + 1) b1) = mb_payload b1 \<and>
    mb_len (request_message E k RIC_ERROR_INDICATION (transactionCounter s + 1) b1) = mb_len b1"
proof -
  let ?Q = "\<lambda>s'. world s' = w2 \<and> sendMessage s' = Some b2 \<and> e2map s' = e2map s"
  let ?s = "s\<lparr>msg := (msg s)\<lparr>messageType := RIC_E2_RAN_ERROR_INDICATION\<rparr>, transactionCounter := transactionCounter s + 1,
    world := w1, sendMessage := Some b1\<rparr>"
  have tr: "\<not> jsonTrace s" by (rule base_no_trace [OF active_base [OF assms(2)]])
  have first: "wp (request_to_xapp E RIC_E2_RAN_ERROR_INDICATION) R s = R () ?s" for R
    using tr assms(3,10-12) by (rule wp_request_accepted)
  have route: "wp (route_error E pdu (e2SetupProcedureTransactionId h)) R s = R () ?s" for R
    using assms(3,8,9) sub_mgr_only [OF assms(9)] by (simp add: route_error_def wp_simps first)
  have second: "wp (request_to_xapp E RIC_ERROR_INDICATION) (\<lambda>_. ?Q) (?s\<lparr>metrics := v\<rparr>)" for v
    using tr assms(3,13,14) by (subst wp_request_accepted [where b = b1]) simp_all
  have count: "wp (count_in IN_INITI ProcedureCode_id_ErrorIndication) R ?s" if R: "\<And>v. R () (?s\<lparr>metrics := v\<rparr>)" for R
  proof -
    have "built ?s" using active_built(1) [OF assms(2)] by (subst built_other [of ?s s]) simp_all
    then show ?thesis
      using active_built(2) [OF assms(2)] R in_cells in_e2t_cells
      unfolding count_in_def wp_bnd wp_gets by (intro wp_count) simp_all
  qed
  have "wp (seqs [route_error E pdu (e2SetupProcedureTransactionId h), count_in IN_INITI ProcedureCode_id_ErrorIndication,
      request_to_xapp E RIC_ERROR_INDICATION]) (\<lambda>_. ?Q) s"
    unfolding wp_seqs route by (rule count) (rule second)
  then have "wp (handle_pdu E pdu st) (\<lambda>_. ?Q) s"
    using assms(3-7,10)
    by (simp add: handle_pdu_def asnInitiatingRequest_def got_ErrorIndication_def if_known_def get_status_map_of wp_simps)
  then show ?thesis using request_message_fields [OF assms(1)] by blast
qed

definition sample_error :: E2AP_PDU where
  "sample_error = sample_indication\<lparr>procedureCode := ProcedureCode_id_ErrorIndication, protocolIEs := [
     \<lparr>ie_id = ProtocolIE_ID_id_RICrequestID, ie_value = IE_RICrequestID 3 17\<rparr>,
     \<lparr>ie_id = ProtocolIE_ID_id_Cause, ie_value = IE_Cause\<rparr>,
     \<lparr>ie_id = ProtocolIE_ID_id_CriticalityDiagnostics, ie_value = IE_CriticalityDiagnostics (Some ProcedureCode_id_RICsubscription)\<rparr>]\<rparr>"

text \<open>A routing library that gives back a fresh buffer for each message it sends.\<close>

definition fresh_buffer :: "rmr_mbuf \<Rightarrow> rmr_mbuf" where
  "fresh_buffer b = b\<lparr>mb_payload := replicate (length (mb_payload b)) 255\<rparr>"

definition fresh_env :: "sample_world env" where
  "fresh_env = sample_env\<lparr>rmr_send_msg := (\<lambda>b w. case sample_send b w of (r, w') \<Rightarrow> (map_option fresh_buffer r, w'))\<rparr>"

lemma fresh_env_ok: "env_ok sample_work fresh_env"
proof -
  have fields: "rmr_rcv_msg fresh_env = rmr_rcv_msg sample_env" "rmr_rts_msg fresh_env = rmr_rts_msg sample_env"
    "rmr_alloc_msg fresh_env = rmr_alloc_msg sample_env" "rmr_bytes2meid fresh_env = rmr_bytes2meid sample_env"
    "rmr_bytes2xact fresh_env = rmr_bytes2xact sample_env" "rmr_get_meid fresh_env = rmr_get_meid sample_env"
    "rmr_bytes2payload fresh_env = rmr_bytes2payload sample_env"
    by (simp_all add: fresh_env_def)
  have "\<forall>b w b' w'. buf_ok b \<and> rmr_send_msg fresh_env b w = (Some b', w') \<longrightarrow> buf_ok b'"
    by (auto simp: fresh_env_def sample_send_def fresh_buffer_def buf_ok_def big_def)
  with sample_rmr_ok have "rmr_ok fresh_env"
    unfolding rmr_ok_def fields by (elim conjE, intro conjI) assumption+
  moreover have "sockets_ok sample_work fresh_env"
    using sample_sockets_ok by (simp add: sockets_ok_def steady_def fresh_env_def) (auto simp: sample_send_def sample_work_def)
  moreover have "codec_ok fresh_env" using sample_env_ok by (simp add: env_ok_def codec_ok_def fresh_env_def)
  ultimately show ?thesis by (simp add: env_ok_def)
qed

theorem error_indication_sent_twice_witness:
  "wp (handle_pdu fresh_env sample_error 0) (\<lambda>_ s'. map mb_mtype (rmr_sent (world s')) = [RIC_E2_RAN_ERROR_INDICATION, RIC_ERROR_INDICATION] \<and>
     map (hd \<circ> mb_payload) (rmr_sent (world s')) = [0, 255]) sample_state"
proof -
  let ?b = "sample_buffer 1 (int RECEIVE_SCTP_BUFFER_SIZE)"
  let ?m1 = "request_message fresh_env sample_name RIC_E2_RAN_ERROR_INDICATION (transactionCounter sample_state) ?b"
  let ?b1 = "fresh_buffer (?m1\<lparr>mb_id := mb_id ?m1 + 1, mb_state := RMR_OK\<rparr>)"
  let ?m2 = "request_message fresh_env sample_name RIC_ERROR_INDICATION (transactionCounter sample_state + 1) ?b1"
  have sent: "rmr_send_msg fresh_env ?m1 (world sample_state) = (Some ?b1, sample_world\<lparr>rmr_sent := [?m1]\<rparr>)"
    "rmr_send_msg fresh_env ?m2 (sample_world\<lparr>rmr_sent := [?m1]\<rparr>) =
      (Some (fresh_buffer (?m2\<lparr>mb_id := mb_id ?m2 + 1, mb_state := RMR_OK\<rparr>)), sample_world\<lparr>rmr_sent := [?m1, ?m2]\<rparr>)"
    using sample_state_simps by (simp_all add: fresh_env_def sample_send_def sample_world_def)
  have ies: "error_ies (e2SetupProcedureTransactionId sample_setup_done) (protocolIEs sample_error) =
      (\<lparr>transactionIdIe = False, ricRequestIdIe = True, causeIe = True\<rparr>, ProcedureCode_id_RICsubscription)"
    by (simp add: error_ies_def error_ie_def sample_error_def to_int32_def signed_take_bit_int_eq_self)
  have "wp (handle_pdu fresh_env sample_error 0) (\<lambda>_ s'. world s' = sample_world\<lparr>rmr_sent := [?m1, ?m2]\<rparr>) sample_state"
    by (rule wp_mono, rule conjunct1 [OF error_indication_sent_twice [OF fresh_env_ok sample_state_active sample_state_simps(1)
          sample_name_ok(4) sample_state_simps(2) _ _ ies _ sample_state_simps(3) sent(1) _ sent(2)]])
      (simp_all add: sample_error_def sample_indication_def getSendMsgBitSetValue_def fresh_buffer_def)
  moreover have "mb_payload ?m1 = replicate RECEIVE_SCTP_BUFFER_SIZE 0" "mb_payload ?m2 = replicate RECEIVE_SCTP_BUFFER_SIZE 255"
    by (simp_all add: request_message_def fresh_buffer_def fresh_env_def sample_env_def sample_buffer_def zero_bytes_def)
  moreover have "mb_mtype ?m1 = RIC_E2_RAN_ERROR_INDICATION" "mb_mtype ?m2 = RIC_ERROR_INDICATION"
    by (simp_all add: request_message_def fresh_env_def sample_env_def)
  ultimately show ?thesis using buffer_size_pos by (elim wp_mono) simp
qed

end
