(* ===== verification/E2_LogLevel.thy ===== *)
theory E2_LogLevel
  imports E2_Config
begin

text \<open>
  The log level of the process in \<^verbatim>\<open>sctpThread.cpp\<close>: \<^verbatim>\<open>init_log\<close> reads it from the file
  that the environment names, and a thread of its own reads it again whenever the file changes.
  The parser is in \<open>E2_Config\<close>. The calls to the system are parameters.
\<close>

section \<open>The initial level\<close>

definition LOG_FILE_CONFIG_MAP :: string where
  "LOG_FILE_CONFIG_MAP = ''CONFIG_MAP_NAME''"

text \<open>\<^verbatim>\<open>read_env_param\<close>: null without a key or without a value.\<close>

definition read_env_param :: "(string \<Rightarrow> string option) \<Rightarrow> string option \<Rightarrow> string option" where
  "read_env_param env envkey = (case envkey of None \<Rightarrow> None | Some k \<Rightarrow> env k)"

text \<open>
  \<^verbatim>\<open>enable_log_change_notify\<close>: \<^verbatim>\<open>lstat\<close> of a null pointer fails; \<open>created\<close> is the result of
  \<^verbatim>\<open>pthread_create\<close>, 0 when the thread runs.
\<close>

definition enable_log_change_notify :: "(string \<Rightarrow> bool) \<Rightarrow> int \<Rightarrow> string option \<Rightarrow> int" where
  "enable_log_change_notify lstat_ok created fileName =
     (case fileName of None \<Rightarrow> -1 | Some f \<Rightarrow> if lstat_ok f then created else -1)"

text \<open>
  \<^verbatim>\<open>init_log\<close>: the level that is set, if the environment names a file, and the file that is
  watched from then on. \<open>content\<close> is the text of a file, \<open>None\<close> when it cannot be opened.
\<close>

definition init_log :: "(string \<Rightarrow> string option) \<Rightarrow> (string \<Rightarrow> string option) \<Rightarrow> (string \<Rightarrow> bool) \<Rightarrow> int \<Rightarrow>
    fault + (mdclog_severity option \<times> string option)" where
  "init_log env content lstat_ok created =
     (let name = read_env_param env (Some LOG_FILE_CONFIG_MAP) in
      case dynamic_log_level_change (map_option content name) of
        Inl e \<Rightarrow> Inl e
      | Inr level \<Rightarrow> Inr (level, if enable_log_change_notify lstat_ok created name = 0 then name else None))"

section \<open>The thread that watches the file\<close>

text \<open>\<^verbatim>\<open>strrchr\<close> and the NUL over the last slash: a name without one is watched itself.\<close>

definition watched_directory :: "string \<Rightarrow> string" where
  "watched_directory fileName =
     (if CHR ''/'' \<in> set fileName then rev (tl (dropWhile (\<lambda>c. c \<noteq> CHR ''/'') (rev fileName))) else fileName)"

text \<open>
  What a round of the loop meets: \<^verbatim>\<open>select\<close> reports nothing, \<^verbatim>\<open>read\<close> fails, or the file has
  changed and has the content given when it is parsed.
\<close>

datatype watch_answer = Nothing_ready | Read_failed | File_changed "string option"

fun monitor_rounds :: "mdclog_severity \<Rightarrow> watch_answer list \<Rightarrow> fault + mdclog_severity" where
  "monitor_rounds level [] = Inr level"
| "monitor_rounds level (Nothing_ready # answers) = monitor_rounds level answers"
| "monitor_rounds level (Read_failed # answers) = monitor_rounds level answers"
| "monitor_rounds level (File_changed content # answers) =
     (case parse_file content of
        Inl e \<Rightarrow> Inl e
      | Inr l \<Rightarrow> monitor_rounds (update_mdc_log_level_severity l) answers)"

definition monitor_loglevel_change_handler ::
    "bool \<Rightarrow> (string \<Rightarrow> bool) \<Rightarrow> string \<Rightarrow> mdclog_severity \<Rightarrow> watch_answer list \<Rightarrow> fault + mdclog_severity" where
  "monitor_loglevel_change_handler inotify_ok watch_ok fileName level answers =
     (if \<not> inotify_ok \<or> \<not> watch_ok (watched_directory fileName) then Inr level
      else monitor_rounds level answers)"

section \<open>The level follows the file\<close>

text \<open>The contents that the thread parses, and the levels they stand for.\<close>

fun contents_seen :: "watch_answer list \<Rightarrow> string option list" where
  "contents_seen [] = []"
| "contents_seen (File_changed c # answers) = c # contents_seen answers"
| "contents_seen (_ # answers) = contents_seen answers"

definition file_level :: "string option \<Rightarrow> mdclog_severity" where
  "file_level c = (case parse_file c of Inl _ \<Rightarrow> MDCLOG_ERR | Inr l \<Rightarrow> update_mdc_log_level_severity l)"

lemma trim_fault: "trim t = Inl e \<longleftrightarrow> t = None \<and> e = Null_Deref"
  by (auto simp: trim_def split: option.splits)

lemma scan_fault: "scan_levels ls = Inl e \<Longrightarrow> e = Null_Deref"
  by (induction ls) (auto simp: Let_def trim_fault split: prod.splits sum.splits if_splits)

lemma parse_fault: "parse_file c = Inl e \<Longrightarrow> e = Null_Deref"
  by (auto simp: parse_file_def dest: scan_fault split: option.splits)

text \<open>
  C37. The log level follows the file: where the watch can be set up, however often the file changes and the calls fail in
  between, the level is that of the last content, and the one before when there is none; the
  process is brought down exactly if one of the contents has a line that the parser does not
  stand, and then by a null pointer.
\<close>
theorem log_level_follows_file:
  "monitor_loglevel_change_handler True (\<lambda>_. True) f level answers =
    (if \<exists>c \<in> set (contents_seen answers). isl (parse_file c) then Inl Null_Deref
     else Inr (last (level # map file_level (contents_seen answers))))"
proof -
  have "monitor_rounds level answers =
    (if \<exists>c \<in> set (contents_seen answers). isl (parse_file c) then Inl Null_Deref
     else Inr (last (level # map file_level (contents_seen answers))))"
  proof (induction answers arbitrary: level rule: contents_seen.induct)
    case (2 c answers)
    have "parse_file c = Inr l \<Longrightarrow> file_level c = update_mdc_log_level_severity l" for l by (simp add: file_level_def)
    with 2 show ?case by (cases "parse_file c") (auto dest: parse_fault)
  qed simp_all
  then show ?thesis by (simp add: monitor_loglevel_change_handler_def)
qed

section \<open>Reading a level that was written\<close>

text \<open>A line that is not cut by \<^verbatim>\<open>fgets\<close> and whose first token is another key.\<close>

definition other_line :: "string \<Rightarrow> bool" where
  "other_line l \<longleftrightarrow> length l < 127 \<and> CHR 0x0A \<notin> set l \<and> NUL \<notin> set l \<and>
     rtrim (ltrim (takeWhile (\<lambda>c. c \<noteq> CHR '':'') (dropWhile (\<lambda>c. c = CHR '':'') (l @ [CHR 0x0A])))) \<noteq> ''log-level''"

lemma pieces_line:
  "CHR 0x0A \<notin> set l \<Longrightarrow> length acc + length l < 127 \<Longrightarrow>
    pieces 127 acc (l @ CHR 0x0A # t) = (rev acc @ l @ [CHR 0x0A]) # pieces 127 [] t"
  by (induction l arbitrary: acc) auto

lemma c_str_id: "NUL \<notin> set l \<Longrightarrow> c_str l = l"
  by (simp add: c_str_def takeWhile_eq_all_conv) metis

lemma scan_other:
  assumes "other_line l"
  shows "scan_levels ((l @ [CHR 0x0A]) # ls) = scan_levels ls"
proof -
  have "c_str (l @ [CHR 0x0A]) = l @ [CHR 0x0A]" using assms by (intro c_str_id) (auto simp: other_line_def)
  moreover have "dropWhile (\<lambda>c. c = CHR '':'') (l @ [CHR 0x0A]) \<noteq> []" by (simp add: dropWhile_eq_Nil_conv)
  ultimately show ?thesis using assms by (simp add: strtok_def trim_def other_line_def Let_def)
qed

lemma digit_plain: "digit_char d \<noteq> NUL \<and> digit_char d \<noteq> CHR 0x0A \<and> \<not> is_space (digit_char d)" if "d < 10"
  using digit_not_blank [of "digit_char d"] is_digit_char [OF that] by (auto simp: is_space_def is_digit_def)

lemma scan_level: "scan_levels ((''log-level: '' @ [digit_char d, CHR 0x0A]) # ls) = Inr (Some [digit_char d])" if "d < 10"
proof -
  have d: "digit_char d \<noteq> NUL" "digit_char d \<noteq> CHR 0x0A" "\<not> is_space (digit_char d)"
    using digit_plain [OF that] by blast+
  then have "c_str (''log-level: '' @ [digit_char d, CHR 0x0A]) = ''log-level: '' @ [digit_char d, CHR 0x0A]"
    by (intro c_str_id) auto
  with d show ?thesis
    by (simp add: strtok_def trim_def rtrim_def ltrim_def is_space_def Let_def)
qed

lemma severity_of_digit:
  assumes "d < 10"
  shows "update_mdc_log_level_severity (Some [digit_char d]) =
    (if d = 2 then MDCLOG_WARN else if d = 3 then MDCLOG_INFO else if d = 4 then MDCLOG_DEBUG else MDCLOG_ERR)"
proof -
  have "CHR ''1'' = digit_char 1" "CHR ''2'' = digit_char 2" "CHR ''3'' = digit_char 3" "CHR ''4'' = digit_char 4"
    by code_simp+
  moreover have "digit_char c = digit_char i \<longleftrightarrow> c = i" if "c < 10" "i < 10" for c i
    using that digit_char_inject [of c i] by auto
  ultimately show ?thesis using assms by (simp add: update_mdc_log_level_severity_def)
qed

text \<open>
  C38. A level that the file gives is the level that is set: behind any lines with other keys,
  none of them too long for the buffer of 128 characters, the line \<^verbatim>\<open>log-level: d\<close> sets the
  severity that the digit stands for, whatever follows it.
\<close>
theorem log_level_read_back:
  assumes "list_all other_line ls" "d < 10"
  shows "dynamic_log_level_change
      (Some (Some (concat (map (\<lambda>l. l @ [CHR 0x0A]) ls) @ ''log-level: '' @ [digit_char d, CHR 0x0A] @ t))) =
    Inr (Some (if d = 2 then MDCLOG_WARN else if d = 3 then MDCLOG_INFO else if d = 4 then MDCLOG_DEBUG else MDCLOG_ERR))"
proof -
  let ?line = "''log-level: '' @ [digit_char d]"
  have no_nl: "CHR 0x0A \<notin> set ?line"
    using digit_plain [OF assms(2)] by auto
  have "scan_levels (pieces 127 [] (concat (map (\<lambda>l. l @ [CHR 0x0A]) ls) @ ?line @ CHR 0x0A # t)) = Inr (Some [digit_char d])"
    using assms(1)
  proof (induction ls)
    case Nil
    show ?case using pieces_line [OF no_nl, of "[]" t] scan_level [OF assms(2)] by simp
  next
    case (Cons l ls)
    then have "other_line l" by simp
    then show ?case
      using Cons pieces_line [of l "[]"] scan_other [of l] by (simp add: other_line_def)
  qed
  then show ?thesis
    using severity_of_digit [OF assms(2)] by (simp add: dynamic_log_level_change_def parse_file_def)
qed

theorem log_level_read_back_witness:
  "dynamic_log_level_change (Some (Some (''version: 7'' @ [CHR 0x0A] @ ''log-level: '' @ [digit_char 4, CHR 0x0A]))) = Inr (Some MDCLOG_DEBUG)"
  using log_level_read_back [of "[''version: 7'']" 4 "[]"]
  by (simp add: other_line_def rtrim_def ltrim_def is_space_def)

end
