(* ===== verification/E2_Process.thy ===== *)
theory E2_Process
  imports E2_Batch E2_LogLevel
begin

text \<open>
  The whole process, \<^verbatim>\<open>main\<close> of \<^verbatim>\<open>sctpThread.cpp\<close>: the log level, the signals, the command
  line, the start-up of \<open>E2_Startup\<close>, the three threads taking turns, and what happens when they
  end.
\<close>

section \<open>The command line and the threads\<close>

text \<open>The options that \<^verbatim>\<open>cxxopts\<close> finds among the arguments.\<close>

record options =
  opt_help :: bool
  opt_path :: "string option"
  opt_file :: "string option"

text \<open>\<^verbatim>\<open>parse\<close>: the names of the directory and the file; \<open>None\<close> is \<^verbatim>\<open>exit(0)\<close> after the help.\<close>

definition parse :: "options \<Rightarrow> (string \<times> string) option" where
  "parse opts =
     (if opt_help opts then None
      else Some (case opt_path opts of None \<Rightarrow> ''config'' | Some p \<Rightarrow> p,
                 case opt_file opts of None \<Rightarrow> ''config.conf'' | Some f \<Rightarrow> f))"

text \<open>
  The listener puts the text of its thread ID into \<^verbatim>\<open>char tid[32]\<close>: at most 31 characters are
  copied, but the NUL goes behind all of them.
\<close>

definition thread_label :: "string \<Rightarrow> char list \<Rightarrow> fault + char list" where
  "thread_label this_id tid =
     (let copied = take (min (length this_id) 31) this_id @ drop (min (length this_id) 31) tid in
      if length this_id < 32 then Inr (copied[length this_id := NUL]) else Inl Buffer_Overflow)"

text \<open>
  \<^verbatim>\<open>std::vector<std::thread> threads(num_cpus)\<close>, of which the first one is given the listener:
  \<open>True\<close> for a thread that runs.
\<close>

definition listener_threads :: "nat \<Rightarrow> fault + bool list" where
  "listener_threads num_cpus = (if num_cpus = 0 then Inl Buffer_Overflow else Inr ((replicate num_cpus False)[0 := True]))"

text \<open>
  The end of \<^verbatim>\<open>main\<close>, when the listener and \<^verbatim>\<open>handleTermInit\<close> have returned: \<^verbatim>\<open>join\<close> throws for
  a thread that was never started, and \<open>None\<close> is the call of \<^verbatim>\<open>std::terminate\<close> that follows.
\<close>

fun join_all :: "bool list \<Rightarrow> int option" where
  "join_all [] = Some 0"
| "join_all (t # ts) = (if t then join_all ts else None)"

lemma thread_label_overflow_iff: "thread_label this_id tid = Inl Buffer_Overflow \<longleftrightarrow> 32 \<le> length this_id"
  by (simp add: thread_label_def Let_def)

section \<open>The process\<close>

text \<open>
  What the process finds: the log level file and whether its thread can be started and can watch
  it, the level before any is set, the signals, the command line, the number of processors, the
  first transaction number and the text of the listener's thread ID.
\<close>

record surroundings =
  log_content :: "string \<Rightarrow> string option"
  log_lstat :: "string \<Rightarrow> bool"
  log_thread :: int
  log_inotify :: bool
  log_watch :: "string \<Rightarrow> bool"
  log_default :: mdclog_severity
  signal_ok :: "int \<Rightarrow> bool"
  command_line :: options
  processors :: nat
  first_transaction :: int
  listener_id :: string

definition SIGINT :: int where "SIGINT = 2"
definition SIGABRT :: int where "SIGABRT = 6"
definition SIGTERM :: int where "SIGTERM = 15"

text \<open>
  The threads: main's count of rounds while it is in \<^verbatim>\<open>handleTermInit\<close>, whether the listener is in
  its loop, and the file that the third one watches, with the level that it sets.
\<close>

record threads =
  announcing :: "int option"
  listening :: bool
  watched_file :: "string option"
  log_level :: mdclog_severity

text \<open>
  \<^verbatim>\<open>main\<close> up to the first announcement: the result is the code it exits with, or the threads. The
  listener's own start is part of \<^verbatim>\<open>main_start\<close>.
\<close>

definition launch :: "surroundings \<Rightarrow> 'w platform \<Rightarrow> 'w env \<Rightarrow> 'w \<Rightarrow> fault + (int + threads) \<times> 'w e2t" where
  "launch P G E w =
     (case init_log (getenv G) (log_content P) (log_lstat P) (log_thread P) of
        Inl e \<Rightarrow> Inl e
      | Inr (level, watched) \<Rightarrow>
          let start = initial_state w (first_transaction P) in
          if \<not> list_all (signal_ok P) [SIGINT, SIGABRT, SIGTERM] then Inr (Inl 1, start [] [])
          else (case parse (command_line P) of
            None \<Rightarrow> Inr (Inl 0, start [] [])
          | Some (path, name) \<Rightarrow>
              bnd (main_start G E) (\<lambda>ok.
                if \<not> ok then ret (Inl (-1))
                else (case listener_threads (processors P) of
                  Inl e \<Rightarrow> raise e
                | Inr _ \<Rightarrow> (case thread_label (listener_id P) (replicate 32 NUL) of
                    Inl e \<Rightarrow> raise e
                  | Inr _ \<Rightarrow> sq (sendTermInit E) (ret (Inr
                      \<lparr>announcing = Some 0, listening = True, watched_file = watched,
                       log_level = (case level of None \<Rightarrow> log_default P | Some l \<Rightarrow> l)\<rparr>))))) (start path name)))"

text \<open>
  A turn of a thread: a round of \<^verbatim>\<open>handleTermInit\<close>, which reads the number of messages that the
  listener has counted; a round of the listener, with the answer of \<^verbatim>\<open>epoll_wait\<close> and the world that
  it returns in; a round of the thread that watches the log level file.
\<close>

datatype 'w turn = Announce | Poll poll_answer 'w | Log_watch watch_answer

definition run_turn :: "surroundings \<Rightarrow> 'w env \<Rightarrow> 'w turn \<Rightarrow> threads \<Rightarrow> ('w, threads) act" where
  "run_turn P E t th = (case t of
     Announce \<Rightarrow> (case announcing th of
         None \<Rightarrow> ret th
       | Some count \<Rightarrow> bnd (gets num_of_XAPP_messages) (\<lambda>x. bnd (term_init_rounds E count [x]) (\<lambda>returned.
           ret (th\<lparr>announcing := if returned then None else Some (count + 1)\<rparr>))))
   | Poll ans w \<Rightarrow>
       if listening th then bnd (listener_rounds E [(ans, w)]) (\<lambda>returned. ret (th\<lparr>listening := \<not> returned\<rparr>)) else ret th
   | Log_watch ans \<Rightarrow> (case watched_file th of
         None \<Rightarrow> ret th
       | Some f \<Rightarrow> (case monitor_loglevel_change_handler (log_inotify P) (log_watch P) f (log_level th) [ans] of
           Inl e \<Rightarrow> raise e
         | Inr l \<Rightarrow> ret (th\<lparr>log_level := l\<rparr>))))"

text \<open>The threads take their turns until \<^verbatim>\<open>handleTermInit\<close> and the listener have both returned.\<close>

datatype outcome = Exits int | Terminated | Running threads

fun run_turns :: "surroundings \<Rightarrow> 'w env \<Rightarrow> 'w turn list \<Rightarrow> threads \<Rightarrow> ('w, outcome) act" where
  "run_turns P E turns th =
     (if announcing th = None \<and> \<not> listening th
      then (case listener_threads (processors P) of
          Inl e \<Rightarrow> raise e
        | Inr ts \<Rightarrow> ret (case join_all ts of None \<Rightarrow> Terminated | Some code \<Rightarrow> Exits code))
      else (case turns of
          [] \<Rightarrow> ret (Running th)
        | t # turns' \<Rightarrow> bnd (run_turn P E t th) (run_turns P E turns')))"

definition program :: "surroundings \<Rightarrow> 'w platform \<Rightarrow> 'w env \<Rightarrow> 'w turn list \<Rightarrow> 'w \<Rightarrow> fault + outcome \<times> 'w e2t" where
  "program P G E turns w =
     (case launch P G E w of
        Inl e \<Rightarrow> Inl e
      | Inr (Inl code, s) \<Rightarrow> Inr (Exits code, s)
      | Inr (Inr th, s) \<Rightarrow> run_turns P E turns th s)"

declare run_turns.simps [simp del]

section \<open>The start\<close>

text \<open>A log level file that the environment names is one that the parser stands.\<close>

definition log_file_ok :: "surroundings \<Rightarrow> 'w platform \<Rightarrow> bool" where
  "log_file_ok P G \<longleftrightarrow> (case getenv G LOG_FILE_CONFIG_MAP of None \<Rightarrow> True | Some f \<Rightarrow> \<not> isl (parse_file (log_content P f)))"

lemma init_log_ok:
  assumes "log_file_ok P G"
  obtains level watched where "init_log (getenv G) (log_content P) (log_lstat P) (log_thread P) = Inr (level, watched)"
proof (cases "getenv G LOG_FILE_CONFIG_MAP")
  case None
  then show ?thesis using that by (simp add: init_log_def read_env_param_def dynamic_log_level_change_def)
next
  case (Some f)
  then obtain l where "parse_file (log_content P f) = Inr l"
    using assms by (cases "parse_file (log_content P f)") (auto simp: log_file_ok_def)
  then show ?thesis using that Some by (simp add: init_log_def read_env_param_def dynamic_log_level_change_def Let_def)
qed

text \<open>What the threads keep: the listener's invariant, and an announcement that fits its array.\<close>

definition thread_inv :: "('w \<Rightarrow> nat) \<Rightarrow> nat \<Rightarrow> 'w e2t \<Rightarrow> bool" where
  "thread_inv T n s \<longleftrightarrow> base T n False s \<and> ka_message_length (params s) < int KA_MESSAGE_SIZE"

lemma announced_inv: "announced T E s s' \<Longrightarrow> thread_inv T n s \<Longrightarrow> thread_inv T n s'"
proof -
  assume a: "announced T E s s'" and s: "thread_inv T n s"
  obtain t where t: "T (world s') \<le> T (world s)" "s' = s\<lparr>world := world s', transactionCounter := t\<rparr>"
    using a by (auto simp: announced_def)
  have "T (world s') \<le> n" using s t(1) by (simp add: thread_inv_def base_def core_def)
  then have "thread_inv T n (s\<lparr>world := world s', transactionCounter := t\<rparr>)"
    using s by (simp add: thread_inv_def base_def core_def)
  then show "thread_inv T n s'" using t(2) by simp
qed

lemma sendTermInit_inv:
  assumes "sound T N E n" "patient T E" "thread_inv T n s"
  obtains s' where "sendTermInit E s = Inr ((), s')" "thread_inv T n s'"
proof -
  have "T (world s) < rounds E" using assms(1,3) by (auto simp: sound_def thread_inv_def base_def core_def)
  then have "wp (sendTermInit E) (\<lambda>_. announced T E s) s"
    using assms by (intro wp_sendTermInit) (auto simp: sound_def thread_inv_def)
  from wp_exec [OF this] obtain s' where s': "sendTermInit E s = Inr ((), s')" "announced T E s s'" by auto
  from that [OF s'(1) announced_inv [OF s'(2) assms(3)]] show thesis .
qed

text \<open>The faults that the start-up itself can end in, for the names that the command line gives.\<close>

definition start_fault :: "surroundings \<Rightarrow> 'w platform \<Rightarrow> 'w env \<Rightarrow> 'w \<Rightarrow> fault \<Rightarrow> bool" where
  "start_fault P G E w e \<longleftrightarrow> e = Null_Deref \<and> \<not> host_known G \<or> e = Buffer_Overflow \<and>
     (\<exists>path name. parse (command_line P) = Some (path, name) \<and>
        \<not> config_fits G E (initial_state w (first_transaction P) path name))"

definition surroundings_ok :: "surroundings \<Rightarrow> 'w platform \<Rightarrow> bool" where
  "surroundings_ok P G \<longleftrightarrow> processors P \<noteq> 0 \<and> length (listener_id P) < 32 \<and> log_file_ok P G"

lemma launch_cases:
  assumes E: "sound T N E n" "patient T E" and G: "platform_ok T G" and w: "T w \<le> n" and P: "surroundings_ok P G"
  shows "case launch P G E w of Inl e \<Rightarrow> start_fault P G E w e
    | Inr (r, s) \<Rightarrow> (case r of Inl code \<Rightarrow> code \<in> {0, 1, -1} | Inr th \<Rightarrow> thread_inv T n s)"
proof -
  obtain level watched where r: "init_log (getenv G) (log_content P) (log_lstat P) (log_thread P) = Inr (level, watched)"
    using init_log_ok [of P G] P unfolding surroundings_ok_def by blast
  obtain ts label where ok: "listener_threads (processors P) = Inr ts" "thread_label (listener_id P) (replicate 32 NUL) = Inr label"
    using P by (auto simp: surroundings_ok_def listener_threads_def thread_label_def Let_def)
  show ?thesis
  proof (cases "list_all (signal_ok P) [SIGINT, SIGABRT, SIGTERM] \<and> parse (command_line P) \<noteq> None")
    case False
    then show ?thesis using r unfolding launch_def by (cases "parse (command_line P)") (auto simp: Let_def)
  next
    case True
    then obtain path name where names: "parse (command_line P) = Some (path, name)" by auto
    let ?s0 = "initial_state w (first_transaction P) path name"
    let ?th = "\<lparr>announcing = Some 0, listening = True, watched_file = watched,
       log_level = (case level of None \<Rightarrow> log_default P | Some l \<Rightarrow> l)\<rparr>"
    have run: "launch P G E w = bnd (main_start G E) (\<lambda>ok. if \<not> ok then ret (Inl (-1)) else sq (sendTermInit E) (ret (Inr ?th))) ?s0"
      using r ok names True by (simp add: launch_def cong: if_cong)
    have "wpx (main_start G E) (start_fault P G E w) (\<lambda>ok s. ok \<longrightarrow> thread_inv T n s) ?s0"
      using wpx_main_start [of T E G w n "first_transaction P" path name] E(1) G w names
      by (auto simp: wpx_def sound_def start_fault_def thread_inv_def split: sum.splits)
    then have "wpx (bnd (main_start G E) (\<lambda>ok. if \<not> ok then ret (Inl (-1)) else sq (sendTermInit E) (ret (Inr ?th))))
        (start_fault P G E w) (\<lambda>r s. case r of Inl code \<Rightarrow> code \<in> {0, 1, -1} | Inr th \<Rightarrow> thread_inv T n s) ?s0"
      unfolding wpx_bnd
    proof (rule wpx_mono)
      fix ok s assume s: "ok \<longrightarrow> thread_inv T n s"
      show "wpx (if \<not> ok then ret (Inl (-1)) else sq (sendTermInit E) (ret (Inr ?th)))
        (start_fault P G E w) (\<lambda>r s. case r of Inl code \<Rightarrow> code \<in> {0, 1, -1} | Inr th \<Rightarrow> thread_inv T n s) s"
      proof (cases ok)
        case True
        then obtain t where "sendTermInit E s = Inr ((), t)" "thread_inv T n t"
          using s sendTermInit_inv [OF E] by blast
        then show ?thesis using True by (simp add: wpx_def sq_def bnd_def ret_def)
      qed (simp add: wpx_def ret_def)
    qed
    then show ?thesis using run by (simp add: wpx_def)
  qed
qed

lemma run_on: "m s = Inr (x, t) \<Longrightarrow> bnd m f s = f x t" "m' s = Inr ((), t) \<Longrightarrow> sq m' n s = n t"
  by (simp_all add: bnd_def sq_def)

section \<open>The turns\<close>

text \<open>
  What a turn meets: the count of the announcement's rounds stays below the limit of its \<^verbatim>\<open>int\<close>, the
  answer of \<^verbatim>\<open>epoll_wait\<close> is one that the listener stands, and the log level file one that the
  parser does.
\<close>

definition turn_ok :: "('w \<Rightarrow> nat) \<Rightarrow> ('w \<Rightarrow> int \<Rightarrow> string) \<Rightarrow> 'w env \<Rightarrow> nat \<Rightarrow> 'w turn \<Rightarrow> threads \<Rightarrow> 'w e2t \<Rightarrow> bool" where
  "turn_ok T N E n t th s \<longleftrightarrow> (case t of
     Announce \<Rightarrow> (case announcing th of None \<Rightarrow> True | Some count \<Rightarrow> count < 2 ^ 31 - 1)
   | Poll ans w \<Rightarrow> listening th \<longrightarrow> answers_ok T N E n [(ans, w)] s
   | Log_watch (File_changed c) \<Rightarrow> \<not> isl (parse_file c)
   | Log_watch _ \<Rightarrow> True)"

fun turns_ok :: "surroundings \<Rightarrow> ('w \<Rightarrow> nat) \<Rightarrow> ('w \<Rightarrow> int \<Rightarrow> string) \<Rightarrow> 'w env \<Rightarrow> nat \<Rightarrow> 'w turn list \<Rightarrow> threads \<Rightarrow> 'w e2t \<Rightarrow> bool" where
  "turns_ok P T N E n [] th s \<longleftrightarrow> True"
| "turns_ok P T N E n (t # turns) th s \<longleftrightarrow> turn_ok T N E n t th s \<and>
     (\<forall>th' s'. run_turn P E t th s = Inr (th', s') \<longrightarrow> turns_ok P T N E n turns th' s')"

lemma monitor_level: "monitor_loglevel_change_handler i w f level [ans] = Inl e \<Longrightarrow> \<exists>c. ans = File_changed c \<and> isl (parse_file c)"
  by (cases ans) (auto simp: monitor_loglevel_change_handler_def split: if_splits sum.splits)

lemma run_turn_inv:
  assumes E: "sound T N E n" "patient T E" and s: "thread_inv T n s" and t: "turn_ok T N E n t th s"
  obtains th' s' where "run_turn P E t th s = Inr (th', s')" "thread_inv T n s'"
proof (cases t)
  case Announce
  show ?thesis
  proof (cases "announcing th")
    case None
    then show ?thesis using that s Announce by (simp add: run_turn_def ret_def)
  next
    case (Some count)
    let ?next = "(count + 1) mod 1000 = 0"
    have small: "count < 2 ^ 31 - 1" using t Announce Some by (simp add: turn_ok_def)
    obtain s' where s': "whenM ?next (sendTermInit E) s = Inr ((), s')" "thread_inv T n s'"
    proof (cases ?next)
      case True
      obtain s' where "sendTermInit E s = Inr ((), s')" "thread_inv T n s'" by (rule sendTermInit_inv [OF E s])
      then show ?thesis using that True by (simp add: whenM_def)
    qed (use that s in \<open>simp add: whenM_def ret_def\<close>)
    have "run_turn P E t th s = (if num_of_XAPP_messages s > 0 then Inr (th\<lparr>announcing := None\<rparr>, s)
        else Inr (th\<lparr>announcing := Some (count + 1)\<rparr>, s'))"
      using Announce Some small s'(1) by (simp add: run_turn_def bnd_def sq_def gets_def require_def ret_def)
    then show ?thesis using that s s'(2) by (auto split: if_splits)
  qed
next
  case (Poll ans w)
  show ?thesis
  proof (cases "listening th")
    case False
    then show ?thesis using that s Poll by (simp add: run_turn_def ret_def)
  next
    case True
    have ok: "answers_ok T N E n [(ans, w)] s" using t Poll True by (simp add: turn_ok_def)
    have b: "base T n False s" using s by (simp add: thread_inv_def)
    obtain r s' es where s': "listener_rounds E [(ans, w)] s = Inr (r, s')" "listener_runs T N E n s es s'"
      using listener_rounds_runs [OF E(1) b ok] by blast
    have "base T n False s'" using listener.runs_inv [OF s'(2)] E(1) b by blast
    moreover have "fixed_part s' = fixed_part s" by (rule runs_fixed [OF s'(2) E(1) b])
    ultimately have "thread_inv T n s'" using s by (simp add: thread_inv_def fixed_part_def)
    then show ?thesis
      using that True by (simp add: run_turn_def Poll run_on(1) [where m = "listener_rounds E [(ans, w)]", OF s'(1)] ret_def
          del: listener_rounds.simps)
  qed
next
  case (Log_watch ans)
  show ?thesis
  proof (cases "watched_file th")
    case None
    then show ?thesis using that s Log_watch by (simp add: run_turn_def ret_def)
  next
    case (Some f)
    obtain l where "monitor_loglevel_change_handler (log_inotify P) (log_watch P) f (log_level th) [ans] = Inr l"
      using t Log_watch monitor_level [of "log_inotify P" "log_watch P" f "log_level th" ans]
      by (cases "monitor_loglevel_change_handler (log_inotify P) (log_watch P) f (log_level th) [ans]") (auto simp: turn_ok_def)
    then show ?thesis using that s Some Log_watch by (simp add: run_turn_def ret_def)
  qed
qed

lemma join_all_started: "join_all ts = (if list_all (\<lambda>t. t) ts then Some 0 else None)"
  by (induction ts) simp_all

lemma threads_joined:
  assumes "num_cpus \<noteq> 0"
  shows "\<exists>ts. listener_threads num_cpus = Inr ts \<and> join_all ts = (if num_cpus = 1 then Some 0 else None)"
proof -
  obtain m where "num_cpus = Suc m" using assms by (cases num_cpus) auto
  then show ?thesis by (cases m) (simp_all add: listener_threads_def join_all_started)
qed

text \<open>How the process goes on, or ends, once its threads run.\<close>

definition goes_on :: "('w \<Rightarrow> nat) \<Rightarrow> nat \<Rightarrow> surroundings \<Rightarrow> outcome \<Rightarrow> 'w e2t \<Rightarrow> bool" where
  "goes_on T n P out s \<longleftrightarrow> base T n False s \<and> (case out of
     Exits code \<Rightarrow> code = 0 \<and> processors P = 1
   | Terminated \<Rightarrow> 1 < processors P
   | Running th \<Rightarrow> listening th \<or> announcing th \<noteq> None)"

lemma run_turns_inv:
  assumes E: "sound T N E n" "patient T E" and P: "processors P \<noteq> 0"
  shows "thread_inv T n s \<Longrightarrow> turns_ok P T N E n turns th s \<Longrightarrow>
    \<exists>out s'. run_turns P E turns th s = Inr (out, s') \<and> goes_on T n P out s'"
proof (induction turns arbitrary: th s)
  case Nil
  then show ?case
    using threads_joined [OF P] P by (auto simp: run_turns.simps [of P E "[]"] goes_on_def thread_inv_def ret_def)
next
  case (Cons t turns)
  show ?case
  proof (cases "announcing th = None \<and> \<not> listening th")
    case True
    then show ?thesis
      using threads_joined [OF P] P Cons.prems(1) by (auto simp: run_turns.simps [of P E "t # turns"] goes_on_def thread_inv_def ret_def)
  next
    case False
    have "turn_ok T N E n t th s" using Cons.prems(2) by simp
    then obtain th' s' where s': "run_turn P E t th s = Inr (th', s')" "thread_inv T n s'"
      by (rule run_turn_inv [OF E Cons.prems(1)])
    then have "turns_ok P T N E n turns th' s'" using Cons.prems(2) by simp
    from Cons.IH [OF s'(2) this] show ?thesis
      using False s'(1) by (subst run_turns.simps) (auto simp: bnd_def)
  qed
qed

text \<open>
  C5. The process as a whole. Its start can end in two faults: a null pointer, and only if the
  environment does not name the pod or the host's name or address cannot be found, and a buffer
  overrun, and only if the configuration that was found does not fit its buffers. Apart from them
  it exits in the start, with 0 after the help and 1 or -1 otherwise, or its threads run; and then
  no order of their turns that meets \<open>turns_ok\<close> ends in a fault, and the listener keeps its
  invariant. Once \<^verbatim>\<open>handleTermInit\<close> and the listener have both returned, the process exits on a
  machine with one processor and is terminated on every other. The conditions: the contracts of
  the environment and a routing library that does not refuse messages for ever; a machine that
  tells its processors, a listener's thread ID of less than 32 characters, a log level file that
  the parser stands; and of the turns, that every answer of \<^verbatim>\<open>epoll_wait\<close> meets the condition of
  the listener's loop, every content of the log level file is one the parser stands, and the
  announcement's rounds are fewer than its \<^verbatim>\<open>int\<close> can count.
\<close>
theorem process_never_faults:
  assumes "sound T N E n" "patient T E" "platform_ok T G" "T w \<le> n" "surroundings_ok P G"
    and "\<And>th s. launch P G E w = Inr (Inr th, s) \<Longrightarrow> turns_ok P T N E n turns th s"
  shows "case program P G E turns w of
      Inl e \<Rightarrow> start_fault P G E w e
    | Inr (out, s) \<Rightarrow> (\<exists>code \<in> {0, 1, -1}. out = Exits code \<and> launch P G E w = Inr (Inl code, s)) \<or>
        (\<exists>th t. launch P G E w = Inr (Inr th, t)) \<and> goes_on T n P out s"
proof (cases "launch P G E w")
  case (Inl e)
  then show ?thesis using launch_cases [OF assms(1-5)] by (simp add: program_def)
next
  case (Inr rs)
  obtain r t where rs: "rs = (r, t)" by fastforce
  show ?thesis
  proof (cases r)
    case (Inl code)
    then show ?thesis using launch_cases [OF assms(1-5)] Inr rs by (simp add: program_def)
  next
    case th: (Inr th)
    have "thread_inv T n t" using launch_cases [OF assms(1-5)] Inr rs th by simp
    moreover have "turns_ok P T N E n turns th t" using assms(6) Inr rs th by simp
    moreover have "processors P \<noteq> 0" using assms(5) by (simp add: surroundings_ok_def)
    ultimately obtain out s where "run_turns P E turns th t = Inr (out, s)" "goes_on T n P out s"
      using run_turns_inv [OF assms(1,2)] by blast
    then show ?thesis using Inr rs th by (simp add: program_def)
  qed
qed

definition sample_surroundings :: surroundings where
  "sample_surroundings = \<lparr>log_content = (\<lambda>_. None), log_lstat = (\<lambda>_. True), log_thread = 0, log_inotify = True,
     log_watch = (\<lambda>_. True), log_default = MDCLOG_INFO, signal_ok = (\<lambda>_. True),
     command_line = \<lparr>opt_help = False, opt_path = None, opt_file = None\<rparr>, processors = 8, first_transaction = 1,
     listener_id = ''140187339232000''\<rparr>"

lemma sample_log_file: "log_file_ok sample_surroundings sample_platform"
  by (simp add: log_file_ok_def sample_platform_def LOG_FILE_CONFIG_MAP_def)

lemma sample_surroundings_ok: "surroundings_ok sample_surroundings sample_platform"
  using sample_log_file by (simp add: surroundings_ok_def sample_surroundings_def)

lemma sample_patient: "patient sample_work calm_env"
  by (auto simp: patient_def calm_env_def sample_env_def sample_send_def)

definition sample_turns :: "sample_world turn list" where
  "sample_turns = [Announce, Poll Poll_timeout sample_world, Log_watch Nothing_ready, Poll (Poll_error (Errno 9)) sample_world]"

lemma sample_turns_ok:
  "announcing th = Some 0 \<Longrightarrow> turns_ok P sample_work (\<lambda>_ _. sample_name) calm_env 0 sample_turns th s"
  by (simp add: sample_turns_def turn_ok_def sample_work_def sample_world_def)

lemma sample_launch: "\<exists>th s. launch sample_surroundings sample_platform calm_env sample_world = Inr (Inr th, s) \<and> announcing th = Some 0"
proof -
  let ?P = "sample_surroundings"
  obtain level watched where r: "init_log (getenv sample_platform) (log_content ?P) (log_lstat ?P) (log_thread ?P) = Inr (level, watched)"
    using init_log_ok [OF sample_log_file] by blast
  obtain ts label where ok: "listener_threads (processors ?P) = Inr ts" "thread_label (listener_id ?P) (replicate 32 NUL) = Inr label"
    by (simp add: sample_surroundings_def listener_threads_def thread_label_def Let_def)
  obtain s where s: "main_start sample_platform calm_env (initial_state sample_world 1 ''config'' ''config.conf'') = Inr (True, s)"
    using wp_exec [OF sample_main] by (auto simp: calm_env_def calm_main)
  have E: "env_ok sample_work calm_env" "watch_ok sample_work calm_env" "trace_off calm_env" "0 < rounds calm_env"
    using calm_sound(1) by (simp_all add: sound_def)
  have "sample_work sample_world \<le> 0" by (simp add: sample_work_def sample_world_def)
  from main_start_base [OF E(1) sample_platform_ok E(2,3) this E(4) s] have "thread_inv sample_work 0 s"
    by (simp add: thread_inv_def)
  then obtain t where t: "sendTermInit calm_env s = Inr ((), t)"
    using sendTermInit_inv [OF calm_sound(1) sample_patient] by blast
  have names: "parse (command_line ?P) = Some (''config'', ''config.conf'')" "first_transaction ?P = 1"
      "signal_ok ?P n" for n
    by (simp_all add: sample_surroundings_def parse_def)
  show ?thesis
    unfolding launch_def r names Let_def by (simp add: names run_on(1) [where m = "main_start sample_platform calm_env", OF s] ok
        run_on(2) [where m' = "sendTermInit calm_env", OF t] ret_def)
qed

theorem process_never_faults_witness:
  "\<exists>out s. program sample_surroundings sample_platform calm_env sample_turns sample_world = Inr (out, s) \<and>
     goes_on sample_work 0 sample_surroundings out s"
proof -
  obtain th t where th: "launch sample_surroundings sample_platform calm_env sample_world = Inr (Inr th, t)" "announcing th = Some 0"
    using sample_launch by blast
  have "sample_work sample_world \<le> 0" by (simp add: sample_work_def sample_world_def)
  moreover have "turns_ok sample_surroundings sample_work (\<lambda>_ _. sample_name) calm_env 0 sample_turns th' s"
    if "launch sample_surroundings sample_platform calm_env sample_world = Inr (Inr th', s)" for th' s
    using that th by (intro sample_turns_ok) simp
  moreover have "config_fits sample_platform calm_env s" for s
  proof -
    have "file_size calm_env = file_size sample_env" "file_text calm_env = file_text sample_env" by (simp_all add: calm_env_def)
    then show ?thesis using sample_config_fits by (simp only: config_fits_def config_found_def)
  qed
  then have "\<not> start_fault sample_surroundings sample_platform calm_env sample_world e" for e
    using sample_host_known by (simp add: start_fault_def)
  ultimately show ?thesis
    using process_never_faults [OF calm_sound(1) sample_patient sample_platform_ok _ sample_surroundings_ok, of sample_world sample_turns] th(1)
    by (auto split: sum.splits)
qed

section \<open>The end of the process\<close>

text \<open>
  \<^verbatim>\<open>main\<close> returns, once its listener has, only on a machine with one processor: on a machine
  with more of them \<^verbatim>\<open>join\<close> is called for threads that were never started and the process is
  terminated, and where their number is not known the listener is stored outside the vector.
\<close>
theorem main_returns_iff:
  "(case listener_threads num_cpus of Inl _ \<Rightarrow> False | Inr ts \<Rightarrow> join_all ts \<noteq> None) \<longleftrightarrow> num_cpus = 1"
proof (cases num_cpus)
  case (Suc m)
  then show ?thesis by (cases m) (simp_all add: listener_threads_def join_all_started)
qed (simp add: listener_threads_def)

end
