(* ===== verification/E2_Tracing.thy ===== *)
theory E2_Tracing
  imports E2_Prelude "HOL-Library.Multiset"
begin

text \<open>
  \<^verbatim>\<open>openTracing.h\<close>: the carrier in which the tracer library passes a span context along, a
  map from strings to strings. The library calls the writer when it injects a context and the
  reader when it extracts one. As in \<open>E2_MapWrapper\<close> the list is the table's iteration
  order, which the standard leaves open.
\<close>

type_synonym carrier = "(string \<times> string) list"

datatype trace_error = Not_supported | Key_not_found

section \<open>The writer and the reader\<close>

text \<open>\<^verbatim>\<open>data.emplace(key, value)\<close>: an entry that is there stays.\<close>

definition emplace :: "carrier \<Rightarrow> string \<Rightarrow> string \<Rightarrow> carrier \<times> bool" where
  "emplace data key val = (if map_of data key = None then ((key, val) # data, True) else (data, False))"

definition carrier_Set :: "carrier \<Rightarrow> string \<Rightarrow> string \<Rightarrow> carrier \<times> (trace_error + unit)" where
  "carrier_Set data key val =
     (let (data', was_successful) = emplace data key val in
      (data', if was_successful then Inr () else Inl Not_supported))"

text \<open>The callback works on a state of its own.\<close>

fun carrier_ForeachKey :: "('s \<Rightarrow> string \<Rightarrow> string \<Rightarrow> 's \<times> (trace_error + unit)) \<Rightarrow> carrier \<Rightarrow> 's \<Rightarrow> 's \<times> (trace_error + unit)" where
  "carrier_ForeachKey f [] s = (s, Inr ())"
| "carrier_ForeachKey f ((k, v) # data) s =
     (case f s k v of
        (s', Inl e) \<Rightarrow> (s', Inl e)
      | (s', Inr _) \<Rightarrow> carrier_ForeachKey f data s')"

text \<open>
  The source tests \<^verbatim>\<open>iter != data.end()\<close> where it means \<^verbatim>\<open>==\<close>: a key that is found is
  reported as missing, and for one that is missing the end iterator is dereferenced.
\<close>

definition carrier_LookupKey :: "carrier \<Rightarrow> string \<Rightarrow> fault + (trace_error + string)" where
  "carrier_LookupKey data key =
     (case map_of data key of
        Some v \<Rightarrow> Inr (Inl Key_not_found)
      | None \<Rightarrow> Inl Wild_Pointer)"

section \<open>Passing a context along\<close>

text \<open>What an injection does: entries are set until one is refused.\<close>

fun inject :: "(string \<times> string) list \<Rightarrow> carrier \<Rightarrow> carrier \<times> (trace_error + unit)" where
  "inject [] data = (data, Inr ())"
| "inject ((k, v) # kvs) data =
     (case carrier_Set data k v of
        (data', Inl e) \<Rightarrow> (data', Inl e)
      | (data', Inr _) \<Rightarrow> inject kvs data')"

lemma inject_distinct:
  "distinct (map fst kvs) \<Longrightarrow> fst ` set kvs \<inter> fst ` set data = {} \<Longrightarrow> inject kvs data = (rev kvs @ data, Inr ())"
proof (induction kvs arbitrary: data)
  case (Cons kv kvs)
  obtain k v where kv: "kv = (k, v)" by fastforce
  have "map_of data k = None" using Cons.prems kv by (auto simp: map_of_eq_None_iff)
  moreover have "fst ` set kvs \<inter> fst ` set ((k, v) # data) = {}" using Cons.prems kv by auto
  ultimately show ?case using Cons kv by (simp add: carrier_Set_def emplace_def)
qed simp

lemma inject_result: "snd (inject kvs data) = Inr () \<Longrightarrow> distinct (map fst kvs) \<and> fst ` set kvs \<inter> fst ` set data = {}"
proof (induction kvs arbitrary: data)
  case (Cons kv kvs)
  obtain k v where kv: "kv = (k, v)" by fastforce
  have new: "map_of data k = None"
    using Cons.prems kv by (auto simp: carrier_Set_def emplace_def split: if_splits)
  then have "snd (inject kvs ((k, v) # data)) = Inr ()" using Cons.prems kv by (simp add: carrier_Set_def emplace_def)
  from Cons.IH [OF this] new show ?case using kv by (auto simp: map_of_eq_None_iff)
qed simp

lemma foreach_fold:
  "(\<And>s k v. (k, v) \<in> set data \<Longrightarrow> snd (f s k v) = Inr ()) \<Longrightarrow>
    carrier_ForeachKey f data s = (fold (\<lambda>(k, v) s. fst (f s k v)) data s, Inr ())"
proof (induction data arbitrary: s)
  case (Cons kv data)
  obtain k v where kv: "kv = (k, v)" by fastforce
  obtain s' where "f s k v = (s', Inr ())" using Cons.prems [of k v s] kv by (cases "f s k v") auto
  then show ?case using Cons kv by simp
qed simp

text \<open>The tracer's callback that collects what it is shown.\<close>

definition collect :: "(string \<rightharpoonup> string) \<Rightarrow> string \<Rightarrow> string \<Rightarrow> (string \<rightharpoonup> string) \<times> (trace_error + unit)" where
  "collect m k v = (m(k \<mapsto> v), Inr ())"

lemma fold_collect:
  "distinct (map fst data) \<Longrightarrow> fold (\<lambda>(k, v) s. fst (collect s k v)) data m = m ++ map_of data"
proof (induction data arbitrary: m)
  case (Cons kv data)
  obtain k v where kv: "kv = (k, v)" by fastforce
  have "map_of data k = None" using Cons.prems kv by (simp add: map_of_eq_None_iff)
  then have same: "m(k \<mapsto> v) ++ map_of data = m ++ map_of ((k, v) # data)"
    by (auto simp: map_add_def fun_eq_iff split: option.splits)
  have rest: "fold (\<lambda>(k, v) s. fst (collect s k v)) data (m(k \<mapsto> v)) = m(k \<mapsto> v) ++ map_of data"
    by (rule Cons.IH) (use Cons.prems in simp)
  have step: "fold (\<lambda>(k, v) s. fst (collect s k v)) ((k, v) # data) m =
      fold (\<lambda>(k, v) s. fst (collect s k v)) data (m(k \<mapsto> v))"
    by (simp add: collect_def)
  show ?case by (simp only: kv step rest same)
qed simp

text \<open>
  C39. A span context comes through: injected into an empty carrier its entries are all accepted,
  and the reader shows its callback just these entries, in whatever order the table has them.
  Looking one of them up is another matter: a key of the context is reported as missing, and
  for any other key the lookup reads past the end of the table.
\<close>
theorem span_context_comes_through:
  assumes "distinct (map fst kvs)" "mset data = mset (fst (inject kvs []))"
  shows "snd (inject kvs []) = Inr () \<and> carrier_ForeachKey collect data Map.empty = (map_of kvs, Inr ()) \<and>
    (\<forall>k. carrier_LookupKey data k = (if map_of kvs k = None then Inl Wild_Pointer else Inr (Inl Key_not_found)))"
proof -
  have inj: "inject kvs [] = (rev kvs, Inr ())" using assms(1) inject_distinct [of kvs "[]"] by simp
  then have data: "mset data = mset kvs" using assms(2) by simp
  then have "mset (map fst data) = mset (map fst kvs)" by simp
  then have "distinct (map fst data)" using assms(1) mset_eq_imp_distinct_iff by blast
  moreover have "map_of data = map_of kvs"
    using calculation assms(1) mset_eq_setD [OF data] by (simp add: map_of_inject_set)
  ultimately show ?thesis
    using inj foreach_fold [of data collect Map.empty] fold_collect [of data Map.empty]
    by (auto simp: collect_def carrier_LookupKey_def)
qed

theorem span_context_comes_through_witness:
  "carrier_ForeachKey collect [(''parent'', ''7''), (''trace'', ''9'')] Map.empty = ([''trace'' \<mapsto> ''9'', ''parent'' \<mapsto> ''7''], Inr ()) \<and>
     carrier_LookupKey [(''parent'', ''7''), (''trace'', ''9'')] ''trace'' = Inr (Inl Key_not_found)"
  using span_context_comes_through [of "[(''trace'', ''9''), (''parent'', ''7'')]" "[(''parent'', ''7''), (''trace'', ''9'')]"]
  by (simp add: carrier_Set_def emplace_def fun_upd_twist)

end
