(* ===== verification/Spec2Isabelle.thy ===== *)
theory Spec2Isabelle
  imports E2_Base64 E2_RanName E2_ConnMap E2_MapWrapper E2_Counters E2_Config E2_State E2_Rmr
    E2_Sctp E2_FromRan E2_FromXapp E2_Listener E2_Startup E2_Safety E2_Frames E2_Invariant
    E2_Events E2_Dispatch E2_Loop E2_Event E2_Run E2_Watch E2_Sample E2_Boot E2_Messages E2_System
    E2_Faults E2_Registry E2_Batch E2_Requests E2_ErrorIndication E2_LogLevel E2_Process E2_Tracing
begin

text \<open>
  The E2 terminator of the O-RAN near-RT RIC.

  \<^bold>\<open>The program.\<close> The terminator (\<^verbatim>\<open>RIC-E2-TERMINATION\<close>) sits between the E2 nodes of
  a radio network, which it reaches over SCTP, and the xApps and the E2 manager of the RIC, which
  it reaches through the routing library RMR. \<^verbatim>\<open>main\<close> reads the command line and the
  configuration, opens the sockets and starts the threads. A listener thread waits with \<^verbatim>\<open>epoll_wait\<close> for
  new connections, messages of the nodes, messages of the xApps and changes of the configuration
  file; a second thread watches the file with the log level. A node's first message is its E2 setup request; the node gets its RAN name from it, and
  under that name the terminator keeps the connection (\<^verbatim>\<open>Sctp_Map_t\<close>), its message counters
  and the procedure that is going on with the node (\<^verbatim>\<open>connectionHandlingPerE2NodeMap\<close>). Messages
  are decoded to find their type, their node and the xApp they belong to; the octets are passed
  on, as they are or as XML.

  \<^bold>\<open>The model.\<close> The theories follow the source files, all under
  \<^verbatim>\<open>src/RIC-E2-TERMINATION\<close>:
  \<^item> \<open>E2_Prelude\<close>: C strings in buffers of fixed size, \<^verbatim>\<open>snprintf\<close>, the operations of the
    state with faults (\<open>('w, 'a) act\<close>: \<open>Inl\<close> a fault, \<open>Inr\<close> the result and the new state), the
    rules for weakest preconditions (\<open>wp\<close>), preservation (\<open>pres\<close>) and frames (\<open>keeps\<close>).
  \<^item> \<open>E2_Base64\<close>: \<^verbatim>\<open>base64.cpp\<close>, \<^verbatim>\<open>base64.h\<close>.
  \<^item> \<open>E2_RanName\<close>: \<^verbatim>\<open>BuildRunName.h\<close> and the integer reader of \<^verbatim>\<open>INTEGER.c\<close> it uses.
  \<^item> \<open>E2_ConnMap\<close>: the procedure states of \<^verbatim>\<open>sctpThread.h\<close>, the functions of
    \<^verbatim>\<open>sctpThread.cpp\<close> on \<^verbatim>\<open>connectionHandlingPerE2NodeMap\<close> and
    \<^verbatim>\<open>getSendMsgBitSetValue\<close>.
  \<^item> \<open>E2_MapWrapper\<close>: \<^verbatim>\<open>mapWrapper.h\<close>.
  \<^item> \<open>E2_Counters\<close>: the arrays of Prometheus counters and how they are built.
  \<^item> \<open>E2_Config\<close>: \<^verbatim>\<open>ReadConfigFile.h\<close> and the log level file.
  \<^item> \<open>E2_State\<close>: the record \<open>e2t\<close> of the terminator's state, the message formats, and the
    environment \<open>env\<close>.
  \<^item> \<open>E2_Rmr\<close>, \<open>E2_Sctp\<close>: sending towards the RIC and towards the nodes.
  \<^item> \<open>E2_FromRan\<close>: \<^verbatim>\<open>collectSetupRequestData\<close>, \<^verbatim>\<open>handleE2SetupReq\<close>,
    \<^verbatim>\<open>asnInitiatingRequest\<close>, \<^verbatim>\<open>asnSuccessfulMsg\<close>, \<^verbatim>\<open>asnUnSuccsesfulMsg\<close>, one
    definition for each case.
  \<^item> \<open>E2_FromXapp\<close>: \<^verbatim>\<open>receiveXappMessages\<close>, one definition for each case.
  \<^item> \<open>E2_Listener\<close>: \<^verbatim>\<open>receiveDataFromSctp\<close>, \<^verbatim>\<open>handlepoll_error\<close>,
    \<^verbatim>\<open>handleEinprogressMessages\<close>, \<^verbatim>\<open>handleConfigChange\<close> and the body of
    \<^verbatim>\<open>listener\<close>: \<open>handle_event\<close>.
  \<^item> \<open>E2_Startup\<close>: \<^verbatim>\<open>main\<close> from \<^verbatim>\<open>buildConfiguration\<close> to the listener and
    \<^verbatim>\<open>handleTermInit\<close>: \<open>main_start\<close>.
  \<^item> \<open>E2_Batch\<close>: the loops of \<^verbatim>\<open>listener\<close> over the events of one \<^verbatim>\<open>epoll_wait\<close>
    and over its calls: \<open>handle_batch\<close>, \<open>listener_rounds\<close>.
  \<^item> \<open>E2_LogLevel\<close>: \<^verbatim>\<open>init_log\<close>, \<^verbatim>\<open>enable_log_change_notify\<close> and the thread
    \<^verbatim>\<open>monitor_loglevel_change_handler\<close>.
  \<^item> \<open>E2_Process\<close>: \<^verbatim>\<open>parse\<close> and the whole of \<^verbatim>\<open>main\<close>, \<open>program\<close>: \<open>launch\<close> is its start, with
    \<open>main_start\<close>, the listener's label and the first announcement; then \<open>run_turns\<close> lets the three
    threads take turns, the rounds of \<^verbatim>\<open>handleTermInit\<close>, of the listener and of the log level
    thread, up to the calls of \<^verbatim>\<open>join\<close>.
  \<^item> \<open>E2_ErrorIndication\<close>: the message that \<^verbatim>\<open>asnInitiatingRequest\<close> sends twice.
  \<^item> \<open>E2_Tracing\<close>: the carriers of \<^verbatim>\<open>openTracing.h\<close>.

  A message of a node goes through \<open>handle_event\<close>, \<open>receiveDataFromSctp\<close>, \<open>receive_rounds\<close>,
  \<open>handle_pdu\<close>, one of the three \<open>asn...\<close> handlers and \<open>sendRmrMessage\<close> or
  \<open>sendRequestToXapp\<close>; a message of an xApp through \<open>handle_event\<close>, \<open>receiveXappMessages\<close>,
  \<open>dispatch_xapp\<close>, \<open>xapp_case\<close> and \<open>sendDirectionalSctpMsg\<close>.

  \<^bold>\<open>Data.\<close> Connections (\<^verbatim>\<open>ConnectedCU_t\<close>) are cells of an explicit heap, since the table,
  the epoll events and the message all point to them; a use of a freed cell is the fault
  \<open>Use_After_Free\<close>, an access outside a buffer is \<open>Buffer_Overflow\<close>, and a null pointer
  \<open>Null_Deref\<close>. Character arrays have the size they are declared with. The procedure map
  is a list in key order (the order of the \<^verbatim>\<open>std::map\<close> iterators), the connection table a list
  in an arbitrary order. An octet is an \<open>8 word\<close>; \<^verbatim>\<open>int\<close> and \<^verbatim>\<open>long\<close> values are integers
  with the conversions and overflows of the source written out (\<open>Signed_Overflow\<close>). A decoded message is a value of \<open>E2AP_PDU\<close>, which has the
  constructors and fields that the handlers read.

  \<^bold>\<open>Code outside the repository's own.\<close> RMR, the sockets, \<^verbatim>\<open>inotify\<close>, the name service, the
  Prometheus exposer and the generated ASN.1 codec (\<^verbatim>\<open>per_decode\<close>, \<^verbatim>\<open>per_encode\<close>,
  \<^verbatim>\<open>xer_decode\<close>, \<^verbatim>\<open>xer_encode\<close>) are fields of the records \<open>env\<close> and \<open>platform\<close>,
  functions on a world of any type. What the theorems assume of them are the contracts
  \<open>env_ok\<close> (buffers of the size asked for, no XML text of just the size of its buffer), \<open>nodes_ok\<close>
  (a node's setup request has an identity of the sizes in the E2AP specification and its
  transaction ID) and \<open>platform_ok\<close> (the platform adds nothing to the work of the world); that the
  environment names the pod and the host has a name and an address (\<open>host_known\<close>) is not assumed,
  the theorems say what happens otherwise. \<open>E2_Sample\<close> gives an environment and a platform that meet
  the contracts, in which the witnesses are evaluated. \<open>E2_Faults\<close> shows what the source does
  where a contract ends.

  \<^bold>\<open>Loops.\<close> The loops that wait for the environment (\<open>receive_rounds\<close>, \<open>send_rounds\<close>,
  \<open>encode_rounds\<close>, \<open>config_rounds\<close>, \<open>ready_rounds\<close>, \<open>send_init_rounds\<close>) take a number of rounds,
  the field \<open>rounds\<close> of the environment (two for \<open>encode_rounds\<close>), and running out of them is the fault \<open>Fuel_Exhausted\<close>,
  the one fault that is not the program's. The contracts measure the work that
  is left in the world by a function \<open>T\<close>: each message received and each interrupted call lowers
  it. The theorems of \<open>E2_Boot\<close> and
  \<open>E2_Requests\<close> show that more rounds than \<open>T\<close> are enough, so the fault never occurs, and what holds
  when a loop is left.

  \<^bold>\<open>What is shown.\<close>
  \<^item> The whole: \<open>E2_Safety\<close>, \<open>E2_Frames\<close>, \<open>E2_Invariant\<close>, \<open>E2_Events\<close>, \<open>E2_Dispatch\<close>,
    \<open>E2_Loop\<close>, \<open>E2_Event\<close> and \<open>E2_Watch\<close> take each handler through the listener's invariant.
    \<open>E2_Boot\<close> shows that the start-up reaches it, and the two faults it can end in instead;
    \<open>E2_System\<close> makes the listener a transition system and shows which of the events that can be
    reported in a reachable state end in a fault, and that the tables are consistent. \<open>E2_Batch\<close>
    lifts this to the events that one \<^verbatim>\<open>epoll_wait\<close> reports together and to the loop around its
    calls, \<open>E2_Process\<close> to the process: the command line, the start-up and the turns of its
    threads. What each of them assumes of the events is written at its theorem. These theorems are
    for a terminator whose message trace is off and stays off; the line it writes is in
    \<open>E2_Requests\<close>.
  \<^item> The contract with the E2 manager: \<open>E2_Registry\<close> is the abstract terminator, a registry of
    RAN names that each event changes at one name only, or clears; the listener refines it.
  \<^item> The handlers: \<open>E2_Messages\<close> and \<open>E2_Requests\<close> state what the setup, the indications, the
    requests of the xApps and the end of a connection do.
  \<^item> The limits: \<open>E2_Faults\<close> states where the code faults: stale events after
    \<^verbatim>\<open>RIC_SCTP_CLEAR_ALL\<close>, error events of descriptors that are not connections, completed
    connects, setups without a transaction ID, XML texts that fill the buffer.
  \<^item> The parts: \<open>E2_Base64\<close> (round trip, bounds, when the guard is too weak), \<open>E2_RanName\<close>
    (memory safety, meaning and injectivity of names), \<open>E2_ConnMap\<close> and \<open>E2_MapWrapper\<close> (the
    interface \<open>keyed_store\<close> of a map, which both tables implement), \<open>E2_Counters\<close>,
    \<open>E2_Config\<close> (round trips of the files), \<open>E2_LogLevel\<close> (the level follows the file),
    \<open>E2_Tracing\<close> (a span context passes a carrier unchanged).

  The locales are \<open>keyed_store\<close>, \<open>call_frame\<close>, \<open>frame\<close>, \<open>node_frame\<close> and \<open>request_frame\<close>
  (what a handler may touch), \<open>transition_system\<close>, \<open>invariant_system\<close> and \<open>refinement\<close>; each is
  interpreted on the model.

  \<^bold>\<open>Not modelled.\<close> Writing to the log and the set-up of its back end; the body of the
  signal handler, which only flushes profile data and exits; the binding of threads to processors
  and the timing statistics, which nothing reads; \<^verbatim>\<open>getDoubleValue\<close>, which has no caller;
  the block of \<^verbatim>\<open>sctpThread.cpp\<close> that is compiled out with \<^verbatim>\<open>#if 0\<close>, and
  \<^verbatim>\<open>BuildXml.h\<close>, which no file includes; the generated codec in \<^verbatim>\<open>3rdparty\<close>; the
  tests in \<^verbatim>\<open>TEST\<close>. Only one thread is given the
  listener, so its events come one after the other and the locks of the tables are not modelled.
  The threads share the count of the xApps' messages, which is atomic, the number of the next
  transaction, which is not, and the routing library; their rounds interleave in any order, but
  each round is one step, so that races within a round are outside the model.
\<close>

end
